(* ===== verification/Prelude.thy ===== *)
theory Prelude
  imports Main "HOL-Library.State_Monad" "HOL-Library.List_Lexorder"
    "HOL-Library.Product_Lexorder" "HOL-Library.Char_ord" "HOL-Library.Word"
begin

text \<open>
  What every component shares: finite maps as key-sorted association lists (Go maps, whose
  equality is the equality of the lists and whose traversal is the order of
  \<open>encoding/json\<close>), effectful calls as state transformers that return an error or a value
  (the \<open>if err != nil\<close> idiom), and the reasoning about which worlds a call can lead to.
\<close>

named_theorems gomap_simps \<open>lookups in maps built by insertions\<close>
named_theorems guar_rules \<open>composition rules for relations every call guarantees\<close>

section \<open>Finite maps\<close>

type_synonym ('k, 'v) gomap = "('k \<times> 'v) list"

fun mput :: "'k::linorder \<Rightarrow> 'v \<Rightarrow> ('k, 'v) gomap \<Rightarrow> ('k, 'v) gomap" where
  "mput k v [] = [(k, v)]"
| "mput k v ((k', v') # m) =
     (if k < k' then (k, v) # (k', v') # m
      else if k = k' then (k, v) # m
      else (k', v') # mput k v m)"

definition mget :: "('k, 'v) gomap \<Rightarrow> 'k \<Rightarrow> 'v option" where
  "mget = map_of"

definition mdel :: "'k \<Rightarrow> ('k, 'v) gomap \<Rightarrow> ('k, 'v) gomap" where
  "mdel k m = filter (\<lambda>p. fst p \<noteq> k) m"

definition wf_map :: "('k::linorder, 'v) gomap \<Rightarrow> bool" where
  "wf_map m = sorted_wrt (<) (map fst m)"

definition mputs :: "('k::linorder \<times> 'v) list \<Rightarrow> ('k, 'v) gomap \<Rightarrow> ('k, 'v) gomap" where
  "mputs kvs m = foldl (\<lambda>m (k, v). mput k v m) m kvs"

lemma mget_Nil [simp]: "mget [] k = None"
  by (simp add: mget_def)

lemma mget_mput [gomap_simps]: "mget (mput k v m) k' = (if k' = k then Some v else mget m k')"
  by (induction k v m rule: mput.induct) (auto simp: mget_def)

lemma mget_mdel [gomap_simps]: "mget (mdel k m) k' = (if k' = k then None else mget m k')"
  by (induction m) (auto simp: mget_def mdel_def)

lemma wf_map_Nil [simp]: "wf_map []"
  by (simp add: wf_map_def)

lemma set_keys_mput: "fst ` set (mput k v m) = insert k (fst ` set m)"
  by (induction k v m rule: mput.induct) auto

lemma wf_map_mput [simp, intro]: "wf_map m \<Longrightarrow> wf_map (mput k v m)"
proof (induction k v m rule: mput.induct)
  case (2 k v k' v' m)
  have keys: "x \<in> set (mput k v m) \<Longrightarrow> fst x = k \<or> fst x \<in> fst ` set m" for x
    using set_keys_mput [of k v m] by blast
  from 2 show ?case
    by (fastforce simp: wf_map_def not_less_iff_gr_or_eq dest: keys less_trans)
qed (simp add: wf_map_def)

lemma wf_map_mdel [simp, intro]: "wf_map m \<Longrightarrow> wf_map (mdel k m)"
  by (induction m) (auto simp: wf_map_def mdel_def)

lemma wf_map_distinct: "wf_map m \<Longrightarrow> distinct (map fst m)"
  by (simp add: wf_map_def strict_sorted_iff)

lemma wf_map_sorted: "wf_map m \<Longrightarrow> sorted (map fst m)"
  unfolding wf_map_def by (rule strict_sorted_imp_sorted)

lemma set_wf_map: "wf_map m \<Longrightarrow> set m = {(k, v). mget m k = Some v}"
  by (auto simp: mget_def wf_map_distinct map_of_eq_Some_iff dest: map_of_SomeD)

text \<open>Two well-formed maps with the same lookups are the same list, so list equality is
  Go's \<open>reflect.DeepEqual\<close> on maps.\<close>

lemma wf_map_ext:
  assumes "wf_map m" "wf_map m'" "\<And>k. mget m k = mget m' k"
  shows "m = m'"
proof (rule map_sorted_distinct_set_unique [where f = fst])
  show eq: "set m = set m'"
    using assms by (simp add: set_wf_map)
  show "inj_on fst (set m \<union> set m')"
    unfolding eq [symmetric] using assms(1)
    by (auto simp: inj_on_def set_wf_map)
qed (use assms wf_map_distinct wf_map_sorted in blast)+

text \<open>The interface the components use maps through, and what follows from its laws.\<close>

locale finite_map =
  fixes empty :: "'m"
    and put :: "'k \<Rightarrow> 'v \<Rightarrow> 'm \<Rightarrow> 'm"
    and del :: "'k \<Rightarrow> 'm \<Rightarrow> 'm"
    and lookup :: "'m \<Rightarrow> 'k \<Rightarrow> 'v option"
    and wf :: "'m \<Rightarrow> bool"
  assumes lookup_empty: "lookup empty k = None"
    and lookup_put: "lookup (put k v m) k' = (if k' = k then Some v else lookup m k')"
    and lookup_del: "lookup (del k m) k' = (if k' = k then None else lookup m k')"
    and wf_empty: "wf empty"
    and wf_put: "wf m \<Longrightarrow> wf (put k v m)"
    and wf_del: "wf m \<Longrightarrow> wf (del k m)"
    and ext: "wf m \<Longrightarrow> wf m' \<Longrightarrow> (\<And>k. lookup m k = lookup m' k) \<Longrightarrow> m = m'"
begin

lemma put_put_same: "wf m \<Longrightarrow> put k v (put k v' m) = put k v m"
  by (rule ext) (auto simp: lookup_put wf_put)

lemma put_commute: "wf m \<Longrightarrow> k \<noteq> k' \<Longrightarrow> put k v (put k' v' m) = put k' v' (put k v m)"
  by (rule ext) (auto simp: lookup_put wf_put)

lemma put_absorb: "wf m \<Longrightarrow> lookup m k = Some v \<Longrightarrow> put k v m = m"
  by (rule ext) (auto simp: lookup_put wf_put)

lemma del_put: "wf m \<Longrightarrow> lookup m k = None \<Longrightarrow> del k (put k v m) = m"
  by (rule ext) (auto simp: lookup_put lookup_del wf_put wf_del)

lemma wf_puts: "wf m \<Longrightarrow> wf (foldl (\<lambda>m (k, v). put k v m) m kvs)"
  by (induction kvs arbitrary: m) (auto simp: wf_put)

text \<open>Inserting a list of pairs in order: the last binding of a key wins.\<close>

lemma lookup_puts:
  "lookup (foldl (\<lambda>m (k, v). put k v m) m kvs) k =
     (case map_of (rev kvs) k of Some v \<Rightarrow> Some v | None \<Rightarrow> lookup m k)"
  by (induction kvs arbitrary: m)
    (auto simp: lookup_put map_add_def split: option.splits)

end

interpretation gm: finite_map "[]" mput mdel mget wf_map
  by unfold_locales (auto simp: mget_mput mget_mdel intro: wf_map_ext)

lemma wf_mputs [simp, intro]: "wf_map m \<Longrightarrow> wf_map (mputs kvs m)"
  unfolding mputs_def by (rule gm.wf_puts)

lemma mget_mputs [gomap_simps]:
  "mget (mputs kvs m) k = (case map_of (rev kvs) k of Some v \<Rightarrow> Some v | None \<Rightarrow> mget m k)"
  unfolding mputs_def by (rule gm.lookup_puts)

lemma map_of_rev_distinct: "distinct (map fst kvs) \<Longrightarrow> map_of (rev kvs) = map_of kvs"
  by (rule map_of_eqI) (auto simp: rev_map [symmetric] distinct_map dom_map_of_conv_image_fst)

lemma mget_in_set: "mget m k = Some v \<Longrightarrow> (k, v) \<in> set m"
  by (simp add: mget_def map_of_SomeD)

section \<open>Calls that can fail\<close>

text \<open>
  An effectful Go function of type \<open>(T, error)\<close> is a state transformer that returns
  \<open>Inl\<close> the error or \<open>Inr\<close> the value; \<open>bindE\<close> is
  \<open>x, err := m; if err != nil { return err }; f(x)\<close>.
\<close>

definition retE :: "'a \<Rightarrow> ('w, 'e + 'a) state" where
  "retE x = State_Monad.return (Inr x)"

definition throwE :: "'e \<Rightarrow> ('w, 'e + 'a) state" where
  "throwE e = State_Monad.return (Inl e)"

definition bindE :: "('w, 'e + 'a) state \<Rightarrow> ('a \<Rightarrow> ('w, 'e + 'b) state) \<Rightarrow> ('w, 'e + 'b) state" where
  "bindE m f = do {
     r \<leftarrow> m;
     case r of Inl e \<Rightarrow> throwE e | Inr x \<Rightarrow> f x
   }"

lemma run_retE [simp]: "run_state (retE x) w = (Inr x, w)"
  by (simp add: retE_def)

lemma run_throwE [simp]: "run_state (throwE e) w = (Inl e, w)"
  by (simp add: throwE_def)

lemma run_bindE:
  "run_state (bindE m f) w =
     (case run_state m w of (Inl e, w') \<Rightarrow> (Inl e, w') | (Inr x, w') \<Rightarrow> run_state (f x) w')"
  by (simp add: bindE_def split: prod.splits sum.splits)

text \<open>Taking a successful or a failed run apart.\<close>

lemma bindE_InrE:
  assumes "run_state (bindE m f) w = (Inr y, w')"
  obtains x w1 where "run_state m w = (Inr x, w1)" "run_state (f x) w1 = (Inr y, w')"
  using assms by (auto simp: run_bindE split: prod.splits sum.splits)

lemma bindE_InlE:
  assumes "run_state (bindE m f) w = (Inl e, w')"
  obtains "run_state m w = (Inl e, w')"
  | x w1 where "run_state m w = (Inr x, w1)" "run_state (f x) w1 = (Inl e, w')"
  using assms by (auto simp: run_bindE split: prod.splits sum.splits)

lemma bindSE:
  assumes "run_state (State_Monad.bind m f) w = (y, w')"
  obtains x w1 where "run_state m w = (x, w1)" "run_state (f x) w1 = (y, w')"
  using assms by (auto split: prod.splits)

lemma bindE_retE [simp]: "bindE (retE x) f = f x"
  by (rule state_ext) (simp add: run_bindE)

lemma bindE_throwE [simp]: "bindE (throwE e) f = throwE e"
  by (rule state_ext) (simp add: run_bindE)

lemma bindE_assoc: "bindE (bindE m f) g = bindE m (\<lambda>x. bindE (f x) g)"
  by (rule state_ext) (simp add: run_bindE split: prod.splits sum.splits)

text \<open>A run that succeeds from a given world.\<close>

definition succeeds :: "('w, 'e + 'a) state \<Rightarrow> 'w \<Rightarrow> bool" where
  "succeeds m w \<longleftrightarrow> (\<exists>x w'. run_state m w = (Inr x, w'))"

lemma succeeds_retE [simp]: "succeeds (retE x) w"
  by (simp add: succeeds_def)

lemma succeeds_bindE:
  assumes "succeeds m w" "\<And>x w'. run_state m w = (Inr x, w') \<Longrightarrow> succeeds (f x) w'"
  shows "succeeds (bindE m f) w"
  using assms by (fastforce simp: succeeds_def run_bindE)

lemma succeeds_bind:
  assumes "\<And>y w'. run_state m w = (y, w') \<Longrightarrow> succeeds (f y) w'"
  shows "succeeds (State_Monad.bind m f) w"
  using assms by (auto simp: succeeds_def split: prod.splits)

section \<open>What every call guarantees about the world\<close>

definition guar :: "('w \<Rightarrow> 'w \<Rightarrow> bool) \<Rightarrow> ('w, 'a) state \<Rightarrow> bool" where
  "guar R m = (\<forall>w. R w (snd (run_state m w)))"

lemma guarD: "guar R m \<Longrightarrow> run_state m w = (r, w') \<Longrightarrow> R w w'"
  unfolding guar_def by (metis snd_conv)

lemma guarI: "(\<And>w r w'. run_state m w = (r, w') \<Longrightarrow> R w w') \<Longrightarrow> guar R m"
  unfolding guar_def by (metis prod.collapse)

lemma guar_mono: "guar R m \<Longrightarrow> (\<And>w w'. R w w' \<Longrightarrow> S w w') \<Longrightarrow> guar S m"
  by (simp add: guar_def)

text \<open>A predicate of the world that calls keep.\<close>

definition keeps :: "('w \<Rightarrow> bool) \<Rightarrow> 'w \<Rightarrow> 'w \<Rightarrow> bool" where
  "keeps P w w' \<longleftrightarrow> (P w \<longrightarrow> P w')"

locale guarantee =
  fixes R :: "'w \<Rightarrow> 'w \<Rightarrow> bool"
  assumes refl: "R w w"
    and trans: "R w w' \<Longrightarrow> R w' w'' \<Longrightarrow> R w w''"
begin

lemma guar_return: "guar R (State_Monad.return x)"
  by (simp add: guar_def refl)

lemma guar_retE: "guar R (retE x)"
  by (simp add: guar_def refl)

lemma guar_throwE: "guar R (throwE x)"
  by (simp add: guar_def refl)

lemma guar_bind: "guar R m \<Longrightarrow> (\<And>x. guar R (f x)) \<Longrightarrow> guar R (State_Monad.bind m f)"
  by (rule guarI) (auto split: prod.splits dest: guarD intro: trans)

lemma guar_bindE: "guar R m \<Longrightarrow> (\<And>x. guar R (f x)) \<Longrightarrow> guar R (bindE m f)"
  unfolding bindE_def
  by (rule guar_bind) (auto split: sum.splits intro: guar_throwE)

text \<open>A continuation need only be considered on the results the first call can give.\<close>

lemma guar_bind_run:
  assumes "guar R m" "\<And>w r w'. run_state m w = (r, w') \<Longrightarrow> guar R (f r)"
  shows "guar R (State_Monad.bind m f)"
proof (rule guarI)
  fix w r w'
  assume "run_state (State_Monad.bind m f) w = (r, w')"
  then obtain a w1 where "run_state m w = (a, w1)" "run_state (f a) w1 = (r, w')"
    by (auto split: prod.splits)
  then show "R w w'"
    using assms trans by (blast dest: guarD)
qed

lemma guar_if: "(b \<Longrightarrow> guar R m) \<Longrightarrow> (\<not> b \<Longrightarrow> guar R n) \<Longrightarrow> guar R (if b then m else n)"
  by simp

lemma guar_sum:
  "(\<And>e. x = Inl e \<Longrightarrow> guar R (f e)) \<Longrightarrow> (\<And>y. x = Inr y \<Longrightarrow> guar R (g y)) \<Longrightarrow>
     guar R (case x of Inl e \<Rightarrow> f e | Inr y \<Rightarrow> g y)"
  by (cases x) auto

lemma guar_option:
  "(x = None \<Longrightarrow> guar R f) \<Longrightarrow> (\<And>y. x = Some y \<Longrightarrow> guar R (g y)) \<Longrightarrow>
     guar R (case x of None \<Rightarrow> f | Some y \<Rightarrow> g y)"
  by (cases x) auto

lemmas guar_compose = guar_return guar_retE guar_throwE guar_bind guar_bindE guar_if guar_sum
  guar_option

end

interpretation kp: guarantee "keeps P" for P
  by unfold_locales (auto simp: keeps_def)

end
