(* ===== verification/GoStd.thy ===== *)
theory GoStd
  imports Prelude
begin

text \<open>
  The parts of Go and of its standard library the program uses: strings as byte lists,
  \<open>strings\<close>, \<open>fmt\<close>'s verbs, \<open>html.EscapeString\<close>, conversions to \<open>int32\<close> and the
  values and indented output of \<open>encoding/json\<close>. Strings hold UTF-8 bytes; case mapping is
  that of ASCII, and bytes above 127 pass through unchanged.
\<close>

section \<open>Bytes and strings\<close>

type_synonym int32 = "32 word"
type_synonym int64 = "64 word"

definition nl :: string where "nl = [CHR 0x0A]"
definition dq :: string where "dq = [CHR 0x22]"
definition bsl :: string where "bsl = [CHR 0x5C]"
definition sq :: string where "sq = [CHR 0x27]"
definition em_dash :: string where "em_dash = [CHR 0xE2, CHR 0x80, CHR 0x94]"

definition upper_char :: "char \<Rightarrow> char" where
  "upper_char c = (if CHR ''a'' \<le> c \<and> c \<le> CHR ''z'' then char_of (of_char c - (32::nat)) else c)"

definition lower_char :: "char \<Rightarrow> char" where
  "lower_char c = (if CHR ''A'' \<le> c \<and> c \<le> CHR ''Z'' then char_of (of_char c + (32::nat)) else c)"

definition ToUpper :: "string \<Rightarrow> string" where
  "ToUpper s = map upper_char s"

definition ToLower :: "string \<Rightarrow> string" where
  "ToLower s = map lower_char s"

text \<open>\<open>strings.ReplaceAll(s, old, new)\<close> for one-byte \<open>old\<close> and \<open>new\<close>.\<close>

definition ReplaceByte :: "char \<Rightarrow> char \<Rightarrow> string \<Rightarrow> string" where
  "ReplaceByte old new s = map (\<lambda>c. if c = old then new else c) s"

fun Join :: "string list \<Rightarrow> string \<Rightarrow> string" where
  "Join [] sep = []"
| "Join [s] sep = s"
| "Join (s # t # ts) sep = s @ sep @ Join (t # ts) sep"

text \<open>\<open>strings.ToUpper(strings.ReplaceAll(s, "-", "_"))\<close>, the spelling of a name in an
  environment variable.\<close>

definition env_name :: "string \<Rightarrow> string" where
  "env_name s = ToUpper (ReplaceByte CHR ''-'' CHR ''_'' s)"

text \<open>\<open>%d\<close>\<close>

definition digit :: "nat \<Rightarrow> char" where
  "digit n = char_of (48 + n)"

fun show_nat :: "nat \<Rightarrow> string" where
  "show_nat n = (if n < 10 then [digit n] else show_nat (n div 10) @ [digit (n mod 10)])"

declare show_nat.simps [simp del]

definition show_int :: "int \<Rightarrow> string" where
  "show_int i = (if i < 0 then ''-'' @ show_nat (nat (- i)) else show_nat (nat i))"

text \<open>\<open>int32(i)\<close> keeps the low 32 bits; \<open>%d\<close> prints the signed value.\<close>

definition to_int32 :: "int \<Rightarrow> int32" where
  "to_int32 i = word_of_int i"

lemma to_int32_in_range:
  assumes "- (2 ^ 31) \<le> i" "i < 2 ^ 31"
  shows "sint (to_int32 i) = i"
  unfolding to_int32_def using assms
  by (simp add: signed_of_int signed_take_bit_int_eq_self)

definition is_digit :: "char \<Rightarrow> bool" where
  "is_digit c = (CHR ''0'' \<le> c \<and> c \<le> CHR ''9'')"

lemma is_digit_digit: "n < 10 \<Longrightarrow> is_digit (digit n)"
proof -
  assume "n < 10"
  then have "n \<in> {0, 1, 2, 3, 4, 5, 6, 7, 8, 9}" by auto
  then show ?thesis by (auto simp: is_digit_def digit_def less_eq_char_def)
qed

lemma show_nat_digits: "list_all is_digit (show_nat n)"
proof (induction n rule: show_nat.induct)
  case (1 n)
  then show ?case
    by (subst show_nat.simps) (auto simp: is_digit_digit)
qed

lemma show_nat_nonempty: "show_nat n \<noteq> []"
  by (subst show_nat.simps) auto

lemma show_int_chars: "list_all (\<lambda>c. is_digit c \<or> c = CHR ''-'') (show_int i)"
  unfolding show_int_def using show_nat_digits by (auto simp: list_all_iff)

text \<open>Reading a decimal back: \<open>%d\<close> loses nothing.\<close>

fun read_digits :: "nat \<Rightarrow> string \<Rightarrow> nat" where
  "read_digits n [] = n"
| "read_digits n (c # cs) = read_digits (10 * n + (of_char c - 48)) cs"

lemma read_digits_append: "read_digits n (xs @ ys) = read_digits (read_digits n xs) ys"
  by (induction n xs rule: read_digits.induct) simp_all

lemma digit_value: "n < 10 \<Longrightarrow> of_char (digit n) - 48 = n"
  by (simp add: digit_def of_char_of take_bit_eq_mod)

lemma read_show_nat: "read_digits 0 (show_nat n) = n"
proof (induction n rule: show_nat.induct)
  case (1 n)
  then show ?case
    by (subst show_nat.simps) (auto simp: read_digits_append digit_value)
qed

lemma show_nat_inject [simp]: "show_nat m = show_nat n \<longleftrightarrow> m = n"
  by (metis read_show_nat)

lemma show_nat_no_minus: "show_nat n \<noteq> CHR ''-'' # cs"
proof
  assume "show_nat n = CHR ''-'' # cs"
  with show_nat_digits [of n] show False by (simp add: is_digit_def less_eq_char_def)
qed

lemma show_int_inject [simp]: "show_int i = show_int j \<longleftrightarrow> i = j"
  using show_nat_no_minus show_nat_no_minus [symmetric] by (auto simp: show_int_def nat_eq_iff2)

section \<open>html.EscapeString\<close>

definition html_char :: "char \<Rightarrow> string" where
  "html_char c =
     (if c = CHR ''&'' then ''&amp;''
      else if c = CHR 0x27 then ''&#39;''
      else if c = CHR ''<'' then ''&lt;''
      else if c = CHR ''>'' then ''&gt;''
      else if c = CHR 0x22 then ''&#34;''
      else [c])"

definition EscapeString :: "string \<Rightarrow> string" where
  "EscapeString s = concat (map html_char s)"

section \<open>encoding/json\<close>

text \<open>
  A \<open>float64\<close> is either finite, with the decimal text Go prints for it, or one of the values
  (NaN, the infinities) that \<open>json.Marshal\<close> rejects, with its name.
\<close>

datatype float64 = Finite string | NonFinite string

datatype json =
    JNull
  | JBool bool
  | JInt int
  | JFloat float64
  | JStr string
  | JArr "json list"
  | JObj "(string, json) gomap"

text \<open>\<open>map[string]any{...}\<close> with the given entries, and \<open>[]string{...}\<close>.\<close>

definition jobj :: "(string \<times> json) list \<Rightarrow> json" where
  "jobj kvs = JObj (mputs kvs [])"

definition jstrs :: "string list \<Rightarrow> json" where
  "jstrs xs = JArr (map JStr xs)"

definition hex_digit :: "nat \<Rightarrow> char" where
  "hex_digit n = (if n < 10 then char_of (48 + n) else char_of (87 + n))"

definition json_char :: "char \<Rightarrow> string" where
  "json_char c =
     (if c = CHR 0x22 then bsl @ dq
      else if c = CHR 0x5C then bsl @ bsl
      else if c = CHR 0x08 then bsl @ ''b''
      else if c = CHR 0x0C then bsl @ ''f''
      else if c = CHR 0x0A then bsl @ ''n''
      else if c = CHR 0x0D then bsl @ ''r''
      else if c = CHR 0x09 then bsl @ ''t''
      else if of_char c < (32::nat) \<or> c \<in> {CHR ''<'', CHR ''>'', CHR ''&''}
        then bsl @ ''u00'' @ [hex_digit (of_char c div 16), hex_digit (of_char c mod 16)]
      else [c])"

text \<open>\<open>utf8.DecodeRuneInString\<close>: the number of bytes of the sequence at the front, 0 when it is not
  valid UTF-8 (which Go decodes as one byte of the replacement character).\<close>

definition is_cont :: "char \<Rightarrow> char \<Rightarrow> char \<Rightarrow> bool" where
  "is_cont lo hi c = (lo \<le> c \<and> c \<le> hi)"

definition tail_byte :: "char \<Rightarrow> bool" where
  "tail_byte c = is_cont CHR 0x80 CHR 0xBF c"

text \<open>The bytes allowed after the first, by the first.\<close>

definition rune_tail :: "char \<Rightarrow> (char \<Rightarrow> bool) list option" where
  "rune_tail c =
     (if c < CHR 0x80 then Some []
      else if c < CHR 0xC2 then None
      else if c < CHR 0xE0 then Some [tail_byte]
      else if c = CHR 0xE0 then Some [is_cont CHR 0xA0 CHR 0xBF, tail_byte]
      else if c = CHR 0xED then Some [is_cont CHR 0x80 CHR 0x9F, tail_byte]
      else if c < CHR 0xF0 then Some [tail_byte, tail_byte]
      else if c = CHR 0xF0 then Some [is_cont CHR 0x90 CHR 0xBF, tail_byte, tail_byte]
      else if c < CHR 0xF4 then Some [tail_byte, tail_byte, tail_byte]
      else if c = CHR 0xF4 then Some [is_cont CHR 0x80 CHR 0x8F, tail_byte, tail_byte]
      else None)"

fun follows :: "(char \<Rightarrow> bool) list \<Rightarrow> string \<Rightarrow> bool" where
  "follows [] cs = True"
| "follows (p # ps) [] = False"
| "follows (p # ps) (c # cs) = (p c \<and> follows ps cs)"

definition rune_len :: "string \<Rightarrow> nat" where
  "rune_len s =
     (case s of [] \<Rightarrow> 0
      | c # cs \<Rightarrow> (case rune_tail c of None \<Rightarrow> 0
                  | Some ps \<Rightarrow> if follows ps cs then Suc (length ps) else 0))"

text \<open>U+2028 and U+2029 are written as escapes too, a byte that is not UTF-8 as the replacement
  character; other UTF-8 sequences are copied.\<close>

function json_chars :: "string \<Rightarrow> string" where
  "json_chars s =
     (if s = [] then []
      else if hd s < CHR 0x80 then json_char (hd s) @ json_chars (tl s)
      else if rune_len s = 0 then bsl @ ''ufffd'' @ json_chars (tl s)
      else if take 3 s = [CHR 0xE2, CHR 0x80, CHR 0xA8] then bsl @ ''u2028'' @ json_chars (drop 3 s)
      else if take 3 s = [CHR 0xE2, CHR 0x80, CHR 0xA9] then bsl @ ''u2029'' @ json_chars (drop 3 s)
      else take (rune_len s) s @ json_chars (drop (rune_len s) s))"
  by auto
termination
  by (relation "measure length") auto

declare json_chars.simps [simp del]

definition json_string :: "string \<Rightarrow> string" where
  "json_string s = dq @ json_chars s @ dq"

definition indent_to :: "nat \<Rightarrow> string" where
  "indent_to d = concat (replicate d ''  '')"

fun marshal_at :: "nat \<Rightarrow> json \<Rightarrow> string"
  and marshal_items :: "nat \<Rightarrow> json list \<Rightarrow> string"
  and marshal_fields :: "nat \<Rightarrow> (string \<times> json) list \<Rightarrow> string" where
  "marshal_at d JNull = ''null''"
| "marshal_at d (JBool b) = (if b then ''true'' else ''false'')"
| "marshal_at d (JInt i) = show_int i"
| "marshal_at d (JFloat (Finite t)) = t"
| "marshal_at d (JFloat (NonFinite t)) = t"
| "marshal_at d (JStr s) = json_string s"
| "marshal_at d (JArr xs) =
     (if xs = [] then ''[]''
      else ''['' @ nl @ marshal_items (Suc d) xs @ nl @ indent_to d @ '']'')"
| "marshal_at d (JObj m) =
     (if m = [] then ''{}''
      else ''{'' @ nl @ marshal_fields (Suc d) m @ nl @ indent_to d @ ''}'')"
| "marshal_items d [] = []"
| "marshal_items d (x # xs) =
     indent_to d @ marshal_at d x @ (if xs = [] then [] else '','' @ nl @ marshal_items d xs)"
| "marshal_fields d [] = []"
| "marshal_fields d ((k, v) # m) =
     indent_to d @ json_string k @ '': '' @ marshal_at d v @
       (if m = [] then [] else '','' @ nl @ marshal_fields d m)"

text \<open>The first value json.Marshal meets, in the order it writes them, that it cannot encode.\<close>

fun bad_float :: "json \<Rightarrow> string option"
  and bad_float_items :: "json list \<Rightarrow> string option"
  and bad_float_fields :: "(string \<times> json) list \<Rightarrow> string option" where
  "bad_float (JFloat (NonFinite t)) = Some t"
| "bad_float (JArr xs) = bad_float_items xs"
| "bad_float (JObj m) = bad_float_fields m"
| "bad_float _ = None"
| "bad_float_items [] = None"
| "bad_float_items (x # xs) = (case bad_float x of Some t \<Rightarrow> Some t | None \<Rightarrow> bad_float_items xs)"
| "bad_float_fields [] = None"
| "bad_float_fields ((k, v) # m) = (case bad_float v of Some t \<Rightarrow> Some t | None \<Rightarrow> bad_float_fields m)"

text \<open>\<open>json.MarshalIndent(v, "", "  ")\<close>\<close>

definition MarshalIndent :: "json \<Rightarrow> string + string" where
  "MarshalIndent j =
     (case bad_float j of
        Some t \<Rightarrow> Inl (''json: unsupported value: '' @ t)
      | None \<Rightarrow> Inr (marshal_at 0 j))"

text \<open>Looking a value up by its path of keys.\<close>

fun jfield :: "json \<Rightarrow> string \<Rightarrow> json option" where
  "jfield (JObj m) k = mget m k"
| "jfield _ k = None"

fun jpath :: "json \<Rightarrow> string list \<Rightarrow> json option" where
  "jpath j [] = Some j"
| "jpath j (k # ks) = (case jfield j k of None \<Rightarrow> None | Some v \<Rightarrow> jpath v ks)"

lemma jfield_jobj [simp]: "jfield (jobj kvs) k = map_of (rev kvs) k"
  by (simp add: jobj_def gomap_simps split: option.splits)

lemma bad_float_items_None: "bad_float_items xs = None \<longleftrightarrow> (\<forall>x \<in> set xs. bad_float x = None)"
  by (induction xs) (auto split: option.splits)

lemma bad_float_fields_None:
  "bad_float_fields m = None \<longleftrightarrow> (\<forall>(k, v) \<in> set m. bad_float v = None)"
  by (induction m) (auto split: option.splits)

lemma set_mput: "set (mput k v m) \<subseteq> insert (k, v) (set m)"
  by (induction k v m rule: mput.induct) auto

lemma set_mputs: "set (mputs kvs m) \<subseteq> set kvs \<union> set m"
  unfolding mputs_def
proof (induction kvs arbitrary: m)
  case (Cons kv kvs)
  then show ?case using set_mput by (cases kv) fastforce
qed simp

lemma bad_float_jobj:
  "(\<And>k v. (k, v) \<in> set kvs \<Longrightarrow> bad_float v = None) \<Longrightarrow> bad_float (jobj kvs) = None"
  unfolding jobj_def using set_mputs [of kvs "[]"] by (auto simp: bad_float_fields_None)

lemma bad_float_jstrs [simp]: "bad_float (jstrs xs) = None"
  by (auto simp: jstrs_def bad_float_items_None)

lemma bad_float_jobj_iff:
  "bad_float (jobj kvs) = None \<longleftrightarrow> (\<forall>k v. map_of (rev kvs) k = Some v \<longrightarrow> bad_float v = None)"
proof -
  have "wf_map (mputs kvs [])" by simp
  then have "set (mputs kvs []) = {(k, v). map_of (rev kvs) k = Some v}"
    by (auto simp: set_wf_map gomap_simps split: option.splits)
  then show ?thesis by (auto simp: jobj_def bad_float_fields_None)
qed

lemma jpath_jobj [simp]:
  "jpath (jobj kvs) (k # ks) = (case map_of (rev kvs) k of None \<Rightarrow> None | Some v \<Rightarrow> jpath v ks)"
  by simp

end
