(* ===== verification/KubeTypes.thy ===== *)
theory KubeTypes
  imports GoStd
begin

text \<open>
  The Kubernetes objects the operator reads and writes, with the fields the code sets or
  reads: object metadata, containers, volumes and pod specs, and the ConfigMaps,
  Deployments, Services, PersistentVolumeClaims and Pods built from them. Go maps that may
  be nil where the code tells nil from empty (a ConfigMap's data, a container's resources)
  are \<open>None\<close> or \<open>Some\<close> a map; pointers are options. A resource quantity is its numeric
  value.
\<close>

type_synonym Labels = "(string, string) gomap"
type_synonym Quantity = int
type_synonym ResourceList = "(string, Quantity) gomap"

datatype Kind =
    KClawAgent | KClawChannel | KClawPolicy | KClawSkillSet | KClawGateway | KClawObservability
  | KConfigMap | KDeployment | KService | KPVC | KPod

record OwnerReference =
  Owner_Kind :: Kind
  Owner_Name :: string
  Owner_UID :: string
  Owner_Controller :: bool

record ObjectMeta =
  Meta_Name :: string
  Meta_Namespace :: string
  Meta_Labels :: Labels
  Meta_OwnerReferences :: "OwnerReference list"
  Meta_ResourceVersion :: string
  Meta_UID :: string

text \<open>\<open>metav1.ObjectMeta{Name: n, Namespace: ns, Labels: ls}\<close>\<close>

definition new_meta :: "string \<Rightarrow> string \<Rightarrow> Labels \<Rightarrow> ObjectMeta" where
  "new_meta n ns ls = \<lparr>Meta_Name = n, Meta_Namespace = ns, Meta_Labels = ls,
     Meta_OwnerReferences = [], Meta_ResourceVersion = '''', Meta_UID = ''''\<rparr>"

lemma new_meta_simps [simp]:
  "Meta_Name (new_meta n ns ls) = n"
  "Meta_Namespace (new_meta n ns ls) = ns"
  "Meta_Labels (new_meta n ns ls) = ls"
  "Meta_OwnerReferences (new_meta n ns ls) = []"
  by (simp_all add: new_meta_def)

record NamespacedName =
  NN_Name :: string
  NN_Namespace :: string

definition nn :: "string \<Rightarrow> string \<Rightarrow> NamespacedName" where
  "nn n ns = \<lparr>NN_Name = n, NN_Namespace = ns\<rparr>"

lemma nn_eq_iff [simp]: "nn n ns = nn n' ns' \<longleftrightarrow> n = n' \<and> ns = ns'"
  by (simp add: nn_def)

lemma nn_sel [simp]: "NN_Name (nn n ns) = n" "NN_Namespace (nn n ns) = ns"
  by (simp_all add: nn_def)

lemma nn_collapse [simp]: "nn (NN_Name k) (NN_Namespace k) = k"
  by (simp add: nn_def)

section \<open>Containers, volumes, pods\<close>

record SecretKeySelector =
  SKS_Name :: string
  SKS_Key :: string
  SKS_Optional :: "bool option"

record EnvVar =
  Env_Name :: string
  Env_Value :: string
  Env_ValueFrom :: "SecretKeySelector option"

text \<open>\<open>corev1.EnvVar{Name: n, Value: v}\<close>\<close>

definition env_var :: "string \<Rightarrow> string \<Rightarrow> EnvVar" where
  "env_var n v = \<lparr>Env_Name = n, Env_Value = v, Env_ValueFrom = None\<rparr>"

record SecretEnvSource =
  SES_Name :: string
  SES_Optional :: "bool option"

record VolumeMount =
  VM_Name :: string
  VM_MountPath :: string
  VM_ReadOnly :: bool

definition vmount :: "string \<Rightarrow> string \<Rightarrow> bool \<Rightarrow> VolumeMount" where
  "vmount n p ro = \<lparr>VM_Name = n, VM_MountPath = p, VM_ReadOnly = ro\<rparr>"

text \<open>\<open>intstr.FromInt(p)\<close> is kept as the call's argument.\<close>

datatype IntOrString = FromInt int

record ContainerPort =
  CP_Name :: string
  CP_ContainerPort :: int32
  CP_Protocol :: string

definition cport :: "string \<Rightarrow> int32 \<Rightarrow> ContainerPort" where
  "cport n p = \<lparr>CP_Name = n, CP_ContainerPort = p, CP_Protocol = ''TCP''\<rparr>"

datatype ProbeHandler = ExecAction "string list" | HTTPGetAction string IntOrString

record Probe =
  Probe_Handler :: ProbeHandler
  Probe_InitialDelaySeconds :: int32
  Probe_PeriodSeconds :: int32

record ResourceRequirements =
  RR_Requests :: "ResourceList option"
  RR_Limits :: "ResourceList option"

record Container =
  C_Name :: string
  C_Image :: string
  C_ImagePullPolicy :: string
  C_Command :: "string list"
  C_Args :: "string list"
  C_Ports :: "ContainerPort list"
  C_Env :: "EnvVar list"
  C_EnvFrom :: "SecretEnvSource list"
  C_VolumeMounts :: "VolumeMount list"
  C_ReadinessProbe :: "Probe option"
  C_LivenessProbe :: "Probe option"
  C_Resources :: ResourceRequirements
  C_PostStart :: "string list option"

text \<open>\<open>corev1.Container{Name: n, Image: i}\<close>, every other field its zero value.\<close>

definition container0 :: "string \<Rightarrow> string \<Rightarrow> Container" where
  "container0 n i = \<lparr>C_Name = n, C_Image = i, C_ImagePullPolicy = '''', C_Command = [], C_Args = [],
     C_Ports = [], C_Env = [], C_EnvFrom = [], C_VolumeMounts = [],
     C_ReadinessProbe = None, C_LivenessProbe = None,
     C_Resources = \<lparr>RR_Requests = None, RR_Limits = None\<rparr>, C_PostStart = None\<rparr>"

datatype VolumeSource =
    PVCSource string bool \<comment> \<open>claim name, read-only\<close>
  | EmptyDir
  | ConfigMapSource string "bool option" \<comment> \<open>name, optional\<close>
  | SecretSource string int32 "bool option" \<comment> \<open>secret name, default mode, optional\<close>

record Volume =
  Vol_Name :: string
  Vol_Source :: VolumeSource

definition vol :: "string \<Rightarrow> VolumeSource \<Rightarrow> Volume" where
  "vol n s = \<lparr>Vol_Name = n, Vol_Source = s\<rparr>"

record PodSecurityContext =
  PSC_RunAsUser :: "int64 option"
  PSC_RunAsGroup :: "int64 option"
  PSC_FSGroup :: "int64 option"

record PodSpec =
  Pod_SecurityContext :: "PodSecurityContext option"
  Pod_RestartPolicy :: string
  Pod_InitContainers :: "Container list"
  Pod_Containers :: "Container list"
  Pod_Volumes :: "Volume list"

section \<open>Objects\<close>

record ConfigMap =
  CM_Meta :: ObjectMeta
  CM_Data :: "(string, string) gomap option"
  CM_BinaryData :: "(string, string) gomap option"

record DeploymentSpec =
  DS_Replicas :: "int32 option"
  DS_Selector :: Labels
  DS_TemplateLabels :: Labels
  DS_PodSpec :: PodSpec

record DeploymentCondition =
  DC_Type :: string
  DC_Status :: string

record DeploymentStatus =
  DSt_Conditions :: "DeploymentCondition list"
  DSt_ReadyReplicas :: int32
  DSt_UnavailableReplicas :: int32

record Deployment =
  Dep_Meta :: ObjectMeta
  Dep_Spec :: DeploymentSpec
  Dep_Status :: DeploymentStatus

definition no_dep_status :: DeploymentStatus where
  "no_dep_status = \<lparr>DSt_Conditions = [], DSt_ReadyReplicas = 0, DSt_UnavailableReplicas = 0\<rparr>"

record ServicePort =
  SP_Name :: string
  SP_Port :: int32
  SP_TargetPort :: IntOrString
  SP_Protocol :: string

definition sport :: "string \<Rightarrow> int \<Rightarrow> ServicePort" where
  "sport n p = \<lparr>SP_Name = n, SP_Port = to_int32 p, SP_TargetPort = FromInt p, SP_Protocol = ''TCP''\<rparr>"

record Service =
  Svc_Meta :: ObjectMeta
  Svc_Selector :: Labels
  Svc_Ports :: "ServicePort list"
  Svc_ClusterIP :: string

record PersistentVolumeClaim =
  PVC_Meta :: ObjectMeta
  PVC_AccessModes :: "string list"
  PVC_Requests :: ResourceList
  PVC_StorageClassName :: "string option"
  PVC_Phase :: string

record Pod =
  Pod_Meta :: ObjectMeta
  Pod_Spec :: PodSpec
  Pod_Phase :: string

end
