(* ===== verification/ApiTypes.thy ===== *)
theory ApiTypes
  imports KubeTypes
begin

text \<open>
  The custom resources of \<open>api/v1\<close> and the methods on them. Every field the operator reads is
  kept; type metadata and status conditions, which no code reads, are left out. Field names
  carry the struct they belong to.
\<close>

section \<open>ClawAgent\<close>

record AgentIdentitySpec =
  Identity_Soul :: string
  Identity_User :: string
  Identity_AgentIdentity :: string

record TelemetryCaptureSpec =
  TC_InputMessages :: bool
  TC_OutputMessages :: bool
  TC_SystemInstructions :: bool
  TC_ToolDefinitions :: bool
  TC_ToolContent :: bool
  TC_SampleRate :: string

record ModelFallbackSpec =
  Fallback_Provider :: string
  Fallback_Name :: string

record AgentModelSpec =
  Model_Provider :: string
  Model_Name :: string
  Model_Fallback :: "ModelFallbackSpec option"

record AgentResourceRequirements =
  Res_Requests :: "ResourceList option"
  Res_Limits :: "ResourceList option"

record AgentLifecycleSpec =
  Life_RestartPolicy :: string
  Life_HibernateAfterIdleMinutes :: "int option"
  Life_MaxRuntime :: string

definition WorkspaceModeEphemeral :: string where
  "WorkspaceModeEphemeral = ''ephemeral''"

definition WorkspaceModePersistent :: string where
  "WorkspaceModePersistent = ''persistent''"

definition ReclaimPolicyRetain :: string where
  "ReclaimPolicyRetain = ''retain''"

definition ReclaimPolicyDelete :: string where
  "ReclaimPolicyDelete = ''delete''"

definition DefaultWorkspaceStorageSize :: string where
  "DefaultWorkspaceStorageSize = ''5Gi''"

definition PVCSuffix :: string where
  "PVCSuffix = ''-home''"

definition PVCResizeSuffix :: string where
  "PVCResizeSuffix = ''-home-v2''"

record WorkspaceSpec =
  WS_Mode :: string
  WS_StorageSize :: string
  WS_StorageClassName :: "string option"
  WS_ReclaimPolicy :: string

definition IsPersistent :: "WorkspaceSpec \<Rightarrow> bool" where
  "IsPersistent w = (WS_Mode w = WorkspaceModePersistent)"

definition ResolvedReclaimPolicy :: "WorkspaceSpec \<Rightarrow> string" where
  "ResolvedReclaimPolicy w = (if WS_ReclaimPolicy w = '''' then ReclaimPolicyRetain else WS_ReclaimPolicy w)"

definition ResolvedStorageSize :: "WorkspaceSpec \<Rightarrow> string" where
  "ResolvedStorageSize w = (if WS_StorageSize w = '''' then DefaultWorkspaceStorageSize else WS_StorageSize w)"

type_synonym HarnessType = string

definition HarnessOpenClaw :: HarnessType where "HarnessOpenClaw = ''openclaw''"
definition HarnessObserveClaw :: HarnessType where "HarnessObserveClaw = ''observeclaw''"
definition HarnessHermes :: HarnessType where "HarnessHermes = ''hermes''"

record HarnessSpec =
  HS_Type :: HarnessType
  HS_Image :: string

record A2APeer =
  Peer_Name :: string
  Peer_AgentCardURL :: string
  Peer_CredentialsSecret :: string

record A2ASpec =
  A2A_Enabled :: bool
  A2A_AgentCardName :: string
  A2A_AgentCardDescription :: string
  A2A_Skills :: "string list"
  A2A_Port :: int
  A2A_Peers :: "A2APeer list"
  A2A_SecurityTokenSecret :: string

definition ResolvedPort :: "A2ASpec \<Rightarrow> int" where
  "ResolvedPort a = (if A2A_Port a = 0 then 18800 else A2A_Port a)"

record ClawAgentSpec =
  AS_Harness :: HarnessSpec
  AS_Identity :: AgentIdentitySpec
  AS_SkillSet :: string
  AS_Policy :: string
  AS_Channels :: "string list"
  AS_Gateway :: string
  AS_Observability :: string
  AS_TelemetryCapture :: TelemetryCaptureSpec
  AS_Model :: AgentModelSpec
  AS_Resources :: AgentResourceRequirements
  AS_Lifecycle :: AgentLifecycleSpec
  AS_Workspace :: WorkspaceSpec
  AS_CredentialsSecret :: string
  AS_A2A :: A2ASpec

record ClawAgentStatus =
  ASt_Phase :: string
  ASt_PodName :: string
  ASt_WorkspacePVC :: string

record ClawAgent =
  Agent_Meta :: ObjectMeta
  Agent_Spec :: ClawAgentSpec
  Agent_Status :: ClawAgentStatus

section \<open>ClawChannel\<close>

definition ChannelTypeTelegram :: string where "ChannelTypeTelegram = ''telegram''"
definition ChannelTypeSlack :: string where "ChannelTypeSlack = ''slack''"
definition ChannelTypeDiscord :: string where "ChannelTypeDiscord = ''discord''"
definition ChannelTypeWhatsApp :: string where "ChannelTypeWhatsApp = ''whatsapp''"
definition ChannelTypeMatrix :: string where "ChannelTypeMatrix = ''matrix''"
definition ChannelTypeMSTeams :: string where "ChannelTypeMSTeams = ''msteams''"

text \<open>\<open>map[string]bool\<close> used as a set, and lookups that give the empty string when missing.\<close>

definition ChannelsWithBotToken :: "string \<Rightarrow> bool" where
  "ChannelsWithBotToken t =
     (t \<in> {ChannelTypeTelegram, ChannelTypeSlack, ChannelTypeDiscord, ChannelTypeMSTeams})"

definition ChannelsWithAppToken :: "string \<Rightarrow> bool" where
  "ChannelsWithAppToken t = (t \<in> {ChannelTypeSlack})"

definition ProviderAPIFormats :: "string \<Rightarrow> string" where
  "ProviderAPIFormats p =
     (if p = ''anthropic'' then ''anthropic-messages''
      else if p = ''openai'' then ''openai-responses''
      else if p = ''google'' then ''google-genai''
      else '''')"

definition ProviderBaseURLs :: "string \<Rightarrow> string" where
  "ProviderBaseURLs p =
     (if p = ''anthropic'' then ''https://api.anthropic.com''
      else if p = ''openai'' then ''https://api.openai.com/v1''
      else if p = ''google'' then ''https://generativelanguage.googleapis.com/v1beta''
      else '''')"

definition DefaultProviderAPIKeysSecret :: string where
  "DefaultProviderAPIKeysSecret = ''openclaw-api-keys''"

record ClawChannelSpec =
  Ch_Type :: string
  Ch_Enabled :: "bool option"
  Ch_CredentialsSecret :: string
  Ch_Config :: "(string, string) gomap"

definition IsEnabled :: "ClawChannelSpec \<Rightarrow> bool" where
  "IsEnabled c = (case Ch_Enabled c of None \<Rightarrow> True | Some b \<Rightarrow> b)"

record ClawChannel =
  Channel_Meta :: ObjectMeta
  Channel_Spec :: ClawChannelSpec

section \<open>ClawGateway\<close>

record GatewayWebhookSpec =
  WH_URL :: string
  WH_MinSeverity :: string
  WH_Headers :: "(string, string) gomap"

record EvaluatorRouteSpec =
  Route_Provider :: string
  Route_Model :: string

record GatewayEvaluatorSpec =
  Ev_Name :: string
  Ev_Type :: string
  Ev_Priority :: int
  Ev_Patterns :: "string list"
  Ev_Action :: string
  Ev_BlockReply :: string
  Ev_EmitEvent :: bool
  Ev_ClassifierModel :: string
  Ev_OllamaEndpoint :: string
  Ev_TimeoutMs :: int
  Ev_ProxyURL :: string
  Ev_RedactReplacement :: string
  Ev_Webhooks :: "GatewayWebhookSpec list"
  Ev_ClassifierEndpoint :: string
  Ev_Routes :: "(string, EvaluatorRouteSpec) gomap option"

record GatewayRoutingSpec =
  Routing_Enabled :: bool
  Routing_LogEveryDecision :: bool
  Routing_Evaluators :: "GatewayEvaluatorSpec list"

record GatewayAnomalySpec =
  Anom_SpendSpikeMultiplier :: int
  Anom_IdleBurnMinutes :: int
  Anom_ErrorLoopThreshold :: int
  Anom_TokenInflationMultiplier :: int
  Anom_CheckIntervalSeconds :: int

record ClawGatewaySpec =
  GW_Topology :: string
  GW_Port :: int
  GW_Routing :: GatewayRoutingSpec
  GW_Anomaly :: GatewayAnomalySpec
  GW_Webhooks :: "GatewayWebhookSpec list"

record ClawGateway =
  Gateway_Meta :: ObjectMeta
  Gateway_Spec :: ClawGatewaySpec

section \<open>ClawPolicy, ClawSkillSet, ClawObservability\<close>

record ToolPolicySpec =
  TP_Allow :: "string list"
  TP_Deny :: "string list"

record BudgetSpec =
  B_Daily :: int
  B_Monthly :: int
  B_WarnAt :: string
  B_DowngradeModel :: string
  B_DowngradeProvider :: string

record ClawPolicySpec =
  PS_ToolPolicy :: ToolPolicySpec
  PS_Budget :: BudgetSpec

record ClawPolicy =
  Policy_Meta :: ObjectMeta
  Policy_Spec :: ClawPolicySpec

record SkillEntry =
  Skill_Name :: string
  Skill_Content :: string

record ClawSkillSetSpec =
  SS_Skills :: "SkillEntry list"

record ClawSkillSet =
  SkillSet_Meta :: ObjectMeta
  SkillSet_Spec :: ClawSkillSetSpec

record TempoStorageSpec =
  TS_Size :: string
  TS_StorageClass :: string

record TempoSpec =
  Tempo_Enabled :: bool
  Tempo_RetentionDays :: int
  Tempo_Storage :: TempoStorageSpec

record GrafanaSpec =
  Grafana_Enabled :: bool
  Grafana_Dashboards :: "string list"
  Grafana_AdminCredentialsSecret :: string
  Grafana_Expose :: string

record ClawObservabilitySpec =
  Obs_Tempo :: TempoSpec
  Obs_Grafana :: GrafanaSpec
  Obs_OTLPEndpoint :: string
  Obs_OTLPProtocol :: string

record ClawObservabilityStatus =
  ObsSt_TempoReady :: bool
  ObsSt_GrafanaReady :: bool

record ClawObservability =
  Observability_Meta :: ObjectMeta
  Observability_Spec :: ClawObservabilitySpec
  Observability_Status :: ClawObservabilityStatus

lemma ResolvedPort_neq_0 [simp]: "ResolvedPort a \<noteq> 0"
  by (simp add: ResolvedPort_def)

lemma ResolvedReclaimPolicy_nonempty [simp]: "ResolvedReclaimPolicy w \<noteq> ''''"
  by (simp add: ResolvedReclaimPolicy_def ReclaimPolicyRetain_def)

lemma ResolvedStorageSize_nonempty [simp]: "ResolvedStorageSize w \<noteq> ''''"
  by (simp add: ResolvedStorageSize_def DefaultWorkspaceStorageSize_def)

section \<open>Zero values\<close>

text \<open>Go's zero values of the agent's structs: what an empty spec in the manifest decodes to.\<close>

definition zero_TelemetryCaptureSpec :: TelemetryCaptureSpec where
  "zero_TelemetryCaptureSpec = \<lparr>TC_InputMessages = False, TC_OutputMessages = False,
     TC_SystemInstructions = False, TC_ToolDefinitions = False, TC_ToolContent = False, TC_SampleRate = ''''\<rparr>"

definition zero_A2ASpec :: A2ASpec where
  "zero_A2ASpec = \<lparr>A2A_Enabled = False, A2A_AgentCardName = '''', A2A_AgentCardDescription = '''',
     A2A_Skills = [], A2A_Port = 0, A2A_Peers = [], A2A_SecurityTokenSecret = ''''\<rparr>"

definition zero_WorkspaceSpec :: WorkspaceSpec where
  "zero_WorkspaceSpec = \<lparr>WS_Mode = '''', WS_StorageSize = '''', WS_StorageClassName = None, WS_ReclaimPolicy = ''''\<rparr>"

definition zero_ClawAgentSpec :: ClawAgentSpec where
  "zero_ClawAgentSpec = \<lparr>
     AS_Harness = \<lparr>HS_Type = '''', HS_Image = ''''\<rparr>,
     AS_Identity = \<lparr>Identity_Soul = '''', Identity_User = '''', Identity_AgentIdentity = ''''\<rparr>,
     AS_SkillSet = '''', AS_Policy = '''', AS_Channels = [], AS_Gateway = '''', AS_Observability = '''',
     AS_TelemetryCapture = zero_TelemetryCaptureSpec,
     AS_Model = \<lparr>Model_Provider = '''', Model_Name = '''', Model_Fallback = None\<rparr>,
     AS_Resources = \<lparr>Res_Requests = None, Res_Limits = None\<rparr>,
     AS_Lifecycle = \<lparr>Life_RestartPolicy = '''', Life_HibernateAfterIdleMinutes = None, Life_MaxRuntime = ''''\<rparr>,
     AS_Workspace = zero_WorkspaceSpec,
     AS_CredentialsSecret = '''',
     AS_A2A = zero_A2ASpec\<rparr>"

definition zero_ClawAgent :: ClawAgent where
  "zero_ClawAgent = \<lparr>Agent_Meta = new_meta '''' '''' [], Agent_Spec = zero_ClawAgentSpec,
     Agent_Status = \<lparr>ASt_Phase = '''', ASt_PodName = '''', ASt_WorkspacePVC = ''''\<rparr>\<rparr>"

end
