(* ===== verification/KubeClient.thy ===== *)
theory KubeClient
  imports ApiTypes
begin

text \<open>
  The API server as the operator sees it through controller-runtime's \<open>client.Client\<close>. The
  client is a parameter of every operation: a record of its calls over an unknown world. Two
  interfaces state what the code relies on. \<open>kube_api\<close>: any server, failing or not, whose reads are
  current and change nothing, and whose writes had their effect when they succeed and had it or none
  when they fail. \<open>kube_reliable\<close>: in addition every call that can be carried out is. The in-memory
  client instantiates both, and with a schedule of injected failures the first; \<open>owner_api\<close> is the
  third interface, of owner references.
\<close>

section \<open>Errors\<close>

datatype err =
    NotFound string
  | AlreadyExists string
  | ConflictErr string
  | OtherErr string
  | RequeueNeeded              \<comment> \<open>\<open>errRequeueNeeded\<close>\<close>
  | Wrap string err            \<comment> \<open>\<open>fmt.Errorf("...: %w", err)\<close>\<close>
  | Errorf string
  | PanicErr string            \<comment> \<open>the goroutine panics\<close>

text \<open>\<open>apierrors.IsNotFound\<close> and \<open>errors.Is(err, errRequeueNeeded)\<close> look through wrapping.\<close>

fun is_not_found :: "err \<Rightarrow> bool" where
  "is_not_found (NotFound _) = True"
| "is_not_found (Wrap _ e) = is_not_found e"
| "is_not_found _ = False"

fun is_requeue :: "err \<Rightarrow> bool" where
  "is_requeue RequeueNeeded = True"
| "is_requeue (Wrap _ e) = is_requeue e"
| "is_requeue _ = False"

section \<open>Objects of any kind\<close>

datatype Obj =
    OClawAgent ClawAgent
  | OClawChannel ClawChannel
  | OClawPolicy ClawPolicy
  | OClawSkillSet ClawSkillSet
  | OClawGateway ClawGateway
  | OClawObservability ClawObservability
  | OConfigMap ConfigMap
  | ODeployment Deployment
  | OService Service
  | OPVC PersistentVolumeClaim
  | OPod Pod

fun kind_of :: "Obj \<Rightarrow> Kind" where
  "kind_of (OClawAgent _) = KClawAgent"
| "kind_of (OClawChannel _) = KClawChannel"
| "kind_of (OClawPolicy _) = KClawPolicy"
| "kind_of (OClawSkillSet _) = KClawSkillSet"
| "kind_of (OClawGateway _) = KClawGateway"
| "kind_of (OClawObservability _) = KClawObservability"
| "kind_of (OConfigMap _) = KConfigMap"
| "kind_of (ODeployment _) = KDeployment"
| "kind_of (OService _) = KService"
| "kind_of (OPVC _) = KPVC"
| "kind_of (OPod _) = KPod"

fun meta_of :: "Obj \<Rightarrow> ObjectMeta" where
  "meta_of (OClawAgent x) = Agent_Meta x"
| "meta_of (OClawChannel x) = Channel_Meta x"
| "meta_of (OClawPolicy x) = Policy_Meta x"
| "meta_of (OClawSkillSet x) = SkillSet_Meta x"
| "meta_of (OClawGateway x) = Gateway_Meta x"
| "meta_of (OClawObservability x) = Observability_Meta x"
| "meta_of (OConfigMap x) = CM_Meta x"
| "meta_of (ODeployment x) = Dep_Meta x"
| "meta_of (OService x) = Svc_Meta x"
| "meta_of (OPVC x) = PVC_Meta x"
| "meta_of (OPod x) = Pod_Meta x"

fun set_meta :: "ObjectMeta \<Rightarrow> Obj \<Rightarrow> Obj" where
  "set_meta m (OClawAgent x) = OClawAgent (x\<lparr>Agent_Meta := m\<rparr>)"
| "set_meta m (OClawChannel x) = OClawChannel (x\<lparr>Channel_Meta := m\<rparr>)"
| "set_meta m (OClawPolicy x) = OClawPolicy (x\<lparr>Policy_Meta := m\<rparr>)"
| "set_meta m (OClawSkillSet x) = OClawSkillSet (x\<lparr>SkillSet_Meta := m\<rparr>)"
| "set_meta m (OClawGateway x) = OClawGateway (x\<lparr>Gateway_Meta := m\<rparr>)"
| "set_meta m (OClawObservability x) = OClawObservability (x\<lparr>Observability_Meta := m\<rparr>)"
| "set_meta m (OConfigMap x) = OConfigMap (x\<lparr>CM_Meta := m\<rparr>)"
| "set_meta m (ODeployment x) = ODeployment (x\<lparr>Dep_Meta := m\<rparr>)"
| "set_meta m (OService x) = OService (x\<lparr>Svc_Meta := m\<rparr>)"
| "set_meta m (OPVC x) = OPVC (x\<lparr>PVC_Meta := m\<rparr>)"
| "set_meta m (OPod x) = OPod (x\<lparr>Pod_Meta := m\<rparr>)"

definition key_of :: "Obj \<Rightarrow> NamespacedName" where
  "key_of ob = nn (Meta_Name (meta_of ob)) (Meta_Namespace (meta_of ob))"

lemma kind_of_set_meta [simp]: "kind_of (set_meta m ob) = kind_of ob"
  by (cases ob) auto

lemma meta_of_set_meta [simp]: "meta_of (set_meta m ob) = m"
  by (cases ob) auto

text \<open>The typed value inside an object of the kind asked for.\<close>

fun asClawAgent :: "Obj \<Rightarrow> ClawAgent option" where
  "asClawAgent (OClawAgent x) = Some x" | "asClawAgent _ = None"
fun asClawChannel :: "Obj \<Rightarrow> ClawChannel option" where
  "asClawChannel (OClawChannel x) = Some x" | "asClawChannel _ = None"
fun asClawPolicy :: "Obj \<Rightarrow> ClawPolicy option" where
  "asClawPolicy (OClawPolicy x) = Some x" | "asClawPolicy _ = None"
fun asClawSkillSet :: "Obj \<Rightarrow> ClawSkillSet option" where
  "asClawSkillSet (OClawSkillSet x) = Some x" | "asClawSkillSet _ = None"
fun asClawGateway :: "Obj \<Rightarrow> ClawGateway option" where
  "asClawGateway (OClawGateway x) = Some x" | "asClawGateway _ = None"
fun asClawObservability :: "Obj \<Rightarrow> ClawObservability option" where
  "asClawObservability (OClawObservability x) = Some x" | "asClawObservability _ = None"
fun asConfigMap :: "Obj \<Rightarrow> ConfigMap option" where
  "asConfigMap (OConfigMap x) = Some x" | "asConfigMap _ = None"
fun asDeployment :: "Obj \<Rightarrow> Deployment option" where
  "asDeployment (ODeployment x) = Some x" | "asDeployment _ = None"
fun asService :: "Obj \<Rightarrow> Service option" where
  "asService (OService x) = Some x" | "asService _ = None"
fun asPVC :: "Obj \<Rightarrow> PersistentVolumeClaim option" where
  "asPVC (OPVC x) = Some x" | "asPVC _ = None"
fun asPod :: "Obj \<Rightarrow> Pod option" where
  "asPod (OPod x) = Some x" | "asPod _ = None"

lemma as_kind [simp]:
  "kind_of ob = KClawAgent \<Longrightarrow> asClawAgent ob \<noteq> None"
  "kind_of ob = KConfigMap \<Longrightarrow> asConfigMap ob \<noteq> None"
  "kind_of ob = KDeployment \<Longrightarrow> asDeployment ob \<noteq> None"
  "kind_of ob = KService \<Longrightarrow> asService ob \<noteq> None"
  "kind_of ob = KPVC \<Longrightarrow> asPVC ob \<noteq> None"
  "kind_of ob = KPod \<Longrightarrow> asPod ob \<noteq> None"
  by (cases ob; simp)+

lemma as_SomeD:
  "asClawAgent ob = Some x1 \<Longrightarrow> ob = OClawAgent x1"
  "asClawChannel ob = Some x2 \<Longrightarrow> ob = OClawChannel x2"
  "asClawPolicy ob = Some x3 \<Longrightarrow> ob = OClawPolicy x3"
  "asClawSkillSet ob = Some x4 \<Longrightarrow> ob = OClawSkillSet x4"
  "asClawGateway ob = Some x5 \<Longrightarrow> ob = OClawGateway x5"
  "asClawObservability ob = Some x6 \<Longrightarrow> ob = OClawObservability x6"
  "asConfigMap ob = Some x7 \<Longrightarrow> ob = OConfigMap x7"
  "asDeployment ob = Some x8 \<Longrightarrow> ob = ODeployment x8"
  "asService ob = Some x9 \<Longrightarrow> ob = OService x9"
  "asPVC ob = Some x10 \<Longrightarrow> ob = OPVC x10"
  "asPod ob = Some x11 \<Longrightarrow> ob = OPod x11"
  by (cases ob; simp)+

section \<open>The client and the other external functions\<close>

record 'w kube =
  kube_Get :: "Kind \<Rightarrow> NamespacedName \<Rightarrow> ('w, err + Obj) state"
  kube_List :: "Kind \<Rightarrow> string \<Rightarrow> ('w, err + Obj list) state"
  kube_Create :: "Obj \<Rightarrow> ('w, err + unit) state"
  kube_Update :: "Obj \<Rightarrow> ('w, err + unit) state"
  kube_StatusUpdate :: "Obj \<Rightarrow> ('w, err + unit) state"
  kube_Delete :: "Obj \<Rightarrow> ('w, err + unit) state"

text \<open>
  Pure functions of libraries that are not part of the repository:
  \<open>controllerutil.SetControllerReference\<close> (owner's kind and metadata, then the object's
  metadata, giving its new metadata), \<open>resource.ParseQuantity\<close>, and of Go's own
  \<open>strconv.ParseFloat\<close> and the hex form of \<open>sha256.Sum256\<close>; \<open>rangeOrder\<close> is the order one
  \<open>for range\<close> loop visits a map in, which Go leaves open.
\<close>

record ext =
  ext_SetControllerReference :: "Kind \<Rightarrow> ObjectMeta \<Rightarrow> ObjectMeta \<Rightarrow> err + ObjectMeta"
  ext_ParseQuantity :: "string \<Rightarrow> Quantity option"
  ext_ParseFloat :: "string \<Rightarrow> float64 option"
  ext_Sha256Hex :: "string \<Rightarrow> string"
  ext_rangeOrder :: "(string, string) gomap \<Rightarrow> (string \<times> string) list"

text \<open>\<open>r.Get\<close> into a variable of one kind; an answer of another kind does not decode.\<close>

definition getAs :: "(Obj \<Rightarrow> 'a option) \<Rightarrow> 'w kube \<Rightarrow> Kind \<Rightarrow> NamespacedName \<Rightarrow> ('w, err + 'a) state" where
  "getAs sel kc k key =
     bindE (kube_Get kc k key) (\<lambda>ob.
       case sel ob of Some x \<Rightarrow> retE x | None \<Rightarrow> throwE (OtherErr ''cannot decode''))"

text \<open>\<open>r.List\<close> into a typed list, in one namespace.\<close>

definition listAs :: "(Obj \<Rightarrow> 'a option) \<Rightarrow> 'w kube \<Rightarrow> Kind \<Rightarrow> string \<Rightarrow> ('w, err + 'a list) state" where
  "listAs sel kc k ns =
     bindE (kube_List kc k ns) (\<lambda>obs. retE (List.map_filter sel obs))"

section \<open>The object store\<close>

type_synonym store = "Kind \<Rightarrow> NamespacedName \<Rightarrow> Obj option"

definition store_put :: "Obj \<Rightarrow> store \<Rightarrow> store" where
  "store_put ob s = s(kind_of ob := (s (kind_of ob))(key_of ob := Some ob))"

definition store_del :: "Kind \<Rightarrow> NamespacedName \<Rightarrow> store \<Rightarrow> store" where
  "store_del k key s = s(k := (s k)(key := None))"

lemma store_put_apply [simp]:
  "store_put ob s k key = (if k = kind_of ob \<and> key = key_of ob then Some ob else s k key)"
  by (simp add: store_put_def)

lemma store_del_apply [simp]:
  "store_del k key s k' key' = (if k' = k \<and> key' = key then None else s k' key')"
  by (simp add: store_del_def)

text \<open>Every object sits under its own kind and key.\<close>

definition store_ok :: "store \<Rightarrow> bool" where
  "store_ok s = (\<forall>k key ob. s k key = Some ob \<longrightarrow> kind_of ob = k \<and> key_of ob = key)"

lemma store_ok_put [simp, intro]: "store_ok s \<Longrightarrow> store_ok (store_put ob s)"
  by (simp add: store_ok_def)

lemma store_ok_del [simp, intro]: "store_ok s \<Longrightarrow> store_ok (store_del k key s)"
  by (simp add: store_ok_def)

text \<open>The status subresource: only the status of the stored object changes.\<close>

fun put_status :: "Obj \<Rightarrow> Obj \<Rightarrow> Obj" where
  "put_status (OClawAgent new) (OClawAgent old) = OClawAgent (old\<lparr>Agent_Status := Agent_Status new\<rparr>)"
| "put_status (OClawObservability new) (OClawObservability old) =
     OClawObservability (old\<lparr>Observability_Status := Observability_Status new\<rparr>)"
| "put_status new old = old"

lemma put_status_kind [simp]: "kind_of (put_status new old) = kind_of old"
  by (cases "(new, old)" rule: put_status.cases) auto

lemma put_status_meta [simp]: "meta_of (put_status new old) = meta_of old"
  by (cases "(new, old)" rule: put_status.cases) auto

lemma put_status_key [simp]: "key_of (put_status new old) = key_of old"
  by (simp add: key_of_def)

text \<open>An update of the main resource leaves the status subresource as it is.\<close>

fun keep_status :: "Obj \<Rightarrow> Obj \<Rightarrow> Obj" where
  "keep_status (OClawAgent new) (OClawAgent old) = OClawAgent (new\<lparr>Agent_Status := Agent_Status old\<rparr>)"
| "keep_status (OClawObservability new) (OClawObservability old) =
     OClawObservability (new\<lparr>Observability_Status := Observability_Status old\<rparr>)"
| "keep_status (ODeployment new) (ODeployment old) = ODeployment (new\<lparr>Dep_Status := Dep_Status old\<rparr>)"
| "keep_status new old = new"

lemma keep_status_kind [simp]: "kind_of (keep_status new old) = kind_of new"
  by (cases "(new, old)" rule: keep_status.cases) auto

lemma keep_status_meta [simp]: "meta_of (keep_status new old) = meta_of new"
  by (cases "(new, old)" rule: keep_status.cases) auto

lemma keep_status_key [simp]: "key_of (keep_status new old) = key_of new"
  by (simp add: key_of_def)

text \<open>A new object has no status, whatever was sent.\<close>

fun fresh :: "Obj \<Rightarrow> Obj" where
  "fresh (OClawAgent a) = OClawAgent (a\<lparr>Agent_Status := Agent_Status zero_ClawAgent\<rparr>)"
| "fresh (OClawObservability obs) =
     OClawObservability (obs\<lparr>Observability_Status := \<lparr>ObsSt_TempoReady = False, ObsSt_GrafanaReady = False\<rparr>\<rparr>)"
| "fresh (ODeployment d) = ODeployment (d\<lparr>Dep_Status := no_dep_status\<rparr>)"
| "fresh ob = ob"

lemma fresh_simps [simp]: "kind_of (fresh ob) = kind_of ob" "meta_of (fresh ob) = meta_of ob" "key_of (fresh ob) = key_of ob"
  by (cases ob; simp add: key_of_def)+

text \<open>
  What the server keeps of an object it accepts. It assigns a UID and a resource version,
  fills defaults of a Deployment's pod template and drops an empty data map; names,
  labels, owner references and the fields below stay as they were sent.
\<close>

definition data_of :: "ConfigMap \<Rightarrow> (string, string) gomap" where
  "data_of cm = (case CM_Data cm of None \<Rightarrow> [] | Some m \<Rightarrow> m)"

definition kept_meta :: "ObjectMeta \<Rightarrow> ObjectMeta \<Rightarrow> bool" where
  "kept_meta m m' \<longleftrightarrow> Meta_Name m' = Meta_Name m \<and> Meta_Namespace m' = Meta_Namespace m \<and>
     Meta_Labels m' = Meta_Labels m \<and> Meta_OwnerReferences m' = Meta_OwnerReferences m"

text \<open>The parts of a container no default changes.\<close>

definition container_core :: "Container \<Rightarrow> (string \<times> string \<times> string list) \<times> EnvVar list \<times> SecretEnvSource list \<times>
    ContainerPort list \<times> VolumeMount list" where
  "container_core c = ((C_Name c, C_Image c, C_Command c), C_Env c, C_EnvFrom c, C_Ports c, C_VolumeMounts c)"

definition pod_core :: "PodSpec \<Rightarrow> _" where
  "pod_core p = (map container_core (Pod_InitContainers p), map container_core (Pod_Containers p), Pod_Volumes p)"

definition kept_dep :: "Deployment \<Rightarrow> Deployment \<Rightarrow> bool" where
  "kept_dep d d' \<longleftrightarrow>
     (DS_Replicas (Dep_Spec d) \<noteq> None \<longrightarrow> DS_Replicas (Dep_Spec d') = DS_Replicas (Dep_Spec d)) \<and>
     DS_Selector (Dep_Spec d') = DS_Selector (Dep_Spec d) \<and>
     DS_TemplateLabels (Dep_Spec d') = DS_TemplateLabels (Dep_Spec d) \<and>
     pod_core (DS_PodSpec (Dep_Spec d')) = pod_core (DS_PodSpec (Dep_Spec d)) \<and>
     Dep_Status d' = Dep_Status d"

fun kept_body :: "Obj \<Rightarrow> Obj \<Rightarrow> bool" where
  "kept_body (OConfigMap c) (OConfigMap c') = (data_of c' = data_of c \<and> CM_BinaryData c' = CM_BinaryData c)"
| "kept_body (ODeployment d) (ODeployment d') = kept_dep d d'"
| "kept_body (OService s) (OService s') =
     (Svc_Selector s' = Svc_Selector s \<and> Svc_Ports s' = Svc_Ports s)"
| "kept_body (OPod p) (OPod p') = (Pod_Volumes (Pod_Spec p') = Pod_Volumes (Pod_Spec p))"
| "kept_body ob ob' = (set_meta (meta_of ob) ob' = ob)"

definition kept :: "Obj \<Rightarrow> Obj \<Rightarrow> bool" where
  "kept ob ob' \<longleftrightarrow> kind_of ob' = kind_of ob \<and> kept_meta (meta_of ob) (meta_of ob') \<and> kept_body ob ob'"

lemma set_meta_same [simp]: "set_meta (meta_of ob) ob = ob"
  by (cases ob) auto

lemma kept_refl [simp]: "kept ob ob"
  by (cases ob) (auto simp: kept_def kept_meta_def kept_dep_def)

lemma kept_kind: "kept ob ob' \<Longrightarrow> kind_of ob' = kind_of ob"
  by (simp add: kept_def)

lemma kept_key: "kept ob ob' \<Longrightarrow> key_of ob' = key_of ob"
  by (simp add: kept_def kept_meta_def key_of_def)

lemma kept_fresh: "kept (fresh ob) ob' \<Longrightarrow> kind_of ob' = kind_of ob" "kept (fresh ob) ob' \<Longrightarrow> key_of ob' = key_of ob"
  using kept_kind kept_key by fastforce+

lemma kept_owners: "kept ob ob' \<Longrightarrow>
  Meta_OwnerReferences (meta_of ob') = Meta_OwnerReferences (meta_of ob)"
  by (simp add: kept_def kept_meta_def)

text \<open>The effect of each call that is carried out.\<close>

definition created :: "Obj \<Rightarrow> store \<Rightarrow> store \<Rightarrow> bool" where
  "created ob s s' \<longleftrightarrow> s (kind_of ob) (key_of ob) = None \<and> (\<exists>ob'. kept (fresh ob) ob' \<and> s' = store_put ob' s)"

definition updated :: "Obj \<Rightarrow> store \<Rightarrow> store \<Rightarrow> bool" where
  "updated ob s s' \<longleftrightarrow> (\<exists>old ob'. s (kind_of ob) (key_of ob) = Some old \<and>
     kept (keep_status ob old) ob' \<and> s' = store_put ob' s)"

definition status_updated :: "Obj \<Rightarrow> store \<Rightarrow> store \<Rightarrow> bool" where
  "status_updated ob s s' \<longleftrightarrow> (\<exists>old ob'. s (kind_of ob) (key_of ob) = Some old \<and>
     kept (put_status ob old) ob' \<and> s' = store_put ob' s)"

definition deleted :: "Obj \<Rightarrow> store \<Rightarrow> store \<Rightarrow> bool" where
  "deleted ob s s' \<longleftrightarrow> s (kind_of ob) (key_of ob) \<noteq> None \<and> s' = store_del (kind_of ob) (key_of ob) s"

section \<open>The two interfaces\<close>

text \<open>
  Any server, failing or not. Reads are current and change nothing; a call that succeeds had
  its effect; a call that fails had it (the answer was lost) or did nothing.
\<close>

locale kube_api =
  fixes kc :: "'w kube" and store :: "'w \<Rightarrow> store"
  assumes store_wf: "store_ok (store w)"
    and get_same: "run_state (kube_Get kc k key) w = (r, w') \<Longrightarrow> store w' = store w"
    and get_Inr: "run_state (kube_Get kc k key) w = (Inr ob, w') \<Longrightarrow> store w k key = Some ob"
    and get_Inl: "run_state (kube_Get kc k key) w = (Inl e, w') \<Longrightarrow> is_not_found e \<Longrightarrow> store w k key = None"
    and list_same: "run_state (kube_List kc k ns) w = (l, w') \<Longrightarrow> store w' = store w"
    and list_Inr: "run_state (kube_List kc k ns) w = (Inr obs, w') \<Longrightarrow>
          set obs = {ob. \<exists>n. store w k (nn n ns) = Some ob} \<and> distinct (map key_of obs)"
    and create_Inr: "run_state (kube_Create kc ob) w = (Inr u, w') \<Longrightarrow> created ob (store w) (store w')"
    and create_Inl: "run_state (kube_Create kc ob) w = (Inl e, w') \<Longrightarrow>
          store w' = store w \<or> created ob (store w) (store w')"
    and update_Inr: "run_state (kube_Update kc ob) w = (Inr u, w') \<Longrightarrow> updated ob (store w) (store w')"
    and update_Inl: "run_state (kube_Update kc ob) w = (Inl e, w') \<Longrightarrow>
          store w' = store w \<or> updated ob (store w) (store w')"
    and status_Inr: "run_state (kube_StatusUpdate kc ob) w = (Inr u, w') \<Longrightarrow>
          status_updated ob (store w) (store w')"
    and status_Inl: "run_state (kube_StatusUpdate kc ob) w = (Inl e, w') \<Longrightarrow>
          store w' = store w \<or> status_updated ob (store w) (store w')"
    and delete_Inr: "run_state (kube_Delete kc ob) w = (Inr u, w') \<Longrightarrow> deleted ob (store w) (store w')"
    and delete_Inl: "run_state (kube_Delete kc ob) w = (Inl e, w') \<Longrightarrow>
          store w' = store w \<or> deleted ob (store w) (store w')"
    and delete_not_found: "run_state (kube_Delete kc ob) w = (Inl e, w') \<Longrightarrow> is_not_found e \<Longrightarrow>
          store w' (kind_of ob) (key_of ob) = None"

text \<open>A server that carries out every call it can.\<close>

locale kube_reliable = kube_api +
  assumes get_Some: "store w k key = Some ob \<Longrightarrow> \<exists>w'. run_state (kube_Get kc k key) w = (Inr ob, w')"
    and get_None: "store w k key = None \<Longrightarrow>
          \<exists>e w'. run_state (kube_Get kc k key) w = (Inl e, w') \<and> is_not_found e"
    and list_ok: "\<exists>obs w'. run_state (kube_List kc k ns) w = (Inr obs, w')"
    and create_ok: "store w (kind_of ob) (key_of ob) = None \<Longrightarrow>
          \<exists>w'. run_state (kube_Create kc ob) w = (Inr (), w')"
    and update_ok: "store w (kind_of ob) (key_of ob) \<noteq> None \<Longrightarrow>
          \<exists>w'. run_state (kube_Update kc ob) w = (Inr (), w')"
    and status_ok: "store w (kind_of ob) (key_of ob) \<noteq> None \<Longrightarrow>
          \<exists>w'. run_state (kube_StatusUpdate kc ob) w = (Inr (), w')"
    and delete_ok: "store w (kind_of ob) (key_of ob) \<noteq> None \<Longrightarrow>
          \<exists>w'. run_state (kube_Delete kc ob) w = (Inr (), w')"

section \<open>The in-memory server\<close>

fun kind_index :: "Kind \<Rightarrow> nat" where
  "kind_index KClawAgent = 0"
| "kind_index KClawChannel = 1"
| "kind_index KClawPolicy = 2"
| "kind_index KClawSkillSet = 3"
| "kind_index KClawGateway = 4"
| "kind_index KClawObservability = 5"
| "kind_index KConfigMap = 6"
| "kind_index KDeployment = 7"
| "kind_index KService = 8"
| "kind_index KPVC = 9"
| "kind_index KPod = 10"

lemma kind_index_inject [simp]: "kind_index k = kind_index k' \<longleftrightarrow> k = k'"
  by (cases k; cases k') auto

instantiation Kind :: linorder
begin

definition less_Kind :: "Kind \<Rightarrow> Kind \<Rightarrow> bool" where
  "k < k' \<longleftrightarrow> kind_index k < kind_index k'"

definition less_eq_Kind :: "Kind \<Rightarrow> Kind \<Rightarrow> bool" where
  "k \<le> k' \<longleftrightarrow> kind_index k \<le> kind_index k'"

instance
  by standard (auto simp: less_Kind_def less_eq_Kind_def)

end

type_synonym mem = "(Kind \<times> string \<times> string, Obj) gomap"

definition mem_key :: "Kind \<Rightarrow> NamespacedName \<Rightarrow> Kind \<times> string \<times> string" where
  "mem_key k key = (k, NN_Namespace key, NN_Name key)"

definition mem_store :: "mem \<Rightarrow> store" where
  "mem_store m k key =
     (case mget m (mem_key k key) of
        Some ob \<Rightarrow> if kind_of ob = k \<and> key_of ob = key then Some ob else None
      | None \<Rightarrow> None)"

definition mem_put :: "Obj \<Rightarrow> mem \<Rightarrow> mem" where
  "mem_put ob m = mput (mem_key (kind_of ob) (key_of ob)) ob m"

lemma mem_store_dom: "mem_store m k (nn n ns) = Some ob \<Longrightarrow> (k, ns, n) \<in> fst ` set m"
  by (auto simp: mem_store_def mem_key_def split: option.splits if_splits
      dest!: mget_in_set intro: rev_image_eqI)

definition mem_list :: "mem \<Rightarrow> Kind \<Rightarrow> string \<Rightarrow> Obj list" where
  "mem_list m k ns =
     List.map_filter (\<lambda>(k', ns', n). if k' = k \<and> ns' = ns then mem_store m k (nn n ns) else None)
       (remdups (map fst m))"

lemma set_map_filter_conv: "set (List.map_filter f xs) = {y. \<exists>x \<in> set xs. f x = Some y}"
  by (induction xs) (auto simp: map_filter_def)

lemma mem_list_set: "set (mem_list m k ns) = {ob. \<exists>n. mem_store m k (nn n ns) = Some ob}"
proof (intro set_eqI iffI)
  fix ob
  assume "ob \<in> {ob. \<exists>n. mem_store m k (nn n ns) = Some ob}"
  then obtain n where n: "mem_store m k (nn n ns) = Some ob" by blast
  with mem_store_dom have "(k, ns, n) \<in> set (remdups (map fst m))" by fastforce
  with n show "ob \<in> set (mem_list m k ns)"
    unfolding mem_list_def set_map_filter_conv by force
qed (auto simp: mem_list_def set_map_filter_conv split: if_splits)

definition mem_client :: "mem kube" where
  "mem_client = \<lparr>
     kube_Get = (\<lambda>k key. State (\<lambda>m.
       (case mem_store m k key of None \<Rightarrow> Inl (NotFound (NN_Name key)) | Some ob \<Rightarrow> Inr ob, m))),
     kube_List = (\<lambda>k ns. State (\<lambda>m.
       (Inr (mem_list m k ns), m))),
     kube_Create = (\<lambda>ob. State (\<lambda>m.
       case mem_store m (kind_of ob) (key_of ob) of
         None \<Rightarrow> (Inr (), mem_put (fresh ob) m)
       | Some _ \<Rightarrow> (Inl (AlreadyExists (NN_Name (key_of ob))), m))),
     kube_Update = (\<lambda>ob. State (\<lambda>m.
       case mem_store m (kind_of ob) (key_of ob) of
         None \<Rightarrow> (Inl (NotFound (NN_Name (key_of ob))), m)
       | Some old \<Rightarrow> (Inr (), mem_put (keep_status ob old) m))),
     kube_StatusUpdate = (\<lambda>ob. State (\<lambda>m.
       case mem_store m (kind_of ob) (key_of ob) of
         None \<Rightarrow> (Inl (NotFound (NN_Name (key_of ob))), m)
       | Some old \<Rightarrow> (Inr (), mem_put (put_status ob old) m))),
     kube_Delete = (\<lambda>ob. State (\<lambda>m.
       case mem_store m (kind_of ob) (key_of ob) of
         None \<Rightarrow> (Inl (NotFound (NN_Name (key_of ob))), m)
       | Some _ \<Rightarrow> (Inr (), mdel (mem_key (kind_of ob) (key_of ob)) m)))\<rparr>"

lemma mem_key_inject [simp]: "mem_key k key = mem_key k' key' \<longleftrightarrow> k = k' \<and> key = key'"
  by (auto simp: mem_key_def)

lemma mem_store_put [simp]: "mem_store (mem_put ob m) = store_put ob (mem_store m)"
  by (intro ext) (auto simp: mem_store_def mem_put_def gomap_simps)

lemma mem_store_del [simp]: "mem_store (mdel (mem_key k key) m) = store_del k key (mem_store m)"
  by (intro ext) (auto simp: mem_store_def gomap_simps)

lemma mem_store_SomeD: "mem_store m k key = Some ob \<Longrightarrow> kind_of ob = k \<and> key_of ob = key"
  by (auto simp: mem_store_def split: option.splits if_splits)

lemma mem_store_ok: "store_ok (mem_store m)"
  by (auto simp: store_ok_def dest: mem_store_SomeD)

lemma distinct_map_filter_keys:
  assumes "distinct xs" "\<And>x y ob ob'. f x = Some ob \<Longrightarrow> f y = Some ob' \<Longrightarrow> g ob = g ob' \<Longrightarrow> x = y"
  shows "distinct (map g (List.map_filter f xs))"
  using assms(1)
proof (induction xs)
  case (Cons x xs)
  have "g ob \<notin> g ` set (List.map_filter f xs)" if "f x = Some ob" for ob
    using Cons.prems assms(2) [OF that] by (auto simp: set_map_filter_conv)
  with Cons show ?case
    by (auto simp: map_filter_simps split: option.splits)
qed (simp add: map_filter_simps)

lemma mem_list_distinct: "distinct (map key_of (mem_list m k ns))"
  unfolding mem_list_def
proof (rule distinct_map_filter_keys)
  fix x y ob ob'
  let ?f = "\<lambda>(k', ns', n). if k' = k \<and> ns' = ns then mem_store m k (nn n ns) else None"
  assume "?f x = Some ob" "?f y = Some ob'" "key_of ob = key_of ob'"
  moreover from this have "key_of ob = nn (snd (snd x)) ns" "key_of ob' = nn (snd (snd y)) ns"
    by (auto split: prod.splits if_splits dest: mem_store_SomeD)
  ultimately show "x = y"
    by (auto split: prod.splits if_splits)
qed simp

lemma kept_store: "\<exists>ob'. kept ob ob' \<and> store_put ob s = store_put ob' s"
  using kept_refl by blast

lemmas mem_effects = created_def updated_def status_updated_def deleted_def

interpretation mem: kube_reliable mem_client mem_store
  by unfold_locales
    (auto simp: mem_client_def mem_store_ok mem_effects mem_list_set mem_list_distinct
      kept_store split: option.splits)

text \<open>A client over any other whose calls fail as a schedule says: each call takes the next
  entry, and an error there is answered without the call reaching the server.\<close>

type_synonym 'w flaky = "string option list \<times> 'w"

definition flaky_call :: "('w, err + 'a) state \<Rightarrow> ('w flaky, err + 'a) state" where
  "flaky_call m = State (\<lambda>(fs, w).
     case fs of
       Some e # fs' \<Rightarrow> (Inl (OtherErr e), (fs', w))
     | _ \<Rightarrow> (case run_state m w of (r, w') \<Rightarrow> (r, (tl fs, w'))))"

definition flaky_client :: "'w kube \<Rightarrow> 'w flaky kube" where
  "flaky_client kc = \<lparr>
     kube_Get = (\<lambda>k key. flaky_call (kube_Get kc k key)),
     kube_List = (\<lambda>k ns. flaky_call (kube_List kc k ns)),
     kube_Create = (\<lambda>ob. flaky_call (kube_Create kc ob)),
     kube_Update = (\<lambda>ob. flaky_call (kube_Update kc ob)),
     kube_StatusUpdate = (\<lambda>ob. flaky_call (kube_StatusUpdate kc ob)),
     kube_Delete = (\<lambda>ob. flaky_call (kube_Delete kc ob))\<rparr>"

lemma run_flaky_Inr:
  "run_state (flaky_call m) fw = (Inr x, fw') \<Longrightarrow> run_state m (snd fw) = (Inr x, snd fw')"
  by (cases fw) (auto simp: flaky_call_def split: list.splits option.splits prod.splits)

lemma run_flaky_Inl:
  "run_state (flaky_call m) fw = (Inl e, fw') \<Longrightarrow>
     (run_state m (snd fw) = (Inl e, snd fw')) \<or> (snd fw' = snd fw \<and> \<not> is_not_found e)"
  by (cases fw) (auto simp: flaky_call_def split: list.splits option.splits prod.splits)

lemma flaky_simps [simp]:
  "kube_Get (flaky_client kc) k key = flaky_call (kube_Get kc k key)"
  "kube_List (flaky_client kc) k ns = flaky_call (kube_List kc k ns)"
  "kube_Create (flaky_client kc) ob = flaky_call (kube_Create kc ob)"
  "kube_Update (flaky_client kc) ob = flaky_call (kube_Update kc ob)"
  "kube_StatusUpdate (flaky_client kc) ob = flaky_call (kube_StatusUpdate kc ob)"
  "kube_Delete (flaky_client kc) ob = flaky_call (kube_Delete kc ob)"
  by (simp_all add: flaky_client_def)

context kube_api
begin

lemma flaky_api: "kube_api (flaky_client kc) (\<lambda>fw. store (snd fw))"
proof (unfold_locales, goal_cases)
  case (2 k key w r w')
  then show ?case
    by (cases r) (auto dest!: run_flaky_Inl run_flaky_Inr get_same)
next
  case (5 k ns w l w')
  then show ?case
    by (cases l) (auto dest!: run_flaky_Inl run_flaky_Inr list_same)
next
  case (15 ob w e w')
  then show ?case
    using delete_not_found by (fastforce dest!: run_flaky_Inl)
qed (auto dest!: run_flaky_Inl run_flaky_Inr get_Inr list_Inr create_Inr update_Inr status_Inr delete_Inr
    create_Inl update_Inl status_Inl delete_Inl
    intro: store_wf get_Inl)

end

interpretation flaky_mem: kube_api "flaky_client mem_client" "\<lambda>fw. mem_store (snd fw)"
  by (rule mem.flaky_api)

section \<open>What calls leave alone\<close>

text \<open>Between two worlds, only the objects of a footprint differ.\<close>

definition touches :: "('w \<Rightarrow> store) \<Rightarrow> (Kind \<times> NamespacedName) set \<Rightarrow> 'w \<Rightarrow> 'w \<Rightarrow> bool" where
  "touches st F w w' \<longleftrightarrow> (\<forall>k key. (k, key) \<notin> F \<longrightarrow> st w' k key = st w k key)"

text \<open>Objects are only added: what was there is there unchanged.\<close>

definition grows :: "('w \<Rightarrow> store) \<Rightarrow> 'w \<Rightarrow> 'w \<Rightarrow> bool" where
  "grows st w w' \<longleftrightarrow> (\<forall>k key ob. st w k key = Some ob \<longrightarrow> st w' k key = Some ob)"

interpretation fp: guarantee "touches st F" for st :: "'w \<Rightarrow> store" and F
  by unfold_locales (auto simp: touches_def)

interpretation gr: guarantee "grows st" for st :: "'w \<Rightarrow> store"
  by unfold_locales (auto simp: grows_def)

lemma touches_mono: "touches st F w w' \<Longrightarrow> F \<subseteq> G \<Longrightarrow> touches st G w w'"
  by (auto simp: touches_def)

lemma touches_empty: "touches st {} w w' \<longleftrightarrow> st w' = st w"
  by (auto simp: touches_def fun_eq_iff)

lemma touches_same: "st w' = st w \<Longrightarrow> touches st F w w'"
  by (simp add: touches_def)

lemma grows_same: "st w' = st w \<Longrightarrow> grows st w w'"
  by (simp add: grows_def)

lemma put_touches:
  assumes "kept ob ob'" "kind_of ob = k" "key_of ob = key" "st w' = store_put ob' (st w)" "(k, key) \<in> F"
  shows "touches st F w w'"
  using assms kept_kind [OF assms(1)] kept_key [OF assms(1)] by (auto simp: touches_def)

lemma effect_touches:
  "created ob (st w) (st w') \<Longrightarrow> (kind_of ob, key_of ob) \<in> F \<Longrightarrow> touches st F w w'"
  "updated ob (st w) (st w') \<Longrightarrow> (kind_of ob, key_of ob) \<in> F \<Longrightarrow> touches st F w w'"
  "deleted ob (st w) (st w') \<Longrightarrow> (kind_of ob, key_of ob) \<in> F \<Longrightarrow> touches st F w w'"
  by (auto simp: created_def updated_def intro: put_touches)
    (auto simp: deleted_def touches_def)

lemma created_grows:
  assumes "created ob (st w) (st w')"
  shows "grows st w w'"
proof -
  obtain ob' where "st w (kind_of ob) (key_of ob) = None" "kept (fresh ob) ob'" "st w' = store_put ob' (st w)"
    using assms by (auto simp: created_def)
  moreover from this(2) have "kind_of ob' = kind_of ob" "key_of ob' = key_of ob" by (rule kept_fresh)+
  ultimately show ?thesis by (auto simp: grows_def)
qed

context kube_api
begin

lemma status_touches:
  assumes "status_updated ob (store w) (store w')" "(kind_of ob, key_of ob) \<in> F"
  shows "touches store F w w'"
proof -
  obtain old ob' where old: "store w (kind_of ob) (key_of ob) = Some old"
    and k: "kept (put_status ob old) ob'" and w': "store w' = store_put ob' (store w)"
    using assms(1) by (auto simp: status_updated_def)
  from old store_wf have "kind_of old = kind_of ob" "key_of old = key_of ob"
    by (auto simp: store_ok_def)
  with k have "kind_of ob' = kind_of ob" "key_of ob' = key_of ob"
    by (simp_all add: kept_kind kept_key)
  with w' assms(2) show ?thesis by (auto simp: touches_def)
qed

lemma guar_get: "guar (touches store F) (kube_Get kc k key)"
  by (rule guarI) (auto simp: touches_def dest: get_same)

lemma guar_list: "guar (touches store F) (kube_List kc k ns)"
  by (rule guarI) (auto simp: touches_def dest: list_same)

lemma guar_getAs: "guar (touches store F) (getAs sel kc k key)"
  unfolding getAs_def by (intro fp.guar_compose guar_get)

lemma guar_listAs: "guar (touches store F) (listAs sel kc k ns)"
  unfolding listAs_def by (intro fp.guar_compose guar_list)

lemma guar_create:
  assumes "(kind_of ob, key_of ob) \<in> F" shows "guar (touches store F) (kube_Create kc ob)"
proof (rule guarI)
  fix w r w' assume "run_state (kube_Create kc ob) w = (r, w')"
  with assms show "touches store F w w'"
    by (cases r) (auto dest!: create_Inl create_Inr intro: effect_touches touches_same)
qed

lemma guar_update:
  assumes "(kind_of ob, key_of ob) \<in> F" shows "guar (touches store F) (kube_Update kc ob)"
proof (rule guarI)
  fix w r w' assume "run_state (kube_Update kc ob) w = (r, w')"
  with assms show "touches store F w w'"
    by (cases r) (auto dest!: update_Inl update_Inr intro: effect_touches touches_same)
qed

lemma guar_status:
  assumes "(kind_of ob, key_of ob) \<in> F" shows "guar (touches store F) (kube_StatusUpdate kc ob)"
proof (rule guarI)
  fix w r w' assume "run_state (kube_StatusUpdate kc ob) w = (r, w')"
  with assms show "touches store F w w'"
    by (cases r) (auto dest!: status_Inl status_Inr intro: status_touches touches_same)
qed

lemma guar_delete:
  assumes "(kind_of ob, key_of ob) \<in> F" shows "guar (touches store F) (kube_Delete kc ob)"
proof (rule guarI)
  fix w r w' assume "run_state (kube_Delete kc ob) w = (r, w')"
  with assms show "touches store F w w'"
    by (cases r) (auto dest!: delete_Inl delete_Inr intro: effect_touches touches_same)
qed

text \<open>After a read, only the answer that the store has is to be considered.\<close>

lemma guar_get_bind:
  assumes "\<And>e. guar (touches store F) (f (Inl e))"
    and "\<And>ob. kind_of ob = k \<Longrightarrow> key_of ob = key \<Longrightarrow> guar (touches store F) (f (Inr ob))"
  shows "guar (touches store F) (State_Monad.bind (kube_Get kc k key) f)"
proof (rule guarI)
  fix w r w'
  assume "run_state (State_Monad.bind (kube_Get kc k key) f) w = (r, w')"
  then obtain a w1 where a: "run_state (kube_Get kc k key) w = (a, w1)" "run_state (f a) w1 = (r, w')"
    by (auto split: prod.splits)
  from a(1) have "store w1 = store w" by (rule get_same)
  moreover have "guar (touches store F) (f a)"
    using a(1) assms store_wf [of w] by (cases a) (auto simp: store_ok_def dest!: get_Inr)
  ultimately show "touches store F w w'"
    using a(2) by (auto dest!: guarD simp: touches_def)
qed

lemma guar_getAs_bind:
  assumes "\<And>e. guar (touches store F) (f (Inl e))"
    and "\<And>ob y. kind_of ob = k \<Longrightarrow> key_of ob = key \<Longrightarrow> sel ob = Some y \<Longrightarrow> guar (touches store F) (f (Inr y))"
  shows "guar (touches store F) (State_Monad.bind (getAs sel kc k key) f)"
proof -
  have "State_Monad.bind (getAs sel kc k key) f = State_Monad.bind (kube_Get kc k key) (\<lambda>r.
      case r of Inl e \<Rightarrow> f (Inl e)
      | Inr ob \<Rightarrow> (case sel ob of Some y \<Rightarrow> f (Inr y) | None \<Rightarrow> f (Inl (OtherErr ''cannot decode''))))"
    by (rule state_ext)
      (auto simp: getAs_def bindE_def retE_def throwE_def split: prod.splits sum.splits option.splits)
  also have "guar (touches store F) \<dots>"
    by (rule guar_get_bind) (auto split: option.split intro: assms)
  finally show ?thesis .
qed

lemmas guar_write_bind = fp.guar_bind [OF guar_create] fp.guar_bind [OF guar_update]
  fp.guar_bind [OF guar_status] fp.guar_bind [OF guar_delete]

text \<open>Rules for programs: reads with what they answer, writes by their object.\<close>

lemmas guar_steps = fp.guar_return fp.guar_retE fp.guar_throwE fp.guar_bindE [OF guar_create]
  guar_create guar_update guar_status guar_delete guar_write_bind guar_getAs_bind guar_get_bind

lemmas guar_calls = guar_get guar_list guar_getAs guar_listAs guar_create guar_update guar_status
  guar_delete

lemma grow_getAs: "guar (grows store) (getAs sel kc k key)"
  using guar_getAs [of "{}"] by (rule guar_mono) (simp add: touches_empty grows_def)

lemma grow_get: "guar (grows store) (kube_Get kc k key)"
  using guar_get [of "{}"] by (rule guar_mono) (simp add: touches_empty grows_def)

lemma grow_create: "guar (grows store) (kube_Create kc ob)"
proof (rule guarI)
  fix w r w' assume "run_state (kube_Create kc ob) w = (r, w')"
  then show "grows store w w'"
    by (cases r) (auto dest!: create_Inl create_Inr intro: created_grows grows_same)
qed

text \<open>What typed reads answer.\<close>

lemma getAs_same: "run_state (getAs sel kc k key) w = (r, w') \<Longrightarrow> store w' = store w"
  using guarD [OF guar_getAs [of "{}"]] by (simp add: touches_empty)

lemma getAs_Inr:
  "run_state (getAs sel kc k key) w = (Inr x, w') \<Longrightarrow>
     \<exists>ob. store w k key = Some ob \<and> sel ob = Some x \<and> kind_of ob = k \<and> key_of ob = key"
  using store_wf [of w]
  by (auto simp: getAs_def run_bindE store_ok_def split: prod.splits sum.splits option.splits
      dest!: get_Inr)

lemma getAs_not_found:
  "run_state (getAs sel kc k key) w = (Inl e, w') \<Longrightarrow> is_not_found e \<Longrightarrow> store w k key = None"
  by (auto simp: getAs_def run_bindE split: prod.splits sum.splits option.splits dest: get_Inl)

end

context kube_reliable
begin

lemma getAs_Some:
  assumes "store w k key = Some ob" "sel ob = Some x"
  obtains w' where "run_state (getAs sel kc k key) w = (Inr x, w')" "store w' = store w"
proof -
  from get_Some [OF assms(1)] obtain w' where w': "run_state (kube_Get kc k key) w = (Inr ob, w')" by blast
  with assms(2) have "run_state (getAs sel kc k key) w = (Inr x, w')"
    by (simp add: getAs_def run_bindE)
  with w' that show ?thesis using get_same by blast
qed

lemma getAs_None:
  assumes "store w k key = None"
  obtains e w' where "run_state (getAs sel kc k key) w = (Inl e, w')" "is_not_found e" "store w' = store w"
proof -
  from get_None [OF assms] obtain e w' where w': "run_state (kube_Get kc k key) w = (Inl e, w')"
    and e: "is_not_found e" by blast
  then have "run_state (getAs sel kc k key) w = (Inl e, w')"
    by (simp add: getAs_def run_bindE)
  with w' e that show ?thesis using get_same by blast
qed

end

section \<open>Owner references\<close>

text \<open>
  What the operator relies on in \<open>controllerutil.SetControllerReference\<close>: it only adds the owner,
  as the only controller, and succeeds on an object of the owner's namespace that has no owner yet.
\<close>

locale owner_api =
  fixes x :: ext
  assumes set_owner_keeps: "ext_SetControllerReference x k om m = Inr m' \<Longrightarrow>
      Meta_Name m' = Meta_Name m \<and> Meta_Namespace m' = Meta_Namespace m \<and> Meta_Labels m' = Meta_Labels m"
    and set_owner_controls: "ext_SetControllerReference x k om m = Inr m' \<Longrightarrow>
      \<exists>r \<in> set (Meta_OwnerReferences m'). Owner_Kind r = k \<and> Owner_Name r = Meta_Name om \<and>
        Owner_UID r = Meta_UID om \<and> Owner_Controller r"
    and set_owner_only: "ext_SetControllerReference x k om m = Inr m' \<Longrightarrow> r \<in> set (Meta_OwnerReferences m') \<Longrightarrow>
      Owner_Controller r \<Longrightarrow> Owner_Kind r = k \<and> Owner_Name r = Meta_Name om"
    and set_owner_fresh: "Meta_OwnerReferences m = [] \<Longrightarrow> Meta_Namespace m = Meta_Namespace om \<Longrightarrow>
      \<exists>m'. ext_SetControllerReference x k om m = Inr m'"

text \<open>An instance of the external functions: owners as the library documents it, quantities in
  thousandths with the suffixes Gi and m, no floats, the text itself for its hash, and maps
  visited in key order.\<close>

definition add_owner :: "Kind \<Rightarrow> ObjectMeta \<Rightarrow> ObjectMeta \<Rightarrow> err + ObjectMeta" where
  "add_owner k om m =
     (let r = \<lparr>Owner_Kind = k, Owner_Name = Meta_Name om, Owner_UID = Meta_UID om, Owner_Controller = True\<rparr>;
          others = filter (\<lambda>q. Owner_UID q \<noteq> Meta_UID om) (Meta_OwnerReferences m)
      in if list_ex Owner_Controller others then Inl (OtherErr ''already owned'')
         else Inr (m\<lparr>Meta_OwnerReferences := others @ [r]\<rparr>))"

fun parse_digits :: "int \<Rightarrow> string \<Rightarrow> Quantity option" where
  "parse_digits n cs =
     (if cs = ''Gi'' then Some (n * 1073741824000)
      else if cs = ''m'' then Some n
      else case cs of
        c # rest \<Rightarrow> if is_digit c then parse_digits (10 * n + (int (of_char c) - 48)) rest else None
      | [] \<Rightarrow> Some (n * 1000))"

definition example_ext :: ext where
  "example_ext = \<lparr>ext_SetControllerReference = add_owner, ext_ParseQuantity = parse_digits 0,
     ext_ParseFloat = (\<lambda>_. None), ext_Sha256Hex = (\<lambda>s. s), ext_rangeOrder = (\<lambda>m. m)\<rparr>"

interpretation example: owner_api example_ext
  by unfold_locales (auto simp: example_ext_def add_owner_def Let_def list_ex_iff split: if_splits)

lemma key_of_simps [simp]:
  "key_of (OConfigMap c) = nn (Meta_Name (CM_Meta c)) (Meta_Namespace (CM_Meta c))"
  "key_of (ODeployment d) = nn (Meta_Name (Dep_Meta d)) (Meta_Namespace (Dep_Meta d))"
  "key_of (OService sv) = nn (Meta_Name (Svc_Meta sv)) (Meta_Namespace (Svc_Meta sv))"
  "key_of (OPVC p) = nn (Meta_Name (PVC_Meta p)) (Meta_Namespace (PVC_Meta p))"
  "key_of (OPod pd) = nn (Meta_Name (Pod_Meta pd)) (Meta_Namespace (Pod_Meta pd))"
  "key_of (OClawAgent a) = nn (Meta_Name (Agent_Meta a)) (Meta_Namespace (Agent_Meta a))"
  by (simp_all add: key_of_def)

text \<open>\<open>Owns\<close>: the handler enqueues the controller owner, when it is of the controller's kind.\<close>

definition owner_requests :: "Kind \<Rightarrow> ObjectMeta \<Rightarrow> NamespacedName list" where
  "owner_requests k m =
     (case List.find Owner_Controller (Meta_OwnerReferences m) of
        Some r \<Rightarrow> if Owner_Kind r = k then [nn (Owner_Name r) (Meta_Namespace m)] else []
      | None \<Rightarrow> [])"

context owner_api
begin

lemma owner_requests_owned:
  assumes "ext_SetControllerReference x k om m = Inr m'" "Meta_OwnerReferences n = Meta_OwnerReferences m'"
  shows "owner_requests k n = [nn (Meta_Name om) (Meta_Namespace n)]"
proof -
  obtain r where r: "r \<in> set (Meta_OwnerReferences m')" "Owner_Controller r"
    using set_owner_controls [OF assms(1)] by blast
  then obtain q where q: "List.find Owner_Controller (Meta_OwnerReferences m') = Some q"
    by (metis find_None_iff not_None_eq)
  then have "q \<in> set (Meta_OwnerReferences m')" "Owner_Controller q"
    by (auto simp: find_Some_iff)
  with set_owner_only [OF assms(1)] have "Owner_Kind q = k" "Owner_Name q = Meta_Name om" by blast+
  with q show ?thesis by (simp add: owner_requests_def assms(2))
qed

end

text \<open>A server and the owner function together, as the controllers use them.\<close>

locale controller_api = kube_api kc store + owner_api x
  for kc :: "'w kube" and store and x

locale reliable_api = kube_reliable kc store + owner_api x
  for kc :: "'w kube" and store and x

sublocale reliable_api \<subseteq> controller_api kc store x ..

interpretation mem_controller: reliable_api mem_client mem_store example_ext ..

interpretation flaky_controller: controller_api "flaky_client mem_client" "\<lambda>fw. mem_store (snd fw)" example_ext ..

end
