(* ===== verification/Harness.thy ===== *)
theory Harness
  imports KubeClient
begin

text \<open>
  The agent runtimes' interface (\<open>internal/harness/harness.go\<close>): an implementation is the
  record of its methods. The input of \<open>BuildConfig\<close>, the shared init-container commands, and
  the contract the controller relies on, stated as a locale.
\<close>

record ConfigInput =
  CI_Agent :: ClawAgent
  CI_Namespace :: string
  CI_Name :: string
  CI_GatewayURL :: string
  CI_OTLPEndpoint :: string
  CI_Policy :: "ClawPolicy option"
  CI_Gateway :: "ClawGateway option"
  CI_Channels :: "ClawChannel list"

record Harness =
  h_Name :: string
  h_DefaultImage :: string
  h_GatewayPort :: int32
  h_HomePath :: string
  h_WorkspacePath :: string
  h_ExtensionsPath :: string
  h_ConfigFileName :: string
  h_ConfigMapSuffix :: string
  h_ReadinessPath :: string
  h_LivenessPath :: string
  h_ContainerName :: string
  h_ContainerCommand :: "string list"
  h_RunAsUser :: "int64 option"
  h_BuildConfig :: "ConfigInput \<Rightarrow> err + string"
  h_CopyExtensionsCommands :: "string list"
  h_SeedCommands :: "string list"

definition DefaultCopyExtensionsCommands :: "string \<Rightarrow> string list" where
  "DefaultCopyExtensionsCommands homePath =
     [''cp -r '' @ homePath @ ''/extensions /harness-home/extensions 2>/dev/null || true'',
      ''cp -r '' @ homePath @ ''/workspace/plugins /harness-home/workspace-plugins 2>/dev/null || true'',
      ''echo '' @ sq @ ''extensions and plugins copied'' @ sq]"

definition DefaultSeedCommands :: "string \<Rightarrow> string list" where
  "DefaultSeedCommands configFileName =
     [''mkdir -p /harness-home/workspace/skills /harness-home/workspace/plugins'',
      ''cp -r /harness-home/workspace-plugins/* /harness-home/workspace/plugins/ 2>/dev/null || true'',
      ''cp /config-src/'' @ configFileName @ '' /harness-home/'' @ configFileName,
      ''cp /config-src/HEARTBEAT.md /harness-home/workspace/HEARTBEAT.md'',
      ''cp /config-src/TOOLS.md /harness-home/workspace/TOOLS.md 2>/dev/null || true'',
      ''cp /identity-src/SOUL.md /harness-home/workspace/SOUL.md 2>/dev/null || true'',
      ''cp /identity-src/USER.md /harness-home/workspace/USER.md 2>/dev/null || true'',
      ''cp /identity-src/IDENTITY.md /harness-home/workspace/IDENTITY.md 2>/dev/null || true'',
      ''for f in /skills-src/*; do [ -f '' @ dq @ ''$f'' @ dq @ '' ] && skill=$(basename '' @ dq @ ''$f'' @ dq @
      '') && mkdir -p /harness-home/workspace/skills/$skill && cp '' @ dq @ ''$f'' @ dq @
      '' /harness-home/workspace/skills/$skill/SKILL.md; done || true'',
      ''echo '' @ sq @ ''workspace seeded'' @ sq]"

text \<open>
  What the controller needs of a runtime: a port that fits a container port, a config map
  name of its own kind, a workspace and extensions inside the mounted home, an init command
  that puts the generated file in place, and a config whose text does not depend on more than
  its input.
\<close>

definition starts_with :: "string \<Rightarrow> string \<Rightarrow> bool" where
  "starts_with p s = (take (length p) s = p)"

definition ends_with :: "string \<Rightarrow> string \<Rightarrow> bool" where
  "ends_with p s = (drop (length s - length p) s = p)"

locale harness_contract =
  fixes h :: Harness
  assumes port_range: "0 < sint (h_GatewayPort h)" "sint (h_GatewayPort h) < 65536"
    and suffix_shape: "\<exists>x. h_ConfigMapSuffix h = x @ ''-config''"
    and workspace_in_home: "starts_with (h_HomePath h @ ''/'') (h_WorkspacePath h)"
    and extensions_in_home: "starts_with (h_HomePath h @ ''/'') (h_ExtensionsPath h)"
    and config_seeded: "''cp /config-src/'' @ h_ConfigFileName h @ '' /harness-home/'' @ h_ConfigFileName h
          \<in> set (h_SeedCommands h)"
    and config_not_reserved: "h_ConfigFileName h \<noteq> ''HEARTBEAT.md'' \<and> h_ConfigFileName h \<noteq> ''TOOLS.md''"
    and image_given: "h_DefaultImage h \<noteq> ''''"
begin

text \<open>The config map's name cannot be that of an identity or skills config map.\<close>

lemma config_map_name_apart:
  "name @ h_ConfigMapSuffix h \<noteq> name' @ ''-identity''"
  "name @ h_ConfigMapSuffix h \<noteq> name' @ ''-skills''"
proof -
  obtain x where x: "h_ConfigMapSuffix h = x @ ''-config''" using suffix_shape by blast
  have "name @ h_ConfigMapSuffix h \<noteq> s" if "last s \<noteq> CHR ''g''" for s
  proof
    assume "name @ h_ConfigMapSuffix h = s"
    then have "last s = last (name @ x @ ''-config'')" by (simp add: x)
    with that show False by simp
  qed
  then show "name @ h_ConfigMapSuffix h \<noteq> name' @ ''-identity''"
    "name @ h_ConfigMapSuffix h \<noteq> name' @ ''-skills''" by simp_all
qed

end

end
