(* ===== verification/OpenClaw.thy ===== *)
theory OpenClaw
  imports Harness
begin

text \<open>
  The OpenClaw runtime (\<open>internal/harness/openclaw.go\<close>): its constants and the generated
  \<open>openclaw.json\<close>. \<open>BuildConfig\<close> is cut into the parts its comments name; each part is a JSON
  value, and the whole is printed by \<open>json.MarshalIndent\<close>. \<open>pf\<close> stands for
  \<open>strconv.ParseFloat\<close>.
\<close>

definition openclaw_HomePath :: string where
  "openclaw_HomePath = ''/home/node/.openclaw''"

definition openclaw_WorkspacePath :: string where
  "openclaw_WorkspacePath = ''/home/node/.openclaw/workspace''"

definition openclaw_ConfigFileName :: string where
  "openclaw_ConfigFileName = ''openclaw.json''"

definition openclaw_GatewayPort :: int32 where
  "openclaw_GatewayPort = 18789"

definition enabled_obj :: json where
  "enabled_obj = jobj [(''enabled'', JBool True)]"

section \<open>The observeclaw plugin's configuration\<close>

definition observeclaw_budgets :: "(string \<Rightarrow> float64 option) \<Rightarrow> ClawPolicy option \<Rightarrow> json" where
  "observeclaw_budgets pf policy =
     (let d0 = mputs [(''daily'', JInt 100), (''monthly'', JInt 2000), (''warnAt'', JFloat (Finite ''0.8''))] [];
          d = (case policy of
                 None \<Rightarrow> d0
               | Some p \<Rightarrow>
                   (let b = PS_Budget (Policy_Spec p);
                        d1 = (if B_Daily b > 0 then mput ''daily'' (JInt (B_Daily b)) d0 else d0);
                        d2 = (if B_Monthly b > 0 then mput ''monthly'' (JInt (B_Monthly b)) d1 else d1)
                    in if B_WarnAt b \<noteq> ''''
                       then (case pf (B_WarnAt b) of Some warnAt \<Rightarrow> mput ''warnAt'' (JFloat warnAt) d2 | None \<Rightarrow> d2)
                       else d2))
      in jobj [(''defaults'', JObj d), (''agents'', jobj [])])"

definition observeclaw_downgradeModel :: "ClawPolicy option \<Rightarrow> string" where
  "observeclaw_downgradeModel policy =
     (case policy of
        None \<Rightarrow> ''claude-haiku-4-5''
      | Some p \<Rightarrow> (let m = B_DowngradeModel (PS_Budget (Policy_Spec p))
                   in if m \<noteq> '''' then m else ''claude-haiku-4-5''))"

definition observeclaw_downgradeProvider :: "ClawPolicy option \<Rightarrow> string" where
  "observeclaw_downgradeProvider policy =
     (case policy of
        None \<Rightarrow> ''anthropic''
      | Some p \<Rightarrow> (let m = B_DowngradeProvider (PS_Budget (Policy_Spec p))
                   in if m \<noteq> '''' then m else ''anthropic''))"

definition credential_deny_patterns :: "string list" where
  "credential_deny_patterns =
     [openclaw_HomePath @ ''/credentials/*'', ''cat.*credentials'', ''grep.*credentials'',
      ''head.*credentials'', ''tail.*credentials'', ''less.*credentials'', ''base64.*credentials'']"

definition observeclaw_allow :: "ClawPolicy option \<Rightarrow> string list" where
  "observeclaw_allow policy =
     (case policy of None \<Rightarrow> [] | Some p \<Rightarrow> TP_Allow (PS_ToolPolicy (Policy_Spec p)))"

definition observeclaw_deny :: "ClawAgent \<Rightarrow> ClawPolicy option \<Rightarrow> string list" where
  "observeclaw_deny agent policy =
     (case policy of None \<Rightarrow> [] | Some p \<Rightarrow> TP_Deny (PS_ToolPolicy (Policy_Spec p))) @
     (if AS_CredentialsSecret (Agent_Spec agent) \<noteq> '''' then credential_deny_patterns else [])"

definition observeclaw_toolPolicy :: "ClawAgent \<Rightarrow> ClawPolicy option \<Rightarrow> json" where
  "observeclaw_toolPolicy agent policy =
     jobj [(''defaults'', jobj [(''allow'', jstrs (observeclaw_allow policy)),
                               (''deny'', jstrs (observeclaw_deny agent policy))]),
           (''agents'', jobj [])]"

definition pos_or :: "int \<Rightarrow> int \<Rightarrow> int" where
  "pos_or x d = (if x > 0 then x else d)"

definition observeclaw_anomaly :: "ClawGateway option \<Rightarrow> json" where
  "observeclaw_anomaly gateway =
     (case gateway of
        None \<Rightarrow> jobj [(''spendSpikeMultiplier'', JInt 3), (''idleBurnMinutes'', JInt 10),
                      (''errorLoopThreshold'', JInt 10), (''tokenInflationMultiplier'', JInt 2),
                      (''checkIntervalSeconds'', JInt 30)]
      | Some gw \<Rightarrow>
          (let a = GW_Anomaly (Gateway_Spec gw) in
           jobj [(''spendSpikeMultiplier'', JInt (pos_or (Anom_SpendSpikeMultiplier a) 3)),
                 (''idleBurnMinutes'', JInt (pos_or (Anom_IdleBurnMinutes a) 10)),
                 (''errorLoopThreshold'', JInt (pos_or (Anom_ErrorLoopThreshold a) 10)),
                 (''tokenInflationMultiplier'', JInt (pos_or (Anom_TokenInflationMultiplier a) 2)),
                 (''checkIntervalSeconds'', JInt (pos_or (Anom_CheckIntervalSeconds a) 30))]))"

text \<open>\<open>if cond { entry[key] = v }\<close>\<close>

definition opt_field :: "bool \<Rightarrow> string \<Rightarrow> json \<Rightarrow> (string \<times> json) list" where
  "opt_field c k v = (if c then [(k, v)] else [])"

definition route_json :: "EvaluatorRouteSpec \<Rightarrow> json" where
  "route_json v = jobj [(''provider'', JStr (Route_Provider v)), (''model'', JStr (Route_Model v))]"

definition observeclaw_evaluator :: "GatewayEvaluatorSpec \<Rightarrow> json" where
  "observeclaw_evaluator ev =
     jobj ([(''name'', JStr (Ev_Name ev)), (''type'', JStr (Ev_Type ev)),
            (''priority'', JInt (Ev_Priority ev)), (''enabled'', JBool True)] @
           opt_field (Ev_Action ev \<noteq> '''') ''action'' (JStr (Ev_Action ev)) @
           opt_field (Ev_Patterns ev \<noteq> []) ''patterns'' (jstrs (Ev_Patterns ev)) @
           opt_field (Ev_BlockReply ev \<noteq> '''') ''blockReply'' (JStr (Ev_BlockReply ev)) @
           opt_field (Ev_EmitEvent ev) ''emitEvent'' (JBool True) @
           opt_field (Ev_ClassifierModel ev \<noteq> '''') ''classifierModel'' (JStr (Ev_ClassifierModel ev)) @
           opt_field (Ev_TimeoutMs ev > 0) ''timeoutMs'' (JInt (Ev_TimeoutMs ev)) @
           opt_field (Ev_RedactReplacement ev \<noteq> '''') ''redactReplacement'' (JStr (Ev_RedactReplacement ev)) @
           opt_field (Ev_ProxyURL ev \<noteq> '''') ''proxyUrl'' (JStr (Ev_ProxyURL ev)) @
           (case Ev_Routes ev of
              None \<Rightarrow> []
            | Some rs \<Rightarrow> [(''routes'', jobj (map (\<lambda>(k, v). (k, route_json v)) rs))]))"

definition gateway_proxy_evaluator :: json where
  "gateway_proxy_evaluator =
     jobj [(''name'', JStr ''gateway-proxy''), (''type'', JStr ''regex''), (''priority'', JInt 0),
           (''enabled'', JBool True), (''action'', JStr ''proxy''),
           (''patterns'', jstrs [''['' @ bsl @ ''s'' @ bsl @ ''S]'']),
           (''proxyProvider'', JStr ''gateway-anthropic''), (''proxyModel'', JStr ''claude-sonnet-4-6'')]"

definition observeclaw_evaluators :: "string \<Rightarrow> ClawGateway option \<Rightarrow> json list" where
  "observeclaw_evaluators gatewayURL gateway =
     (case gateway of
        None \<Rightarrow> []
      | Some gw \<Rightarrow> map observeclaw_evaluator (Routing_Evaluators (GW_Routing (Gateway_Spec gw)))) @
     (if gatewayURL \<noteq> '''' then [gateway_proxy_evaluator] else [])"

definition observeclaw_routing :: "string \<Rightarrow> ClawGateway option \<Rightarrow> json" where
  "observeclaw_routing gatewayURL gateway =
     (let evaluators = observeclaw_evaluators gatewayURL gateway in
      jobj [(''enabled'', JBool (evaluators \<noteq> [])),
            (''logRouting'', JBool (case gateway of
               None \<Rightarrow> False | Some gw \<Rightarrow> Routing_LogEveryDecision (GW_Routing (Gateway_Spec gw)))),
            (''evaluators'', JArr evaluators)])"

definition webhook_json :: "GatewayWebhookSpec \<Rightarrow> json" where
  "webhook_json wh =
     jobj ([(''url'', JStr (WH_URL wh))] @
           opt_field (WH_MinSeverity wh \<noteq> '''') ''minSeverity'' (JStr (WH_MinSeverity wh)) @
           opt_field (WH_Headers wh \<noteq> []) ''headers'' (jobj (map (\<lambda>(k, v). (k, JStr v)) (WH_Headers wh))))"

definition observeclaw_webhooks :: "ClawGateway option \<Rightarrow> json" where
  "observeclaw_webhooks gateway =
     JArr (case gateway of None \<Rightarrow> [] | Some gw \<Rightarrow> map webhook_json (GW_Webhooks (Gateway_Spec gw)))"

definition buildObserveclawConfig ::
  "(string \<Rightarrow> float64 option) \<Rightarrow> ClawAgent \<Rightarrow> string \<Rightarrow> string \<Rightarrow> ClawPolicy option \<Rightarrow> ClawGateway option \<Rightarrow> json" where
  "buildObserveclawConfig pf agent agentName gatewayURL policy gateway =
     jobj [(''enabled'', JBool True), (''currency'', JStr ''USD''),
           (''budgets'', observeclaw_budgets pf policy),
           (''downgradeModel'', JStr (observeclaw_downgradeModel policy)),
           (''downgradeProvider'', JStr (observeclaw_downgradeProvider policy)),
           (''toolPolicy'', observeclaw_toolPolicy agent policy),
           (''anomaly'', observeclaw_anomaly gateway),
           (''routing'', observeclaw_routing gatewayURL gateway),
           (''webhooks'', observeclaw_webhooks gateway)]"

section \<open>Gateway, agents, diagnostics, providers, channels\<close>

definition openclaw_gatewayCfg :: "string \<Rightarrow> json" where
  "openclaw_gatewayCfg name =
     (let port = show_int (sint openclaw_GatewayPort) in
      jobj [(''port'', JInt (sint openclaw_GatewayPort)),
            (''bind'', JStr ''lan''),
            (''http'', jobj [(''endpoints'', jobj [(''chatCompletions'', enabled_obj),
                                                 (''responses'', enabled_obj)])]),
            (''controlUi'', jobj [(''allowedOrigins'',
               jstrs [''http://'' @ name @ ''.local'',
                      ''http://'' @ name @ ''.local:8080'',
                      ''http://localhost:'' @ port,
                      ''http://127.0.0.1:'' @ port])])])"

definition openclaw_agentsCfg :: "ClawAgent \<Rightarrow> string \<Rightarrow> json" where
  "openclaw_agentsCfg agent name =
     (let m = AS_Model (Agent_Spec agent) in
      jobj [(''defaults'',
               jobj ([(''workspace'', JStr openclaw_WorkspacePath),
                      (''heartbeat'', jobj [(''every'', JStr ''5m''), (''lightContext'', JBool True),
                                          (''isolatedSession'', JBool True), (''ackMaxChars'', JInt 300)])] @
                     opt_field (Model_Provider m \<noteq> '''' \<and> Model_Name m \<noteq> '''') ''model''
                       (jobj [(''primary'', JStr (Model_Provider m @ ''/'' @ Model_Name m))]))),
            (''list'', JArr [jobj [(''id'', JStr name), (''default'', JBool True)]])])"

definition openclaw_captureContent :: "TelemetryCaptureSpec \<Rightarrow> json" where
  "openclaw_captureContent tc =
     (let explicit = (TC_InputMessages tc \<or> TC_OutputMessages tc \<or> TC_SystemInstructions tc \<or>
                      TC_ToolDefinitions tc \<or> TC_ToolContent tc);
          v = (\<lambda>b. JBool (if explicit then b else True))
      in jobj [(''inputMessages'', v (TC_InputMessages tc)),
               (''outputMessages'', v (TC_OutputMessages tc)),
               (''systemInstructions'', v (TC_SystemInstructions tc)),
               (''toolDefinitions'', v (TC_ToolDefinitions tc)),
               (''toolContent'', v (TC_ToolContent tc))])"

definition openclaw_diagnostics :: "(string \<Rightarrow> float64 option) \<Rightarrow> ClawAgent \<Rightarrow> string \<Rightarrow> string \<Rightarrow> json" where
  "openclaw_diagnostics pf agent name otlpEndpoint =
     (let tc = AS_TelemetryCapture (Agent_Spec agent);
          sampleRate = (if TC_SampleRate tc \<noteq> ''''
                        then (case pf (TC_SampleRate tc) of Some sr \<Rightarrow> sr | None \<Rightarrow> Finite ''1'')
                        else Finite ''1'')
      in jobj [(''enabled'', JBool True),
               (''otel'', jobj [(''enabled'', JBool True), (''endpoint'', JStr otlpEndpoint),
                              (''protocol'', JStr ''http/protobuf''), (''serviceName'', JStr name),
                              (''traces'', JBool True), (''metrics'', JBool True), (''logs'', JBool True),
                              (''sampleRate'', JFloat sampleRate),
                              (''captureContent'', openclaw_captureContent tc)])])"

definition gateway_anthropic_provider :: "string \<Rightarrow> json" where
  "gateway_anthropic_provider gatewayURL =
     jobj [(''baseUrl'', JStr gatewayURL), (''api'', JStr ''anthropic-messages''),
           (''apiKey'', JStr ''gateway-managed''),
           (''models'', JArr
             [jobj [(''id'', JStr ''claude-sonnet-4-6''), (''name'', JStr ''Claude Sonnet 4.6 (via gateway)''),
                    (''reasoning'', JBool True), (''input'', jstrs [''text'']),
                    (''contextWindow'', JInt 200000), (''maxTokens'', JInt 16384)],
              jobj [(''id'', JStr ''claude-haiku-4-5''), (''name'', JStr ''Claude Haiku 4.5 (via gateway)''),
                    (''reasoning'', JBool False), (''input'', jstrs [''text'']),
                    (''contextWindow'', JInt 200000), (''maxTokens'', JInt 8192)]])]"

definition direct_provider :: "string \<Rightarrow> json" where
  "direct_provider providerName =
     (let apiFormat = (if ProviderAPIFormats providerName = '''' then ''openai-responses''
                       else ProviderAPIFormats providerName);
          baseURL = (if ProviderBaseURLs providerName = '''' then ''https://api.openai.com/v1''
                     else ProviderBaseURLs providerName);
          envVar = ''${'' @ env_name providerName @ ''_API_KEY}''
      in jobj [(''baseUrl'', JStr baseURL), (''api'', JStr apiFormat), (''apiKey'', JStr envVar),
               (''models'', JArr [])])"

definition openclaw_providers :: "ClawAgent \<Rightarrow> string \<Rightarrow> (string, json) gomap" where
  "openclaw_providers agent gatewayURL =
     (let provider = Model_Provider (AS_Model (Agent_Spec agent)) in
      mputs (opt_field (gatewayURL \<noteq> '''') ''gateway-anthropic'' (gateway_anthropic_provider gatewayURL) @
             opt_field (provider \<noteq> '''') provider (direct_provider provider)) [])"

definition openclaw_channel :: "ClawChannelSpec \<Rightarrow> json" where
  "openclaw_channel ch =
     (let chType = ToUpper (Ch_Type ch) in
      jobj ([(''enabled'', JBool True)] @
            opt_field (ChannelsWithBotToken (Ch_Type ch)) ''botToken'' (JStr (''${'' @ chType @ ''_BOT_TOKEN}'')) @
            opt_field (ChannelsWithAppToken (Ch_Type ch)) ''appToken'' (JStr (''${'' @ chType @ ''_APP_TOKEN}'')) @
            map (\<lambda>(k, v). (k, JStr v)) (Ch_Config ch)))"

definition openclaw_channelsCfg :: "ClawChannel list \<Rightarrow> json" where
  "openclaw_channelsCfg channels =
     jobj (map (\<lambda>ch. (Ch_Type (Channel_Spec ch), openclaw_channel (Channel_Spec ch))) channels)"

section \<open>Plugins\<close>

definition a2a_skills :: "A2ASpec \<Rightarrow> json list" where
  "a2a_skills a2a =
     (if A2A_Skills a2a = []
      then [jobj [(''id'', JStr ''chat''), (''name'', JStr ''chat''), (''description'', JStr ''Chat bridge'')]]
      else map (\<lambda>s. jobj [(''id'', JStr s), (''name'', JStr s), (''description'', JStr s)]) (A2A_Skills a2a))"

definition peer_env_name :: "A2APeer \<Rightarrow> string" where
  "peer_env_name p = ''PEER_'' @ env_name (Peer_Name p) @ ''_TOKEN''"

definition a2a_peer :: "A2APeer \<Rightarrow> json" where
  "a2a_peer p =
     jobj ([(''name'', JStr (Peer_Name p)), (''agentCardUrl'', JStr (Peer_AgentCardURL p))] @
           opt_field (Peer_CredentialsSecret p \<noteq> '''') ''auth''
             (jobj [(''type'', JStr ''bearer''), (''token'', JStr (''${'' @ peer_env_name p @ ''}''))]))"

definition openclaw_a2aCfg :: "A2ASpec \<Rightarrow> string \<Rightarrow> string \<Rightarrow> json" where
  "openclaw_a2aCfg a2a name ns =
     (let port = ResolvedPort a2a;
          cardName = (if A2A_AgentCardName a2a = '''' then name else A2A_AgentCardName a2a);
          cardDesc = (if A2A_AgentCardDescription a2a = '''' then ''Clawbernetes agent: '' @ name
                      else A2A_AgentCardDescription a2a)
      in jobj ([(''agentCard'', jobj [(''name'', JStr cardName), (''description'', JStr cardDesc),
                   (''url'', JStr (''http://'' @ name @ ''.'' @ ns @ ''.svc.cluster.local:'' @ show_int port @ ''/a2a/jsonrpc'')),
                   (''skills'', JArr (a2a_skills a2a))]),
                (''server'', jobj [(''host'', JStr ''0.0.0.0''), (''port'', JInt port)]),
                (''routing'', jobj [(''defaultAgentId'', JStr name)])] @
               opt_field (A2A_SecurityTokenSecret a2a \<noteq> '''') ''security''
                 (jobj [(''inboundAuth'', JStr ''bearer''), (''token'', JStr ''${A2A_TOKEN}'')]) @
               opt_field (A2A_Peers a2a \<noteq> []) ''peers'' (JArr (map a2a_peer (A2A_Peers a2a)))))"

definition openclaw_pluginEntries ::
  "(string \<Rightarrow> float64 option) \<Rightarrow> ConfigInput \<Rightarrow> (string \<times> json) list" where
  "openclaw_pluginEntries pf i =
     (let agent = CI_Agent i; a2a = AS_A2A (Agent_Spec agent) in
      [(''observeclaw'', jobj [(''enabled'', JBool True),
          (''config'', buildObserveclawConfig pf agent (CI_Name i) (CI_GatewayURL i) (CI_Policy i) (CI_Gateway i))])] @
      opt_field (CI_OTLPEndpoint i \<noteq> '''') ''diagnostics-otel'' enabled_obj @
      map (\<lambda>ch. (Ch_Type (Channel_Spec ch), enabled_obj)) (CI_Channels i) @
      opt_field (A2A_Enabled a2a) ''a2a-gateway''
        (jobj [(''enabled'', JBool True), (''config'', openclaw_a2aCfg a2a (CI_Name i) (CI_Namespace i))]))"

definition openclaw_pluginAllow :: "ConfigInput \<Rightarrow> string list" where
  "openclaw_pluginAllow i =
     [''observeclaw''] @ map (\<lambda>ch. Ch_Type (Channel_Spec ch)) (CI_Channels i) @
     (if A2A_Enabled (AS_A2A (Agent_Spec (CI_Agent i))) then [''a2a-gateway''] else [])"

definition openclaw_pluginsCfg :: "(string \<Rightarrow> float64 option) \<Rightarrow> ConfigInput \<Rightarrow> json" where
  "openclaw_pluginsCfg pf i =
     jobj ([(''enabled'', JBool True), (''entries'', jobj (openclaw_pluginEntries pf i)),
            (''allow'', jstrs (openclaw_pluginAllow i))] @
           opt_field (A2A_Enabled (AS_A2A (Agent_Spec (CI_Agent i)))) ''load''
             (jobj [(''paths'', jstrs [openclaw_WorkspacePath @ ''/plugins/a2a-gateway''])]))"

section \<open>BuildConfig\<close>

definition openclaw_cfg :: "(string \<Rightarrow> float64 option) \<Rightarrow> ConfigInput \<Rightarrow> json" where
  "openclaw_cfg pf i =
     (let agent = CI_Agent i; name = CI_Name i; providers = openclaw_providers agent (CI_GatewayURL i) in
      jobj ([(''gateway'', openclaw_gatewayCfg name), (''agents'', openclaw_agentsCfg agent name)] @
            opt_field (CI_OTLPEndpoint i \<noteq> '''') ''diagnostics''
              (openclaw_diagnostics pf agent name (CI_OTLPEndpoint i)) @
            opt_field (providers \<noteq> []) ''models'' (jobj [(''providers'', JObj providers)]) @
            opt_field (CI_Channels i \<noteq> []) ''channels'' (openclaw_channelsCfg (CI_Channels i)) @
            [(''plugins'', openclaw_pluginsCfg pf i)]))"

definition openclaw_BuildConfig :: "(string \<Rightarrow> float64 option) \<Rightarrow> ConfigInput \<Rightarrow> err + string" where
  "openclaw_BuildConfig pf i =
     (case MarshalIndent (openclaw_cfg pf i) of
        Inl e \<Rightarrow> Inl (Wrap ''marshaling openclaw config: '' (OtherErr e))
      | Inr b \<Rightarrow> Inr b)"

definition OpenClawHarness :: "(string \<Rightarrow> float64 option) \<Rightarrow> Harness" where
  "OpenClawHarness pf = \<lparr>
     h_Name = ''openclaw'',
     h_DefaultImage = ''ghcr.io/openclaw/openclaw:latest'',
     h_GatewayPort = openclaw_GatewayPort,
     h_HomePath = openclaw_HomePath,
     h_WorkspacePath = openclaw_WorkspacePath,
     h_ExtensionsPath = ''/home/node/.openclaw/extensions'',
     h_ConfigFileName = openclaw_ConfigFileName,
     h_ConfigMapSuffix = ''-openclaw-config'',
     h_ReadinessPath = ''/ready'',
     h_LivenessPath = ''/health'',
     h_ContainerName = ''openclaw'',
     h_ContainerCommand = [],
     h_RunAsUser = Some 1000,
     h_BuildConfig = openclaw_BuildConfig pf,
     h_CopyExtensionsCommands = DefaultCopyExtensionsCommands openclaw_HomePath,
     h_SeedCommands = DefaultSeedCommands openclaw_ConfigFileName\<rparr>"

section \<open>When a config can be written\<close>

text \<open>Every field of a list of entries can be written.\<close>

definition fields_ok :: "(string \<times> json) list \<Rightarrow> bool" where
  "fields_ok kvs = list_all (\<lambda>(k, v). bad_float v = None) kvs"

lemma fields_ok_simps [simp]:
  "fields_ok []"
  "fields_ok ((k, v) # kvs) \<longleftrightarrow> bad_float v = None \<and> fields_ok kvs"
  "fields_ok (xs @ ys) \<longleftrightarrow> fields_ok xs \<and> fields_ok ys"
  "fields_ok (opt_field c k v) \<longleftrightarrow> (c \<longrightarrow> bad_float v = None)"
  "fields_ok (map (\<lambda>x. (f x, g x)) zs) \<longleftrightarrow> (\<forall>z \<in> set zs. bad_float (g z) = None)"
  by (auto simp: fields_ok_def opt_field_def list_all_iff)

lemma fields_ok_map_pair [simp]:
  "fields_ok (map (\<lambda>(k, v). (k, g v)) m) \<longleftrightarrow> (\<forall>(k, v) \<in> set m. bad_float (g v) = None)"
  by (auto simp: fields_ok_def list_all_iff)

lemma bad_float_ok: "fields_ok kvs \<Longrightarrow> bad_float (jobj kvs) = None"
  by (rule bad_float_jobj) (auto simp: fields_ok_def list_all_iff)

lemma bad_float_jobj_distinct:
  "distinct (map fst kvs) \<Longrightarrow> bad_float (jobj kvs) = None \<longleftrightarrow> fields_ok kvs"
  by (auto simp: bad_float_jobj_iff map_of_rev_distinct fields_ok_def list_all_iff)

lemma bad_float_JArr [simp]: "bad_float (JArr xs) = None \<longleftrightarrow> (\<forall>x \<in> set xs. bad_float x = None)"
  by (simp add: bad_float_items_None)

declare bad_float.simps(2) [simp del]

text \<open>Every part but the sampling rate and the budget threshold is free of floats.\<close>

lemma enabled_obj_ok [simp]: "bad_float enabled_obj = None"
  unfolding enabled_obj_def by (rule bad_float_ok) simp

lemma route_ok [simp]: "bad_float (route_json v) = None"
  unfolding route_json_def by (rule bad_float_ok) simp

lemma evaluator_ok [simp]: "bad_float (observeclaw_evaluator ev) = None"
  unfolding observeclaw_evaluator_def
  by (rule bad_float_ok) (cases "Ev_Routes ev"; simp add: bad_float_ok)

lemma proxy_evaluator_ok [simp]: "bad_float gateway_proxy_evaluator = None"
  unfolding gateway_proxy_evaluator_def by (rule bad_float_ok) simp

lemma routing_ok [simp]: "bad_float (observeclaw_routing u g) = None"
  unfolding observeclaw_routing_def Let_def observeclaw_evaluators_def
  by (rule bad_float_ok) (cases g; auto)

lemma webhook_ok [simp]: "bad_float (webhook_json wh) = None"
  unfolding webhook_json_def by (rule bad_float_ok) (simp add: bad_float_ok)

lemma webhooks_ok [simp]: "bad_float (observeclaw_webhooks g) = None"
  unfolding observeclaw_webhooks_def by (cases g) simp_all

lemma anomaly_ok [simp]: "bad_float (observeclaw_anomaly g) = None"
  unfolding observeclaw_anomaly_def Let_def by (cases g) (simp_all add: bad_float_ok)

lemma toolPolicy_ok [simp]: "bad_float (observeclaw_toolPolicy a p) = None"
  unfolding observeclaw_toolPolicy_def by (rule bad_float_ok) (simp add: bad_float_ok)

lemma gatewayCfg_ok [simp]: "bad_float (openclaw_gatewayCfg n) = None"
  unfolding openclaw_gatewayCfg_def Let_def by (rule bad_float_ok) (simp add: bad_float_ok)

lemma agentsCfg_ok [simp]: "bad_float (openclaw_agentsCfg a n) = None"
  unfolding openclaw_agentsCfg_def Let_def by (rule bad_float_ok) (simp add: bad_float_ok)

lemma captureContent_ok [simp]: "bad_float (openclaw_captureContent tc) = None"
  unfolding openclaw_captureContent_def Let_def by (rule bad_float_ok) simp

lemma providers_ok [simp]: "bad_float_fields (openclaw_providers a u) = None"
proof -
  have "bad_float (gateway_anthropic_provider u) = None" "bad_float (direct_provider p) = None" for p
    unfolding gateway_anthropic_provider_def direct_provider_def Let_def
    by (intro bad_float_ok; simp add: bad_float_ok)+
  then have "bad_float (jobj (opt_field (u \<noteq> '''') ''gateway-anthropic'' (gateway_anthropic_provider u) @
      opt_field (p \<noteq> '''') p (direct_provider p))) = None" for p
    by (intro bad_float_ok) simp
  then show ?thesis by (simp add: openclaw_providers_def jobj_def Let_def)
qed

lemma channel_ok [simp]: "bad_float (openclaw_channel ch) = None"
  unfolding openclaw_channel_def Let_def by (rule bad_float_ok) simp

lemma channelsCfg_ok [simp]: "bad_float (openclaw_channelsCfg chs) = None"
  unfolding openclaw_channelsCfg_def by (rule bad_float_ok) simp

lemma a2a_peer_ok [simp]: "bad_float (a2a_peer p) = None"
  unfolding a2a_peer_def by (rule bad_float_ok) (simp add: bad_float_ok)

lemma a2a_skills_ok [simp]: "x \<in> set (a2a_skills a) \<Longrightarrow> bad_float x = None"
  unfolding a2a_skills_def by (auto split: if_splits intro!: bad_float_ok)

lemma a2aCfg_ok [simp]: "bad_float (openclaw_a2aCfg a n ns) = None"
  unfolding openclaw_a2aCfg_def Let_def by (rule bad_float_ok) (simp add: bad_float_ok)

lemma bad_float_JFloat: "bad_float (JFloat f) = None \<longleftrightarrow> \<not> (\<exists>t. f = NonFinite t)"
  by (cases f) auto

lemma wf_fields_ok:
  "wf_map m \<Longrightarrow> bad_float_fields m = None \<longleftrightarrow> (\<forall>k v. mget m k = Some v \<longrightarrow> bad_float v = None)"
  by (auto simp: bad_float_fields_None set_wf_map)

lemma bad_float_mput_JInt:
  "wf_map m \<Longrightarrow> bad_float_fields m = None \<Longrightarrow> bad_float_fields (mput k (JInt x) m) = None"
  by (auto simp: wf_fields_ok gomap_simps split: if_splits)

lemma bad_float_mput:
  "wf_map m \<Longrightarrow> bad_float_fields m = None \<Longrightarrow> bad_float_fields (mput k v m) = None \<longleftrightarrow> bad_float v = None"
  by (auto simp: wf_fields_ok gomap_simps split: if_splits)

lemma bad_float_budgets:
  "bad_float (observeclaw_budgets pf policy) = None \<longleftrightarrow>
     \<not> (\<exists>p t. policy = Some p \<and> B_WarnAt (PS_Budget (Policy_Spec p)) \<noteq> '''' \<and>
            pf (B_WarnAt (PS_Budget (Policy_Spec p))) = Some (NonFinite t))"
proof -
  define d0 where "d0 = mputs [(''daily'', JInt 100), (''monthly'', JInt 2000), (''warnAt'', JFloat (Finite ''0.8''))] []"
  have "bad_float (jobj [(''daily'', JInt 100), (''monthly'', JInt 2000), (''warnAt'', JFloat (Finite ''0.8''))]) = None"
    by (rule bad_float_ok) simp
  then have d0: "wf_map d0" "bad_float_fields d0 = None"
    by (simp_all add: d0_def jobj_def)
  have agents: "bad_float (jobj []) = None" by (rule bad_float_ok) simp
  define d1 where "d1 b = (if B_Daily b > 0 then mput ''daily'' (JInt (B_Daily b)) d0 else d0)" for b
  define d2 where "d2 b = (if B_Monthly b > 0 then mput ''monthly'' (JInt (B_Monthly b)) (d1 b) else d1 b)" for b
  have d1: "wf_map (d1 b)" "bad_float_fields (d1 b) = None" for b
    using d0 by (simp_all add: d1_def bad_float_mput_JInt)
  have d2: "wf_map (d2 b)" "bad_float_fields (d2 b) = None" for b
    using d1 by (simp_all add: d2_def bad_float_mput_JInt)
  show ?thesis
    unfolding observeclaw_budgets_def Let_def d0_def [symmetric] d1_def [symmetric] d2_def [symmetric]
    by (cases policy) (auto simp: bad_float_jobj_distinct d0 d2 agents bad_float_mput bad_float_JFloat
        split: option.splits)
qed

lemma bad_float_diagnostics:
  "bad_float (openclaw_diagnostics pf agent name e) = None \<longleftrightarrow>
     \<not> (\<exists>t. TC_SampleRate (AS_TelemetryCapture (Agent_Spec agent)) \<noteq> '''' \<and>
          pf (TC_SampleRate (AS_TelemetryCapture (Agent_Spec agent))) = Some (NonFinite t))"
  unfolding openclaw_diagnostics_def Let_def
  by (simp add: bad_float_jobj_distinct bad_float_JFloat split: option.splits)

lemma bad_float_observeclaw:
  "bad_float (buildObserveclawConfig pf a n u p g) = None \<longleftrightarrow> bad_float (observeclaw_budgets pf p) = None"
  unfolding buildObserveclawConfig_def by (simp add: bad_float_jobj_distinct)

lemma bad_float_entries:
  "bad_float (jobj (openclaw_pluginEntries pf i)) = None \<longleftrightarrow>
    ''observeclaw'' \<in> (\<lambda>ch. Ch_Type (Channel_Spec ch)) ` set (CI_Channels i) \<or>
    bad_float (observeclaw_budgets pf (CI_Policy i)) = None"
proof -
  define oc where "oc = jobj [(''enabled'', JBool True), (''config'',
    buildObserveclawConfig pf (CI_Agent i) (CI_Name i) (CI_GatewayURL i) (CI_Policy i) (CI_Gateway i))]"
  define rest where "rest = tl (openclaw_pluginEntries pf i)"
  have entries: "openclaw_pluginEntries pf i = (''observeclaw'', oc) # rest"
    by (simp add: openclaw_pluginEntries_def oc_def rest_def Let_def)
  have a2a: "bad_float (jobj [(''enabled'', JBool True), (''config'', openclaw_a2aCfg a n ns)]) = None" for a n ns
    by (rule bad_float_ok) simp
  have rest: "(k, v) \<in> set rest \<Longrightarrow> bad_float v = None" for k v
    by (auto simp: rest_def openclaw_pluginEntries_def Let_def opt_field_def a2a split: if_splits)
  have later: "''observeclaw'' \<in> fst ` set rest \<longleftrightarrow>
      ''observeclaw'' \<in> (\<lambda>ch. Ch_Type (Channel_Spec ch)) ` set (CI_Channels i)"
    by (auto simp add: rest_def openclaw_pluginEntries_def Let_def opt_field_def image_Un image_image)
  have "map_of (rev ((''observeclaw'', oc) # rest)) k = Some v \<Longrightarrow>
      (k = ''observeclaw'' \<and> v = oc \<and> ''observeclaw'' \<notin> fst ` set rest) \<or> bad_float v = None" for k v
    using rest by (auto simp: map_add_def map_of_eq_None_iff split: option.splits if_splits dest!: map_of_SomeD)
  moreover have "''observeclaw'' \<notin> fst ` set rest \<Longrightarrow>
      map_of (rev ((''observeclaw'', oc) # rest)) ''observeclaw'' = Some oc"
    using map_of_eq_None_iff [of "rev rest" "''observeclaw''"] by (simp add: map_add_def)
  ultimately have "bad_float (jobj ((''observeclaw'', oc) # rest)) = None \<longleftrightarrow>
      ''observeclaw'' \<in> fst ` set rest \<or> bad_float oc = None"
    unfolding bad_float_jobj_iff by (metis (no_types, lifting))
  also have "bad_float oc = None \<longleftrightarrow> bad_float (observeclaw_budgets pf (CI_Policy i)) = None"
    by (simp add: oc_def bad_float_jobj_distinct bad_float_observeclaw)
  finally show ?thesis by (simp only: entries later)
qed

lemma bad_float_plugins:
  "bad_float (openclaw_pluginsCfg pf i) = None \<longleftrightarrow> bad_float (jobj (openclaw_pluginEntries pf i)) = None"
proof -
  have "bad_float (jobj [(''paths'', jstrs xs)]) = None" for xs
    by (rule bad_float_ok) simp
  then show ?thesis
    unfolding openclaw_pluginsCfg_def
    by (subst bad_float_jobj_distinct) (simp_all add: opt_field_def)
qed

lemma bad_float_cfg:
  "bad_float (openclaw_cfg pf i) = None \<longleftrightarrow>
      (CI_OTLPEndpoint i \<noteq> '''' \<longrightarrow>
         bad_float (openclaw_diagnostics pf (CI_Agent i) (CI_Name i) (CI_OTLPEndpoint i)) = None) \<and>
      (''observeclaw'' \<in> (\<lambda>ch. Ch_Type (Channel_Spec ch)) ` set (CI_Channels i) \<or>
       bad_float (observeclaw_budgets pf (CI_Policy i)) = None)"
proof -
  have prov: "bad_float (jobj [(''providers'', JObj (openclaw_providers a u))]) = None" for a u
    by (rule bad_float_ok) simp
  show ?thesis
    unfolding openclaw_cfg_def Let_def
    by (subst bad_float_jobj_distinct)
      (simp_all add: opt_field_def prov bad_float_plugins bad_float_entries)
qed

lemma openclaw_BuildConfig_Inl: "(\<exists>e. openclaw_BuildConfig pf i = Inl e) \<longleftrightarrow> bad_float (openclaw_cfg pf i) \<noteq> None"
  by (auto simp: openclaw_BuildConfig_def MarshalIndent_def split: option.splits)

text \<open>C16: \<open>BuildConfig\<close> of OpenClaw fails exactly when a number the user wrote, and the config takes
  up, parses to NaN or an infinity: the trace sampling rate, which is only taken up with an OTLP
  endpoint set, or the warning threshold of the policy's budget, which is only taken up when no
  channel of type \<open>observeclaw\<close> has replaced the plugin's entry with its own. Text that does not
  parse never fails, it keeps the default.\<close>

theorem openclaw_config_error_iff:
  "(\<exists>e. openclaw_BuildConfig pf i = Inl e) \<longleftrightarrow>
    CI_OTLPEndpoint i \<noteq> '''' \<and>
      (\<exists>t. TC_SampleRate (AS_TelemetryCapture (Agent_Spec (CI_Agent i))) \<noteq> '''' \<and>
           pf (TC_SampleRate (AS_TelemetryCapture (Agent_Spec (CI_Agent i)))) = Some (NonFinite t)) \<or>
    ''observeclaw'' \<notin> (\<lambda>ch. Ch_Type (Channel_Spec ch)) ` set (CI_Channels i) \<and>
    (\<exists>p t. CI_Policy i = Some p \<and> B_WarnAt (PS_Budget (Policy_Spec p)) \<noteq> '''' \<and>
           pf (B_WarnAt (PS_Budget (Policy_Spec p))) = Some (NonFinite t))"
  unfolding openclaw_BuildConfig_Inl bad_float_cfg bad_float_budgets bad_float_diagnostics by blast

text \<open>A configuration input for examples: a named agent with an otherwise zero spec.\<close>

definition example_input :: "ClawAgentSpec \<Rightarrow> ConfigInput" where
  "example_input spec = \<lparr>CI_Agent = zero_ClawAgent\<lparr>Agent_Meta := new_meta ''eng'' ''prod'' [], Agent_Spec := spec\<rparr>,
     CI_Namespace = ''prod'', CI_Name = ''eng'', CI_GatewayURL = '''', CI_OTLPEndpoint = ''http://otel'',
     CI_Policy = None, CI_Gateway = None, CI_Channels = []\<rparr>"

theorem openclaw_config_error_iff_witness:
  "\<exists>e. openclaw_BuildConfig (\<lambda>s. Some (NonFinite s))
     (example_input (zero_ClawAgentSpec\<lparr>AS_TelemetryCapture := zero_TelemetryCaptureSpec\<lparr>TC_SampleRate := ''NaN''\<rparr>\<rparr>)) = Inl e"
  by (subst openclaw_config_error_iff) (simp_all add: example_input_def)

section \<open>Plugins and tools\<close>

lemma fst_opt_field [simp]: "fst ` set (opt_field c k v) = (if c then {k} else {})"
  by (simp add: opt_field_def)

lemma jfield_dom: "(\<exists>v. jfield (jobj kvs) k = Some v) \<longleftrightarrow> k \<in> fst ` set kvs"
  using map_of_eq_None_iff [of "rev kvs" k] by auto

lemma plugins_fields:
  "jfield (openclaw_pluginsCfg pf i) ''entries'' = Some (jobj (openclaw_pluginEntries pf i))"
  "jfield (openclaw_pluginsCfg pf i) ''allow'' = Some (jstrs (openclaw_pluginAllow i))"
  by (simp_all add: openclaw_pluginsCfg_def opt_field_def)

lemma cfg_plugins: "jfield (openclaw_cfg pf i) ''plugins'' = Some (openclaw_pluginsCfg pf i)"
  by (simp add: openclaw_cfg_def Let_def)

lemma pluginAllow_set:
  "set (openclaw_pluginAllow i) = {''observeclaw''} \<union> (\<lambda>ch. Ch_Type (Channel_Spec ch)) ` set (CI_Channels i) \<union>
     (if A2A_Enabled (AS_A2A (Agent_Spec (CI_Agent i))) then {''a2a-gateway''} else {})"
  by (auto simp: openclaw_pluginAllow_def)

lemma pluginEntries_keys:
  "fst ` set (openclaw_pluginEntries pf i) =
     set (openclaw_pluginAllow i) \<union> (if CI_OTLPEndpoint i \<noteq> '''' then {''diagnostics-otel''} else {})"
  by (auto simp: openclaw_pluginEntries_def pluginAllow_set Let_def image_Un image_image opt_field_def)

text \<open>In the generated \<open>openclaw.json\<close>, the plugins with an entry are those of the allow list,
  and \<open>diagnostics-otel\<close> when an OTLP endpoint is set. The code's comment asks for an allow
  list of all active plugins; with an endpoint set the diagnostics plugin is the one left out.\<close>

theorem openclaw_plugins_allowed:
  "\<exists>entries allow.
     jpath (openclaw_cfg pf i) [''plugins'', ''entries''] = Some entries \<and>
     jpath (openclaw_cfg pf i) [''plugins'', ''allow''] = Some (jstrs allow) \<and>
     {p. \<exists>v. jfield entries p = Some v} =
       set allow \<union> (if CI_OTLPEndpoint i \<noteq> '''' then {''diagnostics-otel''} else {}) \<and>
     (''diagnostics-otel'' \<in> set allow \<longleftrightarrow>
       ''diagnostics-otel'' \<in> (\<lambda>ch. Ch_Type (Channel_Spec ch)) ` set (CI_Channels i))"
proof (intro exI conjI)
  show "jpath (openclaw_cfg pf i) [''plugins'', ''entries''] = Some (jobj (openclaw_pluginEntries pf i))"
    "jpath (openclaw_cfg pf i) [''plugins'', ''allow''] = Some (jstrs (openclaw_pluginAllow i))"
    by (simp_all del: jfield_jobj add: cfg_plugins plugins_fields)
  show "{p. \<exists>v. jfield (jobj (openclaw_pluginEntries pf i)) p = Some v} =
      set (openclaw_pluginAllow i) \<union> (if CI_OTLPEndpoint i \<noteq> '''' then {''diagnostics-otel''} else {})"
    by (simp only: jfield_dom Collect_mem_eq pluginEntries_keys)
  show "''diagnostics-otel'' \<in> set (openclaw_pluginAllow i) \<longleftrightarrow>
      ''diagnostics-otel'' \<in> (\<lambda>ch. Ch_Type (Channel_Spec ch)) ` set (CI_Channels i)"
    by (auto simp: pluginAllow_set)
qed

lemma observeclaw_entry:
  assumes "''observeclaw'' \<notin> (\<lambda>ch. Ch_Type (Channel_Spec ch)) ` set (CI_Channels i)"
  shows "jfield (jobj (openclaw_pluginEntries pf i)) ''observeclaw'' =
    Some (jobj [(''enabled'', JBool True), (''config'', buildObserveclawConfig pf (CI_Agent i) (CI_Name i)
      (CI_GatewayURL i) (CI_Policy i) (CI_Gateway i))])"
proof -
  have "map_of (rev (map (\<lambda>ch. (Ch_Type (Channel_Spec ch), enabled_obj)) (CI_Channels i))) ''observeclaw'' = None"
    using assms by (auto simp: map_of_eq_None_iff)
  then show ?thesis
    by (simp add: openclaw_pluginEntries_def Let_def opt_field_def map_add_def)
qed

text \<open>C15: The tool policy in \<open>openclaw.json\<close> lists the policy's denied tools, in its order, and, when
  the agent mounts a credentials secret, the patterns that keep file tools away from it, whether
  or not a policy is given; the allow list is the policy's.\<close>

theorem openclaw_tool_policy:
  assumes "''observeclaw'' \<notin> (\<lambda>ch. Ch_Type (Channel_Spec ch)) ` set (CI_Channels i)"
  defines "tools \<equiv> case CI_Policy i of None \<Rightarrow> \<lparr>TP_Allow = [], TP_Deny = []\<rparr> | Some p \<Rightarrow> PS_ToolPolicy (Policy_Spec p)"
    and "defaults \<equiv> [''plugins'', ''entries'', ''observeclaw'', ''config'', ''toolPolicy'', ''defaults'']"
  shows "jpath (openclaw_cfg pf i) (defaults @ [''deny'']) =
      Some (jstrs (TP_Deny tools @
        (if AS_CredentialsSecret (Agent_Spec (CI_Agent i)) = '''' then []
         else [''/home/node/.openclaw/credentials/*'', ''cat.*credentials'', ''grep.*credentials'',
               ''head.*credentials'', ''tail.*credentials'', ''less.*credentials'', ''base64.*credentials'']))) \<and>
    jpath (openclaw_cfg pf i) (defaults @ [''allow'']) = Some (jstrs (TP_Allow tools))"
proof -
  have "jpath (openclaw_cfg pf i) (defaults @ [k]) =
      jpath (observeclaw_toolPolicy (CI_Agent i) (CI_Policy i)) [''defaults'', k]" for k
    by (simp add: defaults_def cfg_plugins plugins_fields observeclaw_entry [OF assms(1)]
        buildObserveclawConfig_def del: jfield_jobj) (simp add: buildObserveclawConfig_def)
  then show ?thesis
    by (simp add: tools_def observeclaw_toolPolicy_def observeclaw_deny_def observeclaw_allow_def
        credential_deny_patterns_def openclaw_HomePath_def split: option.splits)
qed

theorem openclaw_tool_policy_witness:
  "jpath (openclaw_cfg (\<lambda>_. None) (example_input (zero_ClawAgentSpec\<lparr>AS_CredentialsSecret := ''creds''\<rparr>)))
     [''plugins'', ''entries'', ''observeclaw'', ''config'', ''toolPolicy'', ''defaults'', ''allow''] = Some (jstrs [])"
  using openclaw_tool_policy [of "example_input (zero_ClawAgentSpec\<lparr>AS_CredentialsSecret := ''creds''\<rparr>)" "\<lambda>_. None"]
  by (simp add: example_input_def)

end
