(* ===== verification/Hermes.thy ===== *)
theory Hermes
  imports Harness
begin

text \<open>
  The Hermes runtime (\<open>internal/harness/hermes.go\<close>): its constants, its init commands and the
  YAML text of its config. \<open>rng\<close> is the order in which the loop over a channel's config map
  visits it.
\<close>

definition hermes_ConfigFileName :: string where
  "hermes_ConfigFileName = ''config.yaml''"

definition hermes_GatewayPort :: int32 where
  "hermes_GatewayPort = 8642"


definition hermes_CopyExtensionsCommands :: "string list" where
  "hermes_CopyExtensionsCommands =
     [''mkdir -p /harness-home/plugins'',
      ''echo '' @ sq @ ''hermes plugin dir ready'' @ sq]"

definition hermes_SeedCommands :: "string list" where
  "hermes_SeedCommands =
     [''mkdir -p /harness-home/memories /harness-home/skills /harness-home/plugins'',
      ''cp /config-src/'' @ hermes_ConfigFileName @ '' /harness-home/'' @ hermes_ConfigFileName,
      ''echo '' @ sq @ ''GATEWAY_ALLOW_ALL_USERS=true'' @ sq @ '' > /harness-home/.env'',
      ''echo '' @ sq @ ''GATEWAY_HTTP_ENABLED=true'' @ sq @ '' >> /harness-home/.env'',
      ''cp /config-src/HEARTBEAT.md /harness-home/skills/HEARTBEAT.md 2>/dev/null || true'',
      ''cp /identity-src/SOUL.md /harness-home/SOUL.md 2>/dev/null || true'',
      ''cp /identity-src/USER.md /harness-home/memories/USER.md 2>/dev/null || true'',
      ''cp /identity-src/IDENTITY.md /harness-home/memories/IDENTITY.md 2>/dev/null || true'',
      ''for f in /skills-src/*; do [ -f '' @ dq @ ''$f'' @ dq @ '' ] && skill=$(basename '' @ dq @ ''$f'' @ dq @
      '') && mkdir -p /harness-home/skills/$skill && cp '' @ dq @ ''$f'' @ dq @
      '' /harness-home/skills/$skill/SKILL.md; done || true'',
      ''echo '' @ sq @ ''hermes workspace seeded'' @ sq]"

definition hermesProviderName :: "string \<Rightarrow> string" where
  "hermesProviderName provider =
     (if provider = ''anthropic'' then ''anthropic''
      else if provider = ''openai'' then ''openai''
      else if provider = ''google'' then ''google''
      else provider)"

text \<open>A line of the file.\<close>

definition ln :: "string \<Rightarrow> string" where
  "ln s = s @ nl"

definition hermes_model :: "AgentModelSpec \<Rightarrow> string" where
  "hermes_model m =
     (if Model_Provider m \<noteq> '''' then
        ln ''model:'' @
        ln (''  provider: '' @ hermesProviderName (Model_Provider m)) @
        (if Model_Name m \<noteq> '''' then ln (''  model: '' @ Model_Name m) else []) @
        ln (''  api_key: '' @ ''${'' @ env_name (Model_Provider m) @ ''_API_KEY}'') @
        nl
      else [])"

definition hermes_fixed :: string where
  "hermes_fixed =
     ln ''gateway:'' @
     ln (''  port: '' @ show_int (sint hermes_GatewayPort)) @
     ln ''  host: 0.0.0.0'' @ nl @
     ln ''terminal:'' @
     ln ''  backend: local'' @ nl @
     ln ''memory:'' @
     ln ''  limit: 100000'' @
     ln ''  user_profile_tokens: 2000'' @ nl @
     ln ''security:'' @
     ln ''  redact_secrets: true'' @ nl"

definition hermes_channel ::
  "((string, string) gomap \<Rightarrow> (string \<times> string) list) \<Rightarrow> ClawChannelSpec \<Rightarrow> string" where
  "hermes_channel rng ch =
     (let chType = Ch_Type ch; upperType = ToUpper chType in
      ln (''  '' @ chType @ '':'') @
      ln ''    enabled: true'' @
      (if ChannelsWithBotToken chType then ln (''    bot_token: ${'' @ upperType @ ''_BOT_TOKEN}'') else []) @
      (if ChannelsWithAppToken chType then ln (''    app_token: ${'' @ upperType @ ''_APP_TOKEN}'') else []) @
      concat (map (\<lambda>(k, v). ln (''    '' @ k @ '': '' @ v)) (rng (Ch_Config ch))))"

definition hermes_channels ::
  "((string, string) gomap \<Rightarrow> (string \<times> string) list) \<Rightarrow> ClawChannel list \<Rightarrow> string" where
  "hermes_channels rng channels =
     (if channels \<noteq> [] then
        ln ''channels:'' @ concat (map (\<lambda>ch. hermes_channel rng (Channel_Spec ch)) channels) @ nl
      else [])"

definition hermes_diagnostics :: "string \<Rightarrow> string \<Rightarrow> string" where
  "hermes_diagnostics name otlpEndpoint =
     (if otlpEndpoint \<noteq> '''' then
        ln ''diagnostics:'' @
        ln ''  otel:'' @
        ln ''    enabled: true'' @
        ln (''    endpoint: '' @ otlpEndpoint) @
        ln (''    service_name: '' @ name) @ nl
      else [])"

definition hermes_text ::
  "((string, string) gomap \<Rightarrow> (string \<times> string) list) \<Rightarrow> ConfigInput \<Rightarrow> string" where
  "hermes_text rng i =
     ln (''# Hermes Agent config '' @ em_dash @ '' generated by Clawbernetes operator'') @
     ln (''# Agent: '' @ CI_Name i) @ nl @
     hermes_model (AS_Model (Agent_Spec (CI_Agent i))) @
     hermes_fixed @
     hermes_channels rng (CI_Channels i) @
     hermes_diagnostics (CI_Name i) (CI_OTLPEndpoint i)"

definition hermes_BuildConfig ::
  "((string, string) gomap \<Rightarrow> (string \<times> string) list) \<Rightarrow> ConfigInput \<Rightarrow> err + string" where
  "hermes_BuildConfig rng i = Inr (hermes_text rng i)"

definition HermesHarness :: "((string, string) gomap \<Rightarrow> (string \<times> string) list) \<Rightarrow> Harness" where
  "HermesHarness rng = \<lparr>
     h_Name = ''hermes'',
     h_DefaultImage = ''nousresearch/hermes-agent:latest'',
     h_GatewayPort = hermes_GatewayPort,
     h_HomePath = ''/opt/data'',
     h_WorkspacePath = ''/opt/data/skills'',
     h_ExtensionsPath = ''/opt/data/plugins'',
     h_ConfigFileName = hermes_ConfigFileName,
     h_ConfigMapSuffix = ''-hermes-config'',
     h_ReadinessPath = '''',
     h_LivenessPath = '''',
     h_ContainerName = ''hermes'',
     h_ContainerCommand = [''hermes'', ''gateway'', ''run''],
     h_RunAsUser = None,
     h_BuildConfig = hermes_BuildConfig rng,
     h_CopyExtensionsCommands = hermes_CopyExtensionsCommands,
     h_SeedCommands = hermes_SeedCommands\<rparr>"

lemma hermesProviderName_id [simp]: "hermesProviderName p = p"
  by (simp add: hermesProviderName_def)

end
