(* ===== verification/Registry.thy ===== *)
theory Registry
  imports OpenClaw Hermes
begin

text \<open>
  The ObserveClaw runtime (\<open>internal/harness/observeclaw.go\<close>), which embeds OpenClaw and
  overrides four methods, the registry \<open>ForType\<close> (\<open>registry.go\<close>), and what holds of every
  runtime: the contract of \<open>Harness\<close>, config maps of different runtimes kept apart, and configs
  that do not depend on the names of secrets.
\<close>

definition ObserveClawHarness :: "(string \<Rightarrow> float64 option) \<Rightarrow> Harness" where
  "ObserveClawHarness pf = (OpenClawHarness pf)\<lparr>
     h_Name := ''observeclaw'',
     h_DefaultImage := ''clawbernetes/openclaw:latest'',
     h_ConfigMapSuffix := ''-observeclaw-config'',
     h_ContainerName := ''observeclaw''\<rparr>"

definition ForType :: "ext \<Rightarrow> HarnessType \<Rightarrow> Harness" where
  "ForType x t =
     (if t = HarnessObserveClaw then ObserveClawHarness (ext_ParseFloat x)
      else if t = HarnessHermes then HermesHarness (ext_rangeOrder x)
      else OpenClawHarness (ext_ParseFloat x))"

lemmas harness_defs = OpenClawHarness_def ObserveClawHarness_def HermesHarness_def
  openclaw_HomePath_def openclaw_WorkspacePath_def openclaw_ConfigFileName_def openclaw_GatewayPort_def
  hermes_ConfigFileName_def hermes_GatewayPort_def

interpretation openclaw: harness_contract "OpenClawHarness pf" for pf
  by unfold_locales (simp_all add: harness_defs starts_with_def DefaultSeedCommands_def)

interpretation observeclaw: harness_contract "ObserveClawHarness pf" for pf
  by unfold_locales (simp_all add: harness_defs starts_with_def DefaultSeedCommands_def)

interpretation hermes: harness_contract "HermesHarness rng" for rng
  by unfold_locales (simp_all add: harness_defs starts_with_def hermes_SeedCommands_def)

lemma ForType_all:
  "(\<And>pf. P (OpenClawHarness pf)) \<Longrightarrow> (\<And>pf. P (ObserveClawHarness pf)) \<Longrightarrow>
     (\<And>rng. P (HermesHarness rng)) \<Longrightarrow> P (ForType x t)"
  by (simp add: ForType_def)

interpretation for_type: harness_contract "ForType x t" for x t
  by (rule ForType_all [of harness_contract])
    (rule openclaw.harness_contract_axioms observeclaw.harness_contract_axioms
      hermes.harness_contract_axioms)+

section \<open>Names\<close>

lemma suffix_cases:
  "h_ConfigMapSuffix (ForType x t) \<in> {''-openclaw-config'', ''-observeclaw-config'', ''-hermes-config''}"
  by (rule ForType_all [of "\<lambda>h. h_ConfigMapSuffix h \<in> _"]) (simp_all add: harness_defs)

lemma append_last_clash: "last s \<noteq> last s' \<Longrightarrow> s \<noteq> [] \<Longrightarrow> s' \<noteq> [] \<Longrightarrow> n @ s \<noteq> n' @ s'"
  by (metis last_appendR)

lemma snoc_suffix_clash: "n @ s @ r = n' @ s' @ r \<longleftrightarrow> n @ s = n' @ s'"
  by (metis append.assoc append_same_eq)

lemma openclaw_observeclaw_clash: "n @ ''-openclaw-config'' \<noteq> n' @ ''-observeclaw-config''"
proof -
  have "n @ ''-open'' \<noteq> n' @ ''-observe''" by (rule append_last_clash) simp_all
  then show ?thesis
    using snoc_suffix_clash [of n "''-open''" "''claw-config''" n' "''-observe''"] by simp
qed

lemma openclaw_hermes_clash: "n @ ''-openclaw-config'' \<noteq> n' @ ''-hermes-config''"
proof -
  have "n @ ''-openclaw'' \<noteq> n' @ ''-hermes''" by (rule append_last_clash) simp_all
  then show ?thesis
    using snoc_suffix_clash [of n "''-openclaw''" "''-config''" n' "''-hermes''"] by simp
qed

lemma observeclaw_hermes_clash: "n @ ''-observeclaw-config'' \<noteq> n' @ ''-hermes-config''"
proof -
  have "n @ ''-observeclaw'' \<noteq> n' @ ''-hermes''" by (rule append_last_clash) simp_all
  then show ?thesis
    using snoc_suffix_clash [of n "''-observeclaw''" "''-config''" n' "''-hermes''"] by simp
qed

lemmas suffix_clashes = openclaw_observeclaw_clash openclaw_hermes_clash observeclaw_hermes_clash
  openclaw_observeclaw_clash [symmetric] openclaw_hermes_clash [symmetric]
  observeclaw_hermes_clash [symmetric]

text \<open>Config map names tell agents and runtimes apart.\<close>

lemma config_map_name_inj:
  "name @ h_ConfigMapSuffix (ForType x t) = name' @ h_ConfigMapSuffix (ForType x t') \<Longrightarrow>
     name = name' \<and> h_ConfigMapSuffix (ForType x t) = h_ConfigMapSuffix (ForType x t')"
  using suffix_cases [of x t] suffix_cases [of x t'] suffix_clashes
  by (elim insertE emptyE) (simp_all del: append_assoc)

section \<open>Configs and secrets\<close>

text \<open>Every secret an agent or its channels name, renamed.\<close>

definition rename_peer :: "(string \<Rightarrow> string) \<Rightarrow> A2APeer \<Rightarrow> A2APeer" where
  "rename_peer f p = p\<lparr>Peer_CredentialsSecret := f (Peer_CredentialsSecret p)\<rparr>"

definition rename_a2a :: "(string \<Rightarrow> string) \<Rightarrow> A2ASpec \<Rightarrow> A2ASpec" where
  "rename_a2a f a = a\<lparr>A2A_SecurityTokenSecret := f (A2A_SecurityTokenSecret a),
     A2A_Peers := map (rename_peer f) (A2A_Peers a)\<rparr>"

definition rename_agent :: "(string \<Rightarrow> string) \<Rightarrow> ClawAgent \<Rightarrow> ClawAgent" where
  "rename_agent f a = a\<lparr>Agent_Spec := (Agent_Spec a)
     \<lparr>AS_CredentialsSecret := f (AS_CredentialsSecret (Agent_Spec a)),
      AS_A2A := rename_a2a f (AS_A2A (Agent_Spec a))\<rparr>\<rparr>"

definition rename_channel :: "(string \<Rightarrow> string) \<Rightarrow> ClawChannel \<Rightarrow> ClawChannel" where
  "rename_channel f ch = ch\<lparr>Channel_Spec := (Channel_Spec ch)
     \<lparr>Ch_CredentialsSecret := f (Ch_CredentialsSecret (Channel_Spec ch))\<rparr>\<rparr>"

definition rename_secrets :: "(string \<Rightarrow> string) \<Rightarrow> ConfigInput \<Rightarrow> ConfigInput" where
  "rename_secrets f i = i\<lparr>CI_Agent := rename_agent f (CI_Agent i),
     CI_Channels := map (rename_channel f) (CI_Channels i)\<rparr>"

lemma a2a_peer_rename: "(\<And>s. f s = '''' \<longleftrightarrow> s = '''') \<Longrightarrow> a2a_peer (rename_peer f p) = a2a_peer p"
  by (simp add: a2a_peer_def rename_peer_def peer_env_name_def)

lemma a2aCfg_rename:
  "(\<And>s. f s = '''' \<longleftrightarrow> s = '''') \<Longrightarrow> openclaw_a2aCfg (rename_a2a f a) name ns = openclaw_a2aCfg a name ns"
  by (simp add: openclaw_a2aCfg_def rename_a2a_def a2a_skills_def ResolvedPort_def a2a_peer_rename comp_def)

lemma observeclaw_rename:
  "(\<And>s. f s = '''' \<longleftrightarrow> s = '''') \<Longrightarrow>
     buildObserveclawConfig pf (rename_agent f a) n u p g = buildObserveclawConfig pf a n u p g"
  by (simp add: buildObserveclawConfig_def observeclaw_toolPolicy_def observeclaw_deny_def rename_agent_def)

lemma channel_rename: "openclaw_channel (Channel_Spec (rename_channel f ch)) = openclaw_channel (Channel_Spec ch)"
  "Ch_Type (Channel_Spec (rename_channel f ch)) = Ch_Type (Channel_Spec ch)"
  "hermes_channel rng (Channel_Spec (rename_channel f ch)) = hermes_channel rng (Channel_Spec ch)"
  by (simp_all add: openclaw_channel_def hermes_channel_def rename_channel_def)

lemma openclaw_cfg_rename:
  assumes "\<And>s. f s = '''' \<longleftrightarrow> s = ''''"
  shows "openclaw_cfg pf (rename_secrets f i) = openclaw_cfg pf i"
proof -
  have spec: "AS_Model (Agent_Spec (rename_agent f a)) = AS_Model (Agent_Spec a)"
    "AS_TelemetryCapture (Agent_Spec (rename_agent f a)) = AS_TelemetryCapture (Agent_Spec a)"
    "AS_A2A (Agent_Spec (rename_agent f a)) = rename_a2a f (AS_A2A (Agent_Spec a))"
    "A2A_Enabled (rename_a2a f (AS_A2A (Agent_Spec a))) = A2A_Enabled (AS_A2A (Agent_Spec a))" for a
    by (simp_all add: rename_agent_def rename_a2a_def)
  have "openclaw_pluginsCfg pf (rename_secrets f i) = openclaw_pluginsCfg pf i"
    by (simp add: openclaw_pluginsCfg_def openclaw_pluginEntries_def openclaw_pluginAllow_def
        rename_secrets_def spec observeclaw_rename [OF assms] a2aCfg_rename [OF assms] channel_rename comp_def Let_def)
  then show ?thesis
    by (simp add: openclaw_cfg_def openclaw_agentsCfg_def openclaw_diagnostics_def openclaw_providers_def
        openclaw_channelsCfg_def rename_secrets_def spec channel_rename comp_def Let_def)
qed

lemma hermes_text_rename: "hermes_text rng (rename_secrets f i) = hermes_text rng i"
  by (simp add: hermes_text_def hermes_channels_def rename_secrets_def rename_agent_def channel_rename comp_def)

text \<open>C12: A generated config never contains the name of a secret. Whatever the runtime, replacing
  every secret name in the agent, its A2A peers and its channels by any other non-empty name
  leaves the outcome of \<open>BuildConfig\<close>, text or error, as it is: the config depends only on
  whether a secret is given, and refers to credentials by environment variables.\<close>

theorem config_ignores_secret_names:
  assumes "\<And>s. f s = '''' \<longleftrightarrow> s = ''''"
  shows "h_BuildConfig (ForType x t) (rename_secrets f i) = h_BuildConfig (ForType x t) i"
  by (rule ForType_all [of "\<lambda>h. h_BuildConfig h (rename_secrets f i) = h_BuildConfig h i"])
    (simp_all add: harness_defs openclaw_BuildConfig_def hermes_BuildConfig_def
      openclaw_cfg_rename [OF assms] hermes_text_rename)

theorem config_ignores_secret_names_witness:
  "h_BuildConfig (ForType example_ext HarnessHermes) (rename_secrets (\<lambda>s. if s = '''' then '''' else ''hidden'')
     (example_input (zero_ClawAgentSpec\<lparr>AS_CredentialsSecret := ''creds''\<rparr>))) =
   h_BuildConfig (ForType example_ext HarnessHermes) (example_input (zero_ClawAgentSpec\<lparr>AS_CredentialsSecret := ''creds''\<rparr>))"
  by (rule config_ignores_secret_names) simp

end
