(* ===== verification/AgentBuilders.thy ===== *)
theory AgentBuilders
  imports Registry
begin

text \<open>
  The objects the agent controller wants to exist, as pure functions of the agent and of what
  its references resolved to (the builders of \<open>internal/controller/clawagent_controller.go\<close>):
  three config maps, the workspace's claim, the migration pod, the deployment and the service.
\<close>

section \<open>Heartbeat and tools\<close>

definition heartbeatMD :: "string \<Rightarrow> string" where
  "heartbeatMD name =
     ''# Heartbeat '' @ em_dash @ '' '' @ name @ nl @ nl @
     ''Check the following and respond HEARTBEAT_OK if everything is normal.'' @ nl @
     ''Only raise an alert if something needs attention.'' @ nl @ nl @ ''- Am I responsive?'' @
     nl @ ''- Are my tools accessible?'' @ nl @ ''- Is my workspace intact?'' @ nl"

definition peer_url :: "string \<Rightarrow> A2APeer \<Rightarrow> string" where
  "peer_url ns p = ''http://'' @ Peer_Name p @ ''.'' @ ns @ ''.svc.cluster.local:18800''"

definition tools_peer_row :: "A2APeer \<Rightarrow> string" where
  "tools_peer_row p =
     ''| '' @ Peer_Name p @ '' | '' @ Peer_AgentCardURL p @ '' |'' @ nl"

definition tools_peer_reference :: "string \<Rightarrow> A2APeer \<Rightarrow> string" where
  "tools_peer_reference ns p =
     ''**'' @ Peer_Name p @ '':**'' @ nl @ ''```bash'' @ nl @
     ''node /home/node/.openclaw/workspace/plugins/a2a-gateway/skill/scripts/a2a-send.mjs --peer-url '' @
     peer_url ns p @ '' --token '' @ dq @ ''$'' @ peer_env_name p @ dq @
     '' --non-blocking --wait --message '' @ dq @ ''your message'' @ dq @ nl @ ''```'' @ nl @ nl"

definition tools_intro :: string where
  "tools_intro =
     ''## A2A Gateway (Agent-to-Agent Communication)'' @ nl @ nl @
     ''You have an A2A Gateway plugin running on port 18800. You can talk to other agents.'' @ nl @
     nl @ ''### Peers'' @ nl @ nl @ ''| Peer | Agent Card URL |'' @ nl @
     ''|------|---------------|'' @ nl"

definition tools_howto :: "string \<Rightarrow> string" where
  "tools_howto ns =
     nl @ ''### How to send a message to a peer'' @ nl @ nl @ ''Use the exec tool to run:'' @ nl @
     nl @ ''```bash'' @ nl @
     ''node /home/node/.openclaw/workspace/plugins/a2a-gateway/skill/scripts/a2a-send.mjs '' @
     bsl @ nl @ ''  --peer-url http://<PEER_NAME>.'' @ ns @ ''.svc.cluster.local:18800 '' @ bsl @
     nl @ ''  --token '' @ dq @ ''$PEER_<PEER_NAME_UPPER>_TOKEN'' @ dq @ '' '' @ bsl @ nl @
     ''  --non-blocking --wait '' @ bsl @ nl @ ''  --message '' @ dq @ ''YOUR MESSAGE HERE'' @ dq @
     nl @ ''```'' @ nl @ nl @ ''### Quick reference for each peer'' @ nl @ nl"

definition tools_tips :: string where
  "tools_tips =
     ''### Tips'' @ nl @ nl @ ''- Use `--non-blocking --wait` for reliable responses'' @ nl @
     ''- The peer token is already in your environment as `$PEER_<NAME>_TOKEN`'' @ nl @
     ''- You can ask peers questions, delegate tasks, or coordinate work'' @ nl @
     ''- Each peer has their own personality and expertise '' @ em_dash @
     '' check their Agent Card'' @ nl"

definition toolsMD :: "ClawAgent \<Rightarrow> string \<Rightarrow> string \<Rightarrow> string" where
  "toolsMD agent ns name =
     (let a2a = AS_A2A (Agent_Spec agent) in
      ''# Tools '' @ em_dash @ '' '' @ name @ nl @ nl @
      (if A2A_Enabled a2a \<and> A2A_Peers a2a \<noteq> [] then
         tools_intro @ concat (map tools_peer_row (A2A_Peers a2a)) @
         tools_howto ns @ concat (map (tools_peer_reference ns) (A2A_Peers a2a)) @ tools_tips
       else []))"


section \<open>Labels and config maps\<close>

definition agentLabels :: "string \<Rightarrow> Labels" where
  "agentLabels name =
     mputs [(''app'', name),
            (''clawbernetes.io/agent'', name),
            (''app.kubernetes.io/managed-by'', ''clawbernetes'')] []"

definition identityConfigMap :: "ClawAgent \<Rightarrow> string \<Rightarrow> string \<Rightarrow> ConfigMap" where
  "identityConfigMap agent ns name =
     (let i = AS_Identity (Agent_Spec agent);
          data0 = [];
          data1 = (if Identity_Soul i \<noteq> '''' then mput ''SOUL.md'' (Identity_Soul i) data0 else data0);
          data2 = (if Identity_User i \<noteq> '''' then mput ''USER.md'' (Identity_User i) data1 else data1);
          data3 = (if Identity_AgentIdentity i \<noteq> '''' then mput ''IDENTITY.md'' (Identity_AgentIdentity i) data2
                   else data2)
      in \<lparr>CM_Meta = new_meta (name @ ''-identity'') ns (agentLabels name),
          CM_Data = Some data3, CM_BinaryData = None\<rparr>)"

definition skillsConfigMap :: "string \<Rightarrow> string \<Rightarrow> SkillEntry list \<Rightarrow> ConfigMap" where
  "skillsConfigMap ns name skills =
     \<lparr>CM_Meta = new_meta (name @ ''-skills'') ns (agentLabels name),
      CM_Data = Some (mputs (map (\<lambda>s. (Skill_Name s, Skill_Content s)) skills) []),
      CM_BinaryData = None\<rparr>"

definition harnessConfigMap ::
  "Harness \<Rightarrow> ClawAgent \<Rightarrow> string \<Rightarrow> string \<Rightarrow> string \<Rightarrow> string \<Rightarrow> ClawPolicy option \<Rightarrow>
   ClawGateway option \<Rightarrow> ClawChannel list \<Rightarrow> err + ConfigMap" where
  "harnessConfigMap h agent ns name gatewayURL otlpEndpoint policy gateway channels =
     (case h_BuildConfig h \<lparr>CI_Agent = agent, CI_Namespace = ns, CI_Name = name,
             CI_GatewayURL = gatewayURL, CI_OTLPEndpoint = otlpEndpoint,
             CI_Policy = policy, CI_Gateway = gateway, CI_Channels = channels\<rparr> of
        Inl e \<Rightarrow> Inl (Wrap ''building harness config: '' e)
      | Inr configData \<Rightarrow>
          Inr \<lparr>CM_Meta = new_meta (name @ h_ConfigMapSuffix h) ns (agentLabels name),
               CM_Data = Some (mputs [(h_ConfigFileName h, configData),
                                      (''HEARTBEAT.md'', heartbeatMD name),
                                      (''TOOLS.md'', toolsMD agent ns name)] []),
               CM_BinaryData = None\<rparr>)"

section \<open>Workspace claims\<close>

definition activePVCName :: "ClawAgent \<Rightarrow> string \<Rightarrow> string" where
  "activePVCName agent name =
     (if ASt_WorkspacePVC (Agent_Status agent) \<noteq> '''' then ASt_WorkspacePVC (Agent_Status agent)
      else name @ PVCSuffix)"

definition buildPVC ::
  "string \<Rightarrow> string \<Rightarrow> string \<Rightarrow> Quantity \<Rightarrow> WorkspaceSpec \<Rightarrow> PersistentVolumeClaim" where
  "buildPVC pvcName ns agentName qty ws =
     \<lparr>PVC_Meta = new_meta pvcName ns (agentLabels agentName),
      PVC_AccessModes = [''ReadWriteOnce''],
      PVC_Requests = mput ''storage'' qty [],
      PVC_StorageClassName = WS_StorageClassName ws,
      PVC_Phase = ''''\<rparr>"

definition buildMigrationPod :: "string \<Rightarrow> string \<Rightarrow> string \<Rightarrow> string \<Rightarrow> string \<Rightarrow> Pod" where
  "buildMigrationPod podName ns agentName srcPVC dstPVC =
     \<lparr>Pod_Meta = new_meta podName ns (agentLabels agentName),
      Pod_Spec = \<lparr>
        Pod_SecurityContext = Some \<lparr>PSC_RunAsUser = Some 1000, PSC_RunAsGroup = Some 1000, PSC_FSGroup = Some 1000\<rparr>,
        Pod_RestartPolicy = ''Never'',
        Pod_InitContainers = [],
        Pod_Containers =
          [(container0 ''migrate'' ''busybox:1.36'')\<lparr>
              C_Command := [''sh'', ''-c'', ''cp -a /src/. /dst/ && echo '' @ sq @ ''migration complete'' @ sq],
              C_VolumeMounts := [vmount ''src'' ''/src'' True, vmount ''dst'' ''/dst'' False]\<rparr>],
        Pod_Volumes = [vol ''src'' (PVCSource srcPVC True), vol ''dst'' (PVCSource dstPVC False)]\<rparr>,
      Pod_Phase = ''''\<rparr>"

section \<open>The deployment\<close>

definition harnessHomeVolume :: "string \<Rightarrow> string \<Rightarrow> Volume" where
  "harnessHomeVolume pvcName mode =
     (if mode = WorkspaceModePersistent \<and> pvcName \<noteq> ''''
      then vol ''harness-home'' (PVCSource pvcName False)
      else vol ''harness-home'' EmptyDir)"

definition buildProbe :: "string \<Rightarrow> int \<Rightarrow> int \<Rightarrow> int \<Rightarrow> Probe" where
  "buildProbe path port initialDelay period =
     \<lparr>Probe_Handler =
        (if path = '''' then ExecAction [''test'', ''-f'', ''/proc/1/status'']
         else HTTPGetAction path (FromInt port)),
      Probe_InitialDelaySeconds = to_int32 initialDelay,
      Probe_PeriodSeconds = to_int32 period\<rparr>"

definition podSecurityContext :: "Harness \<Rightarrow> PodSecurityContext option" where
  "podSecurityContext h =
     (case h_RunAsUser h of
        None \<Rightarrow> None
      | Some uid \<Rightarrow> Some \<lparr>PSC_RunAsUser = Some uid, PSC_RunAsGroup = Some uid, PSC_FSGroup = Some uid\<rparr>)"

record deploymentParams =
  DP_Agent :: ClawAgent
  DP_Namespace :: string
  DP_Name :: string
  DP_OTLPEndpoint :: string
  DP_GatewayURL :: string
  DP_ActivePVC :: string
  DP_Channels :: "ClawChannel list"
  DP_Harness :: Harness

definition agentImage :: "Harness \<Rightarrow> ClawAgent \<Rightarrow> string" where
  "agentImage h agent =
     (let img = HS_Image (AS_Harness (Agent_Spec agent))
      in if img = '''' then h_DefaultImage h else img)"

definition copyExtensions :: "Harness \<Rightarrow> string \<Rightarrow> Container" where
  "copyExtensions h img =
     (container0 ''copy-extensions'' img)\<lparr>
        C_ImagePullPolicy := ''IfNotPresent'',
        C_Command := [''sh'', ''-c'', Join (h_CopyExtensionsCommands h) '' && ''],
        C_VolumeMounts := [vmount ''harness-home'' ''/harness-home'' False]\<rparr>"

definition seedWorkspace :: "Harness \<Rightarrow> Container" where
  "seedWorkspace h =
     (container0 ''seed-workspace'' ''busybox:1.36'')\<lparr>
        C_Command := [''sh'', ''-c'', Join (h_SeedCommands h) '' && ''],
        C_VolumeMounts := [vmount ''config-src'' ''/config-src'' True,
                           vmount ''identity-src'' ''/identity-src'' True,
                           vmount ''skills-src'' ''/skills-src'' True,
                           vmount ''harness-home'' ''/harness-home'' False]\<rparr>"

definition agentEnv :: "string \<Rightarrow> string \<Rightarrow> EnvVar list" where
  "agentEnv name otlpEndpoint =
     [env_var ''OTEL_SERVICE_NAME'' name] @
     (if otlpEndpoint \<noteq> ''''
      then [env_var ''OTEL_EXPORTER_OTLP_ENDPOINT'' otlpEndpoint, env_var ''OTEL_EXPORTER_OTLP_HEADERS'' '''']
      else [])"

definition agentVolumes :: "deploymentParams \<Rightarrow> Volume list" where
  "agentVolumes p =
     (let s = Agent_Spec (DP_Agent p); name = DP_Name p in
      [harnessHomeVolume (DP_ActivePVC p) (WS_Mode (AS_Workspace s)),
       vol ''config-src'' (ConfigMapSource (name @ h_ConfigMapSuffix (DP_Harness p)) None),
       vol ''identity-src'' (ConfigMapSource (name @ ''-identity'') None),
       vol ''skills-src'' (ConfigMapSource (name @ ''-skills'') (Some True))] @
      (if AS_CredentialsSecret s \<noteq> ''''
       then [vol ''credentials-secret'' (SecretSource (AS_CredentialsSecret s) 256 (Some True))]
       else []))"

text \<open>The closure \<open>injectSecret\<close>: its state is the set of injected secrets and the container's
  \<open>EnvFrom\<close>.\<close>

type_synonym injected = "(string, bool) gomap \<times> SecretEnvSource list"

definition injectSecret :: "injected \<Rightarrow> string \<Rightarrow> injected" where
  "injectSecret st name =
     (if name = '''' \<or> mget (fst st) name = Some True then st
      else (mput name True (fst st), snd st @ [\<lparr>SES_Name = name, SES_Optional = Some True\<rparr>]))"

text \<open>The secrets \<open>agentDeployment\<close> asks for, in its order.\<close>

definition wantedSecrets :: "deploymentParams \<Rightarrow> string list" where
  "wantedSecrets p =
     (let s = Agent_Spec (DP_Agent p) in
      (if Model_Provider (AS_Model s) \<noteq> '''' \<and> DP_GatewayURL p = '''' then [DefaultProviderAPIKeysSecret] else []) @
      map (\<lambda>ch. Ch_CredentialsSecret (Channel_Spec ch)) (DP_Channels p) @
      (if A2A_Enabled (AS_A2A s) then [A2A_SecurityTokenSecret (AS_A2A s)] else []))"

definition agentEnvFrom :: "deploymentParams \<Rightarrow> SecretEnvSource list" where
  "agentEnvFrom p = snd (foldl injectSecret ([], []) (wantedSecrets p))"

definition peerEnv :: "A2ASpec \<Rightarrow> EnvVar list" where
  "peerEnv a2a =
     map (\<lambda>peer. \<lparr>Env_Name = peer_env_name peer, Env_Value = '''',
        Env_ValueFrom = Some \<lparr>SKS_Name = Peer_CredentialsSecret peer, SKS_Key = ''A2A_TOKEN'',
          SKS_Optional = Some True\<rparr>\<rparr>)
       (filter (\<lambda>peer. Peer_CredentialsSecret peer \<noteq> '''') (A2A_Peers a2a))"

definition mainContainer :: "deploymentParams \<Rightarrow> Container" where
  "mainContainer p =
     (let s = Agent_Spec (DP_Agent p); h = DP_Harness p; a2a = AS_A2A s; res = AS_Resources s;
          gatewayPort = sint (h_GatewayPort h)
      in (container0 (h_ContainerName h) (agentImage h (DP_Agent p)))\<lparr>
        C_ImagePullPolicy := ''IfNotPresent'',
        C_Command := h_ContainerCommand h,
        C_Env := agentEnv (DP_Name p) (DP_OTLPEndpoint p) @ (if A2A_Enabled a2a then peerEnv a2a else []),
        C_EnvFrom := agentEnvFrom p,
        C_Ports := [cport ''gateway'' (to_int32 gatewayPort)] @
          (if A2A_Enabled a2a then [cport ''a2a'' (to_int32 (ResolvedPort a2a))] else []),
        C_ReadinessProbe := Some (buildProbe (h_ReadinessPath h) gatewayPort 5 10),
        C_LivenessProbe := Some (buildProbe (h_LivenessPath h) gatewayPort 10 30),
        C_VolumeMounts := [vmount ''harness-home'' (h_HomePath h) False] @
          (if AS_CredentialsSecret s \<noteq> ''''
           then [vmount ''credentials-secret'' (h_HomePath h @ ''/credentials'') True] else []),
        C_Resources :=
          (if Res_Requests res \<noteq> None \<or> Res_Limits res \<noteq> None
           then \<lparr>RR_Requests = Res_Requests res, RR_Limits = Res_Limits res\<rparr>
           else \<lparr>RR_Requests = None, RR_Limits = None\<rparr>)\<rparr>)"

definition agentRestartPolicy :: "ClawAgent \<Rightarrow> string" where
  "agentRestartPolicy agent =
     (let r = Life_RestartPolicy (AS_Lifecycle (Agent_Spec agent)) in if r \<noteq> '''' then r else ''Always'')"

definition agentDeployment :: "deploymentParams \<Rightarrow> Deployment" where
  "agentDeployment p =
     (let name = DP_Name p; labels = agentLabels name; h = DP_Harness p in
      \<lparr>Dep_Meta = new_meta name (DP_Namespace p) labels,
       Dep_Spec = \<lparr>
         DS_Replicas = Some 1,
         DS_Selector = labels,
         DS_TemplateLabels = labels,
         DS_PodSpec = \<lparr>
           Pod_SecurityContext = podSecurityContext h,
           Pod_RestartPolicy = agentRestartPolicy (DP_Agent p),
           Pod_InitContainers = [copyExtensions h (agentImage h (DP_Agent p)), seedWorkspace h],
           Pod_Containers = [mainContainer p],
           Pod_Volumes = agentVolumes p\<rparr>\<rparr>,
       Dep_Status = no_dep_status\<rparr>)"

section \<open>The service\<close>

definition agentService :: "Harness \<Rightarrow> ClawAgent \<Rightarrow> string \<Rightarrow> string \<Rightarrow> Service" where
  "agentService h agent ns name =
     (let labels = agentLabels name; a2a = AS_A2A (Agent_Spec agent) in
      \<lparr>Svc_Meta = new_meta name ns labels,
       Svc_Selector = labels,
       Svc_Ports = [sport ''gateway'' (sint (h_GatewayPort h))] @
         (if A2A_Enabled a2a then [sport ''a2a'' (ResolvedPort a2a)] else []),
       Svc_ClusterIP = ''''\<rparr>)"

section \<open>What the builders promise\<close>

definition main_container :: "Deployment \<Rightarrow> Container" where
  "main_container d = hd (Pod_Containers (DS_PodSpec (Dep_Spec d)))"

lemma main_container_agentDeployment [simp]: "main_container (agentDeployment p) = mainContainer p"
  by (simp add: main_container_def agentDeployment_def Let_def)

lemma mainContainer_fields:
  "C_EnvFrom (mainContainer p) = agentEnvFrom p"
  "C_Env (mainContainer p) = agentEnv (DP_Name p) (DP_OTLPEndpoint p) @
     (if A2A_Enabled (AS_A2A (Agent_Spec (DP_Agent p))) then peerEnv (AS_A2A (Agent_Spec (DP_Agent p))) else [])"
  "C_Ports (mainContainer p) = [cport ''gateway'' (to_int32 (sint (h_GatewayPort (DP_Harness p))))] @
     (if A2A_Enabled (AS_A2A (Agent_Spec (DP_Agent p)))
      then [cport ''a2a'' (to_int32 (ResolvedPort (AS_A2A (Agent_Spec (DP_Agent p)))))] else [])"
  by (simp_all add: mainContainer_def Let_def)

text \<open>Secrets: the closure's set and the list it appends to stay in step.\<close>

definition injected_ok :: "injected \<Rightarrow> bool" where
  "injected_ok st \<longleftrightarrow>
     (\<forall>n. mget (fst st) n = Some True \<longleftrightarrow> n \<in> SES_Name ` set (snd st)) \<and>
     distinct (map SES_Name (snd st)) \<and> (\<forall>s \<in> set (snd st). SES_Optional s = Some True)"

lemma injectSecret_ok: "injected_ok st \<Longrightarrow> injected_ok (injectSecret st n)"
  by (auto simp: injected_ok_def injectSecret_def gomap_simps)

lemma injectSecret_names:
  "injected_ok st \<Longrightarrow> SES_Name ` set (snd (injectSecret st n)) = SES_Name ` set (snd st) \<union> ({n} - {''''})"
  by (auto simp: injected_ok_def injectSecret_def)

lemma injectSecrets:
  "injected_ok st \<Longrightarrow> injected_ok (foldl injectSecret st ns) \<and>
     SES_Name ` set (snd (foldl injectSecret st ns)) = SES_Name ` set (snd st) \<union> (set ns - {''''})"
  by (induction ns arbitrary: st) (auto simp: injectSecret_ok injectSecret_names)

lemma agentEnvFrom_ok: "injected_ok (foldl injectSecret ([], []) (wantedSecrets p))"
  using injectSecrets [of "([], [])"] by (simp add: injected_ok_def)

lemma agentEnvFrom_names: "SES_Name ` set (agentEnvFrom p) = set (wantedSecrets p) - {''''}"
  using injectSecrets [of "([], [])"] by (simp add: injected_ok_def agentEnvFrom_def)

text \<open>C5: The agent's container loads each secret's environment once, and exactly these secrets:
  the shared provider keys when a provider is set and there is no gateway, the channels'
  credentials, and the A2A token while A2A is enabled. Every one is optional, so a missing secret
  does not block the pod.\<close>

theorem deployment_secrets:
  defines "envFrom p \<equiv> C_EnvFrom (main_container (agentDeployment p))"
  shows "distinct (map SES_Name (envFrom p)) \<and> list_all (\<lambda>s. SES_Optional s = Some True) (envFrom p) \<and>
    set (map SES_Name (envFrom p)) =
      ((if Model_Provider (AS_Model (Agent_Spec (DP_Agent p))) \<noteq> '''' \<and> DP_GatewayURL p = ''''
        then {''openclaw-api-keys''} else {}) \<union>
       (\<lambda>ch. Ch_CredentialsSecret (Channel_Spec ch)) ` set (DP_Channels p) \<union>
       (if A2A_Enabled (AS_A2A (Agent_Spec (DP_Agent p)))
        then {A2A_SecurityTokenSecret (AS_A2A (Agent_Spec (DP_Agent p)))} else {})) - {''''}"
proof -
  have "envFrom p = snd (foldl injectSecret ([], []) (wantedSecrets p))"
    by (simp add: envFrom_def mainContainer_fields agentEnvFrom_def)
  moreover have "set (map SES_Name (envFrom p)) = set (wantedSecrets p) - {''''}"
    by (simp add: envFrom_def mainContainer_fields agentEnvFrom_names)
  moreover have "set (wantedSecrets p) = (if Model_Provider (AS_Model (Agent_Spec (DP_Agent p))) \<noteq> '''' \<and> DP_GatewayURL p = ''''
        then {''openclaw-api-keys''} else {}) \<union>
       (\<lambda>ch. Ch_CredentialsSecret (Channel_Spec ch)) ` set (DP_Channels p) \<union>
       (if A2A_Enabled (AS_A2A (Agent_Spec (DP_Agent p)))
        then {A2A_SecurityTokenSecret (AS_A2A (Agent_Spec (DP_Agent p)))} else {})"
    by (simp add: wantedSecrets_def DefaultProviderAPIKeysSecret_def Let_def)
  ultimately show ?thesis
    using agentEnvFrom_ok [of p] by (simp add: injected_ok_def list_all_iff)
qed

text \<open>A2A peers: the placeholder in the generated config is a variable the container has.\<close>

lemma otel_not_peer: "e \<in> set (agentEnv n otlp) \<Longrightarrow> Env_Name e \<noteq> peer_env_name q"
  by (auto simp: agentEnv_def env_var_def peer_env_name_def split: if_splits)

lemma peer_env_name_inj: "peer_env_name p = peer_env_name q \<longleftrightarrow> env_name (Peer_Name p) = env_name (Peer_Name q)"
  by (simp add: peer_env_name_def)

definition peer_var :: "A2APeer \<Rightarrow> EnvVar" where
  "peer_var peer = \<lparr>Env_Name = peer_env_name peer, Env_Value = '''',
     Env_ValueFrom = Some \<lparr>SKS_Name = Peer_CredentialsSecret peer, SKS_Key = ''A2A_TOKEN'', SKS_Optional = Some True\<rparr>\<rparr>"

lemma peer_var_name [simp]: "Env_Name (peer_var q) = peer_env_name q"
  by (simp add: peer_var_def)

lemma peerEnv_set: "set (peerEnv a2a) = peer_var ` {q \<in> set (A2A_Peers a2a). Peer_CredentialsSecret q \<noteq> ''''}"
  by (auto simp: peerEnv_def peer_var_def)

text \<open>C13: A peer's token reaches the agent. While A2A is enabled, a peer with a credentials secret
  appears in \<open>openclaw.json\<close> with the token \<open>${PEER_X_TOKEN}\<close>, and the only variable of that name
  in the container takes its value from that peer's secret, provided no other such peer's name
  is spelled the same in upper case with underscores.\<close>

theorem peer_token_provided:
  assumes "A2A_Enabled (AS_A2A (Agent_Spec (DP_Agent p)))"
    and "peer \<in> set (A2A_Peers (AS_A2A (Agent_Spec (DP_Agent p))))" "Peer_CredentialsSecret peer \<noteq> ''''"
    and "\<And>q. q \<in> set (A2A_Peers (AS_A2A (Agent_Spec (DP_Agent p)))) \<Longrightarrow> Peer_CredentialsSecret q \<noteq> '''' \<Longrightarrow>
           env_name (Peer_Name q) = env_name (Peer_Name peer) \<Longrightarrow> q = peer"
  shows "\<exists>v. jpath (a2a_peer peer) [''auth'', ''token''] = Some (JStr (''${'' @ v @ ''}'')) \<and>
    {e \<in> set (C_Env (main_container (agentDeployment p))). Env_Name e = v} =
      {\<lparr>Env_Name = v, Env_Value = '''', Env_ValueFrom = Some \<lparr>SKS_Name = Peer_CredentialsSecret peer,
         SKS_Key = ''A2A_TOKEN'', SKS_Optional = Some True\<rparr>\<rparr>}"
proof (intro exI conjI)
  let ?v = "peer_env_name peer"
  show "jpath (a2a_peer peer) [''auth'', ''token''] = Some (JStr (''${'' @ ?v @ ''}''))"
    using assms(3) by (simp add: a2a_peer_def opt_field_def)
  have "{e \<in> set (C_Env (mainContainer p)). Env_Name e = ?v} = {peer_var peer}"
    using assms(1,2,3) by (auto simp: mainContainer_fields peerEnv_set peer_env_name_inj dest: assms(4) otel_not_peer)
  then show "{e \<in> set (C_Env (main_container (agentDeployment p))). Env_Name e = ?v} =
      {\<lparr>Env_Name = ?v, Env_Value = '''', Env_ValueFrom = Some \<lparr>SKS_Name = Peer_CredentialsSecret peer,
         SKS_Key = ''A2A_TOKEN'', SKS_Optional = Some True\<rparr>\<rparr>}"
    by (simp add: peer_var_def)
qed

text \<open>A deployment of an agent with one A2A peer, for examples.\<close>

definition example_params :: deploymentParams where
  "example_params = \<lparr>
     DP_Agent = zero_ClawAgent\<lparr>Agent_Meta := new_meta ''eng'' ''prod'' [], Agent_Spec := zero_ClawAgentSpec
       \<lparr>AS_A2A := zero_A2ASpec\<lparr>A2A_Enabled := True, A2A_Peers :=
          [\<lparr>Peer_Name = ''ops-bot'', Peer_AgentCardURL = ''http://ops'', Peer_CredentialsSecret = ''ops-token''\<rparr>]\<rparr>\<rparr>\<rparr>,
     DP_Namespace = ''prod'', DP_Name = ''eng'', DP_OTLPEndpoint = '''', DP_GatewayURL = '''', DP_ActivePVC = '''',
     DP_Channels = [], DP_Harness = OpenClawHarness (\<lambda>_. None)\<rparr>"

theorem peer_token_provided_witness:
  "\<exists>e. e \<in> set (C_Env (main_container (agentDeployment example_params))) \<and>
     map_option SKS_Name (Env_ValueFrom e) = Some ''ops-token''"
  using peer_token_provided [of example_params
      "\<lparr>Peer_Name = ''ops-bot'', Peer_AgentCardURL = ''http://ops'', Peer_CredentialsSecret = ''ops-token''\<rparr>"]
  by (force simp: example_params_def zero_A2ASpec_def)

text \<open>The agent's service reaches its pods. Its selector is the deployment's and the pod
  template's labels, and each of its ports is a port of the main container under the same
  name, targeted by its number.\<close>

theorem service_reaches_container:
  defines "svc p \<equiv> agentService (DP_Harness p) (DP_Agent p) (DP_Namespace p) (DP_Name p)"
  shows "Svc_Selector (svc p) = DS_Selector (Dep_Spec (agentDeployment p)) \<and>
    Svc_Selector (svc p) = DS_TemplateLabels (Dep_Spec (agentDeployment p)) \<and>
    map (\<lambda>sp. (SP_Name sp, SP_Port sp, SP_Protocol sp)) (Svc_Ports (svc p)) =
      map (\<lambda>cp. (CP_Name cp, CP_ContainerPort cp, CP_Protocol cp))
        (C_Ports (main_container (agentDeployment p))) \<and>
    list_all (\<lambda>sp. \<exists>i. SP_TargetPort sp = FromInt i \<and> to_int32 i = SP_Port sp) (Svc_Ports (svc p))"
  by (simp add: svc_def agentService_def agentDeployment_def mainContainer_fields Let_def cport_def sport_def
      main_container_def)

lemma mainContainer_mounts:
  "C_VolumeMounts (mainContainer p) = [vmount ''harness-home'' (h_HomePath (DP_Harness p)) False] @
     (if AS_CredentialsSecret (Agent_Spec (DP_Agent p)) \<noteq> ''''
      then [vmount ''credentials-secret'' (h_HomePath (DP_Harness p) @ ''/credentials'') True] else [])"
  by (simp add: mainContainer_def Let_def)

lemma agentDeployment_pod:
  "DS_PodSpec (Dep_Spec (agentDeployment p)) = \<lparr>
     Pod_SecurityContext = podSecurityContext (DP_Harness p),
     Pod_RestartPolicy = agentRestartPolicy (DP_Agent p),
     Pod_InitContainers = [copyExtensions (DP_Harness p) (agentImage (DP_Harness p) (DP_Agent p)),
       seedWorkspace (DP_Harness p)],
     Pod_Containers = [mainContainer p],
     Pod_Volumes = agentVolumes p\<rparr>"
  by (simp add: agentDeployment_def Let_def)

lemma agentVolumes_names:
  "map Vol_Name (agentVolumes p) = [''harness-home'', ''config-src'', ''identity-src'', ''skills-src''] @
     (if AS_CredentialsSecret (Agent_Spec (DP_Agent p)) \<noteq> '''' then [''credentials-secret''] else [])"
  by (simp add: agentVolumes_def Let_def harnessHomeVolume_def vol_def)

lemma mount_names:
  assumes "c \<in> set (Pod_InitContainers (DS_PodSpec (Dep_Spec (agentDeployment p))) @
    Pod_Containers (DS_PodSpec (Dep_Spec (agentDeployment p))))"
  shows "VM_Name ` set (C_VolumeMounts c) \<subseteq> {''harness-home'', ''config-src'', ''identity-src'', ''skills-src''} \<union>
    (if AS_CredentialsSecret (Agent_Spec (DP_Agent p)) \<noteq> '''' then {''credentials-secret''} else {})"
proof -
  from assms consider "c = copyExtensions (DP_Harness p) (agentImage (DP_Harness p) (DP_Agent p))"
    | "c = seedWorkspace (DP_Harness p)" | "c = mainContainer p"
    by (auto simp: agentDeployment_pod)
  then show ?thesis
    by cases (simp_all add: copyExtensions_def seedWorkspace_def mainContainer_mounts vmount_def)
qed

lemma harness_config_map_meta:
  "harnessConfigMap h agent ns name gatewayURL otlpEndpoint policy gateway channels = Inr cm \<Longrightarrow>
    CM_Meta cm = new_meta (name @ h_ConfigMapSuffix h) ns (agentLabels name)"
  by (auto simp: harnessConfigMap_def split: sum.splits)

text \<open>C14: The pod template is closed: every volume a container mounts is declared, once, and the
  config maps its volumes name are exactly the three objects the controller builds for the same
  agent: the one \<open>harnessConfigMap\<close> builds, whenever it builds one, for whatever gateway, endpoint,
  policy and channels, the identity map and the skills map. All three are built in the namespace of
  the deployment, where the kubelet looks for them.\<close>

theorem deployment_volumes_closed:
  fixes p :: deploymentParams and skills :: "SkillEntry list"
  defines "pod \<equiv> DS_PodSpec (Dep_Spec (agentDeployment p))"
  assumes built: "harnessConfigMap (DP_Harness p) (DP_Agent p) (DP_Namespace p) (DP_Name p)
    gatewayURL otlpEndpoint policy gateway channels = Inr config"
  defines "maps \<equiv> {config, identityConfigMap (DP_Agent p) (DP_Namespace p) (DP_Name p),
    skillsConfigMap (DP_Namespace p) (DP_Name p) skills}"
  shows "distinct (map Vol_Name (Pod_Volumes pod)) \<and>
    list_all (\<lambda>c. VM_Name ` set (C_VolumeMounts c) \<subseteq> Vol_Name ` set (Pod_Volumes pod))
      (Pod_InitContainers pod @ Pod_Containers pod) \<and>
    {n. \<exists>v \<in> set (Pod_Volumes pod). \<exists>opt. Vol_Source v = ConfigMapSource n opt} =
      (\<lambda>cm. Meta_Name (CM_Meta cm)) ` maps \<and>
    (\<lambda>cm. Meta_Namespace (CM_Meta cm)) ` maps = {Meta_Namespace (Dep_Meta (agentDeployment p))}"
proof (intro conjI)
  note config = harness_config_map_meta [OF built]
  have names: "set (map Vol_Name (Pod_Volumes pod)) = {''harness-home'', ''config-src'', ''identity-src'', ''skills-src''} \<union>
      (if AS_CredentialsSecret (Agent_Spec (DP_Agent p)) \<noteq> '''' then {''credentials-secret''} else {})"
    by (simp add: pod_def agentDeployment_pod agentVolumes_names)
  show "distinct (map Vol_Name (Pod_Volumes pod))"
    by (simp add: pod_def agentDeployment_pod agentVolumes_names)
  have "VM_Name ` set (C_VolumeMounts c) \<subseteq> Vol_Name ` set (Pod_Volumes pod)"
    if "c \<in> set (Pod_InitContainers pod @ Pod_Containers pod)" for c
    using that mount_names [of c p] unfolding names [unfolded set_map] by (simp add: pod_def)
  then show "list_all (\<lambda>c. VM_Name ` set (C_VolumeMounts c) \<subseteq> Vol_Name ` set (Pod_Volumes pod))
      (Pod_InitContainers pod @ Pod_Containers pod)"
    by (simp only: list_all_iff) blast
  show "{n. \<exists>v \<in> set (Pod_Volumes pod). \<exists>opt. Vol_Source v = ConfigMapSource n opt} =
      (\<lambda>cm. Meta_Name (CM_Meta cm)) ` maps"
    by (auto simp: pod_def agentDeployment_pod agentVolumes_def Let_def harnessHomeVolume_def vol_def maps_def
        identityConfigMap_def skillsConfigMap_def config new_meta_def split: if_splits)
  show "(\<lambda>cm. Meta_Namespace (CM_Meta cm)) ` maps = {Meta_Namespace (Dep_Meta (agentDeployment p))}"
    by (simp add: maps_def identityConfigMap_def skillsConfigMap_def config new_meta_def agentDeployment_def Let_def)
qed

text \<open>The same for an agent on the Hermes runtime: the config map built for it is mounted.\<close>

theorem deployment_volumes_closed_witness:
  "\<exists>p config. DP_Harness p = HermesHarness (\<lambda>_. []) \<and>
    harnessConfigMap (DP_Harness p) (DP_Agent p) (DP_Namespace p) (DP_Name p) '''' '''' None None [] = Inr config \<and>
    Meta_Name (CM_Meta config) = ''eng-hermes-config'' \<and>
    (\<exists>v \<in> set (Pod_Volumes (DS_PodSpec (Dep_Spec (agentDeployment p)))).
       \<exists>opt. Vol_Source v = ConfigMapSource ''eng-hermes-config'' opt)"
proof -
  let ?p = "example_params\<lparr>DP_Harness := HermesHarness (\<lambda>_. [])\<rparr>"
  obtain config where built: "harnessConfigMap (DP_Harness ?p) (DP_Agent ?p) (DP_Namespace ?p) (DP_Name ?p)
      '''' '''' None None [] = Inr config"
    by (simp add: harnessConfigMap_def HermesHarness_def hermes_BuildConfig_def)
  have name: "Meta_Name (CM_Meta config) = ''eng-hermes-config''"
    using harness_config_map_meta [OF built]
    by (simp add: new_meta_def HermesHarness_def example_params_def)
  have "Meta_Name (CM_Meta config) \<in> {n. \<exists>v \<in> set (Pod_Volumes (DS_PodSpec (Dep_Spec (agentDeployment ?p)))).
      \<exists>opt. Vol_Source v = ConfigMapSource n opt}"
    using deployment_volumes_closed [OF built, of "[]"]
    by (elim conjE) (simp only: image_insert insert_iff simp_thms)
  then show ?thesis using built name by (intro exI [of _ ?p] exI [of _ config]) simp
qed

text \<open>The config map of every runtime holds the generated config, unaltered, under the file name
  its init container copies, beside \<open>HEARTBEAT.md\<close> and \<open>TOOLS.md\<close>; the file name never shadows
  those two.\<close>

theorem harness_config_map_content:
  assumes "harnessConfigMap (ForType x t) agent ns name gatewayURL otlpEndpoint policy gateway channels = Inr cm"
  shows "h_BuildConfig (ForType x t) \<lparr>CI_Agent = agent, CI_Namespace = ns, CI_Name = name,
        CI_GatewayURL = gatewayURL, CI_OTLPEndpoint = otlpEndpoint, CI_Policy = policy, CI_Gateway = gateway,
        CI_Channels = channels\<rparr> = Inr (the (mget (data_of cm) (h_ConfigFileName (ForType x t)))) \<and>
    ''cp /config-src/'' @ h_ConfigFileName (ForType x t) @ '' /harness-home/'' @ h_ConfigFileName (ForType x t)
      \<in> set (h_SeedCommands (ForType x t)) \<and>
    fst ` set (data_of cm) = {h_ConfigFileName (ForType x t), ''HEARTBEAT.md'', ''TOOLS.md''} \<and>
    mget (data_of cm) ''HEARTBEAT.md'' = Some (heartbeatMD name) \<and>
    mget (data_of cm) ''TOOLS.md'' = Some (toolsMD agent ns name)"
proof -
  from assms obtain cfg where cfg: "h_BuildConfig (ForType x t) \<lparr>CI_Agent = agent, CI_Namespace = ns, CI_Name = name,
        CI_GatewayURL = gatewayURL, CI_OTLPEndpoint = otlpEndpoint, CI_Policy = policy, CI_Gateway = gateway,
        CI_Channels = channels\<rparr> = Inr cfg"
    and data: "data_of cm = mputs [(h_ConfigFileName (ForType x t), cfg), (''HEARTBEAT.md'', heartbeatMD name),
        (''TOOLS.md'', toolsMD agent ns name)] []"
    by (auto simp: harnessConfigMap_def data_of_def split: sum.splits)
  have "fst ` set (data_of cm) = {h_ConfigFileName (ForType x t), ''HEARTBEAT.md'', ''TOOLS.md''}"
    by (auto simp: data mputs_def set_keys_mput)
  with cfg data for_type.config_not_reserved [of x t] for_type.config_seeded [of x t] show ?thesis
    by (simp add: gomap_simps)
qed

theorem harness_config_map_content_witness:
  fixes x :: ext
  shows "\<exists>cm. mget (data_of cm) ''HEARTBEAT.md'' = Some (heartbeatMD ''eng'') \<and>
     fst ` set (data_of cm) = {''config.yaml'', ''HEARTBEAT.md'', ''TOOLS.md''}"
proof -
  obtain cm where "harnessConfigMap (ForType x ''hermes'') zero_ClawAgent ''prod'' ''eng'' '''' '''' None None [] = Inr cm"
    by (simp add: harnessConfigMap_def ForType_def HarnessHermes_def HarnessObserveClaw_def HermesHarness_def
        hermes_BuildConfig_def)
  from harness_config_map_content [OF this] show ?thesis
    by (auto simp: ForType_def HarnessHermes_def HarnessObserveClaw_def HermesHarness_def hermes_ConfigFileName_def)
qed

end
