(* ===== verification/FleetDashboard.thy ===== *)
theory FleetDashboard
  imports GoStd
begin

text \<open>
  The fleet dashboard page (\<open>internal/controller/fleet_dashboard.go\<close>): one card per agent, the
  count of agents by phase, and a fixed page around them, as the text the code builds. The
  lemmas show that values of the agents' fields cannot add markup to the page.
\<close>

record agentInfo =
  Info_Name :: string
  Info_Phase :: string
  Info_Model :: string
  Info_FallbackModel :: string
  Info_Provider :: string
  Info_Gateway :: string
  Info_Policy :: string
  Info_SkillSet :: string
  Info_Observability :: string
  Info_Channels :: "string list"
  Info_Soul :: string
  Info_BudgetDaily :: int
  Info_BudgetMonthly :: int
  Info_DowngradeModel :: string
  Info_ToolDeny :: "string list"
  Info_RestartPolicy :: string
  Info_MaxRuntime :: string
  Info_IdleHibernate :: int

section \<open>Agent cards\<close>

definition nameColor :: "string \<Rightarrow> string" where
  "nameColor phase =
     (if phase = ''Running'' then ''#4ecca3''
      else if phase = ''Pending'' then ''#ffd369''
      else if phase = ''Error'' then ''#fc5185''
      else ''#e0e0e0'')"

definition none_html :: string where
  "none_html =
     ''<span class='' @ dq @ ''dim'' @ dq @ ''>none</span>''"

definition tags_html :: "string \<Rightarrow> string list \<Rightarrow> string" where
  "tags_html cls xs =
     (if xs = [] then none_html
      else Join (map (\<lambda>c. ''<span class='' @ dq @ cls @ dq @ ''>'' @ EscapeString c @ ''</span>'') xs) '' '')"

definition or_none :: "string \<Rightarrow> string" where
  "or_none s = (if s \<noteq> '''' then EscapeString s else none_html)"

definition soul_html :: "agentInfo \<Rightarrow> string" where
  "soul_html a =
     (if Info_Soul a \<noteq> '''' then
        ''<div class='' @ dq @ ''soul'' @ dq @ ''><em>'' @ dq @ EscapeString (Info_Soul a) @ dq @
        ''</em></div>''
      else '''')"

definition card_identity :: "agentInfo \<Rightarrow> string" where
  "card_identity a =
     ''<div class='' @ dq @ ''agent-card'' @ dq @ ''>'' @ nl @ ''  <div class='' @ dq @
     ''agent-header'' @ dq @ ''>'' @ nl @ ''    <span class='' @ dq @ ''agent-name'' @ dq @
     '' style='' @ dq @ ''color:'' @ nameColor (Info_Phase a) @ dq @ ''>'' @
     EscapeString (Info_Name a) @ ''</span>'' @ nl @ ''    <span class='' @ dq @
     ''phase-badge phase-'' @ EscapeString (ToLower (Info_Phase a)) @ dq @ ''>'' @
     EscapeString (Info_Phase a) @ ''</span>'' @ nl @ ''  </div>'' @ nl @ ''  <div class='' @ dq @
     ''agent-body'' @ dq @ ''>'' @ nl @ ''    <div class='' @ dq @ ''field-group'' @ dq @ ''>'' @
     nl @ ''      <h4>Model</h4>'' @ nl @ ''      <div class='' @ dq @ ''field'' @ dq @
     ''><span class='' @ dq @ ''label'' @ dq @ ''>Provider:</span> '' @
     EscapeString (Info_Provider a) @ ''</div>'' @ nl @ ''      <div class='' @ dq @ ''field'' @
     dq @ ''><span class='' @ dq @ ''label'' @ dq @ ''>Model:</span> '' @
     EscapeString (Info_Model a) @ ''</div>'' @ nl @ ''      <div class='' @ dq @ ''field'' @ dq @
     ''><span class='' @ dq @ ''label'' @ dq @ ''>Fallback:</span> '' @
     or_none (Info_FallbackModel a) @ ''</div>'' @ nl @ ''    </div>'' @ nl @ ''    <div class='' @
     dq @ ''field-group'' @ dq @ ''>'' @ nl @ ''      <h4>References</h4>'' @ nl @
     ''      <div class='' @ dq @ ''field'' @ dq @ ''><span class='' @ dq @ ''label'' @ dq @
     ''>Gateway:</span> '' @ EscapeString (Info_Gateway a) @ ''</div>'' @ nl @
     ''      <div class='' @ dq @ ''field'' @ dq @ ''><span class='' @ dq @ ''label'' @ dq @
     ''>Policy:</span> '' @ EscapeString (Info_Policy a) @ ''</div>'' @ nl @
     ''      <div class='' @ dq @ ''field'' @ dq @ ''><span class='' @ dq @ ''label'' @ dq @
     ''>SkillSet:</span> '' @ EscapeString (Info_SkillSet a) @ ''</div>'' @ nl @
     ''      <div class='' @ dq @ ''field'' @ dq @ ''><span class='' @ dq @ ''label'' @ dq @
     ''>Observability:</span> '' @ EscapeString (Info_Observability a) @ ''</div>'' @ nl @
     ''    </div>'' @ nl"

definition card_limits :: "agentInfo \<Rightarrow> string" where
  "card_limits a =
     ''    <div class='' @ dq @ ''field-group'' @ dq @ ''>'' @ nl @ ''      <h4>Channels</h4>'' @
     nl @ ''      <div class='' @ dq @ ''field'' @ dq @ ''>'' @
     tags_html ''tag'' (Info_Channels a) @ ''</div>'' @ nl @ ''    </div>'' @ nl @
     ''    <div class='' @ dq @ ''field-group'' @ dq @ ''>'' @ nl @ ''      <h4>Budget</h4>'' @
     nl @ ''      <div class='' @ dq @ ''field'' @ dq @ ''><span class='' @ dq @ ''label'' @ dq @
     ''>Daily:</span> $'' @ show_int (Info_BudgetDaily a) @ ''</div>'' @ nl @
     ''      <div class='' @ dq @ ''field'' @ dq @ ''><span class='' @ dq @ ''label'' @ dq @
     ''>Monthly:</span> $'' @ show_int (Info_BudgetMonthly a) @ ''</div>'' @ nl @
     ''      <div class='' @ dq @ ''field'' @ dq @ ''><span class='' @ dq @ ''label'' @ dq @
     ''>Downgrade to:</span> '' @ or_none (Info_DowngradeModel a) @ ''</div>'' @ nl @
     ''    </div>'' @ nl @ ''    <div class='' @ dq @ ''field-group'' @ dq @ ''>'' @ nl @
     ''      <h4>Tool Deny List</h4>'' @ nl @ ''      <div class='' @ dq @ ''field'' @ dq @ ''>'' @
     tags_html ''tag deny'' (Info_ToolDeny a) @ ''</div>'' @ nl @ ''    </div>'' @ nl"

definition card_lifecycle :: "agentInfo \<Rightarrow> string" where
  "card_lifecycle a =
     ''    <div class='' @ dq @ ''field-group'' @ dq @ ''>'' @ nl @ ''      <h4>Lifecycle</h4>'' @
     nl @ ''      <div class='' @ dq @ ''field'' @ dq @ ''><span class='' @ dq @ ''label'' @ dq @
     ''>Restart:</span> '' @ EscapeString (Info_RestartPolicy a) @ ''</div>'' @ nl @
     ''      <div class='' @ dq @ ''field'' @ dq @ ''><span class='' @ dq @ ''label'' @ dq @
     ''>Max Runtime:</span> '' @ EscapeString (Info_MaxRuntime a) @ ''</div>'' @ nl @
     ''      <div class='' @ dq @ ''field'' @ dq @ ''><span class='' @ dq @ ''label'' @ dq @
     ''>Idle Hibernate:</span> '' @ show_int (Info_IdleHibernate a) @ '' min</div>'' @ nl @
     ''    </div>'' @ nl @ ''    '' @ soul_html a @ nl @ ''  </div>'' @ nl @ ''</div>'' @ nl"

definition agentCard :: "agentInfo \<Rightarrow> string" where
  "agentCard a = card_identity a @ card_limits a @ card_lifecycle a"

section \<open>Phase summary\<close>

text \<open>\<open>phaseCount[a.Phase]++\<close>: a missing key counts as 0.\<close>

definition count_of :: "(string, nat) gomap \<Rightarrow> string \<Rightarrow> nat" where
  "count_of m phase = (case mget m phase of None \<Rightarrow> 0 | Some n \<Rightarrow> n)"

definition phaseCount :: "agentInfo list \<Rightarrow> (string, nat) gomap" where
  "phaseCount agents =
     foldl (\<lambda>m a. mput (Info_Phase a) (Suc (count_of m (Info_Phase a))) m) [] agents"

definition phaseColor :: "string \<Rightarrow> string" where
  "phaseColor phase = nameColor phase"

definition phaseCard :: "string \<Rightarrow> nat \<Rightarrow> string" where
  "phaseCard phase count =
     ''<div class='' @ dq @ ''summary-card'' @ dq @ ''><div class='' @ dq @ ''summary-value'' @
     dq @ '' style='' @ dq @ ''color:'' @ phaseColor phase @ dq @ ''>'' @ show_nat count @
     ''</div><div class='' @ dq @ ''summary-label'' @ dq @ ''>'' @ phase @ ''</div></div>'' @ nl"

definition phaseCards :: "agentInfo list \<Rightarrow> string" where
  "phaseCards agents =
     (let counts = phaseCount agents in
      concat (map (\<lambda>phase.
        let count = count_of counts phase in
        if count = 0 \<and> phase = ''Error'' then '''' else phaseCard phase count)
      [''Running'', ''Pending'', ''Error'']))"

section \<open>The page\<close>

definition page_head :: "string" where
  "page_head =
     ''<!DOCTYPE html>'' @ nl @ ''<html lang='' @ dq @ ''en'' @ dq @ ''>'' @ nl @ ''<head>'' @ nl @
     ''<meta charset='' @ dq @ ''UTF-8'' @ dq @ ''>'' @ nl @ ''<meta name='' @ dq @ ''viewport'' @
     dq @ '' content='' @ dq @ ''width=device-width, initial-scale=1.0'' @ dq @ ''>'' @ nl @
     ''<title>Clawbernetes Fleet Configuration</title>'' @ nl @ ''<style>'' @ nl @
     ''  *, *::before, *::after { box-sizing: border-box; margin: 0; padding: 0; }'' @ nl @
     ''  body {'' @ nl @ ''    font-family: -apple-system, BlinkMacSystemFont, '' @ dq @
     ''Segoe UI'' @ dq @ '', Roboto, sans-serif;'' @ nl @ ''    background: #1a1a2e;'' @ nl @
     ''    color: #e0e0e0;'' @ nl @ ''    padding: 2rem;'' @ nl @ ''    line-height: 1.6;'' @ nl @
     ''  }'' @ nl @ ''  h1 {'' @ nl @ ''    text-align: center;'' @ nl @
     ''    font-size: 1.8rem;'' @ nl @ ''    margin-bottom: 0.3rem;'' @ nl @
     ''    color: #4ecca3;'' @ nl @ ''  }'' @ nl @ ''  .subtitle {'' @ nl @
     ''    text-align: center;'' @ nl @ ''    color: #888;'' @ nl @ ''    margin-bottom: 2rem;'' @
     nl @ ''    font-size: 0.9rem;'' @ nl @ ''  }'' @ nl @ ''  h2 {'' @ nl @
     ''    font-size: 1.3rem;'' @ nl @ ''    margin: 2rem 0 1rem;'' @ nl @
     ''    color: #4ecca3;'' @ nl @ ''    border-bottom: 1px solid #0f3460;'' @ nl @
     ''    padding-bottom: 0.4rem;'' @ nl @ ''  }'' @ nl @ ''  h4 {'' @ nl @
     ''    color: #4ecca3;'' @ nl @ ''    font-size: 0.85rem;'' @ nl @
     ''    text-transform: uppercase;'' @ nl @ ''    letter-spacing: 0.05em;'' @ nl @
     ''    margin-bottom: 0.4rem;'' @ nl @ ''    border-bottom: 1px solid #0f3460;'' @ nl @
     ''    padding-bottom: 0.2rem;'' @ nl @ ''  }'' @ nl"

definition page_style_grid :: "string" where
  "page_style_grid =
     nl @ ''  /* Summary cards */'' @ nl @ ''  .summary-grid {'' @ nl @ ''    display: grid;'' @
     nl @ ''    grid-template-columns: repeat(auto-fit, minmax(140px, 1fr));'' @ nl @
     ''    gap: 1rem;'' @ nl @ ''    margin-bottom: 1rem;'' @ nl @ ''  }'' @ nl @
     ''  .summary-card {'' @ nl @ ''    background: #16213e;'' @ nl @
     ''    border: 1px solid #0f3460;'' @ nl @ ''    border-radius: 8px;'' @ nl @
     ''    padding: 1.2rem;'' @ nl @ ''    text-align: center;'' @ nl @ ''  }'' @ nl @
     ''  .summary-value {'' @ nl @ ''    font-size: 2.4rem;'' @ nl @ ''    font-weight: 700;'' @
     nl @ ''  }'' @ nl @ ''  .summary-label {'' @ nl @ ''    font-size: 0.85rem;'' @ nl @
     ''    color: #888;'' @ nl @ ''    text-transform: uppercase;'' @ nl @
     ''    letter-spacing: 0.05em;'' @ nl @ ''  }'' @ nl @ nl @ ''  /* Agent cards */'' @ nl @
     ''  .agents-grid {'' @ nl @ ''    display: grid;'' @ nl @
     ''    grid-template-columns: repeat(auto-fit, minmax(380px, 1fr));'' @ nl @
     ''    gap: 1.2rem;'' @ nl @ ''  }'' @ nl @ ''  .agent-card {'' @ nl @
     ''    background: #16213e;'' @ nl @ ''    border: 1px solid #0f3460;'' @ nl @
     ''    border-radius: 8px;'' @ nl @ ''    overflow: hidden;'' @ nl @ ''  }'' @ nl @
     ''  .agent-header {'' @ nl @ ''    display: flex;'' @ nl @
     ''    justify-content: space-between;'' @ nl @ ''    align-items: center;'' @ nl @
     ''    padding: 0.8rem 1rem;'' @ nl @ ''    background: #0f3460;'' @ nl @ ''  }'' @ nl @
     ''  .agent-name {'' @ nl @ ''    font-size: 1.2rem;'' @ nl @ ''    font-weight: 700;'' @ nl @
     ''  }'' @ nl @ ''  .phase-badge {'' @ nl @ ''    font-size: 0.75rem;'' @ nl @
     ''    font-weight: 600;'' @ nl @ ''    padding: 0.2rem 0.6rem;'' @ nl @
     ''    border-radius: 12px;'' @ nl @ ''    text-transform: uppercase;'' @ nl @
     ''    letter-spacing: 0.04em;'' @ nl @ ''  }'' @ nl @
     ''  .phase-running  { background: rgba(78,204,163,0.2); color: #4ecca3; }'' @ nl @
     ''  .phase-pending  { background: rgba(255,211,105,0.2); color: #ffd369; }'' @ nl @
     ''  .phase-error    { background: rgba(252,81,133,0.2);  color: #fc5185; }'' @ nl"

definition page_style_cards :: "string" where
  "page_style_cards =
     ''  .agent-body {'' @ nl @ ''    padding: 1rem;'' @ nl @ ''    display: flex;'' @ nl @
     ''    flex-direction: column;'' @ nl @ ''    gap: 0.8rem;'' @ nl @ ''  }'' @ nl @
     ''  .field-group { }'' @ nl @ ''  .field {'' @ nl @ ''    font-size: 0.88rem;'' @ nl @
     ''    padding: 0.15rem 0;'' @ nl @ ''  }'' @ nl @ ''  .label {'' @ nl @ ''    color: #888;'' @
     nl @ ''    display: inline-block;'' @ nl @ ''    min-width: 110px;'' @ nl @ ''  }'' @ nl @
     ''  .dim { color: #555; font-style: italic; }'' @ nl @ ''  .tag {'' @ nl @
     ''    display: inline-block;'' @ nl @ ''    background: rgba(78,204,163,0.15);'' @ nl @
     ''    color: #4ecca3;'' @ nl @ ''    padding: 0.1rem 0.5rem;'' @ nl @
     ''    border-radius: 4px;'' @ nl @ ''    font-size: 0.82rem;'' @ nl @
     ''    margin: 0.1rem 0.2rem 0.1rem 0;'' @ nl @ ''  }'' @ nl @ ''  .tag.deny {'' @ nl @
     ''    background: rgba(252,81,133,0.15);'' @ nl @ ''    color: #fc5185;'' @ nl @ ''  }'' @
     nl @ ''  .soul {'' @ nl @ ''    margin-top: 0.4rem;'' @ nl @ ''    padding: 0.6rem 0.8rem;'' @
     nl @ ''    background: rgba(15,52,96,0.5);'' @ nl @ ''    border-left: 3px solid #0f3460;'' @
     nl @ ''    border-radius: 0 4px 4px 0;'' @ nl @ ''    font-size: 0.85rem;'' @ nl @
     ''    color: #aaa;'' @ nl @ ''  }'' @ nl @ nl"

definition page_style_how :: "string" where
  "page_style_how =
     ''  /* How it works */'' @ nl @ ''  .how-it-works {'' @ nl @ ''    background: #16213e;'' @
     nl @ ''    border: 1px solid #0f3460;'' @ nl @ ''    border-radius: 8px;'' @ nl @
     ''    padding: 1.2rem 1.5rem;'' @ nl @ ''    margin-top: 1rem;'' @ nl @ ''  }'' @ nl @
     ''  .how-it-works p {'' @ nl @ ''    margin: 0.6rem 0;'' @ nl @ ''    font-size: 0.92rem;'' @
     nl @ ''  }'' @ nl @ ''  .how-it-works .arrow-flow {'' @ nl @ ''    display: flex;'' @ nl @
     ''    flex-wrap: wrap;'' @ nl @ ''    align-items: center;'' @ nl @ ''    gap: 0.5rem;'' @
     nl @ ''    margin: 1rem 0;'' @ nl @ ''    font-size: 0.88rem;'' @ nl @ ''  }'' @ nl @
     ''  .how-it-works .step {'' @ nl @ ''    background: #0f3460;'' @ nl @
     ''    padding: 0.4rem 0.8rem;'' @ nl @ ''    border-radius: 6px;'' @ nl @
     ''    white-space: nowrap;'' @ nl @ ''  }'' @ nl @ ''  .how-it-works .arrow {'' @ nl @
     ''    color: #4ecca3;'' @ nl @ ''    font-weight: 700;'' @ nl @ ''  }'' @ nl @
     ''  pre.yaml {'' @ nl @ ''    background: #111;'' @ nl @ ''    border: 1px solid #333;'' @
     nl @ ''    border-radius: 6px;'' @ nl @ ''    padding: 1rem;'' @ nl @
     ''    overflow-x: auto;'' @ nl @ ''    font-family: '' @ dq @ ''JetBrains Mono'' @ dq @
     '', '' @ dq @ ''Fira Code'' @ dq @ '', '' @ dq @ ''Cascadia Code'' @ dq @
     '', Consolas, monospace;'' @ nl @ ''    font-size: 0.82rem;'' @ nl @
     ''    line-height: 1.5;'' @ nl @ ''    color: #c8d6e5;'' @ nl @ ''    margin: 0.8rem 0;'' @
     nl @ ''  }'' @ nl @ ''</style>'' @ nl @ ''</head>'' @ nl"

definition page_summary :: "nat \<Rightarrow> string \<Rightarrow> string \<Rightarrow> string" where
  "page_summary totalAgents summaryHTML cardsHTML =
     ''<body>'' @ nl @ nl @ ''<h1>Clawbernetes Fleet Configuration</h1>'' @ nl @ ''<p class='' @
     dq @ ''subtitle'' @ dq @ ''>Real-time overview of all managed AI agents in the cluster</p>'' @
     nl @ nl @ ''<h2>Fleet Summary</h2>'' @ nl @ ''<div class='' @ dq @ ''summary-grid'' @ dq @
     ''>'' @ nl @ ''  <div class='' @ dq @ ''summary-card'' @ dq @ ''>'' @ nl @
     ''    <div class='' @ dq @ ''summary-value'' @ dq @ '' style='' @ dq @ ''color:#4ecca3'' @
     dq @ ''>'' @ show_nat totalAgents @ ''</div>'' @ nl @ ''    <div class='' @ dq @
     ''summary-label'' @ dq @ ''>Total Agents</div>'' @ nl @ ''  </div>'' @ nl @ summaryHTML @
     ''</div>'' @ nl @ nl @ ''<h2>Agent Fleet</h2>'' @ nl @ ''<div class='' @ dq @
     ''agents-grid'' @ dq @ ''>'' @ nl @ cardsHTML @ ''</div>'' @ nl @ nl"

definition page_how :: "string" where
  "page_how =
     ''<h2>How It Works</h2>'' @ nl @ ''<div class='' @ dq @ ''how-it-works'' @ dq @ ''>'' @ nl @
     ''  <p>Each AI agent in the fleet is declared as a <strong>ClawAgent</strong> custom resource.'' @
     nl @
     ''     The Clawbernetes operator watches for these CRs and reconciles the desired state.</p>'' @
     nl @ nl @ ''  <div class='' @ dq @ ''arrow-flow'' @ dq @ ''>'' @ nl @ ''    <span class='' @
     dq @ ''step'' @ dq @ ''>Apply ClawAgent CR</span>'' @ nl @ ''    <span class='' @ dq @
     ''arrow'' @ dq @ ''>&#x2192;</span>'' @ nl @ ''    <span class='' @ dq @ ''step'' @ dq @
     ''>Operator creates Pod with identity, skills, observeclaw plugin config</span>'' @ nl @
     ''    <span class='' @ dq @ ''arrow'' @ dq @ ''>&#x2192;</span>'' @ nl @
     ''    <span class='' @ dq @ ''step'' @ dq @
     ''>Agent routes LLM calls through ClawGateway</span>'' @ nl @ ''    <span class='' @ dq @
     ''arrow'' @ dq @ ''>&#x2192;</span>'' @ nl @ ''    <span class='' @ dq @ ''step'' @ dq @
     ''>Traces flow to Tempo</span>'' @ nl @ ''    <span class='' @ dq @ ''arrow'' @ dq @
     ''>&#x2192;</span>'' @ nl @ ''    <span class='' @ dq @ ''step'' @ dq @
     ''>Visible in Grafana</span>'' @ nl @ ''  </div>'' @ nl @ nl"

definition page_sample :: "string" where
  "page_sample =
     ''  <p>Sample <strong>ClawAgent</strong> YAML:</p>'' @ nl @ ''<pre class='' @ dq @ ''yaml'' @
     dq @ ''>apiVersion: claw.clawbernetes.io/v1'' @ nl @ ''kind: ClawAgent'' @ nl @
     ''metadata:'' @ nl @ ''  name: eng-agent'' @ nl @ ''  namespace: clawbernetes'' @ nl @
     ''spec:'' @ nl @ ''  identity:'' @ nl @ ''    soul: |'' @ nl @
     ''      You are a senior software engineer with deep expertise'' @ nl @
     ''      in distributed systems and Kubernetes.'' @ nl @ ''  skillSet: engineering-skills'' @
     nl @ ''  policy: engineering-policy'' @ nl @ ''  gateway: main-gateway'' @ nl @
     ''  observability: fleet-observability'' @ nl @ ''  channels:'' @ nl @
     ''    - production-postgres'' @ nl @ ''  model:'' @ nl @ ''    provider: anthropic'' @ nl @
     ''    name: claude-sonnet-4-6'' @ nl @ ''    fallback:'' @ nl @
     ''      provider: anthropic'' @ nl @ ''      name: claude-haiku-4-5'' @ nl @
     ''  lifecycle:'' @ nl @ ''    restartPolicy: Always'' @ nl @
     ''    hibernateAfterIdleMinutes: 30'' @ nl @ ''    maxRuntime: '' @ dq @ ''24h'' @ dq @
     ''</pre>'' @ nl @ nl @
     ''  <p>The operator translates this into a running Pod with the correct environment,'' @ nl @
     ''     secrets, and sidecar configuration. Budget policies, tool restrictions, and'' @ nl @
     ''     lifecycle rules are enforced automatically.</p>'' @ nl @ ''</div>'' @ nl @ nl @
     ''</body>'' @ nl @ ''</html>''"

definition generateFleetDashboardHTML :: "agentInfo list \<Rightarrow> string" where
  "generateFleetDashboardHTML agents =
     page_head @ page_style_grid @ page_style_cards @ page_style_how @
     page_summary (length agents) (phaseCards agents) (concat (map agentCard agents)) @
     page_how @ page_sample"

section \<open>Counts\<close>

lemma count_of_phaseCount:
  "count_of (phaseCount agents) phase = length (filter (\<lambda>a. Info_Phase a = phase) agents)"
proof -
  have "count_of (foldl (\<lambda>m a. mput (Info_Phase a) (Suc (count_of m (Info_Phase a))) m) m agents) phase =
      count_of m phase + length (filter (\<lambda>a. Info_Phase a = phase) agents)" for m
    by (induction agents arbitrary: m) (auto simp: count_of_def gomap_simps)
  then show ?thesis by (simp add: phaseCount_def count_of_def)
qed

section \<open>Markup\<close>

definition is_markup :: "char \<Rightarrow> bool" where
  "is_markup c = (c \<in> {CHR ''<'', CHR ''>'', CHR 0x22, CHR 0x27})"

definition markup :: "string \<Rightarrow> string" where
  "markup s = filter is_markup s"

lemma markup_append [simp]: "markup (s @ t) = markup s @ markup t"
  by (simp add: markup_def)

lemma markup_Nil [simp]: "markup '''' = ''''"
  by (simp add: markup_def)

lemma markup_concat [simp]: "markup (concat ss) = concat (map markup ss)"
  by (induction ss) simp_all

lemma html_char_no_markup: "filter is_markup (html_char c) = []"
  by (simp add: html_char_def is_markup_def)

lemma markup_EscapeString [simp]: "markup (EscapeString s) = ''''"
  by (induction s) (auto simp: EscapeString_def markup_def html_char_no_markup)

lemma markup_empty: "list_all (\<lambda>c. \<not> is_markup c) s \<Longrightarrow> markup s = ''''"
  by (simp add: markup_def list_all_iff filter_empty_conv)

lemma digit_no_markup: "is_digit c \<Longrightarrow> \<not> is_markup c" "\<not> is_markup CHR ''-''"
  by (auto simp: is_digit_def is_markup_def less_eq_char_def)

lemma markup_show [simp]: "markup (show_nat n) = ''''" "markup (show_int i) = ''''"
proof -
  have "list_all (\<lambda>c. \<not> is_markup c) (show_nat n)"
    using show_nat_digits [of n] digit_no_markup(1) by (auto simp: list_all_iff)
  then show "markup (show_nat n) = ''''" by (rule markup_empty)
  have "list_all (\<lambda>c. \<not> is_markup c) (show_int i)"
    using show_int_chars [of i] digit_no_markup unfolding list_all_iff by metis
  then show "markup (show_int i) = ''''" by (rule markup_empty)
qed

lemma markup_nameColor [simp]: "markup (nameColor p) = ''''"
  by (rule markup_empty) (simp add: nameColor_def is_markup_def)

lemma markup_Join: "markup (Join ss sep) = Join (map markup ss) (markup sep)"
  by (induction ss sep rule: Join.induct) simp_all

lemma Join_const: "length xs = length ys \<Longrightarrow> Join (map (\<lambda>_. k) xs) sep = Join (map (\<lambda>_. k) ys) sep"
  by (simp add: map_replicate_const)

text \<open>An agent with every field's text taken away: what is left is which fields are empty, how
  many channels and denied tools there are, and whether the phase is the one that has a card.\<close>

definition blank :: "string \<Rightarrow> string" where
  "blank s = (if s = '''' then '''' else ''x'')"

definition blank_info :: "agentInfo \<Rightarrow> agentInfo" where
  "blank_info a = \<lparr>
     Info_Name = '''', Info_Phase = (if Info_Phase a = ''Error'' then ''Error'' else ''''), Info_Model = '''',
     Info_FallbackModel = blank (Info_FallbackModel a), Info_Provider = '''', Info_Gateway = '''',
     Info_Policy = '''', Info_SkillSet = '''', Info_Observability = '''',
     Info_Channels = replicate (length (Info_Channels a)) '''', Info_Soul = blank (Info_Soul a),
     Info_BudgetDaily = 0, Info_BudgetMonthly = 0,
     Info_DowngradeModel = blank (Info_DowngradeModel a),
     Info_ToolDeny = replicate (length (Info_ToolDeny a)) '''',
     Info_RestartPolicy = '''', Info_MaxRuntime = '''', Info_IdleHibernate = 0\<rparr>"

lemma blank_info_simps [simp]:
  "Info_FallbackModel (blank_info a) = blank (Info_FallbackModel a)"
  "Info_Channels (blank_info a) = replicate (length (Info_Channels a)) ''''"
  "Info_Soul (blank_info a) = blank (Info_Soul a)"
  "Info_DowngradeModel (blank_info a) = blank (Info_DowngradeModel a)"
  "Info_ToolDeny (blank_info a) = replicate (length (Info_ToolDeny a)) ''''"
  "Info_Phase (blank_info a) = ''Error'' \<longleftrightarrow> Info_Phase a = ''Error''"
  by (simp_all add: blank_info_def)

lemma markup_or_none: "markup (or_none (blank s)) = markup (or_none s)"
  by (simp add: or_none_def blank_def)

lemma markup_tags: "markup (tags_html cls (replicate (length xs) '''')) = markup (tags_html cls xs)"
proof -
  let ?tag = "\<lambda>c. ''<span class='' @ dq @ cls @ dq @ ''>'' @ EscapeString c @ ''</span>''"
  have "markup (?tag c) = markup (?tag '''')" for c
    by (simp only: markup_append markup_EscapeString)
  then have "map (\<lambda>c. markup (?tag c)) ys = map (\<lambda>_. markup (?tag '''')) ys" for ys
    by (intro map_cong) blast+
  then have "markup (Join (map ?tag (replicate (length xs) '''')) sep) = markup (Join (map ?tag xs) sep)" for sep
    by (simp only: markup_Join map_map comp_def) (rule Join_const, simp)
  then show ?thesis
    by (cases "xs = []") (simp add: tags_html_def, simp only: tags_html_def replicate_empty length_0_conv if_False)
qed

lemma markup_soul: "markup (soul_html (blank_info a)) = markup (soul_html a)"
  by (simp only: soul_html_def blank_def blank_info_simps markup_append markup_EscapeString list.distinct split: if_split) simp

lemma markup_agentCard: "markup (agentCard (blank_info a)) = markup (agentCard a)"
  by (simp only: agentCard_def card_identity_def card_limits_def card_lifecycle_def markup_append
      markup_EscapeString markup_show markup_nameColor markup_or_none markup_tags markup_soul blank_info_simps)

lemma markup_phaseCard: "markup (phaseCard p n) = markup (phaseCard p m)"
  by (simp only: phaseCard_def markup_append markup_show)

lemma count_Error_blank:
  "count_of (phaseCount (map blank_info infos)) ''Error'' = count_of (phaseCount infos) ''Error''"
  by (simp add: count_of_phaseCount filter_map comp_def)

lemma markup_phaseCards: "markup (phaseCards (map blank_info infos)) = markup (phaseCards infos)"
  unfolding phaseCards_def Let_def
  by (simp add: count_Error_blank) (metis markup_phaseCard)

text \<open>C4: Values shown on the dashboard cannot inject markup: the sequence of angle brackets and
  quotes in the page is that of the page with every name, soul, model, reference, channel,
  tool, budget and lifecycle text blanked out. It depends only on the number of agents, on
  which optional fields are empty and on the length of the two lists.\<close>

theorem dashboard_markup_fixed:
  "markup (generateFleetDashboardHTML (map blank_info infos)) = markup (generateFleetDashboardHTML infos)"
  by (simp only: generateFleetDashboardHTML_def page_summary_def markup_append markup_concat markup_show
      markup_phaseCards map_map comp_def markup_agentCard)

text \<open>The phase summary shows, for Running and Pending, the number of agents in that phase, 0
  included; Error has a card only when some agent is in it, and no other phase has one: the
  phase Progressing, which the controller sets, is counted nowhere but in the total.\<close>

theorem dashboard_phase_summary:
  "phaseCards infos =
     phaseCard ''Running'' (length (filter (\<lambda>a. Info_Phase a = ''Running'') infos)) @
     phaseCard ''Pending'' (length (filter (\<lambda>a. Info_Phase a = ''Pending'') infos)) @
     (if ''Error'' \<in> Info_Phase ` set infos
      then phaseCard ''Error'' (length (filter (\<lambda>a. Info_Phase a = ''Error'') infos)) else '''')"
proof -
  have "''Error'' \<in> Info_Phase ` set infos \<longleftrightarrow> filter (\<lambda>a. Info_Phase a = ''Error'') infos \<noteq> []"
    by (force simp: filter_empty_conv)
  then show ?thesis
    unfolding phaseCards_def Let_def by (simp add: count_of_phaseCount)
qed

end
