(* ===== verification/AgentReconcile.thy ===== *)
theory AgentReconcile
  imports AgentBuilders FleetDashboard
begin

text \<open>
  The agent controller (\<open>internal/controller/clawagent_controller.go\<close>): resolving an agent's
  references, ensuring its objects, the life cycle of its workspace claim, its status, the fleet
  dashboard, and the mappers that turn a change of a referenced object into requests. Every
  operation takes the client and the external functions as arguments and is a state
  transformer over the world; \<open>lastDashboardHash\<close> is passed in and out of \<open>Reconcile\<close>.
\<close>

section \<open>Ensuring an object\<close>

definition withOwner :: "ext \<Rightarrow> ClawAgent \<Rightarrow> Obj \<Rightarrow> err + Obj" where
  "withOwner x owner ob =
     (case ext_SetControllerReference x KClawAgent (Agent_Meta owner) (meta_of ob) of
        Inl e \<Rightarrow> Inl e
      | Inr m \<Rightarrow> Inr (set_meta m ob))"

text \<open>The type switch on the stored and the desired object: the object to send, if it drifted.\<close>

fun drifted :: "Obj \<Rightarrow> Obj \<Rightarrow> Obj option" where
  "drifted (OConfigMap old) (OConfigMap desired) =
     (if CM_Data old \<noteq> CM_Data desired \<or> CM_BinaryData old \<noteq> CM_BinaryData desired
      then Some (OConfigMap (old\<lparr>CM_Data := CM_Data desired, CM_BinaryData := CM_BinaryData desired\<rparr>))
      else None)"
| "drifted (ODeployment old) (ODeployment desired) =
     (if Dep_Spec old \<noteq> Dep_Spec desired
      then Some (ODeployment (old\<lparr>Dep_Spec := Dep_Spec desired\<rparr>))
      else None)"
| "drifted (OService old) (OService desired) =
     (if Svc_Ports old \<noteq> Svc_Ports desired \<or> Svc_Selector old \<noteq> Svc_Selector desired
      then Some (OService (old\<lparr>Svc_Selector := Svc_Selector desired, Svc_Ports := Svc_Ports desired,
                              Svc_ClusterIP := Svc_ClusterIP old\<rparr>))
      else None)"
| "drifted _ _ = None"

definition ensureResource ::
  "ext \<Rightarrow> 'w kube \<Rightarrow> ClawAgent \<Rightarrow> Obj \<Rightarrow> string \<Rightarrow> ('w, err + unit) state" where
  "ensureResource x kc owner ob desc =
     (case withOwner x owner ob of
        Inl e \<Rightarrow> throwE (Wrap (''setting owner reference on '' @ desc @ '': '') e)
      | Inr desired \<Rightarrow> do {
          r \<leftarrow> kube_Get kc (kind_of desired) (key_of desired);
          case r of
            Inl e \<Rightarrow> if is_not_found e then kube_Create kc desired else throwE e
          | Inr existing \<Rightarrow>
              (case drifted existing desired of
                 Some ob' \<Rightarrow> kube_Update kc ob'
               | None \<Rightarrow> retE ())
        })"

section \<open>Workspace claims\<close>

text \<open>\<open>resource.MustParse\<close> panics on text that is not a quantity.\<close>

definition mustParse :: "ext \<Rightarrow> string \<Rightarrow> ('w, err + Quantity) state" where
  "mustParse x s =
     (case ext_ParseQuantity x s of
        None \<Rightarrow> throwE (PanicErr (''cannot parse '' @ s))
      | Some q \<Rightarrow> retE q)"

definition storage_of :: "PersistentVolumeClaim \<Rightarrow> Quantity" where
  "storage_of pvc = (case mget (PVC_Requests pvc) ''storage'' of None \<Rightarrow> 0 | Some q \<Rightarrow> q)"

text \<open>\<open>if reclaimPolicy == delete { SetControllerReference(owner, pvc) }\<close>\<close>

definition ownClaim ::
  "ext \<Rightarrow> ClawAgent \<Rightarrow> string \<Rightarrow> string \<Rightarrow> PersistentVolumeClaim \<Rightarrow> ('w, err + Obj) state" where
  "ownClaim x owner reclaimPolicy msg pvc =
     (if reclaimPolicy = ReclaimPolicyDelete then
        (case withOwner x owner (OPVC pvc) of Inl e \<Rightarrow> throwE (Wrap msg e) | Inr ob \<Rightarrow> retE ob)
      else retE (OPVC pvc))"

definition syncPVCOwnerRefs ::
  "ext \<Rightarrow> 'w kube \<Rightarrow> ClawAgent \<Rightarrow> PersistentVolumeClaim \<Rightarrow> string \<Rightarrow> ('w, err + unit) state" where
  "syncPVCOwnerRefs x kc owner pvc reclaimPolicy =
     (if reclaimPolicy = ReclaimPolicyDelete \<and> Meta_OwnerReferences (PVC_Meta pvc) = [] then
        (case withOwner x owner (OPVC pvc) of
           Inl e \<Rightarrow> throwE (Wrap ''adding owner reference to existing PVC: '' e)
         | Inr ob \<Rightarrow> kube_Update kc ob)
      else if reclaimPolicy = ReclaimPolicyRetain \<and> Meta_OwnerReferences (PVC_Meta pvc) \<noteq> [] then
        kube_Update kc (OPVC (pvc\<lparr>PVC_Meta := (PVC_Meta pvc)\<lparr>Meta_OwnerReferences := []\<rparr>\<rparr>))
      else retE ())"

text \<open>Steps 2 to 6 of the resize; the result is the owner with its status.\<close>

definition resizeMigrate ::
  "ext \<Rightarrow> 'w kube \<Rightarrow> ClawAgent \<Rightarrow> PersistentVolumeClaim \<Rightarrow> string \<Rightarrow> string \<Rightarrow> string \<Rightarrow> Quantity \<Rightarrow> string \<Rightarrow>
   ('w, err + ClawAgent) state" where
  "resizeMigrate x kc owner oldPVC ns name pvcName newSize reclaimPolicy =
     (let newPVCName = name @ PVCResizeSuffix; migratePodName = name @ ''-pvc-migrate'' in do {
        r \<leftarrow> getAs asPVC kc KPVC (nn newPVCName ns);
        case r of
          Inl e \<Rightarrow>
            if \<not> is_not_found e then throwE e
            else bindE (ownClaim x owner reclaimPolicy ''setting owner reference on new PVC: ''
                          (buildPVC newPVCName ns name newSize (AS_Workspace (Agent_Spec owner)))) (\<lambda>newPVC.
                 bindE (kube_Create kc newPVC) (\<lambda>_. retE owner))
        | Inr _ \<Rightarrow> do {
            r2 \<leftarrow> getAs asPod kc KPod (nn migratePodName ns);
            case r2 of
              Inl e \<Rightarrow>
                if \<not> is_not_found e then throwE e
                else bindE (kube_Create kc (OPod (buildMigrationPod migratePodName ns name pvcName newPVCName)))
                       (\<lambda>_. retE owner)
            | Inr migratePod \<Rightarrow>
                if Pod_Phase migratePod = ''Succeeded'' then do {
                  _ \<leftarrow> kube_Delete kc (OPod migratePod);
                  d \<leftarrow> kube_Delete kc (OPVC oldPVC);
                  case d of
                    Inl e \<Rightarrow>
                      if is_not_found e
                      then retE (owner\<lparr>Agent_Status := (Agent_Status owner)\<lparr>ASt_WorkspacePVC := newPVCName\<rparr>\<rparr>)
                      else throwE e
                  | Inr _ \<Rightarrow> retE (owner\<lparr>Agent_Status := (Agent_Status owner)\<lparr>ASt_WorkspacePVC := newPVCName\<rparr>\<rparr>)
                }
                else if Pod_Phase migratePod = ''Failed'' then do {
                  _ \<leftarrow> kube_Delete kc (OPod migratePod);
                  throwE (Errorf (''PVC resize migration failed '' @ em_dash @ '' check logs for pod '' @ migratePodName))
                }
                else throwE RequeueNeeded
          }
      })"

definition resizePVC ::
  "ext \<Rightarrow> 'w kube \<Rightarrow> ClawAgent \<Rightarrow> PersistentVolumeClaim \<Rightarrow> string \<Rightarrow> string \<Rightarrow> string \<Rightarrow> Quantity \<Rightarrow> string \<Rightarrow>
   ('w, err + ClawAgent) state" where
  "resizePVC x kc owner oldPVC ns name pvcName newSize reclaimPolicy = do {
     r \<leftarrow> getAs asDeployment kc KDeployment (nn name ns);
     case r of
       Inr dep \<Rightarrow>
         if DS_Replicas (Dep_Spec dep) \<noteq> Some 0 then do {
           u \<leftarrow> kube_Update kc (ODeployment (dep\<lparr>Dep_Spec := (Dep_Spec dep)\<lparr>DS_Replicas := Some 0\<rparr>\<rparr>));
           case u of
             Inl e \<Rightarrow> throwE (Wrap ''scaling deployment to 0 for PVC resize: '' e)
           | Inr _ \<Rightarrow> throwE RequeueNeeded
         }
         else resizeMigrate x kc owner oldPVC ns name pvcName newSize reclaimPolicy
     | Inl _ \<Rightarrow> resizeMigrate x kc owner oldPVC ns name pvcName newSize reclaimPolicy
   }"

definition ensurePVC ::
  "ext \<Rightarrow> 'w kube \<Rightarrow> ClawAgent \<Rightarrow> string \<Rightarrow> string \<Rightarrow> ('w, err + ClawAgent) state" where
  "ensurePVC x kc owner ns name =
     (let ws = AS_Workspace (Agent_Spec owner);
          pvcName = activePVCName owner name;
          storageSize = ResolvedStorageSize ws;
          reclaimPolicy = ResolvedReclaimPolicy ws
      in bindE (mustParse x storageSize) (\<lambda>requestedSize.
         bindE (ownClaim x owner reclaimPolicy ''setting owner reference on PVC: ''
                  (buildPVC pvcName ns name requestedSize ws)) (\<lambda>pvc. do {
           r \<leftarrow> getAs asPVC kc KPVC (nn pvcName ns);
           case r of
             Inl e \<Rightarrow> if is_not_found e then bindE (kube_Create kc pvc) (\<lambda>_. retE owner) else throwE e
           | Inr existing \<Rightarrow>
               bindE (syncPVCOwnerRefs x kc owner existing reclaimPolicy) (\<lambda>_.
                 if requestedSize > storage_of existing
                 then resizePVC x kc owner existing ns name pvcName requestedSize reclaimPolicy
                 else retE owner)
         })))"

fun cleanupClaims :: "'w kube \<Rightarrow> string \<Rightarrow> string \<Rightarrow> string list \<Rightarrow> ('w, err + unit) state" where
  "cleanupClaims kc ns name [] = retE ()"
| "cleanupClaims kc ns name (suffix # rest) = do {
     r \<leftarrow> getAs asPVC kc KPVC (nn (name @ suffix) ns);
     case r of
       Inl e \<Rightarrow> if is_not_found e then cleanupClaims kc ns name rest else throwE e
     | Inr existing \<Rightarrow> do {
         d \<leftarrow> kube_Delete kc (OPVC existing);
         case d of
           Inl e \<Rightarrow> if is_not_found e then cleanupClaims kc ns name rest else throwE e
         | Inr _ \<Rightarrow> cleanupClaims kc ns name rest
       }
   }"

definition cleanupOrphanedPVC :: "'w kube \<Rightarrow> string \<Rightarrow> string \<Rightarrow> ('w, err + unit) state" where
  "cleanupOrphanedPVC kc ns name = cleanupClaims kc ns name [PVCSuffix, PVCResizeSuffix]"

section \<open>References\<close>

text \<open>Getting a referenced object: an empty name or a missing object is no error.\<close>

definition lookupRef ::
  "(Obj \<Rightarrow> 'a option) \<Rightarrow> 'w kube \<Rightarrow> Kind \<Rightarrow> string \<Rightarrow> string \<Rightarrow> ('w, err + 'a option) state" where
  "lookupRef sel kc k name ns =
     (if name = '''' then retE None
      else do {
        r \<leftarrow> getAs sel kc k (nn name ns);
        case r of
          Inl e \<Rightarrow> if is_not_found e then retE None else throwE e
        | Inr ob \<Rightarrow> retE (Some ob)
      })"

fun lookupChannels :: "'w kube \<Rightarrow> string \<Rightarrow> string list \<Rightarrow> ('w, err + ClawChannel list) state" where
  "lookupChannels kc ns [] = retE []"
| "lookupChannels kc ns (chName # rest) = do {
     r \<leftarrow> getAs asClawChannel kc KClawChannel (nn chName ns);
     case r of
       Inl e \<Rightarrow> if is_not_found e then lookupChannels kc ns rest else throwE e
     | Inr ch \<Rightarrow>
         if IsEnabled (Channel_Spec ch)
         then bindE (lookupChannels kc ns rest) (\<lambda>chs. retE (ch # chs))
         else lookupChannels kc ns rest
   }"

record Resolved =
  R_OTLPEndpoint :: string
  R_Skills :: "SkillEntry list"
  R_GatewayURL :: string
  R_Gateway :: "ClawGateway option"
  R_Policy :: "ClawPolicy option"
  R_Channels :: "ClawChannel list"

definition gatewayURLFor :: "string \<Rightarrow> string \<Rightarrow> ClawGateway \<Rightarrow> string" where
  "gatewayURLFor gwName ns gw =
     (let port = (if GW_Port (Gateway_Spec gw) = 0 then 8443 else GW_Port (Gateway_Spec gw)) in
      ''http://'' @ gwName @ ''-gateway.'' @ ns @ ''.svc.cluster.local:'' @ show_int port)"

definition resolved_of ::
  "ClawAgentSpec \<Rightarrow> string \<Rightarrow> ClawObservability option \<Rightarrow> ClawSkillSet option \<Rightarrow> ClawGateway option \<Rightarrow>
   ClawPolicy option \<Rightarrow> ClawChannel list \<Rightarrow> Resolved" where
  "resolved_of s ns obs ss gw pol chs = \<lparr>
     R_OTLPEndpoint = (case obs of None \<Rightarrow> '''' | Some ob \<Rightarrow> Obs_OTLPEndpoint (Observability_Spec ob)),
     R_Skills = (case ss of None \<Rightarrow> [] | Some ob \<Rightarrow> SS_Skills (SkillSet_Spec ob)),
     R_GatewayURL = (case gw of None \<Rightarrow> '''' | Some ob \<Rightarrow> gatewayURLFor (AS_Gateway s) ns ob),
     R_Gateway = gw, R_Policy = pol, R_Channels = chs\<rparr>"

definition resolveRefs :: "'w kube \<Rightarrow> ClawAgentSpec \<Rightarrow> string \<Rightarrow> ('w, err + Resolved) state" where
  "resolveRefs kc s ns =
     bindE (lookupRef asClawObservability kc KClawObservability (AS_Observability s) ns) (\<lambda>obs.
     bindE (lookupRef asClawSkillSet kc KClawSkillSet (AS_SkillSet s) ns) (\<lambda>ss.
     bindE (lookupRef asClawGateway kc KClawGateway (AS_Gateway s) ns) (\<lambda>gw.
     bindE (lookupRef asClawPolicy kc KClawPolicy (AS_Policy s) ns) (\<lambda>pol.
     bindE (lookupChannels kc ns (AS_Channels s)) (\<lambda>chs.
     retE (resolved_of s ns obs ss gw pol chs))))))"

section \<open>Status\<close>

definition resolveAgentStatus :: "'w kube \<Rightarrow> string \<Rightarrow> string \<Rightarrow> ('w, string \<times> string) state" where
  "resolveAgentStatus kc ns name = do {
     r \<leftarrow> getAs asDeployment kc KDeployment (nn name ns);
     State_Monad.return
       (case r of
          Inl _ \<Rightarrow> (''Pending'', '''')
        | Inr dep \<Rightarrow>
            (let st = Dep_Status dep in
             if list_ex (\<lambda>c. DC_Type c = ''Available'' \<and> DC_Status c = ''True'') (DSt_Conditions st)
             then (''Running'', name @ '' (replicas: '' @ show_int (sint (DSt_ReadyReplicas st)) @ '')'')
             else if sint (DSt_UnavailableReplicas st) > 0 then (''Progressing'', '''')
             else (''Pending'', '''')))
   }"

definition updateStatus :: "'w kube \<Rightarrow> ClawAgent \<Rightarrow> ClawAgentStatus \<Rightarrow> ClawAgentStatus \<Rightarrow> ('w, err + unit) state" where
  "updateStatus kc agent oldStatus newStatus =
     (if newStatus \<noteq> oldStatus then kube_StatusUpdate kc (OClawAgent (agent\<lparr>Agent_Status := newStatus\<rparr>))
      else retE ())"

section \<open>The fleet dashboard\<close>

definition agentInfoOf :: "ClawAgent \<Rightarrow> ClawPolicy option \<Rightarrow> agentInfo" where
  "agentInfoOf a pol =
     (let s = Agent_Spec a; soul = Identity_Soul (AS_Identity s);
          budget = map_option (\<lambda>p. PS_Budget (Policy_Spec p)) pol in
      \<lparr>Info_Name = Meta_Name (Agent_Meta a),
       Info_Phase = ASt_Phase (Agent_Status a),
       Info_Model = Model_Name (AS_Model s),
       Info_FallbackModel = (case Model_Fallback (AS_Model s) of None \<Rightarrow> '''' | Some f \<Rightarrow> Fallback_Name f),
       Info_Provider = Model_Provider (AS_Model s),
       Info_Gateway = AS_Gateway s,
       Info_Policy = AS_Policy s,
       Info_SkillSet = AS_SkillSet s,
       Info_Observability = AS_Observability s,
       Info_Channels = AS_Channels s,
       Info_Soul = (if length soul > 100 then take 100 soul @ ''...'' else soul),
       Info_BudgetDaily = (case budget of None \<Rightarrow> 0 | Some b \<Rightarrow> B_Daily b),
       Info_BudgetMonthly = (case budget of None \<Rightarrow> 0 | Some b \<Rightarrow> B_Monthly b),
       Info_DowngradeModel = (case budget of None \<Rightarrow> '''' | Some b \<Rightarrow> B_DowngradeModel b),
       Info_ToolDeny = (case pol of None \<Rightarrow> [] | Some p \<Rightarrow> TP_Deny (PS_ToolPolicy (Policy_Spec p))),
       Info_RestartPolicy = Life_RestartPolicy (AS_Lifecycle s),
       Info_MaxRuntime = Life_MaxRuntime (AS_Lifecycle s),
       Info_IdleHibernate = (case Life_HibernateAfterIdleMinutes (AS_Lifecycle s) of None \<Rightarrow> 0 | Some n \<Rightarrow> n)\<rparr>)"

text \<open>The loop over the agents; a policy that cannot be read is left out.\<close>

fun agentInfos :: "'w kube \<Rightarrow> string \<Rightarrow> ClawAgent list \<Rightarrow> ('w, agentInfo list) state" where
  "agentInfos kc ns [] = State_Monad.return []"
| "agentInfos kc ns (a # rest) = do {
     pol \<leftarrow> (if AS_Policy (Agent_Spec a) = '''' then State_Monad.return None
             else do {
               r \<leftarrow> getAs asClawPolicy kc KClawPolicy (nn (AS_Policy (Agent_Spec a)) ns);
               State_Monad.return (case r of Inl _ \<Rightarrow> None | Inr p \<Rightarrow> Some p)
             });
     infos \<leftarrow> agentInfos kc ns rest;
     State_Monad.return (agentInfoOf a pol # infos)
   }"

definition dashboardConfigMap :: "string \<Rightarrow> string \<Rightarrow> ConfigMap" where
  "dashboardConfigMap ns page =
     \<lparr>CM_Meta = new_meta ''fleet-dashboard'' ns
        (mputs [(''app'', ''fleet-dashboard''), (''app.kubernetes.io/managed-by'', ''clawbernetes'')] []),
      CM_Data = Some (mputs [(''index.html'', page)] []),
      CM_BinaryData = None\<rparr>"

text \<open>Writing the page, once its hash is known to be new. The result carries the hash to keep.\<close>

definition writeDashboard ::
  "'w kube \<Rightarrow> ConfigMap \<Rightarrow> string \<Rightarrow> string \<Rightarrow> ('w, (err + unit) \<times> string) state" where
  "writeDashboard kc cm newHash lastHash = do {
     r \<leftarrow> getAs asConfigMap kc KConfigMap (key_of (OConfigMap cm));
     case r of
       Inl e \<Rightarrow>
         if is_not_found e then do {
           c \<leftarrow> kube_Create kc (OConfigMap cm);
           State_Monad.return (c, newHash)
         }
         else State_Monad.return (Inl e, lastHash)
     | Inr existing \<Rightarrow> do {
         u \<leftarrow> kube_Update kc (OConfigMap (existing\<lparr>CM_Data := CM_Data cm\<rparr>));
         State_Monad.return (case u of Inl e \<Rightarrow> (Inl e, lastHash) | Inr _ \<Rightarrow> (Inr (), newHash))
       }
   }"

definition updateFleetDashboard ::
  "ext \<Rightarrow> 'w kube \<Rightarrow> string \<Rightarrow> string \<Rightarrow> ('w, (err + unit) \<times> string) state" where
  "updateFleetDashboard x kc ns lastHash = do {
     l \<leftarrow> listAs asClawAgent kc KClawAgent ns;
     case l of
       Inl e \<Rightarrow> State_Monad.return (Inl e, lastHash)
     | Inr agents \<Rightarrow> do {
         infos \<leftarrow> agentInfos kc ns agents;
         (let page = generateFleetDashboardHTML infos; newHash = ext_Sha256Hex x page in
          if newHash = lastHash then State_Monad.return (Inr (), lastHash)
          else writeDashboard kc (dashboardConfigMap ns page) newHash lastHash)
       }
   }"

section \<open>Reconcile\<close>

text \<open>The three config maps, in order.\<close>

definition ensureConfigMaps ::
  "ext \<Rightarrow> 'w kube \<Rightarrow> ClawAgent \<Rightarrow> Harness \<Rightarrow> Resolved \<Rightarrow> string \<Rightarrow> string \<Rightarrow> ('w, err + unit) state" where
  "ensureConfigMaps x kc agent h rs ns name =
     bindE (ensureResource x kc agent (OConfigMap (identityConfigMap agent ns name)) ''identity-configmap'') (\<lambda>_.
     bindE (ensureResource x kc agent (OConfigMap (skillsConfigMap ns name (R_Skills rs))) ''skills-configmap'') (\<lambda>_.
     case harnessConfigMap h agent ns name (R_GatewayURL rs) (R_OTLPEndpoint rs) (R_Policy rs) (R_Gateway rs)
            (R_Channels rs) of
       Inl e \<Rightarrow> throwE e
     | Inr configCM \<Rightarrow> ensureResource x kc agent (OConfigMap configCM) ''harness-config-configmap''))"

text \<open>The workspace: the agent, with its status, and the claim its pod mounts (none when
  ephemeral).\<close>

definition ensureWorkspace ::
  "ext \<Rightarrow> 'w kube \<Rightarrow> ClawAgent \<Rightarrow> string \<Rightarrow> string \<Rightarrow> ('w, err + ClawAgent \<times> string) state" where
  "ensureWorkspace x kc agent ns name =
     (if IsPersistent (AS_Workspace (Agent_Spec agent))
      then bindE (ensurePVC x kc agent ns name) (\<lambda>agent'. retE (agent', activePVCName agent' name))
      else bindE (cleanupOrphanedPVC kc ns name) (\<lambda>_. retE (agent, '''')))"

definition ensureWorkload ::
  "ext \<Rightarrow> 'w kube \<Rightarrow> ClawAgent \<Rightarrow> Harness \<Rightarrow> Resolved \<Rightarrow> string \<Rightarrow> string \<Rightarrow> string \<Rightarrow> ('w, err + unit) state" where
  "ensureWorkload x kc agent h rs ns name activePVC =
     (let dep = agentDeployment \<lparr>DP_Agent = agent, DP_Namespace = ns, DP_Name = name,
                  DP_OTLPEndpoint = R_OTLPEndpoint rs, DP_GatewayURL = R_GatewayURL rs,
                  DP_ActivePVC = activePVC, DP_Channels = R_Channels rs, DP_Harness = h\<rparr>
      in bindE (ensureResource x kc agent (ODeployment dep) ''agent-deployment'') (\<lambda>_.
         ensureResource x kc agent (OService (agentService h agent ns name)) ''agent-service''))"

definition ensureStatus :: "'w kube \<Rightarrow> ClawAgent \<Rightarrow> ClawAgentStatus \<Rightarrow> string \<Rightarrow> string \<Rightarrow> string \<Rightarrow> ('w, err + unit) state" where
  "ensureStatus kc agent oldStatus ns name activePVC = do {
     (phase, podName) \<leftarrow> resolveAgentStatus kc ns name;
     updateStatus kc agent oldStatus \<lparr>ASt_Phase = phase, ASt_PodName = podName, ASt_WorkspacePVC = activePVC\<rparr>
   }"

text \<open>How a reconcile of an existing agent ends, short of an error.\<close>

datatype Outcome = Requeue nat | Reconciled

definition reconcileAgent :: "ext \<Rightarrow> 'w kube \<Rightarrow> ClawAgent \<Rightarrow> ('w, err + Outcome) state" where
  "reconcileAgent x kc agent =
     (let ns = Meta_Namespace (Agent_Meta agent); name = Meta_Name (Agent_Meta agent);
          h = ForType x (HS_Type (AS_Harness (Agent_Spec agent))); oldStatus = Agent_Status agent
      in bindE (resolveRefs kc (Agent_Spec agent) ns) (\<lambda>rs.
         bindE (ensureConfigMaps x kc agent h rs ns name) (\<lambda>_. do {
           ws \<leftarrow> ensureWorkspace x kc agent ns name;
           case ws of
             Inl e \<Rightarrow>
               if IsPersistent (AS_Workspace (Agent_Spec agent)) \<and> is_requeue e then retE (Requeue 5)
               else throwE e
           | Inr (agent', activePVC) \<Rightarrow>
               bindE (ensureWorkload x kc agent' h rs ns name activePVC) (\<lambda>_.
               bindE (ensureStatus kc agent' oldStatus ns name activePVC) (\<lambda>_.
               retE Reconciled))
         })))"

text \<open>
  \<open>Reconcile\<close>: the result is an error or the seconds of \<open>RequeueAfter\<close> (0 for none), with the
  dashboard hash. A failed dashboard update is only logged.
\<close>

definition reconcileFound :: "ext \<Rightarrow> 'w kube \<Rightarrow> string \<Rightarrow> ClawAgent \<Rightarrow> ('w, (err + nat) \<times> string) state" where
  "reconcileFound x kc lastHash agent = do {
     r \<leftarrow> reconcileAgent x kc agent;
     case r of
       Inl e \<Rightarrow> State_Monad.return (Inl e, lastHash)
     | Inr (Requeue seconds) \<Rightarrow> State_Monad.return (Inr seconds, lastHash)
     | Inr Reconciled \<Rightarrow> do {
         d \<leftarrow> updateFleetDashboard x kc (Meta_Namespace (Agent_Meta agent)) lastHash;
         State_Monad.return (Inr 0, snd d)
       }
   }"

definition Reconcile :: "ext \<Rightarrow> 'w kube \<Rightarrow> NamespacedName \<Rightarrow> string \<Rightarrow> ('w, (err + nat) \<times> string) state" where
  "Reconcile x kc req lastHash = do {
     a \<leftarrow> getAs asClawAgent kc KClawAgent req;
     case a of
       Inl e \<Rightarrow> State_Monad.return (if is_not_found e then Inr 0 else Inl e, lastHash)
     | Inr agent \<Rightarrow> reconcileFound x kc lastHash agent
   }"

section \<open>From changes to requests\<close>

definition findAgentsReferencingField ::
  "'w kube \<Rightarrow> Obj \<Rightarrow> (ClawAgentSpec \<Rightarrow> bool) \<Rightarrow> ('w, NamespacedName list) state" where
  "findAgentsReferencingField kc ob match = do {
     l \<leftarrow> listAs asClawAgent kc KClawAgent (Meta_Namespace (meta_of ob));
     State_Monad.return
       (case l of
          Inl _ \<Rightarrow> []
        | Inr agents \<Rightarrow> map (\<lambda>a. nn (Meta_Name (Agent_Meta a)) (Meta_Namespace (Agent_Meta a)))
                            (filter (\<lambda>a. match (Agent_Spec a)) agents))
   }"

definition findAgentsForPolicy :: "'w kube \<Rightarrow> Obj \<Rightarrow> ('w, NamespacedName list) state" where
  "findAgentsForPolicy kc ob =
     findAgentsReferencingField kc ob (\<lambda>s. AS_Policy s = Meta_Name (meta_of ob))"

definition findAgentsForSkillSet :: "'w kube \<Rightarrow> Obj \<Rightarrow> ('w, NamespacedName list) state" where
  "findAgentsForSkillSet kc ob =
     findAgentsReferencingField kc ob (\<lambda>s. AS_SkillSet s = Meta_Name (meta_of ob))"

definition findAgentsForChannel :: "'w kube \<Rightarrow> Obj \<Rightarrow> ('w, NamespacedName list) state" where
  "findAgentsForChannel kc ob =
     findAgentsReferencingField kc ob (\<lambda>s. list_ex (\<lambda>ch. ch = Meta_Name (meta_of ob)) (AS_Channels s))"

definition findAgentsForGateway :: "'w kube \<Rightarrow> Obj \<Rightarrow> ('w, NamespacedName list) state" where
  "findAgentsForGateway kc ob =
     findAgentsReferencingField kc ob (\<lambda>s. AS_Gateway s = Meta_Name (meta_of ob))"

definition findAgentsForObservability :: "'w kube \<Rightarrow> Obj \<Rightarrow> ('w, NamespacedName list) state" where
  "findAgentsForObservability kc ob =
     findAgentsReferencingField kc ob (\<lambda>s. AS_Observability s = Meta_Name (meta_of ob))"

end
