(* ===== verification/AgentProperties.thy ===== *)
theory AgentProperties
  imports AgentReconcile
begin

text \<open>
  What the agent controller guarantees, against any API server, failing or not: the objects a
  reconcile may touch, the state it leaves when it reports success, when it deletes a workspace
  claim, and which agents a changed object wakes up.
\<close>

section \<open>Footprints\<close>

text \<open>Everything a reconcile of the agent may create, change or delete.\<close>

definition agent_footprint :: "ext \<Rightarrow> ClawAgent \<Rightarrow> (Kind \<times> NamespacedName) set" where
  "agent_footprint x a =
     (let name = Meta_Name (Agent_Meta a); ns = Meta_Namespace (Agent_Meta a);
          h = ForType x (HS_Type (AS_Harness (Agent_Spec a)))
      in {(KConfigMap, nn (name @ ''-identity'') ns), (KConfigMap, nn (name @ ''-skills'') ns),
          (KConfigMap, nn (name @ h_ConfigMapSuffix h) ns),
          (KPVC, nn (activePVCName a name) ns), (KPVC, nn (name @ ''-home'') ns), (KPVC, nn (name @ ''-home-v2'') ns),
          (KPod, nn (name @ ''-pvc-migrate'') ns),
          (KDeployment, nn name ns), (KService, nn name ns),
          (KClawAgent, nn name ns),
          (KConfigMap, nn ''fleet-dashboard'' ns)})"

lemma drifted_key: "drifted existing desired = Some ob \<Longrightarrow> kind_of ob = kind_of existing \<and> key_of ob = key_of existing"
  by (cases "(existing, desired)" rule: drifted.cases) (auto split: if_splits)

context owner_api
begin

lemma withOwner_key: "withOwner x a ob = Inr ob' \<Longrightarrow> kind_of ob' = kind_of ob \<and> key_of ob' = key_of ob"
  by (auto simp: withOwner_def key_of_def dest: set_owner_keeps split: sum.splits)

lemma guar_ownClaim:
  assumes "\<And>ob. kind_of ob = KPVC \<Longrightarrow> key_of ob = key_of (OPVC pvc) \<Longrightarrow> guar (touches st F) (f ob)"
  shows "guar (touches st F) (bindE (ownClaim x a rp msg pvc) f)"
  using assms withOwner_key [of a "OPVC pvc"]
  by (auto simp: ownClaim_def intro: fp.guar_throwE split: sum.splits)

end

context controller_api
begin

lemma guar_ensureResource:
  assumes "(kind_of ob, key_of ob) \<in> F"
  shows "guar (touches store F) (ensureResource x kc a ob desc)"
proof (cases "withOwner x a ob")
  case (Inr desired)
  then have "kind_of desired = kind_of ob" "key_of desired = key_of ob"
    using withOwner_key by blast+
  with assms show ?thesis
    unfolding ensureResource_def Inr
    by (auto intro!: guar_steps split: option.split simp: drifted_key)
qed (simp add: ensureResource_def fp.guar_throwE)

lemma ensureResource_touches:
  "run_state (ensureResource x kc a ob desc) w = (r, w') \<Longrightarrow> touches store {(kind_of ob, key_of ob)} w w'"
  by (rule guarD [OF guar_ensureResource]) simp_all

lemma guar_syncPVCOwnerRefs:
  assumes "(KPVC, key_of (OPVC pvc)) \<in> F"
  shows "guar (touches store F) (syncPVCOwnerRefs x kc a pvc rp)"
  using assms withOwner_key [of a "OPVC pvc"]
  by (auto simp: syncPVCOwnerRefs_def intro!: guar_steps split: sum.split)

lemma guar_resizeMigrate:
  assumes "(KPVC, nn (name @ PVCResizeSuffix) ns) \<in> F" "(KPod, nn (name @ ''-pvc-migrate'') ns) \<in> F"
    "(KPVC, key_of (OPVC oldPVC)) \<in> F"
  shows "guar (touches store F) (resizeMigrate x kc a oldPVC ns name pvcName q rp)"
  unfolding resizeMigrate_def Let_def
  using assms
  by (auto intro!: guar_steps guar_ownClaim simp: buildPVC_def buildMigrationPod_def
      dest!: as_SomeD split: sum.split)

lemma guar_resizePVC:
  assumes "(KPVC, nn (name @ PVCResizeSuffix) ns) \<in> F" "(KPod, nn (name @ ''-pvc-migrate'') ns) \<in> F"
    "(KPVC, key_of (OPVC oldPVC)) \<in> F" "(KDeployment, nn name ns) \<in> F"
  shows "guar (touches store F) (resizePVC x kc a oldPVC ns name pvcName q rp)"
  unfolding resizePVC_def
  using assms guar_resizeMigrate [OF assms(1-3)]
  by (auto intro!: guar_steps dest!: as_SomeD split: sum.split)

lemma guar_ensurePVC:
  assumes "(KPVC, nn (name @ PVCResizeSuffix) ns) \<in> F" "(KPod, nn (name @ ''-pvc-migrate'') ns) \<in> F"
    "(KPVC, nn (activePVCName a name) ns) \<in> F" "(KDeployment, nn name ns) \<in> F"
  shows "guar (touches store F) (ensurePVC x kc a ns name)"
  unfolding ensurePVC_def Let_def
  using assms
  by (auto intro!: guar_steps guar_ownClaim fp.guar_bindE [OF guar_syncPVCOwnerRefs] guar_resizePVC
      simp: mustParse_def buildPVC_def dest!: as_SomeD split: sum.split option.split)

lemma guar_cleanup:
  "(\<And>s. s \<in> set ss \<Longrightarrow> (KPVC, nn (name @ s) ns) \<in> F) \<Longrightarrow>
     guar (touches store F) (cleanupClaims kc ns name ss)"
  by (induction ss) (auto intro!: guar_steps dest!: as_SomeD split: sum.split)

lemma guar_cleanupOrphanedPVC:
  assumes "(KPVC, nn (name @ ''-home'') ns) \<in> F" "(KPVC, nn (name @ ''-home-v2'') ns) \<in> F"
  shows "guar (touches store F) (cleanupOrphanedPVC kc ns name)"
  unfolding cleanupOrphanedPVC_def
  by (rule guar_cleanup) (use assms in \<open>auto simp: PVCSuffix_def PVCResizeSuffix_def\<close>)

lemma guar_resolveRefs: "guar (touches store F) (resolveRefs kc s ns)"
proof -
  have 1: "guar (touches store F) (lookupRef sel kc k n ns)" for sel :: "Obj \<Rightarrow> 'b option" and k n
    by (auto simp: lookupRef_def intro!: guar_steps split: sum.split)
  have 2: "guar (touches store F) (lookupChannels kc ns chs)" for chs
    by (induction chs) (auto intro!: guar_steps fp.guar_bindE split: sum.split)
  show ?thesis
    unfolding resolveRefs_def by (intro fp.guar_bindE 1 2 fp.guar_retE)
qed

lemma guar_ensureConfigMaps:
  assumes "(KConfigMap, nn (name @ ''-identity'') ns) \<in> F" "(KConfigMap, nn (name @ ''-skills'') ns) \<in> F"
    "(KConfigMap, nn (name @ h_ConfigMapSuffix h) ns) \<in> F"
  shows "guar (touches store F) (ensureConfigMaps x kc a h rs ns name)"
proof -
  have "guar (touches store F) (case harnessConfigMap h a ns name u otlp pol gw chs of
      Inl e \<Rightarrow> throwE e | Inr cm \<Rightarrow> ensureResource x kc a (OConfigMap cm) desc)" for u otlp pol gw chs desc
    using assms by (auto simp: harnessConfigMap_def intro: fp.guar_throwE guar_ensureResource split: sum.split)
  with assms show ?thesis
    unfolding ensureConfigMaps_def
    by (intro fp.guar_bindE guar_ensureResource)
      (simp_all add: identityConfigMap_def skillsConfigMap_def Let_def)
qed

lemma guar_ensureWorkload:
  assumes "(KDeployment, nn name ns) \<in> F" "(KService, nn name ns) \<in> F"
  shows "guar (touches store F) (ensureWorkload x kc a h rs ns name pvc)"
  unfolding ensureWorkload_def Let_def
  using assms
  by (auto intro!: fp.guar_bindE guar_ensureResource simp: agentDeployment_def agentService_def Let_def)

lemma guar_ensureStatus:
  assumes "(KClawAgent, nn (Meta_Name (Agent_Meta a)) (Meta_Namespace (Agent_Meta a))) \<in> F"
  shows "guar (touches store F) (ensureStatus kc a old ns name pvc)"
  unfolding ensureStatus_def resolveAgentStatus_def updateStatus_def
  using assms by (auto intro!: fp.guar_bind guar_getAs fp.guar_return guar_status fp.guar_retE split: prod.split)

lemma guar_agentInfos: "guar (touches store F) (agentInfos kc ns as)"
  by (induction as) (auto intro!: fp.guar_bind guar_getAs fp.guar_return)

lemma guar_updateFleetDashboard:
  assumes "(KConfigMap, nn ''fleet-dashboard'' ns) \<in> F"
  shows "guar (touches store F) (updateFleetDashboard x kc ns lastHash)"
  unfolding updateFleetDashboard_def writeDashboard_def Let_def
  using assms
  by (auto intro!: fp.guar_bind [OF guar_listAs] fp.guar_bind [OF guar_agentInfos] guar_steps
      split: sum.split simp: dashboardConfigMap_def dest!: as_SomeD)

text \<open>The agent \<open>ensureWorkspace\<close> gives back differs in its status alone.\<close>

lemma resizeMigrate_agent:
  "run_state (resizeMigrate x kc a pvc ns name pn q rp) w = (Inr a', w') \<Longrightarrow>
     a' = a \<or> a' = a\<lparr>Agent_Status := (Agent_Status a)\<lparr>ASt_WorkspacePVC := name @ ''-home-v2''\<rparr>\<rparr>"
  by (auto simp: resizeMigrate_def Let_def run_bindE ownClaim_def PVCResizeSuffix_def
      split: prod.splits sum.splits if_splits)

lemma resizePVC_agent:
  "run_state (resizePVC x kc a pvc ns name pn q rp) w = (Inr a', w') \<Longrightarrow>
     a' = a \<or> a' = a\<lparr>Agent_Status := (Agent_Status a)\<lparr>ASt_WorkspacePVC := name @ ''-home-v2''\<rparr>\<rparr>"
  by (auto simp: resizePVC_def run_bindE dest: resizeMigrate_agent split: prod.splits sum.splits if_splits)

lemma ensurePVC_agent:
  "run_state (ensurePVC x kc a ns name) w = (Inr a', w') \<Longrightarrow>
     a' = a \<or> a' = a\<lparr>Agent_Status := (Agent_Status a)\<lparr>ASt_WorkspacePVC := name @ ''-home-v2''\<rparr>\<rparr>"
  by (auto simp: ensurePVC_def Let_def run_bindE dest: resizePVC_agent split: prod.splits sum.splits if_splits)

lemma ensureWorkspace_agent:
  assumes "run_state (ensureWorkspace x kc a ns name) w = (Inr (a', pvc), w')"
  shows "Agent_Meta a' = Agent_Meta a" "Agent_Spec a' = Agent_Spec a"
    "pvc = (if IsPersistent (AS_Workspace (Agent_Spec a)) then activePVCName a' name else '''')"
    "pvc \<in> {'''', activePVCName a name, name @ ''-home-v2''}"
  using assms
  by (auto simp: ensureWorkspace_def run_bindE activePVCName_def split: prod.splits sum.splits if_splits
      dest!: ensurePVC_agent)

lemma guar_ensureWorkspace:
  assumes "(KPVC, nn (name @ ''-home'') ns) \<in> F" "(KPVC, nn (name @ ''-home-v2'') ns) \<in> F"
    "(KPod, nn (name @ ''-pvc-migrate'') ns) \<in> F" "(KPVC, nn (activePVCName a name) ns) \<in> F"
    "(KDeployment, nn name ns) \<in> F"
  shows "guar (touches store F) (ensureWorkspace x kc a ns name)"
  unfolding ensureWorkspace_def
  using assms
  by (auto intro!: fp.guar_bindE guar_ensurePVC guar_cleanupOrphanedPVC fp.guar_retE simp: PVCResizeSuffix_def)

lemma guar_reconcileAgent: "guar (touches store (agent_footprint x a)) (reconcileAgent x kc a)"
  unfolding reconcileAgent_def Let_def
proof (intro fp.guar_bindE guar_resolveRefs guar_ensureConfigMaps fp.guar_bind_run guar_ensureWorkspace)
  fix rs w r w'
  assume ws: "run_state (ensureWorkspace x kc a (Meta_Namespace (Agent_Meta a)) (Meta_Name (Agent_Meta a))) w = (r, w')"
  show "guar (touches store (agent_footprint x a)) (case r of
      Inl e \<Rightarrow> if IsPersistent (AS_Workspace (Agent_Spec a)) \<and> is_requeue e then retE (Requeue 5) else throwE e
    | Inr (agent', activePVC) \<Rightarrow>
        bindE (ensureWorkload x kc agent' (ForType x (HS_Type (AS_Harness (Agent_Spec a)))) rs
          (Meta_Namespace (Agent_Meta a)) (Meta_Name (Agent_Meta a)) activePVC) (\<lambda>_.
        bindE (ensureStatus kc agent' (Agent_Status a) (Meta_Namespace (Agent_Meta a)) (Meta_Name (Agent_Meta a))
          activePVC) (\<lambda>_. retE Reconciled)))"
  proof (cases r)
    case (Inr p)
    obtain a' pvc where p: "p = (a', pvc)" by fastforce
    have "Agent_Meta a' = Agent_Meta a"
      using ws unfolding Inr p by (rule ensureWorkspace_agent(1))
    then show ?thesis
      unfolding Inr p sum.case prod.case
      by (intro fp.guar_bindE guar_ensureWorkload guar_ensureStatus fp.guar_retE)
        (simp_all add: agent_footprint_def Let_def)
  qed (simp add: fp.guar_retE fp.guar_throwE)
qed (simp_all add: agent_footprint_def Let_def)

text \<open>A reconcile of a stored agent either fails to read it or goes on with it.\<close>

lemma Reconcile_cases:
  assumes "store w KClawAgent req = Some (OClawAgent a)" "run_state (Reconcile x kc req lastHash) w = (r, w')"
  obtains e where "store w' = store w" "r = (Inl e, lastHash)"
  | w1 where "store w1 = store w" "run_state (reconcileFound x kc lastHash a) w1 = (r, w')"
  using assms(2) unfolding Reconcile_def
proof (rule bindSE)
  fix g w1
  assume g: "run_state (getAs asClawAgent kc KClawAgent req) w = (g, w1)"
    and k: "run_state (case g of
      Inl e \<Rightarrow> State_Monad.return (if is_not_found e then Inr 0 else Inl e, lastHash)
    | Inr agent \<Rightarrow> reconcileFound x kc lastHash agent) w1 = (r, w')"
  note same = getAs_same [OF g]
  show thesis
  proof (cases g)
    case (Inl e)
    with g assms(1) have "\<not> is_not_found e" by (auto dest: getAs_not_found)
    with Inl k same show thesis by (intro that(1) [of e]) auto
  next
    case (Inr agent)
    with g assms(1) have "agent = a" by (auto dest!: getAs_Inr)
    with Inr k same show thesis by (intro that(2)) simp_all
  qed
qed

lemma Reconcile_missing:
  assumes "store w KClawAgent req = None" "run_state (Reconcile x kc req lastHash) w = (r, w')"
  shows "store w' = store w \<and> snd r = lastHash"
  using assms unfolding Reconcile_def
  by (auto split: prod.splits sum.splits dest: getAs_same getAs_Inr)

lemma stored_agent:
  obtains "store w KClawAgent key = None" | a where "store w KClawAgent key = Some (OClawAgent a)"
proof (cases "store w KClawAgent key")
  case (Some ob)
  then have "kind_of ob = KClawAgent" using store_wf [of w] by (simp add: store_ok_def)
  with Some that(2) show thesis by (cases ob) auto
qed (use that in blast)

lemma Reconcile_touches:
  assumes a: "store w KClawAgent req = Some (OClawAgent a)"
    and run: "run_state (Reconcile x kc req lastHash) w = (r, w')"
  shows "touches store (agent_footprint x a) w w'"
proof -
  have dash: "guar (touches store (agent_footprint x a)) (updateFleetDashboard x kc (Meta_Namespace (Agent_Meta a)) lastHash)"
    by (rule guar_updateFleetDashboard) (simp add: agent_footprint_def Let_def)
  have "guar (touches store (agent_footprint x a)) (reconcileFound x kc lastHash a)"
    unfolding reconcileFound_def
    by (auto intro!: fp.guar_bind [OF guar_reconcileAgent] fp.guar_bind [OF dash] fp.guar_return
        split: sum.split Outcome.split)
  with a run show ?thesis
    by (elim Reconcile_cases) (auto dest!: guarD simp: touches_def)
qed

end

text \<open>An agent of a given name with a persistent workspace of the default size, for examples.\<close>

definition example_agent :: "string \<Rightarrow> ClawAgent" where
  "example_agent n = zero_ClawAgent\<lparr>Agent_Meta := new_meta n ''prod'' [],
     Agent_Spec := zero_ClawAgentSpec\<lparr>AS_Harness := \<lparr>HS_Type = HarnessHermes, HS_Image = ''''\<rparr>,
       AS_Workspace := zero_WorkspaceSpec\<lparr>WS_Mode := WorkspaceModePersistent\<rparr>\<rparr>\<rparr>"

definition example_world :: "string list \<Rightarrow> mem" where
  "example_world ns = foldl (\<lambda>m n. mem_put (OClawAgent (example_agent n)) m) [] ns"

lemma key_example_agent [simp]: "key_of (OClawAgent (example_agent n)) = nn n ''prod''"
  by (simp add: example_agent_def)

lemma example_world_agent: "mem_store (example_world [''eng'', ''ops'']) KClawAgent (nn ''eng'' ''prod'') =
    Some (OClawAgent (example_agent ''eng''))"
  by (simp add: example_world_def del: key_of_simps)

text \<open>C6: A reconcile touches nothing outside the agent's footprint, whatever the server answers:
  the three config maps, the deployment, the service, the claims, the migration pod, the agent
  itself and the fleet dashboard.\<close>

theorem reconcile_footprint:
  assumes "controller_api kc store x" "store w KClawAgent req = Some (OClawAgent a)"
    and "run_state (Reconcile x kc req lastHash) w = (r, w')" "(k, key) \<notin> agent_footprint x a"
  shows "store w' k key = store w k key"
  using controller_api.Reconcile_touches [OF assms(1-3)] assms(4) by (simp add: touches_def)

theorem reconcile_footprint_witness:
  "mem_store (snd (run_state (Reconcile example_ext mem_client (nn ''eng'' ''prod'') '''') (example_world [''eng'', ''ops''])))
     KService (nn ''ops'' ''prod'') =
   mem_store (example_world [''eng'', ''ops'']) KService (nn ''ops'' ''prod'')"
  by (rule reconcile_footprint [OF mem_controller.controller_api_axioms, OF example_world_agent, OF surjective_pairing])
    (simp add: agent_footprint_def Let_def example_agent_def)

section \<open>Agents do not interfere\<close>

lemma name_clashes [simp]:
  "n @ ''-identity'' \<noteq> n' @ ''-skills''" "n @ ''-skills'' \<noteq> n' @ ''-identity''"
  "n @ ''-home'' \<noteq> n' @ ''-home-v2''" "n @ ''-home-v2'' \<noteq> n' @ ''-home''"
  "n @ ''-identity'' \<noteq> ''fleet-dashboard''" "''fleet-dashboard'' \<noteq> n @ ''-identity''"
  "n @ ''-skills'' \<noteq> ''fleet-dashboard''" "''fleet-dashboard'' \<noteq> n @ ''-skills''"
  using append_last_clash [of "''fleet-dashboard''" "''-identity''" "[]" n]
    append_last_clash [of "''fleet-dashboard''" "''-skills''" "[]" n]
  by (auto dest: arg_cong [where f = last])

lemma config_name_clashes [simp]:
  fixes x :: ext
  defines "sfx t \<equiv> h_ConfigMapSuffix (ForType x t)"
  shows "n @ sfx t \<noteq> n' @ ''-identity''" "n' @ ''-identity'' \<noteq> n @ sfx t"
    "n @ sfx t \<noteq> n' @ ''-skills''" "n' @ ''-skills'' \<noteq> n @ sfx t"
    "n @ sfx t \<noteq> ''fleet-dashboard''" "''fleet-dashboard'' \<noteq> n @ sfx t"
proof -
  show "n @ sfx t \<noteq> n' @ ''-identity''" "n @ sfx t \<noteq> n' @ ''-skills''"
    unfolding sfx_def by (rule for_type.config_map_name_apart)+
  then show "n' @ ''-identity'' \<noteq> n @ sfx t" "n' @ ''-skills'' \<noteq> n @ sfx t" by metis+
  have "last (n @ sfx t) = CHR ''g''"
    using suffix_cases [of x t] by (auto simp: sfx_def)
  then show "n @ sfx t \<noteq> ''fleet-dashboard''" by auto
  then show "''fleet-dashboard'' \<noteq> n @ sfx t" by simp
qed

lemma suffix_apart [simp]:
  "h_ConfigMapSuffix (ForType x t) \<noteq> ''-identity''" "''-identity'' \<noteq> h_ConfigMapSuffix (ForType x t)"
  "h_ConfigMapSuffix (ForType x t) \<noteq> ''-skills''" "''-skills'' \<noteq> h_ConfigMapSuffix (ForType x t)"
  using suffix_cases [of x t] by auto

text \<open>The claim an agent's status names is one the controller gave it.\<close>

definition workspace_ok :: "ClawAgent \<Rightarrow> bool" where
  "workspace_ok a \<longleftrightarrow> ASt_WorkspacePVC (Agent_Status a) \<in>
     {'''', Meta_Name (Agent_Meta a) @ ''-home'', Meta_Name (Agent_Meta a) @ ''-home-v2''}"

lemma workspace_ok_active:
  "workspace_ok a \<Longrightarrow> activePVCName a (Meta_Name (Agent_Meta a)) \<in>
     {Meta_Name (Agent_Meta a) @ ''-home'', Meta_Name (Agent_Meta a) @ ''-home-v2''}"
  by (auto simp: workspace_ok_def activePVCName_def PVCSuffix_def)

lemma footprints_apart:
  assumes "workspace_ok a" "workspace_ok b" "key_of (OClawAgent a) \<noteq> key_of (OClawAgent b)"
  shows "agent_footprint x a \<inter> agent_footprint x b \<subseteq> {(KConfigMap, nn ''fleet-dashboard'' (Meta_Namespace (Agent_Meta a)))}"
  using assms(3) workspace_ok_active [OF assms(1)] workspace_ok_active [OF assms(2)]
  by (auto simp: agent_footprint_def Let_def dest: config_map_name_inj)

text \<open>C7: Agents do not interfere. Reconciling one agent leaves every object of any other agent, in
  the same namespace or not, as it was; the dashboard they share is the only exception. (Each
  agent's status names a claim of its own, which reconciles preserve.)\<close>

theorem reconcile_isolation:
  assumes "controller_api kc store x" "store w KClawAgent req = Some (OClawAgent a)"
    and "run_state (Reconcile x kc req lastHash) w = (r, w')"
    and "workspace_ok a" "workspace_ok b" "key_of (OClawAgent a) \<noteq> key_of (OClawAgent b)"
    and "(k, key) \<in> agent_footprint x b" "k = KConfigMap \<Longrightarrow> NN_Name key \<noteq> ''fleet-dashboard''"
  shows "store w' k key = store w k key"
proof -
  have "(k, key) \<notin> agent_footprint x a"
    using footprints_apart [OF assms(4-6), of x] assms(7,8) by auto
  then show ?thesis
    using controller_api.Reconcile_touches [OF assms(1-3)] by (simp add: touches_def)
qed

theorem reconcile_isolation_witness:
  "mem_store (snd (run_state (Reconcile example_ext mem_client (nn ''eng'' ''prod'') '''') (example_world [''eng'', ''ops''])))
     KDeployment (nn ''ops'' ''prod'') =
   mem_store (example_world [''eng'', ''ops'']) KDeployment (nn ''ops'' ''prod'')"
  by (rule reconcile_isolation [OF mem_controller.controller_api_axioms, OF example_world_agent, OF surjective_pairing,
        where b = "example_agent ''ops''"])
    (simp_all add: agent_footprint_def Let_def example_agent_def workspace_ok_def zero_ClawAgent_def)

section \<open>The status keeps naming the agent's own claims\<close>

definition workspaces_ok :: "store \<Rightarrow> bool" where
  "workspaces_ok s \<longleftrightarrow> (\<forall>key a. s KClawAgent key = Some (OClawAgent a) \<longrightarrow> workspace_ok a)"

definition not_agents :: "(Kind \<times> NamespacedName) set" where
  "not_agents = {p. fst p \<noteq> KClawAgent}"

lemma in_not_agents [simp]: "(k, key) \<in> not_agents \<longleftrightarrow> k \<noteq> KClawAgent"
  by (simp add: not_agents_def)

lemma touches_not_agents:
  "touches st not_agents w w' \<Longrightarrow> keeps (\<lambda>w. workspaces_ok (st w)) w w'"
  by (simp add: touches_def keeps_def workspaces_ok_def)

lemma kept_agent:
  "kept (OClawAgent a) ob \<Longrightarrow> \<exists>a'. ob = OClawAgent a' \<and> Agent_Spec a' = Agent_Spec a \<and> Agent_Status a' = Agent_Status a \<and>
     Meta_Name (Agent_Meta a') = Meta_Name (Agent_Meta a) \<and> Meta_Namespace (Agent_Meta a') = Meta_Namespace (Agent_Meta a)"
proof (cases ob)
  case (OClawAgent a')
  assume k: "kept (OClawAgent a) ob"
  then have "a'\<lparr>Agent_Meta := Agent_Meta a\<rparr> = a"
    by (simp add: kept_def OClawAgent)
  then have "Agent_Spec a' = Agent_Spec a" "Agent_Status a' = Agent_Status a"
    by (auto dest: arg_cong [where f = Agent_Spec] arg_cong [where f = Agent_Status])
  with k OClawAgent show ?thesis by (simp add: kept_def kept_meta_def)
qed (simp_all add: kept_def)

context controller_api
begin

lemma status_update_agent:
  assumes "status_updated (OClawAgent a) (store w) (store w')"
  obtains old a' where "store w KClawAgent (key_of (OClawAgent a)) = Some (OClawAgent old)"
    "store w' = store_put (OClawAgent a') (store w)" "Agent_Spec a' = Agent_Spec old" "Agent_Status a' = Agent_Status a"
    "Meta_Name (Agent_Meta a') = Meta_Name (Agent_Meta a)" "Meta_Namespace (Agent_Meta a') = Meta_Namespace (Agent_Meta a)"
proof -
  from assms obtain ob ob' where ob: "store w KClawAgent (key_of (OClawAgent a)) = Some ob"
    and ob': "kept (put_status (OClawAgent a) ob) ob'" "store w' = store_put ob' (store w)"
    by (auto simp: status_updated_def)
  from ob store_wf [of w] have "kind_of ob = KClawAgent" and key: "key_of ob = key_of (OClawAgent a)"
    by (auto simp: store_ok_def)
  then obtain old where old: "ob = OClawAgent old" by (cases ob) auto
  with ob' kept_agent obtain a' where "ob' = OClawAgent a'" "Agent_Spec a' = Agent_Spec old" "Agent_Status a' = Agent_Status a"
    "Meta_Name (Agent_Meta a') = Meta_Name (Agent_Meta old)" "Meta_Namespace (Agent_Meta a') = Meta_Namespace (Agent_Meta old)"
    by fastforce
  with ob ob' old key that show thesis by auto
qed

lemma workspaces_ok_status:
  assumes "workspace_ok a"
  shows "guar (keeps (\<lambda>w. workspaces_ok (store w))) (kube_StatusUpdate kc (OClawAgent a))"
proof (rule guarI)
  fix w r w'
  assume "run_state (kube_StatusUpdate kc (OClawAgent a)) w = (r, w')"
  then have "store w' = store w \<or> status_updated (OClawAgent a) (store w) (store w')"
    by (cases r) (auto dest: status_Inl status_Inr)
  then show "keeps (\<lambda>w. workspaces_ok (store w)) w w'"
  proof
    assume "status_updated (OClawAgent a) (store w) (store w')"
    with assms show ?thesis
      by (elim status_update_agent) (auto simp: keeps_def workspaces_ok_def workspace_ok_def)
  qed (simp add: keeps_def)
qed

lemma ensureStatus_workspaces_ok:
  assumes "workspace_ok a" "pvc \<in> {'''', Meta_Name (Agent_Meta a) @ ''-home'', Meta_Name (Agent_Meta a) @ ''-home-v2''}"
    and "Agent_Meta a' = Agent_Meta a"
  shows "guar (keeps (\<lambda>w. workspaces_ok (store w))) (ensureStatus kc a' old ns name pvc)"
  unfolding ensureStatus_def resolveAgentStatus_def updateStatus_def
  using assms
  by (auto intro!: kp.guar_bind guar_mono [OF guar_getAs [of not_agents] touches_not_agents] kp.guar_return
      workspaces_ok_status kp.guar_retE split: prod.split simp: workspace_ok_def)

lemma reconcileAgent_workspaces_ok:
  assumes ok: "workspace_ok a"
  shows "guar (keeps (\<lambda>w. workspaces_ok (store w))) (reconcileAgent x kc a)"
proof -
  note quiet = guar_mono [OF _ touches_not_agents]
  let ?ns = "Meta_Namespace (Agent_Meta a)" and ?name = "Meta_Name (Agent_Meta a)"
  have cont: "guar (keeps (\<lambda>w. workspaces_ok (store w))) (case r of
      Inl e \<Rightarrow> if IsPersistent (AS_Workspace (Agent_Spec a)) \<and> is_requeue e then retE (Requeue 5) else throwE e
    | Inr (agent', activePVC) \<Rightarrow>
        bindE (ensureWorkload x kc agent' h rs ?ns ?name activePVC) (\<lambda>_.
        bindE (ensureStatus kc agent' (Agent_Status a) ?ns ?name activePVC) (\<lambda>_. retE Reconciled)))"
    if ws: "run_state (ensureWorkspace x kc a ?ns ?name) w = (r, w')" for h rs r w w'
  proof (cases r)
    case (Inr p)
    obtain a' pvc where p: "p = (a', pvc)" by fastforce
    note ws' = ensureWorkspace_agent [OF ws [unfolded Inr p]]
    have "pvc \<in> {'''', ?name @ ''-home'', ?name @ ''-home-v2''}"
      using ws'(4) workspace_ok_active [OF ok] by auto
    with ws'(1) show ?thesis
      unfolding Inr p sum.case prod.case
      by (intro kp.guar_bindE kp.guar_retE quiet [OF guar_ensureWorkload] ensureStatus_workspaces_ok [OF ok]) simp_all
  qed (simp add: kp.guar_retE kp.guar_throwE)
  show ?thesis
    unfolding reconcileAgent_def Let_def
    by (intro kp.guar_bindE kp.guar_bind_run cont quiet [OF guar_resolveRefs] quiet [OF guar_ensureConfigMaps]
        quiet [OF guar_ensureWorkspace]) simp_all
qed

lemma Reconcile_workspaces_ok_found:
  assumes "workspaces_ok (store w)" "store w KClawAgent req = Some (OClawAgent a)"
    "run_state (Reconcile x kc req lastHash) w = (r, w')"
  shows "workspaces_ok (store w')"
proof -
  let ?K = "keeps (\<lambda>w. workspaces_ok (store w))"
  have dash: "guar ?K (updateFleetDashboard x kc (Meta_Namespace (Agent_Meta a)) lastHash)"
    by (rule guar_mono [OF guar_updateFleetDashboard [where F = not_agents] touches_not_agents]) simp_all
  have "workspace_ok a" using assms by (simp add: workspaces_ok_def)
  then have found: "guar ?K (reconcileFound x kc lastHash a)"
    unfolding reconcileFound_def
    by (auto intro!: kp.guar_bind [OF reconcileAgent_workspaces_ok] kp.guar_bind [OF dash] kp.guar_return
        split: sum.split Outcome.split)
  show ?thesis
    by (rule Reconcile_cases [OF assms(2,3)])
      (use assms(1) found in \<open>auto dest!: guarD simp: keeps_def\<close>)
qed

lemma Reconcile_workspaces_ok:
  assumes "workspaces_ok (store w)" "run_state (Reconcile x kc req lastHash) w = (r, w')"
  shows "workspaces_ok (store w')"
proof (cases rule: stored_agent [of w req])
  case 1
  with Reconcile_missing [OF 1 assms(2)] assms(1) show ?thesis by simp
next
  case (2 a)
  with assms Reconcile_workspaces_ok_found show ?thesis by blast
qed

end

text \<open>The claim in an agent's status is always one of its own: empty, \<open>name-home\<close> or
  \<open>name-home-v2\<close>. Every reconcile, of any agent and with any failures, keeps this for all
  agents.\<close>

theorem reconcile_keeps_workspaces_ok:
  assumes "controller_api kc store x" "workspaces_ok (store w)"
    and "run_state (Reconcile x kc req lastHash) w = (r, w')"
  shows "workspaces_ok (store w')"
  by (rule controller_api.Reconcile_workspaces_ok [OF assms])

lemma workspaces_ok_put: "workspace_ok a \<Longrightarrow> workspaces_ok s \<Longrightarrow> workspaces_ok (store_put (OClawAgent a) s)"
  by (auto simp: workspaces_ok_def)

lemma example_workspaces_ok: "workspaces_ok (mem_store (example_world ns))"
proof -
  have "workspace_ok (example_agent n)" for n
    by (simp add: workspace_ok_def example_agent_def zero_ClawAgent_def)
  then   have "workspaces_ok (mem_store m) \<Longrightarrow>
      workspaces_ok (mem_store (foldl (\<lambda>m n. mem_put (OClawAgent (example_agent n)) m) m ns))" for m
    by (induction ns arbitrary: m) (simp_all add: workspaces_ok_put)
  moreover have "workspaces_ok (mem_store [])"
    by (simp add: workspaces_ok_def mem_store_def)
  ultimately show ?thesis by (simp add: example_world_def)
qed

theorem reconcile_keeps_workspaces_ok_witness:
  "workspaces_ok (mem_store (snd (run_state (Reconcile example_ext mem_client (nn ''eng'' ''prod'') '''')
     (example_world [''eng'', ''ops'']))))"
  by (rule reconcile_keeps_workspaces_ok [OF mem_controller.controller_api_axioms, OF example_workspaces_ok,
        OF surjective_pairing])

section \<open>The state a successful reconcile leaves\<close>

text \<open>A stored object is as desired in the fields the controller owns. (The server may add defaults
  to the rest of a pod template.)\<close>

fun as_desired :: "Obj \<Rightarrow> Obj \<Rightarrow> bool" where
  "as_desired (OConfigMap d) (OConfigMap s) \<longleftrightarrow> data_of s = data_of d \<and> CM_BinaryData s = CM_BinaryData d"
| "as_desired (ODeployment d) (ODeployment s) \<longleftrightarrow>
     DS_Replicas (Dep_Spec s) = DS_Replicas (Dep_Spec d) \<and> DS_Selector (Dep_Spec s) = DS_Selector (Dep_Spec d) \<and>
     DS_TemplateLabels (Dep_Spec s) = DS_TemplateLabels (Dep_Spec d) \<and>
     pod_core (DS_PodSpec (Dep_Spec s)) = pod_core (DS_PodSpec (Dep_Spec d))"
| "as_desired (OService d) (OService s) \<longleftrightarrow> Svc_Selector s = Svc_Selector d \<and> Svc_Ports s = Svc_Ports d"
| "as_desired _ _ \<longleftrightarrow> False"

definition in_place :: "store \<Rightarrow> Obj \<Rightarrow> bool" where
  "in_place s ob \<longleftrightarrow> (\<exists>ob'. s (kind_of ob) (key_of ob) = Some ob' \<and> as_desired ob ob')"

text \<open>The objects \<open>ensureResource\<close> is used for; a deployment always says how many replicas.\<close>

fun ensurable :: "Obj \<Rightarrow> bool" where
  "ensurable (OConfigMap _) = True"
| "ensurable (ODeployment d) = (DS_Replicas (Dep_Spec d) \<noteq> None)"
| "ensurable (OService _) = True"
| "ensurable _ = False"

lemma as_desired_set_meta [simp]: "as_desired (set_meta m ob) ob' = as_desired ob ob'"
  by (cases ob; cases ob') (simp_all add: data_of_def)

lemma ensurable_set_meta [simp]: "ensurable (set_meta m ob) = ensurable ob"
  by (cases ob) simp_all

lemma fresh_as_desired [simp]: "as_desired (fresh ob) ob' = as_desired ob ob'" "ensurable (fresh ob) = ensurable ob"
  by (cases ob; cases ob'; simp)+

lemma kept_as_desired: "ensurable ob \<Longrightarrow> kept ob ob' \<Longrightarrow> as_desired ob ob'"
  by (cases ob; cases ob') (auto simp: kept_def kept_dep_def)

lemma undrifted_as_desired:
  "ensurable desired \<Longrightarrow> kind_of existing = kind_of desired \<Longrightarrow> drifted existing desired = None \<Longrightarrow>
     as_desired desired existing"
  by (cases desired; cases existing) (auto split: if_splits simp: data_of_def)

lemma drifted_as_desired:
  "ensurable desired \<Longrightarrow> kind_of existing = kind_of desired \<Longrightarrow> drifted existing desired = Some ob \<Longrightarrow>
     kept (keep_status ob existing) ob' \<Longrightarrow> as_desired desired ob'"
  by (cases desired; cases existing; cases ob') (auto split: if_splits simp: kept_def kept_dep_def data_of_def)

lemma in_place_touches:
  "in_place (st w) ob \<Longrightarrow> touches st F w w' \<Longrightarrow> (kind_of ob, key_of ob) \<notin> F \<Longrightarrow> in_place (st w') ob"
  by (simp add: in_place_def touches_def)

context controller_api
begin

lemma ensureResource_in_place:
  assumes run: "run_state (ensureResource x kc a ob desc) w = (Inr u, w')" and ob: "ensurable ob"
  shows "in_place (store w') ob"
proof -
  from run obtain desired r w1 where desired: "withOwner x a ob = Inr desired"
    and r: "run_state (kube_Get kc (kind_of desired) (key_of desired)) w = (r, w1)"
    and k: "run_state (case r of
        Inl e \<Rightarrow> if is_not_found e then kube_Create kc desired else throwE e
      | Inr existing \<Rightarrow> (case drifted existing desired of Some ob' \<Rightarrow> kube_Update kc ob' | None \<Rightarrow> retE ())) w1 = (Inr u, w')"
    by (auto simp: ensureResource_def split: sum.splits prod.splits)
  have w1: "store w1 = store w" using r by (rule get_same)
  from desired obtain m where m: "desired = set_meta m ob" by (auto simp: withOwner_def split: sum.splits)
  with desired withOwner_key have key: "kind_of desired = kind_of ob" "key_of desired = key_of ob" by blast+
  have "in_place (store w') desired"
  proof (cases r)
    case (Inl e)
    with k have "created desired (store w1) (store w')"
      by (auto split: if_splits dest: create_Inr)
    then obtain ob' where "kept (fresh desired) ob'" "store w' = store_put ob' (store w1)"
      by (auto simp: created_def)
    moreover from this have "kind_of ob' = kind_of desired" "key_of ob' = key_of desired"
      using kept_fresh by blast+
    ultimately show ?thesis
      using kept_as_desired [of "fresh desired"] ob m by (simp add: in_place_def)
  next
    case (Inr existing)
    then have ex: "store w (kind_of ob) (key_of ob) = Some existing" "kind_of existing = kind_of desired"
      "key_of existing = key_of desired"
      using get_Inr [of "kind_of desired" "key_of desired" w existing w1] r store_wf [of w] key
      by (auto simp: store_ok_def)
    show ?thesis
    proof (cases "drifted existing desired")
      case None
      with k Inr w1 ex ob m key show ?thesis
        using undrifted_as_desired [of desired existing] by (auto simp: in_place_def)
    next
      case (Some ob')
      with k Inr have "updated ob' (store w1) (store w')" by (auto dest: update_Inr)
      moreover note drifted_key [OF Some]
      ultimately obtain ob'' where ob'': "kept (keep_status ob' existing) ob''" "store w' = store_put ob'' (store w1)"
        using ex key w1 by (auto simp: updated_def)
      moreover from this have "kind_of ob'' = kind_of existing" "key_of ob'' = key_of existing"
        using kept_kind kept_key drifted_key [OF Some] by fastforce+
      ultimately show ?thesis
        using drifted_as_desired [OF _ ex(2) Some] ob m ex by (simp add: in_place_def)
    qed
  qed
  moreover have "as_desired desired ob' = as_desired ob ob'" for ob' by (simp add: m)
  ultimately show ?thesis by (simp add: in_place_def key)
qed

end

text \<open>What an agent's references resolve to, as a function of the stored objects.\<close>

definition ref_in :: "(Obj \<Rightarrow> 'a option) \<Rightarrow> store \<Rightarrow> Kind \<Rightarrow> string \<Rightarrow> string \<Rightarrow> 'a option" where
  "ref_in sel s k name ns = (if name = '''' then None else Option.bind (s k (nn name ns)) sel)"

definition channels_in :: "store \<Rightarrow> string \<Rightarrow> string list \<Rightarrow> ClawChannel list" where
  "channels_in s ns names =
     filter (\<lambda>ch. IsEnabled (Channel_Spec ch))
       (List.map_filter (\<lambda>n. Option.bind (s KClawChannel (nn n ns)) asClawChannel) names)"

definition resolve_in :: "store \<Rightarrow> ClawAgentSpec \<Rightarrow> string \<Rightarrow> Resolved" where
  "resolve_in s sp ns = resolved_of sp ns
     (ref_in asClawObservability s KClawObservability (AS_Observability sp) ns)
     (ref_in asClawSkillSet s KClawSkillSet (AS_SkillSet sp) ns)
     (ref_in asClawGateway s KClawGateway (AS_Gateway sp) ns)
     (ref_in asClawPolicy s KClawPolicy (AS_Policy sp) ns)
     (channels_in s ns (AS_Channels sp))"

lemma resolve_in_same: "store w = store w' \<Longrightarrow> resolve_in (store w) sp ns = resolve_in (store w') sp ns"
  by simp

context controller_api
begin

lemma lookupRef_Inr:
  "run_state (lookupRef sel kc k n ns) w = (Inr y, w') \<Longrightarrow> y = ref_in sel (store w) k n ns \<and> store w' = store w"
  by (auto simp: lookupRef_def ref_in_def split: if_splits prod.splits sum.splits
      dest: getAs_same getAs_Inr getAs_not_found)

lemma lookupChannels_Inr:
  "run_state (lookupChannels kc ns names) w = (Inr chs, w') \<Longrightarrow>
     chs = channels_in (store w) ns names \<and> store w' = store w"
proof (induction names arbitrary: w chs)
  case Nil
  then show ?case by (simp add: channels_in_def map_filter_simps)
next
  case (Cons n names)
  obtain r w1 where r: "run_state (getAs asClawChannel kc KClawChannel (nn n ns)) w = (r, w1)" by fastforce
  then have w1: "store w1 = store w" by (rule getAs_same)
  show ?case
  proof (cases r)
    case (Inl e)
    with Cons.prems r have "is_not_found e" "run_state (lookupChannels kc ns names) w1 = (Inr chs, w')"
      by (auto split: if_splits)
    moreover from this r Inl have "store w KClawChannel (nn n ns) = None" by (auto dest: getAs_not_found)
    ultimately show ?thesis
      using Cons.IH [of w1 chs] w1 by (simp add: channels_in_def map_filter_simps)
  next
    case (Inr ch)
    with r have ch: "Option.bind (store w KClawChannel (nn n ns)) asClawChannel = Some ch"
      by (auto dest!: getAs_Inr)
    show ?thesis
    proof (cases "IsEnabled (Channel_Spec ch)")
      case True
      with Cons.prems r Inr obtain chs' where "run_state (lookupChannels kc ns names) w1 = (Inr chs', w')" "chs = ch # chs'"
        by (auto elim!: bindE_InrE)
      with Cons.IH [of w1 chs'] ch True w1 show ?thesis
        by (auto simp: channels_in_def map_filter_simps)
    next
      case False
      with Cons.prems r Inr have "run_state (lookupChannels kc ns names) w1 = (Inr chs, w')" by simp
      with Cons.IH [of w1 chs] ch False w1 show ?thesis
        by (auto simp: channels_in_def map_filter_simps)
    qed
  qed
qed

lemma resolveRefs_Inr:
  assumes "run_state (resolveRefs kc sp ns) w = (Inr rs, w')"
  shows "rs = resolve_in (store w) sp ns \<and> store w' = store w"
  using assms unfolding resolveRefs_def resolve_in_def
  by (elim bindE_InrE) (auto dest!: lookupRef_Inr lookupChannels_Inr)

lemma reconcileAgent_steps:
  assumes "run_state (reconcileAgent x kc a) w = (Inr Reconciled, w')"
  defines "ns \<equiv> Meta_Namespace (Agent_Meta a)" and "name \<equiv> Meta_Name (Agent_Meta a)"
    and "h \<equiv> ForType x (HS_Type (AS_Harness (Agent_Spec a)))"
  obtains rs w1 u2 w2 a' pvc w3 u4 w4 u5 where
    "run_state (resolveRefs kc (Agent_Spec a) ns) w = (Inr rs, w1)"
    "run_state (ensureConfigMaps x kc a h rs ns name) w1 = (Inr u2, w2)"
    "run_state (ensureWorkspace x kc a ns name) w2 = (Inr (a', pvc), w3)"
    "run_state (ensureWorkload x kc a' h rs ns name pvc) w3 = (Inr u4, w4)"
    "run_state (ensureStatus kc a' (Agent_Status a) ns name pvc) w4 = (Inr u5, w')"
  using assms(1) unfolding reconcileAgent_def Let_def ns_def [symmetric] name_def [symmetric] h_def [symmetric]
proof (elim bindE_InrE bindSE)
  fix rs w1 u2 w2 ws w3
  assume 1: "run_state (resolveRefs kc (Agent_Spec a) ns) w = (Inr rs, w1)"
    "run_state (ensureConfigMaps x kc a h rs ns name) w1 = (Inr u2, w2)"
    and ws: "run_state (ensureWorkspace x kc a ns name) w2 = (ws, w3)"
    and k: "run_state (case ws of
        Inl e \<Rightarrow> if IsPersistent (AS_Workspace (Agent_Spec a)) \<and> is_requeue e then retE (Requeue 5) else throwE e
      | Inr (agent', activePVC) \<Rightarrow>
          bindE (ensureWorkload x kc agent' h rs ns name activePVC) (\<lambda>_.
          bindE (ensureStatus kc agent' (Agent_Status a) ns name activePVC) (\<lambda>_. retE Reconciled))) w3 = (Inr Reconciled, w')"
  from k obtain a' pvc where p: "ws = Inr (a', pvc)"
    by (cases ws) (auto split: if_splits)
  from k [unfolded p sum.case prod.case] obtain u4 w4 u5 where
    "run_state (ensureWorkload x kc a' h rs ns name pvc) w3 = (Inr u4, w4)"
    "run_state (ensureStatus kc a' (Agent_Status a) ns name pvc) w4 = (Inr u5, w')"
    by (elim bindE_InrE) auto
  with 1 ws p show thesis by (intro that) simp_all
qed

lemma ensureConfigMaps_in_place:
  fixes x0 :: ext
  assumes "run_state (ensureConfigMaps x kc a (ForType x0 t) rs ns name) w = (Inr u, w')"
  obtains cm where "harnessConfigMap (ForType x0 t) a ns name (R_GatewayURL rs) (R_OTLPEndpoint rs) (R_Policy rs)
      (R_Gateway rs) (R_Channels rs) = Inr cm"
    "key_of (OConfigMap cm) = nn (name @ h_ConfigMapSuffix (ForType x0 t)) ns"
    "in_place (store w') (OConfigMap (identityConfigMap a ns name))"
    "in_place (store w') (OConfigMap (skillsConfigMap ns name (R_Skills rs)))"
    "in_place (store w') (OConfigMap cm)"
proof -
  let ?h = "ForType x0 t"
  from assms obtain w1 w2 cm
    where i: "run_state (ensureResource x kc a (OConfigMap (identityConfigMap a ns name)) ''identity-configmap'') w = (Inr (), w1)"
      and s: "run_state (ensureResource x kc a (OConfigMap (skillsConfigMap ns name (R_Skills rs))) ''skills-configmap'') w1 = (Inr (), w2)"
      and cm: "harnessConfigMap ?h a ns name (R_GatewayURL rs) (R_OTLPEndpoint rs) (R_Policy rs)
          (R_Gateway rs) (R_Channels rs) = Inr cm"
      and c: "run_state (ensureResource x kc a (OConfigMap cm) ''harness-config-configmap'') w2 = (Inr u, w')"
    unfolding ensureConfigMaps_def by (elim bindE_InrE) (auto split: sum.splits)
  have keys: "key_of (OConfigMap (identityConfigMap a ns name)) = nn (name @ ''-identity'') ns"
    "key_of (OConfigMap (skillsConfigMap ns name (R_Skills rs))) = nn (name @ ''-skills'') ns"
    by (simp_all add: identityConfigMap_def skillsConfigMap_def Let_def)
  have cmkey: "key_of (OConfigMap cm) = nn (name @ h_ConfigMapSuffix ?h) ns"
    using cm by (auto simp: harnessConfigMap_def split: sum.splits)
  have frame: "touches store {(KConfigMap, key_of (OConfigMap d))} v v'"
    if "run_state (ensureResource x kc a (OConfigMap d) desc) v = (r, v')" for d desc v r v'
    using ensureResource_touches [OF that] by simp
  have "in_place (store w') (OConfigMap (identityConfigMap a ns name))"
    by (rule in_place_touches [OF in_place_touches [OF ensureResource_in_place [OF i] frame [OF s]] frame [OF c]])
      (simp_all del: key_of_simps add: keys cmkey)
  moreover have "in_place (store w') (OConfigMap (skillsConfigMap ns name (R_Skills rs)))"
    by (rule in_place_touches [OF ensureResource_in_place [OF s] frame [OF c]])
      (simp_all del: key_of_simps add: keys cmkey)
  ultimately show thesis
    using that [OF cm cmkey] ensureResource_in_place [OF c] by simp
qed

lemma ensureWorkload_in_place:
  assumes "run_state (ensureWorkload x kc a h rs ns name pvc) w = (Inr u, w')"
  shows "in_place (store w') (ODeployment (agentDeployment \<lparr>DP_Agent = a, DP_Namespace = ns, DP_Name = name,
      DP_OTLPEndpoint = R_OTLPEndpoint rs, DP_GatewayURL = R_GatewayURL rs, DP_ActivePVC = pvc,
      DP_Channels = R_Channels rs, DP_Harness = h\<rparr>))"
    "in_place (store w') (OService (agentService h a ns name))"
proof -
  let ?dep = "agentDeployment \<lparr>DP_Agent = a, DP_Namespace = ns, DP_Name = name,
      DP_OTLPEndpoint = R_OTLPEndpoint rs, DP_GatewayURL = R_GatewayURL rs, DP_ActivePVC = pvc,
      DP_Channels = R_Channels rs, DP_Harness = h\<rparr>"
  from assms obtain w1 where d: "run_state (ensureResource x kc a (ODeployment ?dep) ''agent-deployment'') w = (Inr (), w1)"
    and s: "run_state (ensureResource x kc a (OService (agentService h a ns name)) ''agent-service'') w1 = (Inr u, w')"
    unfolding ensureWorkload_def Let_def by (elim bindE_InrE) simp
  have "touches store {(KService, key_of (OService (agentService h a ns name)))} w1 w'"
    using ensureResource_touches [OF s] by simp
  then show "in_place (store w') (ODeployment ?dep)"
    using ensureResource_in_place [OF d] by (auto elim!: in_place_touches simp: agentDeployment_def Let_def)
  show "in_place (store w') (OService (agentService h a ns name))"
    using ensureResource_in_place [OF s] by simp
qed

lemma resolveAgentStatus_result:
  assumes "run_state (resolveAgentStatus kc ns name) w = ((phase, pod), w')"
  shows "store w' = store w" "phase \<in> {''Running'', ''Progressing'', ''Pending''}"
    "phase = ''Running'' \<Longrightarrow> \<exists>dep. store w KDeployment (nn name ns) = Some (ODeployment dep) \<and>
       list_ex (\<lambda>c. DC_Type c = ''Available'' \<and> DC_Status c = ''True'') (DSt_Conditions (Dep_Status dep))"
proof -
  from assms obtain r where r: "run_state (getAs asDeployment kc KDeployment (nn name ns)) w = (r, w')"
    and p: "(phase, pod) = (case r of Inl _ \<Rightarrow> (''Pending'', '''') | Inr dep \<Rightarrow> (let st = Dep_Status dep in
        if list_ex (\<lambda>c. DC_Type c = ''Available'' \<and> DC_Status c = ''True'') (DSt_Conditions st)
        then (''Running'', name @ '' (replicas: '' @ show_int (sint (DSt_ReadyReplicas st)) @ '')'')
        else if sint (DSt_UnavailableReplicas st) > 0 then (''Progressing'', '''') else (''Pending'', '''')))"
    unfolding resolveAgentStatus_def by (elim bindSE) auto
  show "store w' = store w" using r by (rule getAs_same)
  show "phase \<in> {''Running'', ''Progressing'', ''Pending''}"
    using p by (cases r) (auto simp: Let_def split: if_splits)
  show "\<exists>dep. store w KDeployment (nn name ns) = Some (ODeployment dep) \<and>
       list_ex (\<lambda>c. DC_Type c = ''Available'' \<and> DC_Status c = ''True'') (DSt_Conditions (Dep_Status dep))"
    if "phase = ''Running''"
    using p r that by (cases r) (auto simp: Let_def split: if_splits dest!: getAs_Inr as_SomeD)
qed

lemma ensureStatus_result:
  assumes run: "run_state (ensureStatus kc a' (Agent_Status a) ns name pvc) w = (Inr u, w')"
    and a: "store w KClawAgent (key_of (OClawAgent a')) = Some (OClawAgent a)"
  obtains b where "store w' KClawAgent (key_of (OClawAgent a')) = Some (OClawAgent b)" "Agent_Spec b = Agent_Spec a"
    "ASt_WorkspacePVC (Agent_Status b) = pvc" "ASt_Phase (Agent_Status b) \<in> {''Running'', ''Progressing'', ''Pending''}"
    "ASt_Phase (Agent_Status b) = ''Running'' \<Longrightarrow> \<exists>dep. store w KDeployment (nn name ns) = Some (ODeployment dep) \<and>
       list_ex (\<lambda>c. DC_Type c = ''Available'' \<and> DC_Status c = ''True'') (DSt_Conditions (Dep_Status dep))"
proof -
  obtain phase pod w1 where s: "run_state (resolveAgentStatus kc ns name) w = ((phase, pod), w1)"
    by (metis prod.collapse)
  let ?st = "\<lparr>ASt_Phase = phase, ASt_PodName = pod, ASt_WorkspacePVC = pvc\<rparr>"
  from run s have u: "run_state (updateStatus kc a' (Agent_Status a) ?st) w1 = (Inr u, w')"
    by (simp add: ensureStatus_def)
  note st = resolveAgentStatus_result [OF s]
  have "\<exists>b. store w' KClawAgent (key_of (OClawAgent a')) = Some (OClawAgent b) \<and> Agent_Spec b = Agent_Spec a \<and> Agent_Status b = ?st"
  proof (cases "?st = Agent_Status a")
    case True
    with u st(1) a show ?thesis by (auto simp: updateStatus_def)
  next
    case False
    with u have "status_updated (OClawAgent (a'\<lparr>Agent_Status := ?st\<rparr>)) (store w1) (store w')"
      by (auto simp: updateStatus_def dest: status_Inr)
    then show ?thesis
      using a st(1) by (elim status_update_agent) auto
  qed
  then obtain b where "store w' KClawAgent (key_of (OClawAgent a')) = Some (OClawAgent b)" "Agent_Spec b = Agent_Spec a"
    "Agent_Status b = ?st" by blast
  with that [of b] st show thesis by simp
qed

end

text \<open>The deployment depends on the agent's spec, not on its status.\<close>

lemma agentDeployment_cong:
  "Agent_Spec a = Agent_Spec b \<Longrightarrow>
     agentDeployment \<lparr>DP_Agent = a, DP_Namespace = ns, DP_Name = n, DP_OTLPEndpoint = e, DP_GatewayURL = u,
       DP_ActivePVC = pvc, DP_Channels = chs, DP_Harness = h\<rparr> =
     agentDeployment \<lparr>DP_Agent = b, DP_Namespace = ns, DP_Name = n, DP_OTLPEndpoint = e, DP_GatewayURL = u,
       DP_ActivePVC = pvc, DP_Channels = chs, DP_Harness = h\<rparr>"
  "Agent_Spec a = Agent_Spec b \<Longrightarrow> agentService h a ns n = agentService h b ns n"
  by (simp_all add: agentDeployment_def mainContainer_def agentVolumes_def agentEnvFrom_def wantedSecrets_def
      agentRestartPolicy_def agentImage_def agentService_def)

text \<open>The five objects of an agent are in place, built from its spec, from what its references
  resolve to, and with the claim \<open>pvc\<close>.\<close>

definition agent_objects :: "Harness \<Rightarrow> ClawAgent \<Rightarrow> Resolved \<Rightarrow> string \<Rightarrow> ConfigMap \<Rightarrow> Obj list" where
  "agent_objects h a rs pvc cm =
     (let ns = Meta_Namespace (Agent_Meta a); name = Meta_Name (Agent_Meta a) in
      [OConfigMap (identityConfigMap a ns name), OConfigMap (skillsConfigMap ns name (R_Skills rs)), OConfigMap cm,
       ODeployment (agentDeployment \<lparr>DP_Agent = a, DP_Namespace = ns, DP_Name = name,
         DP_OTLPEndpoint = R_OTLPEndpoint rs, DP_GatewayURL = R_GatewayURL rs, DP_ActivePVC = pvc,
         DP_Channels = R_Channels rs, DP_Harness = h\<rparr>),
       OService (agentService h a ns name)])"

definition agent_in_place :: "ext \<Rightarrow> ClawAgent \<Rightarrow> Resolved \<Rightarrow> string \<Rightarrow> store \<Rightarrow> bool" where
  "agent_in_place x a rs pvc s \<longleftrightarrow>
     (let h = ForType x (HS_Type (AS_Harness (Agent_Spec a)))
      in \<exists>cm. harnessConfigMap h a (Meta_Namespace (Agent_Meta a)) (Meta_Name (Agent_Meta a))
             (R_GatewayURL rs) (R_OTLPEndpoint rs) (R_Policy rs) (R_Gateway rs) (R_Channels rs) = Inr cm \<and>
           list_all (in_place s) (agent_objects h a rs pvc cm))"

text \<open>The stored agent has its spec, names the claim, and its phase is one the controller gives;
  Running only when its deployment is available.\<close>

definition status_in_place :: "ClawAgent \<Rightarrow> string \<Rightarrow> store \<Rightarrow> bool" where
  "status_in_place a pvc s \<longleftrightarrow>
     (\<exists>b. s KClawAgent (key_of (OClawAgent a)) = Some (OClawAgent b) \<and> Agent_Spec b = Agent_Spec a \<and>
        ASt_WorkspacePVC (Agent_Status b) = pvc \<and>
        ASt_Phase (Agent_Status b) \<in> {''Running'', ''Progressing'', ''Pending''} \<and>
        (ASt_Phase (Agent_Status b) = ''Running'' \<longrightarrow>
           (\<exists>dep. s KDeployment (key_of (OClawAgent a)) = Some (ODeployment dep) \<and>
              list_ex (\<lambda>c. DC_Type c = ''Available'' \<and> DC_Status c = ''True'') (DSt_Conditions (Dep_Status dep)))))"

context controller_api
begin

lemma reconcileAgent_in_place:
  assumes a: "store w KClawAgent (key_of (OClawAgent a)) = Some (OClawAgent a)"
    and run: "run_state (reconcileAgent x kc a) w = (Inr Reconciled, w')"
  obtains pvc a' w2 w3
  where "agent_in_place x a (resolve_in (store w) (Agent_Spec a) (Meta_Namespace (Agent_Meta a))) pvc (store w')"
    "status_in_place a pvc (store w')"
    "if IsPersistent (AS_Workspace (Agent_Spec a))
     then pvc \<in> {activePVCName a (Meta_Name (Agent_Meta a)), Meta_Name (Agent_Meta a) @ ''-home-v2''} else pvc = ''''"
    "\<forall>k. k \<noteq> KConfigMap \<longrightarrow> store w2 k = store w k"
    "run_state (ensureWorkspace x kc a (Meta_Namespace (Agent_Meta a)) (Meta_Name (Agent_Meta a))) w2 = (Inr (a', pvc), w3)"
    "store w' KPVC = store w3 KPVC" "store w' KPod = store w3 KPod"
proof -
  let ?ns = "Meta_Namespace (Agent_Meta a)" and ?name = "Meta_Name (Agent_Meta a)"
  let ?h = "ForType x (HS_Type (AS_Harness (Agent_Spec a)))"
  let ?F = "{(KPVC, nn (?name @ ''-home'') ?ns), (KPVC, nn (?name @ ''-home-v2'') ?ns), (KPod, nn (?name @ ''-pvc-migrate'') ?ns),
    (KPVC, nn (activePVCName a ?name) ?ns), (KDeployment, nn ?name ?ns)}"
  from run obtain rs w1 u2 w2 a' pvc w3 u4 w4 u5 where
    rs: "run_state (resolveRefs kc (Agent_Spec a) ?ns) w = (Inr rs, w1)"
    and cms: "run_state (ensureConfigMaps x kc a ?h rs ?ns ?name) w1 = (Inr u2, w2)"
    and ws: "run_state (ensureWorkspace x kc a ?ns ?name) w2 = (Inr (a', pvc), w3)"
    and wl: "run_state (ensureWorkload x kc a' ?h rs ?ns ?name pvc) w3 = (Inr u4, w4)"
    and st: "run_state (ensureStatus kc a' (Agent_Status a) ?ns ?name pvc) w4 = (Inr u5, w')"
    by (rule reconcileAgent_steps)
  note rs' = resolveRefs_Inr [OF rs] and a' = ensureWorkspace_agent [OF ws]
  from cms obtain cm where cm: "harnessConfigMap ?h a ?ns ?name (R_GatewayURL rs) (R_OTLPEndpoint rs) (R_Policy rs)
      (R_Gateway rs) (R_Channels rs) = Inr cm" "key_of (OConfigMap cm) = nn (?name @ h_ConfigMapSuffix ?h) ?ns"
    and cms': "in_place (store w2) (OConfigMap (identityConfigMap a ?ns ?name))"
      "in_place (store w2) (OConfigMap (skillsConfigMap ?ns ?name (R_Skills rs)))" "in_place (store w2) (OConfigMap cm)"
    by (rule ensureConfigMaps_in_place)
  have t2: "touches store {p. fst p = KConfigMap} w1 w2"
    by (rule guarD [OF guar_ensureConfigMaps cms]) simp_all
  have t3: "touches store ?F w2 w3"
    by (rule guarD [OF guar_ensureWorkspace ws]) simp_all
  have t4: "touches store {(KDeployment, nn ?name ?ns), (KService, nn ?name ?ns)} w3 w4"
    by (rule guarD [OF guar_ensureWorkload wl]) simp_all
  have t5: "touches store {(KClawAgent, key_of (OClawAgent a))} w4 w'"
    by (rule guarD [OF guar_ensureStatus st]) (simp add: a'(1))
  have ip5: "in_place (store w4) ob \<Longrightarrow> kind_of ob \<noteq> KClawAgent \<Longrightarrow> in_place (store w') ob" for ob
    by (rule in_place_touches [OF _ t5]) simp_all
  have ip2: "in_place (store w2) ob \<Longrightarrow> kind_of ob = KConfigMap \<Longrightarrow> in_place (store w') ob" for ob
    by (rule ip5 [OF in_place_touches [OF in_place_touches [OF _ t3] t4]]) simp_all
  have "store w4 KClawAgent (key_of (OClawAgent a)) = Some (OClawAgent a)"
    using a rs' t2 t3 t4 by (simp add: touches_def)
  then have a4: "store w4 KClawAgent (key_of (OClawAgent a')) = Some (OClawAgent a)" by (simp add: a'(1))
  from ensureStatus_result [OF st a4] obtain b where
    b: "store w' KClawAgent (key_of (OClawAgent a')) = Some (OClawAgent b)" "Agent_Spec b = Agent_Spec a"
    "ASt_WorkspacePVC (Agent_Status b) = pvc" "ASt_Phase (Agent_Status b) \<in> {''Running'', ''Progressing'', ''Pending''}"
    "ASt_Phase (Agent_Status b) = ''Running'' \<Longrightarrow> \<exists>dep. store w4 KDeployment (nn ?name ?ns) = Some (ODeployment dep) \<and>
       list_ex (\<lambda>c. DC_Type c = ''Available'' \<and> DC_Status c = ''True'') (DSt_Conditions (Dep_Status dep))"
    by blast
  have "store w' KDeployment key = store w4 KDeployment key" for key
    using t5 by (simp add: touches_def)
  with b have "status_in_place a pvc (store w')"
    by (auto simp: status_in_place_def a'(1))
  moreover have "agent_in_place x a rs pvc (store w')"
    unfolding agent_in_place_def Let_def
  proof (intro exI conjI)
    show "harnessConfigMap ?h a ?ns ?name (R_GatewayURL rs) (R_OTLPEndpoint rs) (R_Policy rs) (R_Gateway rs)
      (R_Channels rs) = Inr cm" by (rule cm(1))
    show "list_all (in_place (store w')) (agent_objects ?h a rs pvc cm)"
      using cms' [THEN ip2] ensureWorkload_in_place [OF wl, THEN ip5]
      by (simp del: key_of_simps add: agent_objects_def Let_def agentDeployment_cong [OF a'(2)])
  qed
  moreover have "if IsPersistent (AS_Workspace (Agent_Spec a))
     then pvc \<in> {activePVCName a ?name, ?name @ ''-home-v2''} else pvc = ''''"
  proof (cases "IsPersistent (AS_Workspace (Agent_Spec a))")
    case True
    with a'(3) have "pvc \<noteq> ''''" by (simp add: activePVCName_def PVCSuffix_def)
    with True a'(4) show ?thesis by simp
  qed (simp add: a'(3))
  moreover have "k \<noteq> KConfigMap \<Longrightarrow> store w2 k = store w k" for k
    using t2 rs' by (auto simp: touches_def)
  moreover have "store w' KPVC = store w3 KPVC" "store w' KPod = store w3 KPod"
    using t4 t5 by (auto simp: touches_def)
  ultimately show thesis
    using that [of pvc w2 a' w3] ws rs' by simp
qed

lemma reconcileAgent_requeue:
  "run_state (reconcileAgent x kc a) w = (Inr (Requeue n), w') \<Longrightarrow> n = 5"
  unfolding reconcileAgent_def Let_def
  by (elim bindE_InrE bindSE) (auto split: sum.splits if_splits elim!: bindE_InrE)

lemma agent_in_place_touches:
  assumes "agent_in_place x0 a rs pvc (st w)" "touches st {(KConfigMap, nn ''fleet-dashboard'' ns)} w w'"
  shows "agent_in_place x0 a rs pvc (st w')"
proof -
  let ?h = "ForType x0 (HS_Type (AS_Harness (Agent_Spec a)))"
  from assms(1) obtain cm where cm: "harnessConfigMap ?h a (Meta_Namespace (Agent_Meta a)) (Meta_Name (Agent_Meta a))
      (R_GatewayURL rs) (R_OTLPEndpoint rs) (R_Policy rs) (R_Gateway rs) (R_Channels rs) = Inr cm"
    and obs: "list_all (in_place (st w)) (agent_objects ?h a rs pvc cm)"
    by (auto simp: agent_in_place_def Let_def)
  from cm have "Meta_Name (CM_Meta cm) = Meta_Name (Agent_Meta a) @ h_ConfigMapSuffix ?h"
    by (auto simp: harnessConfigMap_def split: sum.splits)
  then have "list_all (\<lambda>ob. (kind_of ob, key_of ob) \<noteq> (KConfigMap, nn ''fleet-dashboard'' ns)) (agent_objects ?h a rs pvc cm)"
    by (simp add: agent_objects_def Let_def identityConfigMap_def skillsConfigMap_def)
  with obs have "list_all (in_place (st w')) (agent_objects ?h a rs pvc cm)"
    unfolding list_all_iff using in_place_touches [where st = st, OF _ assms(2)] by blast
  with cm show ?thesis by (auto simp: agent_in_place_def Let_def)
qed

lemma Reconcile_in_place:
  assumes a: "store w KClawAgent req = Some (OClawAgent a)"
    and run: "run_state (Reconcile x kc req lastHash) w = ((Inr 0, newHash), w')"
  obtains pvc a' w2 w3
  where "agent_in_place x a (resolve_in (store w) (Agent_Spec a) (Meta_Namespace (Agent_Meta a))) pvc (store w')"
    "status_in_place a pvc (store w')"
    "if IsPersistent (AS_Workspace (Agent_Spec a))
     then pvc \<in> {activePVCName a (Meta_Name (Agent_Meta a)), Meta_Name (Agent_Meta a) @ ''-home-v2''} else pvc = ''''"
    "\<forall>k. k \<noteq> KConfigMap \<longrightarrow> store w2 k = store w k"
    "run_state (ensureWorkspace x kc a (Meta_Namespace (Agent_Meta a)) (Meta_Name (Agent_Meta a))) w2 = (Inr (a', pvc), w3)"
    "store w' KPVC = store w3 KPVC" "store w' KPod = store w3 KPod"
proof (rule Reconcile_cases [OF a run])
  fix w1
  assume w1: "store w1 = store w" and f: "run_state (reconcileFound x kc lastHash a) w1 = ((Inr 0, newHash), w')"
  have key: "req = key_of (OClawAgent a)" using a store_wf [of w] unfolding store_ok_def by metis
  from f obtain r w2 where r: "run_state (reconcileAgent x kc a) w1 = (r, w2)"
    and k: "run_state (case r of
        Inl e \<Rightarrow> State_Monad.return (Inl e, lastHash)
      | Inr (Requeue seconds) \<Rightarrow> State_Monad.return (Inr seconds, lastHash)
      | Inr Reconciled \<Rightarrow> State_Monad.bind (updateFleetDashboard x kc (Meta_Namespace (Agent_Meta a)) lastHash)
          (\<lambda>d. State_Monad.return (Inr 0, snd d))) w2 = ((Inr 0, newHash), w')"
    unfolding reconcileFound_def by (elim bindSE)
  have fin: "r = Inr Reconciled"
    using k r by (auto split: sum.splits Outcome.splits dest: reconcileAgent_requeue)
  with k fin obtain d where "run_state (updateFleetDashboard x kc (Meta_Namespace (Agent_Meta a)) lastHash) w2 = (d, w')"
    by (auto split: prod.splits)
  then have t: "touches store {(KConfigMap, nn ''fleet-dashboard'' (Meta_Namespace (Agent_Meta a)))} w2 w'"
    by (rule guarD [OF guar_updateFleetDashboard, rotated]) simp
  have a1: "store w1 KClawAgent (key_of (OClawAgent a)) = Some (OClawAgent a)" using a w1 key by simp
  obtain pvc a' v2 v3 where in2:
    "agent_in_place x a (resolve_in (store w) (Agent_Spec a) (Meta_Namespace (Agent_Meta a))) pvc (store w2)"
    "status_in_place a pvc (store w2)"
    and pvc: "if IsPersistent (AS_Workspace (Agent_Spec a))
     then pvc \<in> {activePVCName a (Meta_Name (Agent_Meta a)), Meta_Name (Agent_Meta a) @ ''-home-v2''} else pvc = ''''"
    and v: "\<forall>k. k \<noteq> KConfigMap \<longrightarrow> store v2 k = store w k"
    "run_state (ensureWorkspace x kc a (Meta_Namespace (Agent_Meta a)) (Meta_Name (Agent_Meta a))) v2 = (Inr (a', pvc), v3)"
    "store w2 KPVC = store v3 KPVC" "store w2 KPod = store v3 KPod"
    by (rule reconcileAgent_in_place [OF a1 r [unfolded fin], unfolded w1]) (rule that; assumption)
  have st: "status_in_place a pvc (store w')"
    using in2(2) t by (simp add: status_in_place_def touches_def)
  have "store w' KPVC = store w2 KPVC" "store w' KPod = store w2 KPod"
    using t by (auto simp: touches_def)
  then show thesis
    by (intro that [OF agent_in_place_touches [OF in2(1) t] st pvc v(1,2)]) (simp_all add: v(3,4))
qed simp

end

section \<open>When a reconcile succeeds\<close>

text \<open>Nothing to resize: the size asked for is a quantity, and the claim is missing or at least as big.\<close>

definition no_resize :: "ext \<Rightarrow> ClawAgent \<Rightarrow> store \<Rightarrow> bool" where
  "no_resize x a s \<longleftrightarrow>
     (\<exists>q. ext_ParseQuantity x (ResolvedStorageSize (AS_Workspace (Agent_Spec a))) = Some q \<and>
        (\<forall>pvc. s KPVC (nn (activePVCName a (Meta_Name (Agent_Meta a))) (Meta_Namespace (Agent_Meta a))) = Some (OPVC pvc) \<longrightarrow>
           q \<le> storage_of pvc))"

context reliable_api
begin

lemma withOwner_fresh:
  "Meta_OwnerReferences (meta_of ob) = [] \<Longrightarrow> Meta_Namespace (meta_of ob) = Meta_Namespace (Agent_Meta a) \<Longrightarrow>
     \<exists>ob'. withOwner x a ob = Inr ob'"
  using set_owner_fresh [of "meta_of ob" "Agent_Meta a" KClawAgent] by (auto simp: withOwner_def)

lemma ensureResource_succeeds:
  assumes "Meta_OwnerReferences (meta_of ob) = []" "Meta_Namespace (meta_of ob) = Meta_Namespace (Agent_Meta a)"
  shows "succeeds (ensureResource x kc a ob desc) w"
proof -
  obtain desired where d: "withOwner x a ob = Inr desired" using withOwner_fresh [OF assms] by blast
  show ?thesis
  proof (cases "store w (kind_of desired) (key_of desired)")
    case None
    from get_None [OF None] obtain e w1 where g: "run_state (kube_Get kc (kind_of desired) (key_of desired)) w = (Inl e, w1)"
      "is_not_found e" by blast
    with None get_same have "store w1 (kind_of desired) (key_of desired) = None" by metis
    from create_ok [OF this] g show ?thesis
      by (auto simp: succeeds_def ensureResource_def d)
  next
    case (Some existing)
    from get_Some [OF Some] obtain w1 where g: "run_state (kube_Get kc (kind_of desired) (key_of desired)) w = (Inr existing, w1)"
      by blast
    from Some store_wf [of w] have ex: "kind_of existing = kind_of desired" "key_of existing = key_of desired"
      by (auto simp: store_ok_def)
    have st: "store w1 = store w" using g by (rule get_same)
    show ?thesis
    proof (cases "drifted existing desired")
      case (Some ob')
      then have "store w1 (kind_of ob') (key_of ob') \<noteq> None"
        using drifted_key [OF Some] ex st \<open>store w (kind_of desired) (key_of desired) = Some existing\<close> by simp
      from update_ok [OF this] g Some show ?thesis
        by (auto simp: succeeds_def ensureResource_def d)
    qed (simp add: succeeds_def ensureResource_def d g)
  qed
qed

lemma lookupRef_succeeds: "succeeds (lookupRef sel kc k n ns) w" if "\<And>ob. kind_of ob = k \<Longrightarrow> sel ob \<noteq> None"
proof (cases "store w k (nn n ns)")
  case None
  then show ?thesis
    by (rule getAs_None [where sel = sel]) (auto simp: lookupRef_def succeeds_def)
next
  case (Some ob)
  then have "kind_of ob = k" using store_wf [of w] by (auto simp: store_ok_def)
  with that obtain y where "sel ob = Some y" by blast
  with Some show ?thesis
    by (rule getAs_Some) (auto simp: lookupRef_def succeeds_def)
qed

lemma lookupChannels_succeeds: "succeeds (lookupChannels kc ns names) w"
proof (induction names arbitrary: w)
  case (Cons n names)
  show ?case
  proof (cases "store w KClawChannel (nn n ns)")
    case None
    then obtain e w1 where "run_state (getAs asClawChannel kc KClawChannel (nn n ns)) w = (Inl e, w1)" "is_not_found e"
      by (rule getAs_None)
    with Cons [of w1] show ?thesis by (simp add: succeeds_def)
  next
    case (Some ob)
    then have "kind_of ob = KClawChannel" using store_wf [of w] by (auto simp: store_ok_def)
    then obtain ch where "asClawChannel ob = Some ch" by (cases ob) auto
    with Some obtain w1 where "run_state (getAs asClawChannel kc KClawChannel (nn n ns)) w = (Inr ch, w1)"
      by (rule getAs_Some)
    with Cons [of w1] show ?thesis
      by (auto simp: succeeds_def run_bindE)
  qed
qed simp

lemma resolveRefs_succeeds: "succeeds (resolveRefs kc sp ns) w"
proof -
  have "kind_of ob = KClawObservability \<Longrightarrow> asClawObservability ob \<noteq> None"
    "kind_of ob = KClawSkillSet \<Longrightarrow> asClawSkillSet ob \<noteq> None"
    "kind_of ob = KClawGateway \<Longrightarrow> asClawGateway ob \<noteq> None"
    "kind_of ob = KClawPolicy \<Longrightarrow> asClawPolicy ob \<noteq> None" for ob
    by (cases ob; simp)+
  then show ?thesis
    unfolding resolveRefs_def
    by (intro succeeds_bindE lookupRef_succeeds lookupChannels_succeeds succeeds_retE) blast+
qed

lemma cleanupClaims_succeeds: "succeeds (cleanupClaims kc ns name ss) w"
proof (induction ss arbitrary: w)
  case (Cons s ss)
  show ?case
  proof (cases "store w KPVC (nn (name @ s) ns)")
    case None
    then obtain e w1 where "run_state (getAs asPVC kc KPVC (nn (name @ s) ns)) w = (Inl e, w1)" "is_not_found e"
      by (rule getAs_None)
    with Cons [of w1] show ?thesis by (simp add: succeeds_def)
  next
    case (Some ob)
    then have ob: "kind_of ob = KPVC" "key_of ob = nn (name @ s) ns"
      using store_wf [of w] by (auto simp: store_ok_def)
    then obtain pvc where pvc: "asPVC ob = Some pvc" by (cases ob) auto
    with Some obtain w1 where g: "run_state (getAs asPVC kc KPVC (nn (name @ s) ns)) w = (Inr pvc, w1)" "store w1 = store w"
      by (rule getAs_Some)
    from pvc have "ob = OPVC pvc" by (rule as_SomeD)
    with Some ob g(2) have "store w1 (kind_of (OPVC pvc)) (key_of (OPVC pvc)) \<noteq> None"
      by (simp del: key_of_simps)
    from delete_ok [OF this] obtain w2 where "run_state (kube_Delete kc (OPVC pvc)) w1 = (Inr (), w2)" by blast
    with Cons [of w2] g show ?thesis by (simp add: succeeds_def)
  qed
qed simp

lemma cleanupOrphanedPVC_succeeds: "succeeds (cleanupOrphanedPVC kc ns name) w"
  unfolding cleanupOrphanedPVC_def by (rule cleanupClaims_succeeds)

lemma ensureStatus_succeeds:
  assumes "store w KClawAgent (key_of (OClawAgent a)) \<noteq> None"
  shows "succeeds (ensureStatus kc a old ns name pvc) w"
  unfolding ensureStatus_def
proof (rule succeeds_bind)
  fix y w1 assume "run_state (resolveAgentStatus kc ns name) w = (y, w1)"
  then have "store w1 = store w" by (metis prod.collapse resolveAgentStatus_result(1))
  with assms have "\<exists>w2. run_state (kube_StatusUpdate kc (OClawAgent (a\<lparr>Agent_Status := st\<rparr>))) w1 = (Inr (), w2)" for st
    by (intro status_ok) simp
  then show "succeeds (case y of (phase, podName) \<Rightarrow> updateStatus kc a old
      \<lparr>ASt_Phase = phase, ASt_PodName = podName, ASt_WorkspacePVC = pvc\<rparr>) w1"
    by (auto simp: succeeds_def updateStatus_def split: prod.split)
qed

lemma ownClaim_succeeds:
  assumes "Meta_OwnerReferences (PVC_Meta pvc) = []" "Meta_Namespace (PVC_Meta pvc) = Meta_Namespace (Agent_Meta a)"
  shows "succeeds (ownClaim x a rp msg pvc) w"
  using withOwner_fresh [of "OPVC pvc" a] assms by (auto simp: ownClaim_def succeeds_def)

lemma syncPVCOwnerRefs_succeeds:
  assumes "store w KPVC (key_of (OPVC pvc)) \<noteq> None" "Meta_Namespace (PVC_Meta pvc) = Meta_Namespace (Agent_Meta a)"
  shows "succeeds (syncPVCOwnerRefs x kc a pvc rp) w"
proof -
  have ok: "succeeds (kube_Update kc ob) w" if "kind_of ob = KPVC" "key_of ob = key_of (OPVC pvc)" for ob
    using update_ok [of w ob] assms(1) that by (auto simp: succeeds_def)
  show ?thesis
  proof (cases "rp = ReclaimPolicyDelete \<and> Meta_OwnerReferences (PVC_Meta pvc) = []")
    case True
    with assms(2) withOwner_fresh [of "OPVC pvc" a] obtain ob where ob: "withOwner x a (OPVC pvc) = Inr ob" by auto
    from ok [of ob] withOwner_key [OF ob] True ob show ?thesis by (simp add: syncPVCOwnerRefs_def)
  next
    case False
    then show ?thesis using ok by (auto simp: syncPVCOwnerRefs_def)
  qed
qed

lemma ensurePVC_succeeds:
  assumes "no_resize x a (store w)"
  shows "succeeds (ensurePVC x kc a (Meta_Namespace (Agent_Meta a)) (Meta_Name (Agent_Meta a))) w"
proof -
  let ?ns = "Meta_Namespace (Agent_Meta a)" and ?name = "Meta_Name (Agent_Meta a)" and ?ws = "AS_Workspace (Agent_Spec a)"
  let ?key = "nn (activePVCName a ?name) ?ns"
  from assms obtain q where q: "ext_ParseQuantity x (ResolvedStorageSize ?ws) = Some q"
    and size: "\<And>pvc. store w KPVC ?key = Some (OPVC pvc) \<Longrightarrow> q \<le> storage_of pvc"
    by (auto simp: no_resize_def)
  have rest: "succeeds (State_Monad.bind (getAs asPVC kc KPVC ?key) (\<lambda>r. case r of
      Inl e \<Rightarrow> if is_not_found e then bindE (kube_Create kc pvc) (\<lambda>_. retE a) else throwE e
    | Inr existing \<Rightarrow> bindE (syncPVCOwnerRefs x kc a existing rp) (\<lambda>_.
        if q > storage_of existing then resizePVC x kc a existing ?ns ?name pn q rp else retE a))) v"
    if v: "store v = store w" and pvc: "kind_of pvc = KPVC" "key_of pvc = ?key" for v pvc rp pn
  proof (cases "store v KPVC ?key")
    case None
    then obtain e v1 where g: "run_state (getAs asPVC kc KPVC ?key) v = (Inl e, v1)" "is_not_found e" "store v1 = store v"
      by (rule getAs_None)
    with None pvc have "store v1 (kind_of pvc) (key_of pvc) = None" by simp
    from create_ok [OF this] g show ?thesis by (auto simp: succeeds_def run_bindE)
  next
    case (Some ob)
    then have ob: "kind_of ob = KPVC" "key_of ob = ?key" using store_wf [of v] by (auto simp: store_ok_def)
    then obtain ex where ex: "ob = OPVC ex" by (cases ob) auto
    from Some ex have "asPVC ob = Some ex" by simp
    with Some obtain v1 where g: "run_state (getAs asPVC kc KPVC ?key) v = (Inr ex, v1)" "store v1 = store v"
      by (rule getAs_Some)
    have "succeeds (syncPVCOwnerRefs x kc a ex rp) v1"
      by (rule syncPVCOwnerRefs_succeeds) (use Some g(2) ob ex in \<open>simp_all del: key_of_simps add: key_of_def\<close>)
    moreover have "q \<le> storage_of ex" using size Some v ex by simp
    ultimately have "succeeds (bindE (syncPVCOwnerRefs x kc a ex rp) (\<lambda>_.
        if q > storage_of ex then resizePVC x kc a ex ?ns ?name pn q rp else retE a)) v1"
      by (intro succeeds_bindE) simp_all
    with g show ?thesis by (simp add: succeeds_def)
  qed
  show ?thesis
    unfolding ensurePVC_def Let_def mustParse_def q option.case bindE_retE
  proof (rule succeeds_bindE)
    show "succeeds (ownClaim x a (ResolvedReclaimPolicy ?ws) ''setting owner reference on PVC: ''
        (buildPVC (activePVCName a ?name) ?ns ?name q ?ws)) w"
      by (rule ownClaim_succeeds) (simp_all add: buildPVC_def)
    fix pvc v
    assume oc: "run_state (ownClaim x a (ResolvedReclaimPolicy ?ws) ''setting owner reference on PVC: ''
        (buildPVC (activePVCName a ?name) ?ns ?name q ?ws)) w = (Inr pvc, v)"
    then have "store v = store w"
      by (auto simp: ownClaim_def split: if_splits sum.splits)
    moreover have "kind_of pvc = KPVC" "key_of pvc = ?key"
      using oc withOwner_key [of a "OPVC (buildPVC (activePVCName a ?name) ?ns ?name q ?ws)" pvc]
      by (auto simp: ownClaim_def buildPVC_def split: if_splits sum.splits)
    ultimately show "succeeds (State_Monad.bind (getAs asPVC kc KPVC ?key) (\<lambda>r. case r of
        Inl e \<Rightarrow> if is_not_found e then bindE (kube_Create kc pvc) (\<lambda>_. retE a) else throwE e
      | Inr existing \<Rightarrow> bindE (syncPVCOwnerRefs x kc a existing (ResolvedReclaimPolicy ?ws)) (\<lambda>_.
          if q > storage_of existing
          then resizePVC x kc a existing ?ns ?name (activePVCName a ?name) q (ResolvedReclaimPolicy ?ws)
          else retE a))) v"
      by (rule rest)
  qed
qed

lemma ensureConfigMaps_succeeds:
  assumes "harnessConfigMap h a (Meta_Namespace (Agent_Meta a)) (Meta_Name (Agent_Meta a)) (R_GatewayURL rs) (R_OTLPEndpoint rs)
      (R_Policy rs) (R_Gateway rs) (R_Channels rs) = Inr cm"
  shows "succeeds (ensureConfigMaps x kc a h rs (Meta_Namespace (Agent_Meta a)) (Meta_Name (Agent_Meta a))) w"
proof -
  have "CM_Meta cm = new_meta (Meta_Name (Agent_Meta a) @ h_ConfigMapSuffix h) (Meta_Namespace (Agent_Meta a))
      (agentLabels (Meta_Name (Agent_Meta a)))"
    using assms by (auto simp: harnessConfigMap_def split: sum.splits)
  then show ?thesis
    unfolding ensureConfigMaps_def assms sum.case
    by (intro succeeds_bindE ensureResource_succeeds) (simp_all add: identityConfigMap_def skillsConfigMap_def Let_def)
qed

lemma ensureWorkspace_succeeds:
  assumes "IsPersistent (AS_Workspace (Agent_Spec a)) \<Longrightarrow> no_resize x a (store w)"
  shows "succeeds (ensureWorkspace x kc a (Meta_Namespace (Agent_Meta a)) (Meta_Name (Agent_Meta a))) w"
  unfolding ensureWorkspace_def
  using assms by (auto intro!: succeeds_bindE ensurePVC_succeeds cleanupOrphanedPVC_succeeds)

lemma ensureWorkload_succeeds:
  "succeeds (ensureWorkload x kc a h rs (Meta_Namespace (Agent_Meta a)) name pvc) w"
  unfolding ensureWorkload_def Let_def
  by (intro succeeds_bindE ensureResource_succeeds) (simp_all add: agentDeployment_def agentService_def Let_def)

lemma reconcileAgent_succeeds:
  assumes a: "store w KClawAgent (key_of (OClawAgent a)) = Some (OClawAgent a)"
    and cm: "harnessConfigMap (ForType x (HS_Type (AS_Harness (Agent_Spec a)))) a (Meta_Namespace (Agent_Meta a))
        (Meta_Name (Agent_Meta a)) (R_GatewayURL rs) (R_OTLPEndpoint rs) (R_Policy rs) (R_Gateway rs) (R_Channels rs) = Inr cm"
    and rs: "rs = resolve_in (store w) (Agent_Spec a) (Meta_Namespace (Agent_Meta a))"
    and ws: "\<And>v. (\<And>k. k \<noteq> KConfigMap \<Longrightarrow> store v k = store w k) \<Longrightarrow>
        succeeds (ensureWorkspace x kc a (Meta_Namespace (Agent_Meta a)) (Meta_Name (Agent_Meta a))) v"
  obtains w' where "run_state (reconcileAgent x kc a) w = (Inr Reconciled, w')"
proof -
  let ?ns = "Meta_Namespace (Agent_Meta a)" and ?name = "Meta_Name (Agent_Meta a)"
  let ?h = "ForType x (HS_Type (AS_Harness (Agent_Spec a)))"
  let ?F = "{(KPVC, nn (?name @ ''-home'') ?ns), (KPVC, nn (?name @ ''-home-v2'') ?ns), (KPod, nn (?name @ ''-pvc-migrate'') ?ns),
    (KPVC, nn (activePVCName a ?name) ?ns), (KDeployment, nn ?name ?ns)}"
  obtain rs' w1 where r1: "run_state (resolveRefs kc (Agent_Spec a) ?ns) w = (Inr rs', w1)"
    using resolveRefs_succeeds unfolding succeeds_def by blast
  from resolveRefs_Inr [OF r1] rs have rs': "rs' = rs" "store w1 = store w" by simp_all
  from ensureConfigMaps_succeeds [OF cm] obtain u w2 where
    r2: "run_state (ensureConfigMaps x kc a ?h rs ?ns ?name) w1 = (Inr u, w2)"
    unfolding succeeds_def by blast
  have t2: "touches store {p. fst p = KConfigMap} w1 w2"
    by (rule guarD [OF guar_ensureConfigMaps r2]) simp_all
  then have "k \<noteq> KConfigMap \<Longrightarrow> store w2 k = store w k" for k using rs'(2) by (auto simp: touches_def)
  from ws [OF this] obtain y w3 where
    r3': "run_state (ensureWorkspace x kc a ?ns ?name) w2 = (Inr y, w3)"
    unfolding succeeds_def by blast
  then obtain a' pvc where r3: "run_state (ensureWorkspace x kc a ?ns ?name) w2 = (Inr (a', pvc), w3)"
    by (cases y) simp
  note a' = ensureWorkspace_agent [OF r3]
  have t3: "touches store ?F w2 w3" by (rule guarD [OF guar_ensureWorkspace r3]) simp_all
  from ensureWorkload_succeeds [of a' ?h rs ?name pvc w3] obtain u4 w4 where
    r4: "run_state (ensureWorkload x kc a' ?h rs ?ns ?name pvc) w3 = (Inr u4, w4)"
    unfolding succeeds_def a'(1) by blast
  have t4: "touches store {(KDeployment, nn ?name ?ns), (KService, nn ?name ?ns)} w3 w4"
    by (rule guarD [OF guar_ensureWorkload r4]) simp_all
  have "store w4 KClawAgent (key_of (OClawAgent a')) \<noteq> None"
    using a rs'(2) t2 t3 t4 by (simp add: touches_def a'(1))
  from ensureStatus_succeeds [OF this] obtain u5 w5 where
    r5: "run_state (ensureStatus kc a' (Agent_Status a) ?ns ?name pvc) w4 = (Inr u5, w5)"
    unfolding succeeds_def by blast
  show thesis
    by (rule that [of w5]) (simp add: reconcileAgent_def Let_def run_bindE r1 rs'(1) r2 r3 r4 r5)
qed

lemma Reconcile_succeeds_if:
  assumes a: "store w KClawAgent req = Some (OClawAgent a)"
    and cm: "harnessConfigMap (ForType x (HS_Type (AS_Harness (Agent_Spec a)))) a (Meta_Namespace (Agent_Meta a))
        (Meta_Name (Agent_Meta a)) (R_GatewayURL rs) (R_OTLPEndpoint rs) (R_Policy rs) (R_Gateway rs) (R_Channels rs) = Inr cm"
    and rs: "rs = resolve_in (store w) (Agent_Spec a) (Meta_Namespace (Agent_Meta a))"
    and ws: "\<And>v. (\<And>k. k \<noteq> KConfigMap \<Longrightarrow> store v k = store w k) \<Longrightarrow>
        succeeds (ensureWorkspace x kc a (Meta_Namespace (Agent_Meta a)) (Meta_Name (Agent_Meta a))) v"
  shows "\<exists>newHash w'. run_state (Reconcile x kc req lastHash) w = ((Inr 0, newHash), w')"
proof -
  have key: "req = key_of (OClawAgent a)" using a store_wf [of w] unfolding store_ok_def by metis
  from a have "asClawAgent (OClawAgent a) = Some a" by simp
  with a obtain w1 where g: "run_state (getAs asClawAgent kc KClawAgent req) w = (Inr a, w1)" "store w1 = store w"
    by (rule getAs_Some)
  obtain w2 where "run_state (reconcileAgent x kc a) w1 = (Inr Reconciled, w2)"
  proof (rule reconcileAgent_succeeds [of w1 a rs cm])
    show "store w1 KClawAgent (key_of (OClawAgent a)) = Some (OClawAgent a)" using a g key by simp
  qed (use cm rs ws g in \<open>auto simp: g(2)\<close>)
  with g show ?thesis
    by (simp add: Reconcile_def reconcileFound_def split: prod.split)
qed

lemma Reconcile_succeeds:
  assumes a: "store w KClawAgent req = Some (OClawAgent a)"
    and cm: "harnessConfigMap (ForType x (HS_Type (AS_Harness (Agent_Spec a)))) a (Meta_Namespace (Agent_Meta a))
        (Meta_Name (Agent_Meta a)) (R_GatewayURL rs) (R_OTLPEndpoint rs) (R_Policy rs) (R_Gateway rs) (R_Channels rs) = Inr cm"
    and rs: "rs = resolve_in (store w) (Agent_Spec a) (Meta_Namespace (Agent_Meta a))"
    and ws: "IsPersistent (AS_Workspace (Agent_Spec a)) \<Longrightarrow> no_resize x a (store w)"
  shows "\<exists>newHash w'. run_state (Reconcile x kc req lastHash) w = ((Inr 0, newHash), w')"
proof (rule Reconcile_succeeds_if [OF a cm rs])
  fix v
  assume "\<And>k. k \<noteq> KConfigMap \<Longrightarrow> store v k = store w k"
  then have "store v KPVC = store w KPVC" by simp
  with ws show "succeeds (ensureWorkspace x kc a (Meta_Namespace (Agent_Meta a)) (Meta_Name (Agent_Meta a))) v"
    by (intro ensureWorkspace_succeeds) (simp add: no_resize_def)
qed

end

lemma example_agent_resolved:
  "resolve_in s (Agent_Spec (example_agent n)) ns =
     \<lparr>R_OTLPEndpoint = '''', R_Skills = [], R_GatewayURL = '''', R_Gateway = None, R_Policy = None, R_Channels = []\<rparr>"
  by (simp add: resolve_in_def resolved_of_def ref_in_def channels_in_def map_filter_simps example_agent_def
      zero_ClawAgentSpec_def)

lemma example_agent_config:
  "\<exists>cm. harnessConfigMap (ForType x (HS_Type (AS_Harness (Agent_Spec (example_agent n))))) a ns name u e pol gw chs = Inr cm"
  by (simp add: harnessConfigMap_def example_agent_def ForType_def HarnessHermes_def HarnessObserveClaw_def
      HermesHarness_def hermes_BuildConfig_def)

lemma example_agent_no_resize: "no_resize example_ext (example_agent ''eng'') (mem_store (example_world [''eng'', ''ops'']))"
proof -
  have "mem_store (example_world [''eng'', ''ops'']) KPVC key = None" for key
    by (simp add: example_world_def mem_store_def [of "[]"])
  moreover have "parse_digits 0 ''5Gi'' = Some 5368709120000"
    by (simp add: is_digit_def less_eq_char_def)
  ultimately show ?thesis
    by (simp add: no_resize_def example_ext_def example_agent_def ResolvedStorageSize_def zero_WorkspaceSpec_def
        DefaultWorkspaceStorageSize_def)
qed



text \<open>C8: A reconcile gets there in one pass. On a server that carries out every call, and when the
  config can be written and the workspace needs no resize, \<open>Reconcile\<close> returns without error and
  asks for no requeue.\<close>

theorem reconcile_succeeds:
  fixes rs :: Resolved
  assumes "reliable_api kc store x" "store w KClawAgent req = Some (OClawAgent a)"
    and "rs = resolve_in (store w) (Agent_Spec a) (Meta_Namespace (Agent_Meta a))"
    and "harnessConfigMap (ForType x (HS_Type (AS_Harness (Agent_Spec a)))) a (Meta_Namespace (Agent_Meta a))
        (Meta_Name (Agent_Meta a)) (R_GatewayURL rs) (R_OTLPEndpoint rs) (R_Policy rs) (R_Gateway rs) (R_Channels rs) = Inr cm"
    and "IsPersistent (AS_Workspace (Agent_Spec a)) \<Longrightarrow> no_resize x a (store w)"
  shows "\<exists>newHash w'. run_state (Reconcile x kc req lastHash) w = ((Inr 0, newHash), w')"
  by (rule reliable_api.Reconcile_succeeds [OF assms(1,2,4,3,5)])

theorem reconcile_succeeds_witness:
  "\<exists>h w'. run_state (Reconcile example_ext mem_client (nn ''eng'' ''prod'') '''') (example_world [''eng'', ''ops'']) =
      ((Inr 0, h), w')"
proof -
  obtain cm where "harnessConfigMap (ForType example_ext (HS_Type (AS_Harness (Agent_Spec (example_agent ''eng'')))))
      (example_agent ''eng'') (Meta_Namespace (Agent_Meta (example_agent ''eng''))) (Meta_Name (Agent_Meta (example_agent ''eng'')))
      '''' '''' None None [] = Inr cm"
    using example_agent_config by blast
  then show ?thesis
    using reconcile_succeeds [OF mem_controller.reliable_api_axioms, OF example_world_agent, OF refl, where cm = cm and lastHash = "''''"]
      example_agent_no_resize
    by (auto simp: example_agent_resolved)
qed

end
