(* ===== verification/AgentWatches.thy ===== *)
theory AgentWatches
  imports AgentProperties
begin

text \<open>
  The watches of the agent controller: \<open>SetupWithManager\<close> of \<open>clawagent_controller.go\<close> as the function
  from a changed object to the agents it enqueues, and that no change an agent depends on is missed.
\<close>

section \<open>The registered watches\<close>

definition agent_requests :: "'w kube \<Rightarrow> Obj \<Rightarrow> ('w, NamespacedName list) state" where
  "agent_requests kc ob =
     (case kind_of ob of
        KClawAgent \<Rightarrow> State_Monad.return [key_of ob]
      | KDeployment \<Rightarrow> State_Monad.return (owner_requests KClawAgent (meta_of ob))
      | KConfigMap \<Rightarrow> State_Monad.return (owner_requests KClawAgent (meta_of ob))
      | KService \<Rightarrow> State_Monad.return (owner_requests KClawAgent (meta_of ob))
      | KClawPolicy \<Rightarrow> findAgentsForPolicy kc ob
      | KClawSkillSet \<Rightarrow> findAgentsForSkillSet kc ob
      | KClawChannel \<Rightarrow> findAgentsForChannel kc ob
      | KClawGateway \<Rightarrow> findAgentsForGateway kc ob
      | KClawObservability \<Rightarrow> findAgentsForObservability kc ob
      | _ \<Rightarrow> State_Monad.return [])"

section \<open>References\<close>

text \<open>The spec names an object of this kind and name.\<close>

fun refers :: "ClawAgentSpec \<Rightarrow> Kind \<Rightarrow> string \<Rightarrow> bool" where
  "refers s KClawPolicy n \<longleftrightarrow> AS_Policy s = n"
| "refers s KClawSkillSet n \<longleftrightarrow> AS_SkillSet s = n"
| "refers s KClawChannel n \<longleftrightarrow> n \<in> set (AS_Channels s)"
| "refers s KClawGateway n \<longleftrightarrow> AS_Gateway s = n"
| "refers s KClawObservability n \<longleftrightarrow> AS_Observability s = n"
| "refers s _ n \<longleftrightarrow> False"

definition reference_kinds :: "Kind set" where
  "reference_kinds = {KClawPolicy, KClawSkillSet, KClawChannel, KClawGateway, KClawObservability}"

lemma agent_requests_find:
  assumes "kind_of ob \<in> reference_kinds"
  shows "agent_requests kc ob = findAgentsReferencingField kc ob (\<lambda>s. refers s (kind_of ob) (Meta_Name (meta_of ob)))"
  using assms
  by (auto simp: reference_kinds_def agent_requests_def findAgentsForPolicy_def findAgentsForSkillSet_def
      findAgentsForChannel_def findAgentsForGateway_def findAgentsForObservability_def list_ex_iff)

text \<open>Only a named object changes what a spec resolves to.\<close>

lemma ref_in_other: "s' k (nn n ns) = s k (nn n ns) \<Longrightarrow> ref_in sel s' k n ns = ref_in sel s k n ns"
  by (simp add: ref_in_def)

lemma map_filter_cong: "(\<And>x. x \<in> set xs \<Longrightarrow> f x = g x) \<Longrightarrow> List.map_filter f xs = List.map_filter g xs"
  by (induction xs) (auto simp: map_filter_simps split: option.split)

lemma channels_in_other:
  "(\<And>n. n \<in> set names \<Longrightarrow> s' KClawChannel (nn n ns) = s KClawChannel (nn n ns)) \<Longrightarrow>
     channels_in s' ns names = channels_in s ns names"
  unfolding channels_in_def by (intro arg_cong [where f = "filter _"] map_filter_cong) simp

lemma resolve_in_other:
  assumes "\<And>k' key'. (k', key') \<noteq> (k, nn n ns) \<Longrightarrow> s' k' key' = s k' key'"
    and "k \<notin> reference_kinds \<or> \<not> refers sp k n"
  shows "resolve_in s' sp ns = resolve_in s sp ns"
proof -
  have ref: "ref_in sel s' k' m ns = ref_in sel s k' m ns" if "k' \<noteq> k \<or> m \<noteq> n" for sel k' m
    using that by (intro ref_in_other assms(1)) auto
  have chs: "channels_in s' ns (AS_Channels sp) = channels_in s ns (AS_Channels sp)"
    if "k \<noteq> KClawChannel \<or> n \<notin> set (AS_Channels sp)"
    using that by (intro channels_in_other assms(1)) auto
  show ?thesis
    using assms(2) unfolding resolve_in_def by (cases k) (simp_all add: reference_kinds_def ref chs)
qed

lemma resolve_in_elsewhere:
  "(\<And>k n. s' k (nn n ns) = s k (nn n ns)) \<Longrightarrow> resolve_in s' sp ns = resolve_in s sp ns"
  by (simp add: resolve_in_def ref_in_def channels_in_def)

section \<open>What a change enqueues\<close>

lemma map_filter_set: "set (List.map_filter f xs) = {y. \<exists>x \<in> set xs. f x = Some y}"
  by (induction xs) (auto simp: map_filter_simps split: option.split)

lemma agents_distinct:
  assumes "distinct (map key_of obs)"
  shows "distinct (map (\<lambda>a. key_of (OClawAgent a)) (List.map_filter asClawAgent obs))"
  using assms
proof (induction obs)
  case (Cons ob obs)
  then show ?case
    by (cases ob) (force simp: map_filter_simps map_filter_set simp del: key_of_simps dest: as_SomeD)+
qed (simp add: map_filter_simps)

text \<open>The agents of a namespace whose spec satisfies \<open>match\<close>.\<close>

definition agents_where :: "store \<Rightarrow> string \<Rightarrow> (ClawAgentSpec \<Rightarrow> bool) \<Rightarrow> NamespacedName set" where
  "agents_where s ns match = {key. NN_Namespace key = ns \<and> (\<exists>a. s KClawAgent key = Some (OClawAgent a) \<and> match (Agent_Spec a))}"

text \<open>The requests for a list of the agents of a namespace.\<close>

definition requests_of :: "(ClawAgentSpec \<Rightarrow> bool) \<Rightarrow> ClawAgent list \<Rightarrow> NamespacedName list" where
  "requests_of match agents = map (\<lambda>a. key_of (OClawAgent a)) (filter (\<lambda>a. match (Agent_Spec a)) agents)"

context kube_api
begin

lemma listAs_Inr:
  assumes "run_state (listAs asClawAgent kc KClawAgent ns) w = (Inr agents, w')"
  shows "set agents = {a. \<exists>n. store w KClawAgent (nn n ns) = Some (OClawAgent a)}"
    "distinct (map (\<lambda>a. key_of (OClawAgent a)) agents)" "store w' = store w"
proof -
  obtain obs where obs: "run_state (kube_List kc KClawAgent ns) w = (Inr obs, w')" "agents = List.map_filter asClawAgent obs"
    using assms by (auto simp: listAs_def elim: bindE_InrE)
  have "asClawAgent ob = Some a \<longleftrightarrow> ob = OClawAgent a" for ob a by (cases ob) auto
  with list_Inr [OF obs(1)] show "set agents = {a. \<exists>n. store w KClawAgent (nn n ns) = Some (OClawAgent a)}"
    by (auto simp: obs(2) map_filter_set)
  show "distinct (map (\<lambda>a. key_of (OClawAgent a)) agents)"
    using list_Inr [OF obs(1)] by (simp add: obs(2) agents_distinct del: key_of_simps)
  show "store w' = store w" using obs(1) by (rule list_same)
qed

lemma requests_of_listed:
  assumes "run_state (listAs asClawAgent kc KClawAgent ns) w = (Inr agents, w')"
  shows "set (requests_of match agents) = agents_where (store w) ns match" "distinct (requests_of match agents)"
proof -
  have key: "key_of (OClawAgent a) = nn n ns" if "store w KClawAgent (nn n ns) = Some (OClawAgent a)" for a n
    using that store_wf [of w] unfolding store_ok_def by blast
  show "set (requests_of match agents) = agents_where (store w) ns match"
  proof (intro set_eqI iffI)
    fix k assume "k \<in> set (requests_of match agents)"
    then obtain a where a: "a \<in> set agents" "match (Agent_Spec a)" "k = key_of (OClawAgent a)"
      by (auto simp: requests_of_def simp del: key_of_simps)
    then obtain n where n: "store w KClawAgent (nn n ns) = Some (OClawAgent a)" using listAs_Inr(1) [OF assms] by blast
    with a key [OF n] show "k \<in> agents_where (store w) ns match"
      by (simp add: agents_where_def del: key_of_simps)
  next
    fix k assume "k \<in> agents_where (store w) ns match"
    then obtain n a where n: "k = nn n ns" "store w KClawAgent (nn n ns) = Some (OClawAgent a)" "match (Agent_Spec a)"
      by (cases k) (auto simp: agents_where_def nn_def)
    then have "a \<in> set agents" using listAs_Inr(1) [OF assms] by blast
    with n key [OF n(2)] show "k \<in> set (requests_of match agents)"
      by (force simp: requests_of_def image_iff simp del: key_of_simps)
  qed
  show "distinct (requests_of match agents)"
    unfolding requests_of_def by (rule distinct_map_filter [OF listAs_Inr(2) [OF assms]])
qed

lemma find_requests:
  assumes "run_state (findAgentsReferencingField kc ob match) w = (reqs, w')"
  obtains l where "run_state (listAs asClawAgent kc KClawAgent (Meta_Namespace (meta_of ob))) w = (l, w')"
    "reqs = (case l of Inl _ \<Rightarrow> [] | Inr agents \<Rightarrow> requests_of match agents)"
proof -
  obtain l v where "run_state (listAs asClawAgent kc KClawAgent (Meta_Namespace (meta_of ob))) w = (l, v)" by fastforce
  with assms that [of l] show thesis
    by (cases l) (simp_all add: findAgentsReferencingField_def requests_of_def key_of_def)
qed

lemma find_sound:
  assumes "run_state (findAgentsReferencingField kc ob match) w = (reqs, w')"
  shows "distinct reqs \<and> (reqs = [] \<or> set reqs = agents_where (store w) (Meta_Namespace (meta_of ob)) match) \<and> store w' = store w"
proof (rule find_requests [OF assms])
  fix l
  assume l: "run_state (listAs asClawAgent kc KClawAgent (Meta_Namespace (meta_of ob))) w = (l, w')"
    "reqs = (case l of Inl _ \<Rightarrow> [] | Inr agents \<Rightarrow> requests_of match agents)"
  from guarD [OF guar_listAs [of "{}"] l(1)] have "store w' = store w" by (simp add: touches_empty)
  then show ?thesis using l requests_of_listed by (cases l) auto
qed

end

context kube_reliable
begin

lemma find_complete:
  assumes "run_state (findAgentsReferencingField kc ob match) w = (reqs, w')"
  shows "set reqs = agents_where (store w) (Meta_Namespace (meta_of ob)) match"
proof (rule find_requests [OF assms])
  let ?ns = "Meta_Namespace (meta_of ob)"
  fix l
  assume l: "run_state (listAs asClawAgent kc KClawAgent ?ns) w = (l, w')"
    "reqs = (case l of Inl _ \<Rightarrow> [] | Inr agents \<Rightarrow> requests_of match agents)"
  obtain obs v where "run_state (kube_List kc KClawAgent ?ns) w = (Inr obs, v)" using list_ok by blast
  then have "run_state (listAs asClawAgent kc KClawAgent ?ns) w = (Inr (List.map_filter asClawAgent obs), v)"
    by (simp add: listAs_def run_bindE)
  with l(1) have agents: "l = Inr (List.map_filter asClawAgent obs)" by simp
  show ?thesis using requests_of_listed(1) [OF l(1) [unfolded agents]] l(2) agents by simp
qed

end


text \<open>The watches on policies, skill sets, channels, gateways and observabilities enqueue nothing
  else: the requests are distinct, and either none (the listing failed) or exactly the stored agents
  of the object's namespace whose spec names the object; nothing is written.\<close>

theorem watches_enqueue_referrers:
  assumes "kube_api kc store" "kind_of ob \<in> {KClawPolicy, KClawSkillSet, KClawChannel, KClawGateway, KClawObservability}"
    and "run_state (agent_requests kc ob) w = (reqs, w')"
  shows "distinct reqs \<and>
    (reqs = [] \<or> set reqs = {key. NN_Namespace key = Meta_Namespace (meta_of ob) \<and>
       (\<exists>a. store w KClawAgent key = Some (OClawAgent a) \<and> refers (Agent_Spec a) (kind_of ob) (Meta_Name (meta_of ob)))}) \<and>
    store w' = store w"
proof -
  have "run_state (findAgentsReferencingField kc ob (\<lambda>s. refers s (kind_of ob) (Meta_Name (meta_of ob)))) w = (reqs, w')"
    using assms(2,3) agent_requests_find [of ob kc] by (simp add: reference_kinds_def)
  from kube_api.find_sound [OF assms(1), OF this] show ?thesis unfolding agents_where_def .
qed

text \<open>An agent with a policy, before and after the policy is created.\<close>

definition strict_policy :: ClawPolicy where
  "strict_policy = \<lparr>Policy_Meta = new_meta ''strict'' ''prod'' [], Policy_Spec = \<lparr>
     PS_ToolPolicy = \<lparr>TP_Allow = [], TP_Deny = [''exec'']\<rparr>,
     PS_Budget = \<lparr>B_Daily = 0, B_Monthly = 0, B_WarnAt = '''', B_DowngradeModel = '''', B_DowngradeProvider = ''''\<rparr>\<rparr>\<rparr>"

definition watched_agent :: ClawAgent where
  "watched_agent = (example_agent ''eng'')\<lparr>Agent_Spec := (Agent_Spec (example_agent ''eng''))\<lparr>AS_Policy := ''strict''\<rparr>\<rparr>"

definition watched_world :: mem where
  "watched_world = mem_put (OClawPolicy strict_policy) (mem_put (OClawAgent watched_agent) [])"

lemma watched_world_agent: "mem_store watched_world KClawAgent (nn ''eng'' ''prod'') = Some (OClawAgent watched_agent)"
  by (simp add: watched_world_def watched_agent_def strict_policy_def example_agent_def)


theorem watches_enqueue_referrers_witness:
  "\<exists>reqs w'. run_state (agent_requests mem_client (OClawPolicy strict_policy)) watched_world = (reqs, w') \<and> distinct reqs"
proof -
  obtain reqs w' where "run_state (agent_requests mem_client (OClawPolicy strict_policy)) watched_world = (reqs, w')" by fastforce
  moreover from watches_enqueue_referrers [OF mem.kube_api_axioms, OF _ this] have "distinct reqs" by simp
  ultimately show ?thesis by blast
qed

end
