(* ===== verification/JsonText.thy ===== *)
theory JsonText
  imports GoStd
begin

text \<open>
  Reading JSON as \<open>encoding/json\<close> does: the tokens of a text, and the parser as the stack machine
  of Go's scanner, with its limit on nesting. Members of an object stay in the order of the text,
  duplicates included, and a number keeps its digits. The parser undoes both printers,
  \<open>MarshalIndent\<close> of \<open>GoStd\<close> and the compact \<open>Marshal\<close> below.
\<close>

section \<open>Strings\<close>

definition hex_value :: "char \<Rightarrow> nat option" where
  "hex_value c =
     (if CHR ''0'' \<le> c \<and> c \<le> CHR ''9'' then Some (of_char c - 48)
      else if CHR ''a'' \<le> c \<and> c \<le> CHR ''f'' then Some (of_char c - 87)
      else if CHR ''A'' \<le> c \<and> c \<le> CHR ''F'' then Some (of_char c - 55)
      else None)"

fun getu4 :: "string \<Rightarrow> nat option" where
  "getu4 (a # b # c # d # _) =
     (case (hex_value a, hex_value b, hex_value c, hex_value d) of
        (Some i, Some j, Some k, Some l) \<Rightarrow> Some (((i * 16 + j) * 16 + k) * 16 + l)
      | _ \<Rightarrow> None)"
| "getu4 _ = None"

text \<open>\<open>utf8.AppendRune\<close> and \<open>utf16.DecodeRune\<close>\<close>

definition encode_rune :: "nat \<Rightarrow> string" where
  "encode_rune n =
     (if n < 0x80 then [char_of n]
      else if n < 0x800 then [char_of (0xC0 + n div 64), char_of (0x80 + n mod 64)]
      else if n < 0x10000 then [char_of (0xE0 + n div 4096), char_of (0x80 + n div 64 mod 64), char_of (0x80 + n mod 64)]
      else [char_of (0xF0 + n div 262144), char_of (0x80 + n div 4096 mod 64),
            char_of (0x80 + n div 64 mod 64), char_of (0x80 + n mod 64)])"

definition replacement :: string where
  "replacement = [CHR 0xEF, CHR 0xBF, CHR 0xBD]"

definition is_surrogate :: "nat \<Rightarrow> bool" where
  "is_surrogate n = (0xD800 \<le> n \<and> n < 0xE000)"

definition decode_pair :: "nat \<Rightarrow> nat \<Rightarrow> nat option" where
  "decode_pair hi lo =
     (if 0xD800 \<le> hi \<and> hi < 0xDC00 \<and> 0xDC00 \<le> lo \<and> lo < 0xE000
      then Some ((hi - 0xD800) * 1024 + (lo - 0xDC00) + 0x10000) else None)"

definition simple_escape :: "char \<Rightarrow> char option" where
  "simple_escape e =
     (if e = CHR 0x22 \<or> e = CHR 0x5C \<or> e = CHR ''/'' then Some e
      else if e = CHR ''b'' then Some (CHR 0x08)
      else if e = CHR ''f'' then Some (CHR 0x0C)
      else if e = CHR ''n'' then Some (CHR 0x0A)
      else if e = CHR ''r'' then Some (CHR 0x0D)
      else if e = CHR ''t'' then Some (CHR 0x09)
      else None)"

definition prepend :: "string \<Rightarrow> (string \<times> string) option \<Rightarrow> (string \<times> string) option" where
  "prepend p = map_option (\<lambda>(t, r). (p @ t, r))"

lemma prepend_simps [simp]: "prepend p None = None" "prepend p (Some (t, r)) = Some (p @ t, r)"
  by (simp_all add: prepend_def)

lemma prepend_eq_Some [simp]: "prepend p x = Some (t, r) \<longleftrightarrow> (\<exists>u. x = Some (u, r) \<and> t = p @ u)"
  by (cases x) (auto simp: prepend_def)

text \<open>After the opening quote: the text up to the closing one, unescaped, and what follows.\<close>

function lex_string :: "string \<Rightarrow> (string \<times> string) option" where
  "lex_string s =
     (case s of
        [] \<Rightarrow> None
      | c # cs \<Rightarrow>
          if c = CHR 0x22 then Some ([], cs)
          else if c = CHR 0x5C then
            (case cs of
               [] \<Rightarrow> None
             | e # r \<Rightarrow>
                 if e = CHR ''u'' then
                   (case getu4 r of
                      None \<Rightarrow> None
                    | Some n \<Rightarrow>
                        if is_surrogate n then
                          (case (if take 2 (drop 4 r) = bsl @ ''u'' then getu4 (drop 6 r) else None) of
                             None \<Rightarrow> prepend replacement (lex_string (drop 4 r))
                           | Some n2 \<Rightarrow>
                               (case decode_pair n n2 of
                                  Some m \<Rightarrow> prepend (encode_rune m) (lex_string (drop 10 r))
                                | None \<Rightarrow> prepend replacement (lex_string (drop 4 r))))
                        else prepend (encode_rune n) (lex_string (drop 4 r)))
                 else
                   (case simple_escape e of
                      None \<Rightarrow> None
                    | Some u \<Rightarrow> prepend [u] (lex_string r)))
          else if c < CHR 0x20 then None
          else if rune_len s = 0 then prepend replacement (lex_string cs)
          else prepend (take (rune_len s) s) (lex_string (drop (rune_len s) s)))"
  by auto
termination
  by (relation "measure length") auto

declare lex_string.simps [simp del]

lemma lex_string_step:
  assumes "lex_string s = Some (t, r)"
  shows "s = CHR 0x22 # r \<or> (\<exists>x u. lex_string x = Some (u, r) \<and> length x < length s)"
proof (rule ccontr)
  assume n: "\<not> ?thesis"
  then have "length x < length s \<Longrightarrow> lex_string x = Some (u, r) \<longleftrightarrow> False" for x u by blast
  then show False
    using assms n by (subst (asm) lex_string.simps) (auto split: list.splits if_splits option.splits)
qed

lemma lex_string_shorter: "lex_string s = Some (t, r) \<Longrightarrow> length r < length s"
proof (induction "length s" arbitrary: s t rule: less_induct)
  case less
  from lex_string_step [OF less.prems] less.hyps show ?case by fastforce
qed

section \<open>Numbers\<close>

definition scan_int :: "string \<Rightarrow> (string \<times> string) option" where
  "scan_int s =
     (if s \<noteq> [] \<and> hd s = CHR ''0'' then Some ([hd s], tl s)
      else if takeWhile is_digit s = [] then None
      else Some (takeWhile is_digit s, dropWhile is_digit s))"

definition scan_digits :: "string \<Rightarrow> (string \<times> string) option" where
  "scan_digits s =
     (if takeWhile is_digit s = [] then None else Some (takeWhile is_digit s, dropWhile is_digit s))"

definition scan_fraction :: "string \<Rightarrow> (string \<times> string) option" where
  "scan_fraction s = (if s \<noteq> [] \<and> hd s = CHR ''.'' then prepend ''.'' (scan_digits (tl s)) else Some ([], s))"

definition scan_sign :: "char set \<Rightarrow> string \<Rightarrow> string \<times> string" where
  "scan_sign cs s = (if s \<noteq> [] \<and> hd s \<in> cs then ([hd s], tl s) else ([], s))"

definition scan_exponent :: "string \<Rightarrow> (string \<times> string) option" where
  "scan_exponent s =
     (if s \<noteq> [] \<and> hd s \<in> {CHR ''e'', CHR ''E''}
      then (let (sign, r) = scan_sign {CHR ''+'', CHR ''-''} (tl s) in prepend (hd s # sign) (scan_digits r))
      else Some ([], s))"

definition lex_number :: "string \<Rightarrow> (string \<times> string) option" where
  "lex_number s =
     (let (sign, s1) = scan_sign {CHR ''-''} s in
      case scan_int s1 of None \<Rightarrow> None | Some (i, s2) \<Rightarrow>
      case scan_fraction s2 of None \<Rightarrow> None | Some (f, s3) \<Rightarrow>
      prepend (sign @ i @ f) (scan_exponent s3))"

text \<open>What may follow a number without becoming part of it.\<close>

definition delimits :: "string \<Rightarrow> bool" where
  "delimits r = (r = [] \<or> (\<not> is_digit (hd r) \<and> hd r \<notin> {CHR ''.'', CHR ''e'', CHR ''E'', CHR ''+'', CHR ''-''}))"

lemma delimits_Cons:
  "delimits (c # r) \<longleftrightarrow> \<not> is_digit c \<and> c \<notin> {CHR ''.'', CHR ''e'', CHR ''E'', CHR ''+'', CHR ''-''}"
  by (simp add: delimits_def)

lemma takeWhile_delimits: "delimits r \<Longrightarrow> takeWhile is_digit (s @ r) = takeWhile is_digit s"
  by (induction s) (auto simp: delimits_def neq_Nil_conv takeWhile_eq_Nil_iff)

lemma dropWhile_delimits: "delimits r \<Longrightarrow> dropWhile is_digit (s @ r) = dropWhile is_digit s @ r"
  by (induction s) (auto simp: delimits_def neq_Nil_conv dropWhile_eq_self_iff)

lemmas digits_delimits = takeWhile_delimits dropWhile_delimits

lemma scan_digits_append: "scan_digits s = Some (x, y) \<Longrightarrow> delimits r \<Longrightarrow> scan_digits (s @ r) = Some (x, y @ r)"
  by (auto simp: scan_digits_def digits_delimits split: if_splits)

lemma scan_int_append: "scan_int s = Some (x, y) \<Longrightarrow> delimits r \<Longrightarrow> scan_int (s @ r) = Some (x, y @ r)"
  by (cases s) (auto simp: scan_int_def digits_delimits split: if_splits)

lemma scan_sign_append:
  "scan_sign cs s = (x, y) \<Longrightarrow> r = [] \<or> hd r \<notin> cs \<Longrightarrow> scan_sign cs (s @ r) = (x, y @ r)"
  by (cases s) (auto simp: scan_sign_def split: if_splits)

lemma scan_fraction_append:
  "scan_fraction s = Some (x, y) \<Longrightarrow> delimits r \<Longrightarrow> scan_fraction (s @ r) = Some (x, y @ r)"
  by (cases s) (auto simp: scan_fraction_def delimits_def dest: scan_digits_append split: if_splits)

lemma scan_exponent_append:
  assumes "scan_exponent s = Some (x, y)" "delimits r"
  shows "scan_exponent (s @ r) = Some (x, y @ r)"
proof (cases "s \<noteq> [] \<and> hd s \<in> {CHR ''e'', CHR ''E''}")
  case True
  obtain a b where ab: "scan_sign {CHR ''+'', CHR ''-''} (tl s) = (a, b)" by fastforce
  from scan_sign_append [OF this, of r] assms(2) have "scan_sign {CHR ''+'', CHR ''-''} (tl s @ r) = (a, b @ r)"
    by (auto simp: delimits_def)
  with True assms ab show ?thesis
    by (cases s) (auto simp: scan_exponent_def dest: scan_digits_append [OF _ assms(2)])
qed (use assms in \<open>cases s; auto simp: scan_exponent_def delimits_def split: if_splits\<close>)

lemma lex_number_append:
  assumes "lex_number s = Some (x, y)" "delimits r"
  shows "lex_number (s @ r) = Some (x, y @ r)"
proof -
  obtain a b where ab: "scan_sign {CHR ''-''} s = (a, b)" by fastforce
  from scan_sign_append [OF this, of r] assms(2) have "scan_sign {CHR ''-''} (s @ r) = (a, b @ r)"
    by (auto simp: delimits_def)
  moreover from assms(1) ab obtain i s2 f s3 e where parts: "scan_int b = Some (i, s2)" "scan_fraction s2 = Some (f, s3)"
    "scan_exponent s3 = Some (e, y)" "x = a @ i @ f @ e"
    by (auto simp: lex_number_def split: option.splits)
  ultimately show ?thesis
    using scan_int_append [OF parts(1) assms(2)] scan_fraction_append [OF parts(2) assms(2)]
      scan_exponent_append [OF parts(3) assms(2)] by (simp add: lex_number_def)
qed

text \<open>A scanner splits its input.\<close>

lemma scan_digits_split: "scan_digits s = Some (x, y) \<Longrightarrow> s = x @ y \<and> x \<noteq> []"
  by (auto simp: scan_digits_def split: if_splits)

lemma scan_int_split: "scan_int s = Some (x, y) \<Longrightarrow> s = x @ y \<and> x \<noteq> []"
  by (cases s) (auto simp: scan_int_def split: if_splits)

lemma scan_sign_split: "scan_sign cs s = (x, y) \<Longrightarrow> s = x @ y"
  by (cases s) (auto simp: scan_sign_def split: if_splits)

lemma scan_fraction_split: "scan_fraction s = Some (x, y) \<Longrightarrow> s = x @ y"
  by (cases s) (auto simp: scan_fraction_def dest: scan_digits_split split: if_splits)

lemma scan_exponent_split: "scan_exponent s = Some (x, y) \<Longrightarrow> s = x @ y"
  by (cases s) (auto simp: scan_exponent_def Let_def dest!: scan_digits_split scan_sign_split split: if_splits prod.splits)

lemma lex_number_split:
  assumes "lex_number s = Some (x, y)"
  shows "s = x @ y \<and> x \<noteq> []"
proof -
  obtain a b where ab: "scan_sign {CHR ''-''} s = (a, b)" by fastforce
  with assms obtain i s2 f s3 e where parts: "scan_int b = Some (i, s2)" "scan_fraction s2 = Some (f, s3)"
    "scan_exponent s3 = Some (e, y)" "x = a @ i @ f @ e"
    by (auto simp: lex_number_def split: option.splits)
  show ?thesis
    using scan_sign_split [OF ab] scan_int_split [OF parts(1)] scan_fraction_split [OF parts(2)]
      scan_exponent_split [OF parts(3)] parts(4) by simp
qed

section \<open>Tokens\<close>

datatype token =
    TLBrace | TRBrace | TLBracket | TRBracket | TColon | TComma
  | TNull | TTrue | TFalse | TStr string | TNum string

definition is_space :: "char \<Rightarrow> bool" where
  "is_space c = (c \<in> {CHR 0x20, CHR 0x09, CHR 0x0A, CHR 0x0D})"

definition skip_spaces :: "string \<Rightarrow> string" where
  "skip_spaces = dropWhile is_space"

definition keyword :: "string \<Rightarrow> token \<Rightarrow> string \<Rightarrow> (token \<times> string) option" where
  "keyword w t s = (if take (length w) s = w then Some (t, drop (length w) s) else None)"

definition token_at :: "char \<Rightarrow> string \<Rightarrow> (token \<times> string) option" where
  "token_at c cs =
     (if c = CHR ''{'' then Some (TLBrace, cs)
      else if c = CHR ''}'' then Some (TRBrace, cs)
      else if c = CHR ''['' then Some (TLBracket, cs)
      else if c = CHR '']'' then Some (TRBracket, cs)
      else if c = CHR '':'' then Some (TColon, cs)
      else if c = CHR '','' then Some (TComma, cs)
      else if c = CHR 0x22 then map_option (\<lambda>(t, r). (TStr t, r)) (lex_string cs)
      else if c = CHR ''n'' then keyword ''ull'' TNull cs
      else if c = CHR ''t'' then keyword ''rue'' TTrue cs
      else if c = CHR ''f'' then keyword ''alse'' TFalse cs
      else map_option (\<lambda>(t, r). (TNum t, r)) (lex_number (c # cs)))"

definition next_token :: "string \<Rightarrow> (token \<times> string) option" where
  "next_token s = (case skip_spaces s of [] \<Rightarrow> None | c # cs \<Rightarrow> token_at c cs)"

lemma keyword_shorter: "keyword w t s = Some (u, r) \<Longrightarrow> length r \<le> length s"
  by (auto simp: keyword_def split: if_splits)

lemma lex_number_shorter: "lex_number s = Some (x, r) \<Longrightarrow> length r < length s"
  using lex_number_split [of s x r] by auto

lemma token_at_shorter: "token_at c cs = Some (t, r) \<Longrightarrow> length r < Suc (length cs)"
  unfolding token_at_def
  by (auto split: if_splits dest!: lex_string_shorter lex_number_shorter keyword_shorter)

lemma next_token_shorter: "next_token s = Some (t, r) \<Longrightarrow> length r < length s"
  unfolding next_token_def skip_spaces_def using length_dropWhile_le [of is_space s]
  by (auto split: list.splits dest!: token_at_shorter)

section \<open>The parser\<close>

text \<open>
  The open arrays and objects, innermost first, each with what it has so far and what it
  expects: a first item or the end, an item, or a comma or the end; for objects a key, the colon
  after a key, or the key's value.
\<close>

datatype frame =
    ArrFirst | ArrItem "json list" | ArrRest "json list"
  | ObjFirst | ObjKey "(string \<times> json) list" | ObjColon "(string \<times> json) list" string
  | ObjValue "(string \<times> json) list" string | ObjRest "(string \<times> json) list"

definition maxNestingDepth :: nat where
  "maxNestingDepth = 10000"

text \<open>A value is complete: it goes to the innermost frame, or is the result.\<close>

fun deliver :: "json \<Rightarrow> frame list \<Rightarrow> (json + frame list) option" where
  "deliver v [] = Some (Inl v)"
| "deliver v (ArrFirst # st) = Some (Inr (ArrRest [v] # st))"
| "deliver v (ArrItem xs # st) = Some (Inr (ArrRest (xs @ [v]) # st))"
| "deliver v (ObjValue m k # st) = Some (Inr (ObjRest (m @ [(k, v)]) # st))"
| "deliver v _ = None"

fun expects_value :: "frame list \<Rightarrow> bool" where
  "expects_value [] = True"
| "expects_value (ArrFirst # st) = True"
| "expects_value (ArrItem xs # st) = True"
| "expects_value (ObjValue m k # st) = True"
| "expects_value _ = False"

definition open_frame :: "frame \<Rightarrow> frame list \<Rightarrow> (json + frame list) option" where
  "open_frame f st = (if expects_value st \<and> length st < maxNestingDepth then Some (Inr (f # st)) else None)"

fun token_step :: "frame list \<Rightarrow> token \<Rightarrow> (json + frame list) option" where
  "token_step st TNull = deliver JNull st"
| "token_step st TTrue = deliver (JBool True) st"
| "token_step st TFalse = deliver (JBool False) st"
| "token_step st (TNum t) = deliver (JFloat (Finite t)) st"
| "token_step st (TStr t) =
     (case st of
        ObjFirst # st' \<Rightarrow> Some (Inr (ObjColon [] t # st'))
      | ObjKey m # st' \<Rightarrow> Some (Inr (ObjColon m t # st'))
      | _ \<Rightarrow> deliver (JStr t) st)"
| "token_step st TLBracket = open_frame ArrFirst st"
| "token_step st TLBrace = open_frame ObjFirst st"
| "token_step st TRBracket =
     (case st of ArrFirst # st' \<Rightarrow> deliver (JArr []) st' | ArrRest xs # st' \<Rightarrow> deliver (JArr xs) st' | _ \<Rightarrow> None)"
| "token_step st TRBrace =
     (case st of ObjFirst # st' \<Rightarrow> deliver (JObj []) st' | ObjRest m # st' \<Rightarrow> deliver (JObj m) st' | _ \<Rightarrow> None)"
| "token_step st TColon = (case st of ObjColon m k # st' \<Rightarrow> Some (Inr (ObjValue m k # st')) | _ \<Rightarrow> None)"
| "token_step st TComma =
     (case st of
        ArrRest xs # st' \<Rightarrow> Some (Inr (ArrItem xs # st'))
      | ObjRest m # st' \<Rightarrow> Some (Inr (ObjKey m # st'))
      | _ \<Rightarrow> None)"

function parse_from :: "frame list \<Rightarrow> string \<Rightarrow> (json \<times> string) option" where
  "parse_from st s =
     (case next_token s of
        None \<Rightarrow> None
      | Some (t, r) \<Rightarrow>
          (case token_step st t of
             None \<Rightarrow> None
           | Some (Inl v) \<Rightarrow> Some (v, r)
           | Some (Inr st') \<Rightarrow> parse_from st' r))"
  by auto
termination
  by (relation "measure (length \<circ> snd)") (auto dest: next_token_shorter)

declare parse_from.simps [simp del]

text \<open>The whole text is one value (\<open>json.Unmarshal\<close>), or starts with one (\<open>Decoder.Decode\<close>).\<close>

definition json_parse :: "string \<Rightarrow> json option" where
  "json_parse s =
     (case parse_from [] s of Some (v, r) \<Rightarrow> if skip_spaces r = [] then Some v else None | None \<Rightarrow> None)"

definition json_decode :: "string \<Rightarrow> json option" where
  "json_decode s = map_option fst (parse_from [] s)"

section \<open>What a value prints to, in tokens\<close>

fun tokens_of :: "json \<Rightarrow> token list"
  and item_tokens :: "json list \<Rightarrow> token list"
  and member_tokens :: "(string \<times> json) list \<Rightarrow> token list" where
  "tokens_of JNull = [TNull]"
| "tokens_of (JBool b) = [if b then TTrue else TFalse]"
| "tokens_of (JInt i) = [TNum (show_int i)]"
| "tokens_of (JFloat (Finite t)) = [TNum t]"
| "tokens_of (JFloat (NonFinite t)) = [TNum t]"
| "tokens_of (JStr s) = [TStr s]"
| "tokens_of (JArr xs) = TLBracket # item_tokens xs @ [TRBracket]"
| "tokens_of (JObj m) = TLBrace # member_tokens m @ [TRBrace]"
| "item_tokens [] = []"
| "item_tokens (x # xs) = tokens_of x @ (if xs = [] then [] else TComma # item_tokens xs)"
| "member_tokens [] = []"
| "member_tokens ((k, v) # m) =
     TStr k # TColon # tokens_of v @ (if m = [] then [] else TComma # member_tokens m)"

text \<open>The value a reader sees: an integer is a number like any other.\<close>

fun plain :: "json \<Rightarrow> json"
  and plain_items :: "json list \<Rightarrow> json list"
  and plain_members :: "(string \<times> json) list \<Rightarrow> (string \<times> json) list" where
  "plain (JInt i) = JFloat (Finite (show_int i))"
| "plain (JFloat (NonFinite t)) = JFloat (Finite t)"
| "plain (JArr xs) = JArr (plain_items xs)"
| "plain (JObj m) = JObj (plain_members m)"
| "plain JNull = JNull"
| "plain (JBool b) = JBool b"
| "plain (JFloat (Finite t)) = JFloat (Finite t)"
| "plain (JStr s) = JStr s"
| "plain_items [] = []"
| "plain_items (x # xs) = plain x # plain_items xs"
| "plain_members [] = []"
| "plain_members ((k, v) # m) = (k, plain v) # plain_members m"

fun depth :: "json \<Rightarrow> nat"
  and items_depth :: "json list \<Rightarrow> nat"
  and members_depth :: "(string \<times> json) list \<Rightarrow> nat" where
  "depth (JArr xs) = Suc (items_depth xs)"
| "depth (JObj m) = Suc (members_depth m)"
| "depth _ = 0"
| "items_depth [] = 0"
| "items_depth (x # xs) = max (depth x) (items_depth xs)"
| "members_depth [] = 0"
| "members_depth ((k, v) # m) = max (depth v) (members_depth m)"

text \<open>Running the machine over tokens, from a stack to a stack.\<close>

fun run_tokens :: "frame list \<Rightarrow> token list \<Rightarrow> (json + frame list) option" where
  "run_tokens st [] = Some (Inr st)"
| "run_tokens st (t # ts) =
     (case token_step st t of
        Some (Inr st') \<Rightarrow> run_tokens st' ts
      | Some (Inl v) \<Rightarrow> if ts = [] then Some (Inl v) else None
      | None \<Rightarrow> None)"

definition continue_with :: "(json + frame list) option \<Rightarrow> token list \<Rightarrow> (json + frame list) option" where
  "continue_with x ts =
     (case x of
        Some (Inr st') \<Rightarrow> run_tokens st' ts
      | Some (Inl v) \<Rightarrow> if ts = [] then Some (Inl v) else None
      | None \<Rightarrow> None)"

lemma run_tokens_Cons: "run_tokens st (t # ts) = continue_with (token_step st t) ts"
  by (simp add: continue_with_def)

lemma continue_with_simps [simp]:
  "continue_with (Some (Inr st)) ts = run_tokens st ts"
  "continue_with None ts = None"
  "continue_with (Some (Inl v)) [] = Some (Inl v)"
  by (simp_all add: continue_with_def)

declare run_tokens.simps(2) [simp del]

lemma run_value:
  "expects_value st \<Longrightarrow> length st + depth j \<le> maxNestingDepth \<Longrightarrow>
     run_tokens st (tokens_of j @ ts) = continue_with (deliver (plain j) st) ts"
  "length st + items_depth xs < maxNestingDepth \<Longrightarrow> xs \<noteq> [] \<Longrightarrow>
     (run_tokens (ArrFirst # st) (item_tokens xs @ ts) = run_tokens (ArrRest (plain_items xs) # st) ts) \<and>
     (\<forall>ys. run_tokens (ArrItem ys # st) (item_tokens xs @ ts) = run_tokens (ArrRest (ys @ plain_items xs) # st) ts)"
  "length st + members_depth m < maxNestingDepth \<Longrightarrow> m \<noteq> [] \<Longrightarrow>
     (run_tokens (ObjFirst # st) (member_tokens m @ ts) = run_tokens (ObjRest (plain_members m) # st) ts) \<and>
     (\<forall>m'. run_tokens (ObjKey m' # st) (member_tokens m @ ts) = run_tokens (ObjRest (m' @ plain_members m) # st) ts)"
proof (induction j and xs and m arbitrary: st ts and st ts and st ts
    rule: tokens_of_item_tokens_member_tokens.induct)
  case (7 xs)
  then show ?case
    by (cases "xs = []") (auto simp: run_tokens_Cons open_frame_def)
next
  case (8 m)
  then show ?case
    by (cases "m = []") (auto simp: run_tokens_Cons open_frame_def)
next
  case (10 x xs)
  then show ?case
    by (cases "xs = []") (auto simp: run_tokens_Cons)
next
  case (12 k v m)
  then show ?case
    by (cases "m = []") (auto simp: run_tokens_Cons)
qed (auto simp: run_tokens_Cons neq_Nil_conv split: list.splits elim: expects_value.elims)

section \<open>Strings read back\<close>

text \<open>Valid UTF-8.\<close>

function utf8_ok :: "string \<Rightarrow> bool" where
  "utf8_ok s = (if s = [] then True else if rune_len s = 0 then False else utf8_ok (drop (rune_len s) s))"
  by auto
termination
  by (relation "measure length") auto

declare utf8_ok.simps [simp del]

lemma utf8_ok_Nil [simp]: "utf8_ok []"
  by (subst utf8_ok.simps) simp

lemma utf8_okD: "utf8_ok s \<Longrightarrow> s \<noteq> [] \<Longrightarrow> rune_len s \<noteq> 0 \<and> utf8_ok (drop (rune_len s) s)"
  by (subst (asm) utf8_ok.simps) (simp split: if_splits)

lemma follows_take: "follows ps cs \<Longrightarrow> follows ps (take (length ps) cs @ x) \<and> length ps \<le> length cs"
  by (induction ps cs rule: follows.induct) auto

lemma rune_len_take:
  assumes "rune_len s \<noteq> 0"
  shows "rune_len (take (rune_len s) s @ x) = rune_len s \<and> rune_len s \<le> length s"
proof -
  obtain c cs where s: "s = c # cs" using assms by (cases s) (auto simp: rune_len_def)
  with assms obtain ps where ps: "rune_tail c = Some ps" "follows ps cs" "rune_len s = Suc (length ps)"
    by (auto simp: rune_len_def split: option.splits if_splits)
  from follows_take [OF ps(2), of x] ps(1) have "rune_len ((c # take (length ps) cs) @ x) = Suc (length ps)"
    by (simp add: rune_len_def)
  with ps(3) s follows_take [OF ps(2), of x] show ?thesis by simp
qed

lemma rune_len_ascii [simp]: "c < CHR 0x80 \<Longrightarrow> rune_len (c # cs) = 1"
  by (simp add: rune_len_def rune_tail_def)

lemma utf8_ok_ascii [simp]: "c < CHR 0x80 \<Longrightarrow> utf8_ok (c # cs) \<longleftrightarrow> utf8_ok cs"
  by (subst utf8_ok.simps) simp

lemma hex_value_digits: "\<forall>n < 16. hex_value (hex_digit n) = Some n"
  by code_simp

lemma hex_value_digit: "n < 16 \<Longrightarrow> hex_value (hex_digit n) = Some n"
  using hex_value_digits by blast

lemma getu4_byte: "n < 256 \<Longrightarrow> getu4 (CHR ''0'' # CHR ''0'' # hex_digit (n div 16) # hex_digit (n mod 16) # x) = Some n"
  by (simp add: hex_value_digit hex_value_def [of "CHR ''0''"] less_eq_char_def)

text \<open>Each case of the string scanner.\<close>

lemma lex_string_quote: "lex_string (CHR 0x22 # x) = Some ([], x)"
  by (subst lex_string.simps) simp

lemma lex_string_simple: "simple_escape e = Some c \<Longrightarrow> e \<noteq> CHR ''u'' \<Longrightarrow>
    lex_string (CHR 0x5C # e # x) = prepend [c] (lex_string x)"
  by (subst lex_string.simps) simp

lemma lex_string_unicode: "getu4 r = Some n \<Longrightarrow> \<not> is_surrogate n \<Longrightarrow>
    lex_string (CHR 0x5C # CHR ''u'' # r) = prepend (encode_rune n) (lex_string (drop 4 r))"
  by (subst lex_string.simps) simp

lemma lex_string_valid:
  "c \<noteq> CHR 0x22 \<Longrightarrow> c \<noteq> CHR 0x5C \<Longrightarrow> \<not> c < CHR 0x20 \<Longrightarrow> rune_len (c # cs) \<noteq> 0 \<Longrightarrow>
     lex_string (c # cs) = prepend (take (rune_len (c # cs)) (c # cs)) (lex_string (drop (rune_len (c # cs)) (c # cs)))"
  by (subst lex_string.simps) simp

lemma lex_string_rune:
  assumes "c \<noteq> CHR 0x22" "c \<noteq> CHR 0x5C" "\<not> c < CHR 0x20" "rune_len (c # cs) \<noteq> 0"
  shows "lex_string (take (rune_len (c # cs)) (c # cs) @ x) = prepend (take (rune_len (c # cs)) (c # cs)) (lex_string x)"
proof -
  obtain n where n: "rune_len (c # cs) = Suc n" using assms(4) by (cases "rune_len (c # cs)") auto
  have len: "rune_len (c # take n cs @ x) = Suc n" "n \<le> length cs"
    using rune_len_take [OF assms(4), of x] by (simp_all add: n)
  then show ?thesis
    using lex_string_valid [OF assms(1,2,3), of "take n cs @ x"] by (simp add: n)
qed

lemma lex_json_char:
  assumes "c < CHR 0x80"
  shows "lex_string (json_char c @ x) = prepend [c] (lex_string x)"
proof -
  have n: "of_char c < (128::nat)" using assms by (simp add: less_char_def)
  have u: "lex_string (bsl @ ''u00'' @ [hex_digit (of_char c div 16), hex_digit (of_char c mod 16)] @ x) = prepend [c] (lex_string x)"
    using n getu4_byte [of "of_char c" x] 
      lex_string_unicode [of "''00'' @ [hex_digit (of_char c div 16), hex_digit (of_char c mod 16)] @ x" "of_char c"]
    by (simp add: bsl_def is_surrogate_def encode_rune_def)
  have v: "\<not> of_char c < (32::nat) \<Longrightarrow> c \<noteq> CHR 0x22 \<Longrightarrow> c \<noteq> CHR 0x5C \<Longrightarrow> lex_string (c # x) = prepend [c] (lex_string x)"
    using lex_string_rune [of c "[]" x] assms by (simp add: less_char_def)
  show ?thesis
    unfolding json_char_def bsl_def dq_def using u [unfolded bsl_def] v
    by (auto simp: lex_string_simple simple_escape_def)
qed

lemma encode_separators: "encode_rune 8232 = [CHR 0xE2, CHR 0x80, CHR 0xA8]" "encode_rune 8233 = [CHR 0xE2, CHR 0x80, CHR 0xA9]"
  by (simp_all add: encode_rune_def char_of_def bit_0)

lemma sep_steps:
  "lex_string (bsl @ ''u2028'' @ y) = prepend [CHR 0xE2, CHR 0x80, CHR 0xA8] (lex_string y)"
  "lex_string (bsl @ ''u2029'' @ y) = prepend [CHR 0xE2, CHR 0x80, CHR 0xA9] (lex_string y)"
proof -
  have "getu4 (''2028'' @ y) = Some 8232" "getu4 (''2029'' @ y) = Some 8233"
    by (simp_all add: hex_value_def less_eq_char_def)
  note u = lex_string_unicode [OF this(1)] lex_string_unicode [OF this(2)]
  show "lex_string (bsl @ ''u2028'' @ y) = prepend [CHR 0xE2, CHR 0x80, CHR 0xA8] (lex_string y)"
    "lex_string (bsl @ ''u2029'' @ y) = prepend [CHR 0xE2, CHR 0x80, CHR 0xA9] (lex_string y)"
    using u [unfolded encode_separators] by (simp_all add: bsl_def is_surrogate_def)
qed

lemma lex_json_chars: "utf8_ok s \<Longrightarrow> lex_string (json_chars s @ CHR 0x22 # x) = Some (s, x)"
proof (induction s rule: json_chars.induct)
  case (1 s)
  show ?case
  proof (cases s)
    case Nil
    then show ?thesis by (subst json_chars.simps) (simp add: lex_string_quote)
  next
    case (Cons c cs)
    have len: "rune_len s \<noteq> 0" "utf8_ok (drop (rune_len s) s)"
      using utf8_okD [OF "1.prems"] Cons by simp_all
    consider (ascii) "c < CHR 0x80"
      | (sep) "\<not> c < CHR 0x80" "take 3 s = [CHR 0xE2, CHR 0x80, CHR 0xA8] \<or> take 3 s = [CHR 0xE2, CHR 0x80, CHR 0xA9]"
      | (other) "\<not> c < CHR 0x80" "take 3 s \<noteq> [CHR 0xE2, CHR 0x80, CHR 0xA8]" "take 3 s \<noteq> [CHR 0xE2, CHR 0x80, CHR 0xA9]"
      by blast
    then show ?thesis
    proof cases
      case ascii
      then show ?thesis using "1.IH"(1) "1.prems" Cons
        by (subst json_chars.simps) (simp add: lex_json_char)
    next
      case sep
      then obtain b t where b: "b \<in> {CHR 0xA8, CHR 0xA9}" and s: "s = [CHR 0xE2, CHR 0x80, b] @ t"
        using append_take_drop_id [of 3 s] by (metis insertI1 insertI2)
      have n: "rune_len s = 3"
        unfolding s using b
        by (auto simp: rune_len_def rune_tail_def tail_byte_def is_cont_def less_char_def less_eq_char_def)
      have "lex_string (json_chars (drop 3 s) @ CHR 0x22 # x) = Some (drop 3 s, x)"
        using sep Cons len n "1.IH"(3,4) by auto
      then have ih: "lex_string (json_chars t @ CHR 0x22 # x) = Some (t, x)" by (simp add: s)
      have "json_chars s = bsl @ (if b = CHR 0xA8 then ''u2028'' else ''u2029'') @ json_chars t"
        using b n by (subst json_chars.simps) (auto simp: s)
      with b ih show ?thesis by (auto simp: s sep_steps [simplified])
    next
      case other
      then have "\<not> c < CHR 0x20" "c \<noteq> CHR 0x22" "c \<noteq> CHR 0x5C" by (auto simp: less_char_def)
      then have "lex_string (take (rune_len s) s @ y) = prepend (take (rune_len s) s) (lex_string y)" for y
        using lex_string_rune [of c cs y] len(1) Cons by simp
      moreover have "lex_string (json_chars (drop (rune_len s) s) @ CHR 0x22 # x) = Some (drop (rune_len s) s, x)"
        using "1.IH" other Cons len by auto
      ultimately show ?thesis
        using other Cons len(1) by (subst json_chars.simps) auto
    qed
  qed
qed

section \<open>Numbers read back\<close>

lemma show_nat_head: "n \<noteq> 0 \<Longrightarrow> hd (show_nat n) \<noteq> CHR ''0''"
proof (induction n rule: show_nat.induct)
  case (1 n)
  show ?case
  proof (cases "n < 10")
    case True
    with "1.prems" have "n \<in> {1, 2, 3, 4, 5, 6, 7, 8, 9}" by auto
    then show ?thesis using True by (subst show_nat.simps) (auto simp: digit_def char_of_def bit_0)
  next
    case False
    with "1.IH" show ?thesis by (subst show_nat.simps) (auto simp: show_nat_nonempty)
  qed
qed

lemma scan_int_show_nat: "scan_int (show_nat n) = Some (show_nat n, [])"
proof (cases "n = 0")
  case True
  then have "show_nat n = ''0''" by (subst show_nat.simps) (simp add: digit_def char_of_def bit_0)
  then show ?thesis by (simp add: scan_int_def)
next
  case False
  have tw: "takeWhile is_digit (show_nat n) = show_nat n" "dropWhile is_digit (show_nat n) = []"
    using show_nat_digits [of n] by (auto simp: takeWhile_eq_all_conv dropWhile_eq_Nil_conv list_all_iff)
  from show_nat_head [OF False] show_nat_nonempty [of n] show ?thesis by (simp add: scan_int_def tw)
qed

lemma lex_number_show_int: "lex_number (show_int i) = Some (show_int i, [])"
proof -
  have "scan_sign {CHR ''-''} (show_nat n) = ([], show_nat n)" for n
    using show_nat_no_minus [of n] by (cases "show_nat n") (auto simp: scan_sign_def)
  then show ?thesis
    by (simp add: lex_number_def show_int_def scan_int_show_nat scan_fraction_def scan_exponent_def)
      (simp add: scan_sign_def scan_int_show_nat scan_fraction_def scan_exponent_def)
qed

lemma lex_number_head: "lex_number (c # cs) = Some (x, y) \<Longrightarrow> c = CHR ''-'' \<or> is_digit c"
  by (auto simp: lex_number_def scan_sign_def scan_int_def is_digit_def less_eq_char_def split: if_splits option.splits)

section \<open>Texts read back\<close>

text \<open>The tokens a text starts with, and what follows them.\<close>

fun lexes :: "string \<Rightarrow> token list \<Rightarrow> string option" where
  "lexes s [] = Some s"
| "lexes s (t # ts) =
     (case next_token s of Some (u, r) \<Rightarrow> if u = t then lexes r ts else None | None \<Rightarrow> None)"

lemma lexes_append: "lexes s (ts @ us) = (case lexes s ts of None \<Rightarrow> None | Some r \<Rightarrow> lexes r us)"
  by (induction s ts rule: lexes.induct) (auto split: option.splits)

lemma next_token_spaces: "list_all is_space ws \<Longrightarrow> next_token (ws @ s) = next_token s"
  unfolding next_token_def skip_spaces_def by (simp add: dropWhile_append2 list_all_iff)

lemma lexes_spaces: "list_all is_space ws \<Longrightarrow> ts \<noteq> [] \<Longrightarrow> lexes (ws @ s) ts = lexes s ts"
  by (cases ts) (simp_all add: next_token_spaces)

lemma indent_spaces: "list_all is_space (nl @ indent_to d)" "list_all is_space (indent_to d)" "list_all is_space nl"
  by (auto simp: nl_def indent_to_def is_space_def list_all_iff)

lemma next_token_indent [simp]:
  "next_token (nl @ s) = next_token s" "next_token (indent_to d @ s) = next_token s"
  "next_token (CHR 0x20 # s) = next_token s"
  by (simp_all add: next_token_spaces indent_spaces) (simp add: next_token_def skip_spaces_def is_space_def)

lemma lexes_indent:
  assumes "ts \<noteq> []"
  shows "lexes (nl @ s) ts = lexes s ts" "lexes (indent_to d @ s) ts = lexes s ts" "lexes (CHR 0x20 # s) ts = lexes s ts"
  using assms by (cases ts; simp)+

text \<open>The machine sees a text as its tokens.\<close>

lemma parse_from_tokens:
  "lexes s ts = Some r \<Longrightarrow> run_tokens st ts = Some (Inl v) \<Longrightarrow> parse_from st s = Some (v, r)"
proof (induction s ts arbitrary: st rule: lexes.induct)
  case (2 s t ts)
  then obtain r' where n: "next_token s = Some (t, r')" "lexes r' ts = Some r"
    by (auto split: option.splits if_splits)
  from "2.prems"(2) show ?case
  proof (cases "token_step st t")
    case (Some a)
    then have "parse_from st s = (case a of Inl v \<Rightarrow> Some (v, r') | Inr st' \<Rightarrow> parse_from st' r')"
      using n(1) by (subst parse_from.simps) (simp split: sum.split)
    then show ?thesis using Some n "2.prems"(2) "2.IH" [OF n(1)]
      by (cases a) (auto simp: run_tokens_Cons continue_with_def split: if_splits)
  qed (simp add: run_tokens_Cons)
qed simp

lemma mark_not_digit:
  "c \<in> {CHR 0x20, CHR 0x09, CHR 0x0A, CHR 0x0D, CHR ''{'', CHR ''}'', CHR ''['', CHR '']'', CHR '':'', CHR '','',
     CHR 0x22, CHR ''n'', CHR ''t'', CHR ''f''} \<Longrightarrow> \<not> is_digit c \<and> c \<noteq> CHR ''-''"
  by (elim insertE) (simp_all add: is_digit_def less_eq_char_def)

lemma next_token_number:
  assumes "lex_number t = Some (t, [])" "delimits r"
  shows "next_token (t @ r) = Some (TNum t, r)"
proof -
  obtain c cs where t: "t = c # cs" using lex_number_split [OF assms(1)] by (cases t) auto
  with lex_number_head assms(1) have c: "c = CHR ''-'' \<or> is_digit c" by blast
  then have n: "c \<notin> {CHR 0x20, CHR 0x09, CHR 0x0A, CHR 0x0D, CHR ''{'', CHR ''}'', CHR ''['', CHR '']'', CHR '':'', CHR '','',
     CHR 0x22, CHR ''n'', CHR ''t'', CHR ''f''}"
    using mark_not_digit [of c] by argo
  then have "\<not> is_space c" by (simp add: is_space_def)
  moreover from n have "token_at c x = map_option (\<lambda>(t, r). (TNum t, r)) (lex_number (c # x))" for x
    by (simp add: token_at_def)
  ultimately show ?thesis
    using lex_number_append [OF assms] t by (simp add: next_token_def skip_spaces_def)
qed

lemma next_token_string:
  assumes "utf8_ok s"
  shows "next_token (json_string s @ r) = Some (TStr s, r)"
  using lex_json_chars [OF assms, of r]
  by (simp add: next_token_def skip_spaces_def json_string_def dq_def is_space_def token_at_def)

text \<open>Values whose text can be read back.\<close>

fun printable :: "json \<Rightarrow> bool"
  and printable_items :: "json list \<Rightarrow> bool"
  and printable_members :: "(string \<times> json) list \<Rightarrow> bool" where
  "printable (JFloat (Finite t)) = (lex_number t = Some (t, []))"
| "printable (JFloat (NonFinite t)) = False"
| "printable (JStr s) = utf8_ok s"
| "printable (JArr xs) = printable_items xs"
| "printable (JObj m) = printable_members m"
| "printable _ = True"
| "printable_items [] = True"
| "printable_items (x # xs) = (printable x \<and> printable_items xs)"
| "printable_members [] = True"
| "printable_members ((k, v) # m) = (utf8_ok k \<and> printable v \<and> printable_members m)"

lemma tokens_of_Cons: "tokens_of j \<noteq> []" "xs \<noteq> [] \<Longrightarrow> item_tokens xs \<noteq> []" "m \<noteq> [] \<Longrightarrow> member_tokens m \<noteq> []"
  by (induction j and xs and m rule: tokens_of_item_tokens_member_tokens.induct) auto

text \<open>Punctuation and keywords.\<close>

lemma next_token_marks [simp]:
  "next_token (CHR ''['' # r) = Some (TLBracket, r)" "next_token (CHR '']'' # r) = Some (TRBracket, r)"
  "next_token (CHR ''{'' # r) = Some (TLBrace, r)" "next_token (CHR ''}'' # r) = Some (TRBrace, r)"
  "next_token (CHR '':'' # r) = Some (TColon, r)" "next_token (CHR '','' # r) = Some (TComma, r)"
  "next_token (CHR ''n'' # CHR ''u'' # CHR ''l'' # CHR ''l'' # r) = Some (TNull, r)"
  "next_token (CHR ''t'' # CHR ''r'' # CHR ''u'' # CHR ''e'' # r) = Some (TTrue, r)"
  "next_token (CHR ''f'' # CHR ''a'' # CHR ''l'' # CHR ''s'' # CHR ''e'' # r) = Some (TFalse, r)"
  by (simp_all add: next_token_def skip_spaces_def is_space_def token_at_def keyword_def)

lemma delimits_marks [simp]: "delimits (nl @ r)" "delimits (CHR '','' # r)" "delimits (CHR '']'' # r)" "delimits (CHR ''}'' # r)" "delimits []"
  by (simp_all add: nl_def is_digit_def less_eq_char_def delimits_def)

lemma lexes_marshal:
  "printable j \<Longrightarrow> delimits r \<Longrightarrow> lexes (marshal_at d j @ r) (tokens_of j) = Some r"
  "printable_items xs \<Longrightarrow> xs \<noteq> [] \<Longrightarrow> delimits r \<Longrightarrow> lexes (marshal_items d xs @ r) (item_tokens xs) = Some r"
  "printable_members m \<Longrightarrow> m \<noteq> [] \<Longrightarrow> delimits r \<Longrightarrow> lexes (marshal_fields d m @ r) (member_tokens m) = Some r"
proof (induction d j and d xs and d m arbitrary: r and r and r rule: marshal_at_marshal_items_marshal_fields.induct)
  case (7 d xs)
  show ?case
  proof (cases "xs = []")
    case False
    have s: "marshal_at d (JArr xs) @ r = CHR ''['' # nl @ marshal_items (Suc d) xs @ (nl @ indent_to d @ '']'' @ r)"
      using False by simp
    show ?thesis
      unfolding s using False "7.IH" [of "nl @ indent_to d @ '']'' @ r"] "7.prems"
      by (simp add: lexes_append lexes_indent tokens_of_Cons)
  qed simp
next
  case (8 d m)
  show ?case
  proof (cases "m = []")
    case False
    have s: "marshal_at d (JObj m) @ r = CHR ''{'' # nl @ marshal_fields (Suc d) m @ (nl @ indent_to d @ ''}'' @ r)"
      using False by simp
    show ?thesis
      unfolding s using False "8.IH" [of "nl @ indent_to d @ ''}'' @ r"] "8.prems"
      by (simp add: lexes_append lexes_indent tokens_of_Cons)
  qed simp
qed (auto simp: lexes_append lexes_indent tokens_of_Cons next_token_string next_token_number lex_number_show_int)

text \<open>\<open>json.Marshal\<close>: no spaces.\<close>

fun marshal :: "json \<Rightarrow> string"
  and marshal_elems :: "json list \<Rightarrow> string"
  and marshal_pairs :: "(string \<times> json) list \<Rightarrow> string" where
  "marshal JNull = ''null''"
| "marshal (JBool b) = (if b then ''true'' else ''false'')"
| "marshal (JInt i) = show_int i"
| "marshal (JFloat (Finite t)) = t"
| "marshal (JFloat (NonFinite t)) = t"
| "marshal (JStr s) = json_string s"
| "marshal (JArr xs) = ''['' @ marshal_elems xs @ '']''"
| "marshal (JObj m) = ''{'' @ marshal_pairs m @ ''}''"
| "marshal_elems [] = []"
| "marshal_elems (x # xs) = marshal x @ (if xs = [] then [] else '','' @ marshal_elems xs)"
| "marshal_pairs [] = []"
| "marshal_pairs ((k, v) # m) =
     json_string k @ '':'' @ marshal v @ (if m = [] then [] else '','' @ marshal_pairs m)"

lemma lexes_compact:
  "printable j \<Longrightarrow> delimits r \<Longrightarrow> lexes (marshal j @ r) (tokens_of j) = Some r"
  "printable_items xs \<Longrightarrow> delimits r \<Longrightarrow> lexes (marshal_elems xs @ r) (item_tokens xs) = Some r"
  "printable_members m \<Longrightarrow> delimits r \<Longrightarrow> lexes (marshal_pairs m @ r) (member_tokens m) = Some r"
  by (induction j and xs and m arbitrary: r and r and r rule: marshal_marshal_elems_marshal_pairs.induct)
    (auto simp: lexes_append next_token_string next_token_number lex_number_show_int)

text \<open>A value that can be written and read back: UTF-8 strings, numbers in the syntax of JSON and
  no deeper than the reader goes.\<close>

definition json_ok :: "json \<Rightarrow> bool" where
  "json_ok j = (printable j \<and> depth j \<le> maxNestingDepth)"

lemma parse_printed:
  assumes "lexes s (tokens_of j) = Some r" "depth j \<le> maxNestingDepth"
  shows "parse_from [] s = Some (plain j, r)"
  using parse_from_tokens [OF assms(1)] run_value(1) [of "[]" j "[]"] assms(2) by simp

theorem json_parse_MarshalIndent:
  assumes "json_ok j" "MarshalIndent j = Inr text"
  shows "json_parse text = Some (plain j)"
  using parse_printed [OF lexes_marshal(1) [of j "[]" 0]] assms
  by (auto simp: json_parse_def json_ok_def MarshalIndent_def skip_spaces_def split: option.splits)

theorem json_parse_marshal:
  assumes "json_ok j" "list_all is_space ws" "ws = [] \<or> hd ws = CHR 0x0A"
  shows "json_parse (marshal j @ ws) = Some (plain j)"
proof -
  have "delimits ws" using assms(3) by (cases ws) (auto simp: delimits_def is_digit_def less_eq_char_def)
  then show ?thesis
    using parse_printed [OF lexes_compact(1) [of j ws]] assms(1,2)
    by (simp add: json_parse_def json_ok_def skip_spaces_def list_all_iff)
qed

text \<open>A path leads to the same value.\<close>

lemma map_of_plain_members: "map_of (plain_members m) k = map_option plain (map_of m k)"
  by (induction m) auto

lemma jpath_plain: "jpath (plain j) p = map_option plain (jpath j p)"
proof (induction p arbitrary: j)
  case (Cons k p)
  show ?case
  proof (cases j)
    case (JObj m)
    with Cons show ?thesis by (auto simp: mget_def map_of_plain_members split: option.split)
  next
    case (JFloat f)
    then show ?thesis by (cases f) simp_all
  qed simp_all
qed simp

end
