(* ===== verification/ConfigText.thy ===== *)
theory ConfigText
  imports JsonText OpenClaw
begin

text \<open>
  The generated \<open>openclaw.json\<close> as text: the runtime that reads the file sees the configuration the
  operator built, whatever the strings in it contain.
\<close>

named_theorems text_intros \<open>what makes a value writable\<close>

section \<open>Values that can be written\<close>

text \<open>UTF-8 strings, numbers in the syntax of JSON, and at most \<open>n\<close> levels; floats that JSON has no
  syntax for are left to the writer.\<close>

fun text_ok :: "json \<Rightarrow> bool"
  and text_ok_items :: "json list \<Rightarrow> bool"
  and text_ok_members :: "(string \<times> json) list \<Rightarrow> bool" where
  "text_ok (JFloat (Finite t)) = (lex_number t = Some (t, []))"
| "text_ok (JStr s) = utf8_ok s"
| "text_ok (JArr xs) = text_ok_items xs"
| "text_ok (JObj m) = text_ok_members m"
| "text_ok _ = True"
| "text_ok_items [] = True"
| "text_ok_items (x # xs) = (text_ok x \<and> text_ok_items xs)"
| "text_ok_members [] = True"
| "text_ok_members ((k, v) # m) = (utf8_ok k \<and> text_ok v \<and> text_ok_members m)"

definition fits :: "nat \<Rightarrow> json \<Rightarrow> bool" where
  "fits n j = (text_ok j \<and> depth j \<le> n)"

lemma printable_text_ok:
  "text_ok j \<Longrightarrow> bad_float j = None \<Longrightarrow> printable j"
  "text_ok_items xs \<Longrightarrow> bad_float_items xs = None \<Longrightarrow> printable_items xs"
  "text_ok_members m \<Longrightarrow> bad_float_fields m = None \<Longrightarrow> printable_members m"
  by (induction j and xs and m rule: text_ok_text_ok_items_text_ok_members.induct) (auto split: option.splits)

lemma text_ok_items_all: "text_ok_items xs \<longleftrightarrow> (\<forall>x \<in> set xs. text_ok x)"
  by (induction xs) auto

lemma text_ok_members_all: "text_ok_members m \<longleftrightarrow> (\<forall>(k, v) \<in> set m. utf8_ok k \<and> text_ok v)"
  by (induction m) auto

lemma items_depth_le: "items_depth xs \<le> n \<longleftrightarrow> (\<forall>x \<in> set xs. depth x \<le> n)"
  by (induction xs) auto

lemma members_depth_le: "members_depth m \<le> n \<longleftrightarrow> (\<forall>(k, v) \<in> set m. depth v \<le> n)"
  by (induction m) auto

lemma fits_basic [text_intros]:
  "utf8_ok s \<Longrightarrow> fits n (JStr s)" "fits n (JInt i)" "fits n (JBool b)"
  "(\<And>t. f = Finite t \<Longrightarrow> lex_number t = Some (t, [])) \<Longrightarrow> fits n (JFloat f)"
  by (cases f; auto simp: fits_def)+

lemma fits_JArr [text_intros]: "0 < n \<Longrightarrow> (\<And>x. x \<in> set xs \<Longrightarrow> fits (n - 1) x) \<Longrightarrow> fits n (JArr xs)"
  by (cases n) (auto simp: fits_def text_ok_items_all items_depth_le)

text \<open>The entries of an object under construction.\<close>

definition entries_fit :: "nat \<Rightarrow> (string \<times> json) list \<Rightarrow> bool" where
  "entries_fit n kvs = (\<forall>(k, v) \<in> set kvs. utf8_ok k \<and> fits n v)"

lemma entries_fit_simps [simp]:
  "entries_fit n []"
  "entries_fit n ((k, v) # kvs) \<longleftrightarrow> utf8_ok k \<and> fits n v \<and> entries_fit n kvs"
  "entries_fit n (kvs @ kvs') \<longleftrightarrow> entries_fit n kvs \<and> entries_fit n kvs'"
  "entries_fit n (opt_field c k v) \<longleftrightarrow> (c \<longrightarrow> utf8_ok k \<and> fits n v)"
  by (auto simp: entries_fit_def opt_field_def)

lemma entries_fit_map [simp]: "entries_fit n (map f xs) \<longleftrightarrow> (\<forall>x \<in> set xs. utf8_ok (fst (f x)) \<and> fits n (snd (f x)))"
  by (auto simp: entries_fit_def case_prod_beta)

lemma fits_JObj [text_intros]: "0 < n \<Longrightarrow> entries_fit (n - 1) m \<Longrightarrow> fits n (JObj m)"
  by (cases n) (auto simp: fits_def entries_fit_def text_ok_members_all members_depth_le)

lemma entries_fit_mputs: "entries_fit n kvs \<Longrightarrow> entries_fit n m \<Longrightarrow> entries_fit n (mputs kvs m)"
  using set_mputs [of kvs m] unfolding entries_fit_def by blast

lemma entries_fit_mput: "utf8_ok k \<Longrightarrow> fits n v \<Longrightarrow> entries_fit n m \<Longrightarrow> entries_fit n (mput k v m)"
  using set_mput [of k v m] unfolding entries_fit_def by blast

lemma fits_jobj [text_intros]: "0 < n \<Longrightarrow> entries_fit (n - 1) kvs \<Longrightarrow> fits n (jobj kvs)"
  unfolding jobj_def by (intro fits_JObj entries_fit_mputs) simp_all

lemma fits_jstrs [text_intros]: "0 < n \<Longrightarrow> (\<And>s. s \<in> set ss \<Longrightarrow> utf8_ok s) \<Longrightarrow> fits n (jstrs ss)"
  unfolding jstrs_def by (intro fits_JArr) (auto intro: fits_basic)

section \<open>UTF-8 of composed strings\<close>

lemma rune_len_append: "rune_len s \<noteq> 0 \<Longrightarrow> rune_len (s @ x) = rune_len s"
  using rune_len_take [of s "drop (rune_len s) s @ x"] append_take_drop_id [of "rune_len s" s]
  by (metis append_assoc)

lemma utf8_ok_append [simp, intro]: "utf8_ok s \<Longrightarrow> utf8_ok x \<Longrightarrow> utf8_ok (s @ x)"
proof (induction s rule: utf8_ok.induct)
  case (1 s)
  show ?case
  proof (cases "s = []")
    case False
    then have s: "rune_len s \<noteq> 0" "utf8_ok (drop (rune_len s) s)" using utf8_okD "1.prems"(1) by blast+
    with "1.IH" False "1.prems" have "utf8_ok (drop (rune_len s) s @ x)" by blast
    with s rune_len_append [OF s(1)] rune_len_take [OF s(1)] show ?thesis
      by (subst utf8_ok.simps) simp
  qed (use "1.prems" in simp)
qed

lemma utf8_ok_ascii_all: "list_all (\<lambda>c. c < CHR 0x80) s \<Longrightarrow> utf8_ok s"
  by (induction s) auto

lemma utf8_ok_show_int [simp]: "utf8_ok (show_int i)"
proof (rule utf8_ok_ascii_all)
  have d: "is_digit c \<Longrightarrow> c < CHR 0x80" for c
    by (simp add: is_digit_def less_eq_char_def less_char_def)
  have "CHR ''-'' < CHR 0x80" by simp
  with d show "list_all (\<lambda>c. c < CHR 0x80) (show_int i)"
    using show_int_chars [of i] unfolding list_all_iff by blast
qed

text \<open>Mapping the ASCII characters only.\<close>

lemma rune_tail_high: "rune_tail c = Some ps \<Longrightarrow> p \<in> set ps \<Longrightarrow> p d \<Longrightarrow> \<not> d < CHR 0x80"
  by (auto simp: rune_tail_def tail_byte_def is_cont_def less_eq_char_def less_char_def split: if_splits)

lemma follows_map:
  assumes "\<And>c. \<not> c < CHR 0x80 \<Longrightarrow> f c = c"
  shows "follows ps cs \<Longrightarrow> \<forall>p \<in> set ps. \<forall>d. p d \<longrightarrow> \<not> d < CHR 0x80 \<Longrightarrow> follows ps (map f cs)"
  by (induction ps cs rule: follows.induct) (auto simp: assms)

lemma utf8_ok_map:
  assumes f: "\<And>c. \<not> c < CHR 0x80 \<Longrightarrow> f c = c" "\<And>c. c < CHR 0x80 \<Longrightarrow> f c < CHR 0x80"
  shows "utf8_ok s \<Longrightarrow> utf8_ok (map f s)"
proof (induction s rule: utf8_ok.induct)
  case (1 s)
  show ?case
  proof (cases s)
    case (Cons c cs)
    then have s: "rune_len s \<noteq> 0" "utf8_ok (drop (rune_len s) s)" using utf8_okD [OF "1.prems"] by simp_all
    with "1.IH" Cons have ih: "utf8_ok (map f (drop (rune_len s) s))" by simp
    have "rune_len (map f s) = rune_len s"
    proof (cases "c < CHR 0x80")
      case False
      with s(1) Cons obtain ps where ps: "rune_tail c = Some ps" "follows ps cs" "rune_len s = Suc (length ps)"
        by (auto simp: rune_len_def split: option.splits if_splits)
      from rune_tail_high [OF ps(1)] have "\<forall>p \<in> set ps. \<forall>d. p d \<longrightarrow> \<not> d < CHR 0x80" by blast
      from follows_map [OF f(1) ps(2) this] ps False f(1) Cons show ?thesis
        by (simp add: rune_len_def)
    qed (use Cons f(2) in simp)
    with s(1) ih show ?thesis using utf8_ok.simps [of "map f s"] by (simp add: drop_map)
  qed simp
qed

lemma utf8_ok_ToUpper [simp, intro]: "utf8_ok s \<Longrightarrow> utf8_ok (ToUpper s)"
  unfolding ToUpper_def
  by (rule utf8_ok_map) (auto simp: upper_char_def less_char_def less_eq_char_def)

lemma utf8_ok_env_name [simp, intro]: "utf8_ok s \<Longrightarrow> utf8_ok (env_name s)"
  unfolding env_name_def ReplaceByte_def
  by (intro utf8_ok_ToUpper utf8_ok_map) (auto simp: less_char_def)

section \<open>The parts of openclaw.json\<close>

text \<open>Every string of the input that reaches the configuration is UTF-8.\<close>

definition evaluator_utf8 :: "GatewayEvaluatorSpec \<Rightarrow> bool" where
  "evaluator_utf8 ev \<longleftrightarrow>
     utf8_ok (Ev_Name ev) \<and> utf8_ok (Ev_Type ev) \<and> utf8_ok (Ev_Action ev) \<and> list_all utf8_ok (Ev_Patterns ev) \<and>
     utf8_ok (Ev_BlockReply ev) \<and> utf8_ok (Ev_ClassifierModel ev) \<and> utf8_ok (Ev_RedactReplacement ev) \<and>
     utf8_ok (Ev_ProxyURL ev) \<and>
     (\<forall>rs. Ev_Routes ev = Some rs \<longrightarrow> (\<forall>kr \<in> set rs. utf8_ok (fst kr) \<and> utf8_ok (Route_Provider (snd kr)) \<and> utf8_ok (Route_Model (snd kr))))"

definition webhook_utf8 :: "GatewayWebhookSpec \<Rightarrow> bool" where
  "webhook_utf8 wh \<longleftrightarrow> utf8_ok (WH_URL wh) \<and> utf8_ok (WH_MinSeverity wh) \<and>
     (\<forall>kv \<in> set (WH_Headers wh). utf8_ok (fst kv) \<and> utf8_ok (snd kv))"

definition gateway_utf8 :: "ClawGateway option \<Rightarrow> bool" where
  "gateway_utf8 gateway \<longleftrightarrow> (\<forall>gw. gateway = Some gw \<longrightarrow>
     list_all evaluator_utf8 (Routing_Evaluators (GW_Routing (Gateway_Spec gw))) \<and>
     list_all webhook_utf8 (GW_Webhooks (Gateway_Spec gw)))"

definition policy_utf8 :: "ClawPolicy option \<Rightarrow> bool" where
  "policy_utf8 policy \<longleftrightarrow> (\<forall>p. policy = Some p \<longrightarrow>
     list_all utf8_ok (TP_Allow (PS_ToolPolicy (Policy_Spec p))) \<and> list_all utf8_ok (TP_Deny (PS_ToolPolicy (Policy_Spec p))) \<and>
     utf8_ok (B_DowngradeModel (PS_Budget (Policy_Spec p))) \<and> utf8_ok (B_DowngradeProvider (PS_Budget (Policy_Spec p))))"

definition channel_utf8 :: "ClawChannelSpec \<Rightarrow> bool" where
  "channel_utf8 ch \<longleftrightarrow> utf8_ok (Ch_Type ch) \<and> (\<forall>kv \<in> set (Ch_Config ch). utf8_ok (fst kv) \<and> utf8_ok (snd kv))"

definition a2a_utf8 :: "A2ASpec \<Rightarrow> bool" where
  "a2a_utf8 a2a \<longleftrightarrow> utf8_ok (A2A_AgentCardName a2a) \<and> utf8_ok (A2A_AgentCardDescription a2a) \<and>
     list_all utf8_ok (A2A_Skills a2a) \<and>
     (\<forall>p \<in> set (A2A_Peers a2a). utf8_ok (Peer_Name p) \<and> utf8_ok (Peer_AgentCardURL p))"

definition input_utf8 :: "ConfigInput \<Rightarrow> bool" where
  "input_utf8 i \<longleftrightarrow>
     utf8_ok (CI_Name i) \<and> utf8_ok (CI_Namespace i) \<and> utf8_ok (CI_GatewayURL i) \<and> utf8_ok (CI_OTLPEndpoint i) \<and>
     utf8_ok (Model_Provider (AS_Model (Agent_Spec (CI_Agent i)))) \<and> utf8_ok (Model_Name (AS_Model (Agent_Spec (CI_Agent i)))) \<and>
     a2a_utf8 (AS_A2A (Agent_Spec (CI_Agent i))) \<and> policy_utf8 (CI_Policy i) \<and> gateway_utf8 (CI_Gateway i) \<and>
     (\<forall>ch \<in> set (CI_Channels i). channel_utf8 (Channel_Spec ch))"

text \<open>\<open>strconv.ParseFloat\<close>'s finite results print in the syntax of JSON.\<close>

definition floats_print :: "(string \<Rightarrow> float64 option) \<Rightarrow> bool" where
  "floats_print pf \<longleftrightarrow> (\<forall>s t. pf s = Some (Finite t) \<longrightarrow> lex_number t = Some (t, []))"

lemma number_literals [simp]: "lex_number ''0.8'' = Some (''0.8'', [])" "lex_number ''1'' = Some (''1'', [])"
  by code_simp+

lemma fits_budgets:
  assumes "floats_print pf" "3 \<le> n"
  shows "fits n (observeclaw_budgets pf policy)"
  using assms unfolding observeclaw_budgets_def Let_def floats_print_def
  by (intro fits_jobj)
    (auto intro!: fits_JObj fits_jobj fits_basic entries_fit_mput entries_fit_mputs split: option.splits)

lemma fits_evaluator: "evaluator_utf8 ev \<Longrightarrow> 4 \<le> n \<Longrightarrow> fits n (observeclaw_evaluator ev)"
  unfolding observeclaw_evaluator_def evaluator_utf8_def route_json_def list_all_iff
  by (auto intro!: text_intros simp: case_prod_beta split: option.splits, ((drule (1) bspec, simp)+)?)

lemma fits_webhook: "webhook_utf8 wh \<Longrightarrow> 3 \<le> n \<Longrightarrow> fits n (webhook_json wh)"
  unfolding webhook_json_def webhook_utf8_def by (auto intro!: text_intros simp: case_prod_beta, ((drule (1) bspec, simp)+)?)

lemma utf8_patterns: "s \<in> set credential_deny_patterns \<Longrightarrow> utf8_ok s"
  by (auto simp: credential_deny_patterns_def openclaw_HomePath_def)

lemma fits_observeclaw:
  assumes "floats_print pf" "policy_utf8 policy" "gateway_utf8 gateway" "10 \<le> n"
  shows "fits n (buildObserveclawConfig pf agent name url policy gateway)"
proof -
  have "fits (n - 1) (observeclaw_toolPolicy agent policy)"
    using assms(2,4) unfolding observeclaw_toolPolicy_def observeclaw_allow_def observeclaw_deny_def policy_utf8_def list_all_iff
    by (auto intro!: text_intros dest!: utf8_patterns split: option.splits if_splits)
  moreover have "fits (n - 1) (observeclaw_anomaly gateway)"
    using assms(4) unfolding observeclaw_anomaly_def Let_def by (auto intro!: text_intros split: option.splits)
  moreover have "fits (n - 1) (observeclaw_routing url gateway)"
    using assms(3,4) unfolding observeclaw_routing_def observeclaw_evaluators_def gateway_utf8_def list_all_iff gateway_proxy_evaluator_def Let_def
    by (auto intro!: text_intros fits_evaluator simp: bsl_def split: option.splits if_splits, arith+)
  moreover have "fits (n - 1) (observeclaw_webhooks gateway)"
    using assms(3,4) unfolding observeclaw_webhooks_def gateway_utf8_def list_all_iff
    by (auto intro!: text_intros fits_webhook split: option.splits)
  moreover have "utf8_ok (observeclaw_downgradeModel policy)" "utf8_ok (observeclaw_downgradeProvider policy)"
    using assms(2) by (auto simp: observeclaw_downgradeModel_def observeclaw_downgradeProvider_def policy_utf8_def Let_def split: option.splits)
  ultimately show ?thesis
    using assms(4) fits_budgets [OF assms(1), of "n - 1" policy] unfolding buildObserveclawConfig_def
    by (auto intro!: fits_jobj fits_basic)
qed

lemma fits_gateway: "utf8_ok name \<Longrightarrow> 5 \<le> n \<Longrightarrow> fits n (openclaw_gatewayCfg name)"
  unfolding openclaw_gatewayCfg_def enabled_obj_def Let_def by (auto intro!: text_intros)

lemma fits_agents:
  "utf8_ok name \<Longrightarrow> utf8_ok (Model_Provider (AS_Model (Agent_Spec agent))) \<Longrightarrow>
     utf8_ok (Model_Name (AS_Model (Agent_Spec agent))) \<Longrightarrow> 5 \<le> n \<Longrightarrow> fits n (openclaw_agentsCfg agent name)"
  unfolding openclaw_agentsCfg_def openclaw_WorkspacePath_def Let_def by (auto intro!: text_intros)

lemma fits_captureContent: "0 < n \<Longrightarrow> fits n (openclaw_captureContent tc)"
  unfolding openclaw_captureContent_def Let_def by (intro fits_jobj) (simp_all add: fits_basic)

lemma fits_diagnostics:
  "floats_print pf \<Longrightarrow> utf8_ok name \<Longrightarrow> utf8_ok url \<Longrightarrow> 5 \<le> n \<Longrightarrow> fits n (openclaw_diagnostics pf agent name url)"
  unfolding openclaw_diagnostics_def Let_def floats_print_def
  by (auto intro!: text_intros fits_captureContent split: option.splits if_splits)

lemma fits_providers:
  "utf8_ok url \<Longrightarrow> utf8_ok (Model_Provider (AS_Model (Agent_Spec agent))) \<Longrightarrow> 5 \<le> n \<Longrightarrow>
     entries_fit n (openclaw_providers agent url)"
  unfolding openclaw_providers_def gateway_anthropic_provider_def direct_provider_def Let_def
    ProviderAPIFormats_def ProviderBaseURLs_def
  by (rule entries_fit_mputs) (auto intro!: text_intros utf8_ok_append utf8_ok_env_name)

lemma fits_channel: "channel_utf8 ch \<Longrightarrow> 2 \<le> n \<Longrightarrow> fits n (openclaw_channel ch)"
  unfolding openclaw_channel_def channel_utf8_def Let_def
  by (auto intro!: text_intros utf8_ok_append utf8_ok_ToUpper simp: case_prod_beta, ((drule (1) bspec, simp)+)?)

lemma fits_channels:
  "\<forall>ch \<in> set channels. channel_utf8 (Channel_Spec ch) \<Longrightarrow> 3 \<le> n \<Longrightarrow> fits n (openclaw_channelsCfg channels)"
  unfolding openclaw_channelsCfg_def by (auto intro!: text_intros fits_channel simp: channel_utf8_def)

lemma fits_a2a:
  "a2a_utf8 a2a \<Longrightarrow> utf8_ok name \<Longrightarrow> utf8_ok ns \<Longrightarrow> 6 \<le> n \<Longrightarrow> fits n (openclaw_a2aCfg a2a name ns)"
  unfolding openclaw_a2aCfg_def a2a_skills_def a2a_peer_def peer_env_name_def a2a_utf8_def list_all_iff Let_def
  by (auto intro!: text_intros utf8_ok_append utf8_ok_env_name split: if_splits)

lemma fits_plugins:
  assumes "floats_print pf" "input_utf8 i" "20 \<le> n"
  shows "fits n (openclaw_pluginsCfg pf i)"
proof -
  note u = assms(2) [unfolded input_utf8_def]
  have "fits (n - 3) (buildObserveclawConfig pf (CI_Agent i) (CI_Name i) (CI_GatewayURL i) (CI_Policy i) (CI_Gateway i))"
    using fits_observeclaw assms(1,3) u by simp
  moreover have "fits (n - 3) (openclaw_a2aCfg (AS_A2A (Agent_Spec (CI_Agent i))) (CI_Name i) (CI_Namespace i))"
    using fits_a2a assms(3) u by simp
  ultimately have "entries_fit (n - 2) (openclaw_pluginEntries pf i)"
    using u assms(3) unfolding openclaw_pluginEntries_def enabled_obj_def Let_def
    by (auto intro!: text_intros simp: channel_utf8_def numeral_eq_Suc)
  then show ?thesis
    using u assms(3) unfolding openclaw_pluginsCfg_def openclaw_pluginAllow_def openclaw_WorkspacePath_def
    by (auto intro!: text_intros simp: channel_utf8_def numeral_eq_Suc)
qed

lemma fits_cfg:
  assumes "floats_print pf" "input_utf8 i"
  shows "fits 100 (openclaw_cfg pf i)"
  using assms fits_gateway fits_agents fits_diagnostics [OF assms(1)] fits_providers fits_channels fits_plugins [OF assms]
  unfolding openclaw_cfg_def Let_def input_utf8_def
  by (auto intro!: text_intros)

text \<open>C27: The text BuildConfig writes for OpenClaw is JSON that reads back as the configuration: every
  path of keys leads to the value the operator put there, whatever the strings of the agent, its
  channels, gateway and policy contain (quotes, control characters, markup), as long as they are UTF-8.\<close>

theorem openclaw_config_reads_back:
  assumes "floats_print pf" "input_utf8 i" "openclaw_BuildConfig pf i = Inr text"
  shows "\<exists>j. json_parse text = Some j \<and> (\<forall>p. jpath j p = map_option plain (jpath (openclaw_cfg pf i) p))"
proof -
  from assms(3) have m: "MarshalIndent (openclaw_cfg pf i) = Inr text"
    by (simp add: openclaw_BuildConfig_def split: sum.splits)
  then have "bad_float (openclaw_cfg pf i) = None" by (simp add: MarshalIndent_def split: option.splits)
  with fits_cfg [OF assms(1,2)] have "json_ok (openclaw_cfg pf i)"
    by (auto simp: fits_def json_ok_def maxNestingDepth_def intro: printable_text_ok)
  with m show ?thesis by (auto dest: json_parse_MarshalIndent simp: jpath_plain)
qed

text \<open>An agent whose model provider tries to leave its string.\<close>

definition hostile_provider :: string where
  "hostile_provider = [CHR 0x22, CHR ''}'', CHR '','']"

definition hostile_input :: ConfigInput where
  "hostile_input = example_input (zero_ClawAgentSpec\<lparr>AS_Model :=
     \<lparr>Model_Provider = hostile_provider, Model_Name = ''m'', Model_Fallback = None\<rparr>\<rparr>)"

theorem openclaw_config_reads_back_witness:
  "\<exists>text j. openclaw_BuildConfig (\<lambda>_. None) hostile_input = Inr text \<and> json_parse text = Some j \<and>
     jpath j [''agents'', ''defaults'', ''model'', ''primary''] = Some (JStr (hostile_provider @ ''/m''))"
proof -
  have "bad_float (openclaw_cfg (\<lambda>_. None) hostile_input) = None"
    by (subst bad_float_cfg) (simp_all add: hostile_input_def example_input_def bad_float_budgets bad_float_diagnostics)
  then obtain out where t: "openclaw_BuildConfig (\<lambda>_. None) hostile_input = Inr out"
    by (simp add: openclaw_BuildConfig_def MarshalIndent_def)
  have ok: "input_utf8 hostile_input" "floats_print (\<lambda>_. None)"
    by (simp_all add: input_utf8_def hostile_input_def example_input_def zero_ClawAgentSpec_def zero_ClawAgent_def
        zero_A2ASpec_def hostile_provider_def a2a_utf8_def policy_utf8_def gateway_utf8_def floats_print_def)
  have p: "jpath (openclaw_cfg (\<lambda>_. None) hostile_input) [''agents'', ''defaults'', ''model'', ''primary''] =
      Some (JStr (hostile_provider @ ''/m''))"
    by (simp add: openclaw_cfg_def Let_def opt_field_def openclaw_agentsCfg_def hostile_input_def example_input_def
        zero_ClawAgent_def zero_ClawAgentSpec_def hostile_provider_def)
  from openclaw_config_reads_back [OF ok(2,1) t] obtain j where "json_parse out = Some j"
    "\<And>p. jpath j p = map_option plain (jpath (openclaw_cfg (\<lambda>_. None) hostile_input) p)" by blast
  with t p show ?thesis by (intro exI conjI) (assumption, assumption, simp only: option.map plain.simps)
qed

end
