(* ===== verification/ContentSniff.thy ===== *)
theory ContentSniff
  imports GoStd
begin

text \<open>
  \<open>http.DetectContentType\<close> of Go's standard library, which \<open>net/http\<close> applies to the first bytes of a
  body whose handler has set no content type: the table of signatures, tried in order, and the
  fallback. In a pattern, \<open>None\<close> stands for a byte that the mask leaves out. No type of the table is
  that of JSON.
\<close>

definition is_ws :: "char \<Rightarrow> bool" where
  "is_ws c = (c \<in> {CHR 0x09, CHR 0x0A, CHR 0x0C, CHR 0x0D, CHR 0x20})"

datatype sniffSig =
    htmlSig string
  | exactSig string string
  | maskedSig bool "char option list" string  \<comment> \<open>after the white space?\<close>
  | mp4Sig
  | textSig

fun sig_type :: "sniffSig \<Rightarrow> string" where
  "sig_type (htmlSig _) = ''text/html; charset=utf-8''"
| "sig_type (exactSig _ t) = t"
| "sig_type (maskedSig _ _ t) = t"
| "sig_type mp4Sig = ''video/mp4''"
| "sig_type textSig = ''text/plain; charset=utf-8''"

definition lit :: "string \<Rightarrow> char option list" where
  "lit s = map Some s"

definition any_bytes :: "nat \<Rightarrow> char option list" where
  "any_bytes n = replicate n None"

definition sniffSignatures :: "sniffSig list" where
  "sniffSignatures =
     map htmlSig [''<!DOCTYPE HTML'', ''<HTML'', ''<HEAD'', ''<SCRIPT'', ''<IFRAME'', ''<H1'', ''<DIV'', ''<FONT'', ''<TABLE'',
       ''<A'', ''<STYLE'', ''<TITLE'', ''<B'', ''<BODY'', ''<BR'', ''<P'', ''<!--''] @
     [maskedSig True (lit ''<?xml'') ''text/xml; charset=utf-8'',
      exactSig ''%PDF-'' ''application/pdf'',
      exactSig ''%!PS-Adobe-'' ''application/postscript'',
      maskedSig False (lit [CHR 0xFE, CHR 0xFF] @ any_bytes 2) ''text/plain; charset=utf-16be'',
      maskedSig False (lit [CHR 0xFF, CHR 0xFE] @ any_bytes 2) ''text/plain; charset=utf-16le'',
      maskedSig False (lit [CHR 0xEF, CHR 0xBB, CHR 0xBF] @ any_bytes 1) ''text/plain; charset=utf-8'',
      exactSig [CHR 0x00, CHR 0x00, CHR 0x01, CHR 0x00] ''image/x-icon'',
      exactSig [CHR 0x00, CHR 0x00, CHR 0x02, CHR 0x00] ''image/x-icon'',
      exactSig ''BM'' ''image/bmp'',
      exactSig ''GIF87a'' ''image/gif'',
      exactSig ''GIF89a'' ''image/gif'',
      maskedSig False (lit ''RIFF'' @ any_bytes 4 @ lit ''WEBPVP'') ''image/webp'',
      exactSig ([CHR 0x89] @ ''PNG'' @ [CHR 0x0D, CHR 0x0A, CHR 0x1A, CHR 0x0A]) ''image/png'',
      exactSig [CHR 0xFF, CHR 0xD8, CHR 0xFF] ''image/jpeg'',
      maskedSig False (lit ''FORM'' @ any_bytes 4 @ lit ''AIFF'') ''audio/aiff'',
      maskedSig False (lit ''ID3'') ''audio/mpeg'',
      maskedSig False (lit (''OggS'' @ [CHR 0x00])) ''application/ogg'',
      maskedSig False (lit (''MThd'' @ [CHR 0x00, CHR 0x00, CHR 0x00, CHR 0x06])) ''audio/midi'',
      maskedSig False (lit ''RIFF'' @ any_bytes 4 @ lit ''AVI '') ''video/avi'',
      maskedSig False (lit ''RIFF'' @ any_bytes 4 @ lit ''WAVE'') ''audio/wave'',
      mp4Sig,
      exactSig [CHR 0x1A, CHR 0x45, CHR 0xDF, CHR 0xA3] ''video/webm'',
      maskedSig False (any_bytes 34 @ lit ''LP'') ''application/vnd.ms-fontobject'',
      exactSig [CHR 0x00, CHR 0x01, CHR 0x00, CHR 0x00] ''font/ttf'',
      exactSig ''OTTO'' ''font/otf'',
      exactSig ''ttcf'' ''font/collection'',
      exactSig ''wOFF'' ''font/woff'',
      exactSig ''wOF2'' ''font/woff2'',
      exactSig [CHR 0x1F, CHR 0x8B, CHR 0x08] ''application/x-gzip'',
      exactSig (''PK'' @ [CHR 0x03, CHR 0x04]) ''application/zip'',
      exactSig (''Rar!'' @ [CHR 0x1A, CHR 0x07, CHR 0x00]) ''application/x-rar-compressed'',
      exactSig (''Rar!'' @ [CHR 0x1A, CHR 0x07, CHR 0x01, CHR 0x00]) ''application/x-rar-compressed'',
      exactSig ([CHR 0x00] @ ''asm'') ''application/wasm'',
      textSig]"

fun matches_pattern :: "char option list \<Rightarrow> string \<Rightarrow> bool" where
  "matches_pattern [] _ = True"
| "matches_pattern (_ # _) [] = False"
| "matches_pattern (p # ps) (c # s) = ((case p of None \<Rightarrow> True | Some b \<Rightarrow> c = b) \<and> matches_pattern ps s)"

text \<open>A tag in either case of its letters, followed by a space or its end; \<open>db &= 0xDF\<close> clears the bit
  that tells the cases apart.\<close>

fun matches_tag :: "string \<Rightarrow> string \<Rightarrow> bool" where
  "matches_tag [] s = (case s of [] \<Rightarrow> False | c # _ \<Rightarrow> c = CHR '' '' \<or> c = CHR ''>'')"
| "matches_tag (_ # _) [] = False"
| "matches_tag (b # h) (c # s) =
     ((if of_char CHR ''A'' \<le> (of_char b :: nat) \<and> of_char b \<le> (of_char CHR ''Z'' :: nat)
       then c = b \<or> of_char c = (of_char b :: nat) + 32 else c = b) \<and> matches_tag h s)"

text \<open>The box of an MP4 file: its size, its type, and a brand that begins with \<open>mp4\<close> (the four bytes
  at 12 are the version).\<close>

definition mp4_match :: "string \<Rightarrow> bool" where
  "mp4_match d =
     (if length d < 12 then False
      else (let boxSize = foldl (\<lambda>n c. 256 * n + (of_char c :: int)) 0 (take 4 d) in
        if int (length d) < boxSize \<or> boxSize mod 4 \<noteq> 0 then False
        else if take 4 (drop 4 d) \<noteq> ''ftyp'' then False
        else list_ex (\<lambda>i. int (4 * i) < boxSize \<and> i \<noteq> 3 \<and> take 3 (drop (4 * i) d) = ''mp4'')
               [2..<length d div 4]))"

text \<open>Bytes that do not occur in text.\<close>

definition binary_byte :: "char \<Rightarrow> bool" where
  "binary_byte c =
     (let n = (of_char c :: nat) in n \<le> 0x08 \<or> n = 0x0B \<or> 0x0E \<le> n \<and> n \<le> 0x1A \<or> 0x1C \<le> n \<and> n \<le> 0x1F)"

fun sig_matches :: "string \<Rightarrow> sniffSig \<Rightarrow> bool" where
  "sig_matches d (htmlSig h) = matches_tag h (dropWhile is_ws d)"
| "sig_matches d (exactSig s _) = matches_pattern (lit s) d"
| "sig_matches d (maskedSig skipWS p _) = matches_pattern p (if skipWS then dropWhile is_ws d else d)"
| "sig_matches d mp4Sig = mp4_match d"
| "sig_matches d textSig = (\<not> list_ex binary_byte (dropWhile is_ws d))"

definition sniffLen :: nat where
  "sniffLen = 512"

definition DetectContentType :: "string \<Rightarrow> string" where
  "DetectContentType d =
     (case List.find (sig_matches (take sniffLen d)) sniffSignatures of
        Some s \<Rightarrow> sig_type s
      | None \<Rightarrow> ''application/octet-stream'')"

lemma not_sniffed_as_JSON: "DetectContentType d \<noteq> ''application/json''"
proof -
  have "list_all (\<lambda>s. sig_type s \<noteq> ''application/json'') sniffSignatures" by code_simp
  then have "s \<in> set sniffSignatures \<Longrightarrow> sig_type s \<noteq> ''application/json''" for s by (simp add: list_all_iff)
  moreover have "List.find P xs = Some s \<Longrightarrow> s \<in> set xs" for P and s :: sniffSig and xs
    by (metis find_Some_iff nth_mem)
  ultimately show ?thesis unfolding DetectContentType_def by (auto split: option.split)
qed

text \<open>What an API object and a short text are taken for.\<close>

lemma sniffed_examples:
  "DetectContentType (''{'' @ dq @ ''kind'' @ dq @ '':'' @ dq @ ''ClawChannel'' @ dq @ ''}'' @ nl) = ''text/plain; charset=utf-8''"
  "DetectContentType '' <html>'' = ''text/html; charset=utf-8''"
  "DetectContentType [CHR 0x00] = ''application/octet-stream''"
  by code_simp+

end
