(* ===== verification/ApiHttp.thy ===== *)
theory ApiHttp
  imports JsonText KubeClient ContentSniff
begin

text \<open>
  What the control plane API uses of \<open>net/http\<close>, \<open>strings\<close>, \<open>strconv\<close>, \<open>bufio\<close> and \<open>encoding/json\<close>:
  requests, what a handler does to its \<open>ResponseWriter\<close> and the response that makes of it, the
  routing of \<open>ServeMux\<close>, lines of a stream, and the decoding of small structs of strings.
\<close>

section \<open>Strings\<close>

definition TrimPrefix :: "string \<Rightarrow> string \<Rightarrow> string" where
  "TrimPrefix s p = (if take (length p) s = p then drop (length p) s else s)"

definition HasSuffix :: "string \<Rightarrow> string \<Rightarrow> bool" where
  "HasSuffix s p = (length p \<le> length s \<and> drop (length s - length p) s = p)"

definition TrimSuffix :: "string \<Rightarrow> string \<Rightarrow> string" where
  "TrimSuffix s p = (if HasSuffix s p then take (length s - length p) s else s)"

text \<open>\<open>strings.Index\<close>: where a text first occurs; \<open>strings.Contains\<close>.\<close>

fun Index :: "string \<Rightarrow> string \<Rightarrow> nat option" where
  "Index [] p = (if p = [] then Some 0 else None)"
| "Index (c # s) p = (if take (length p) (c # s) = p then Some 0 else map_option Suc (Index s p))"

definition Contains :: "string \<Rightarrow> string \<Rightarrow> bool" where
  "Contains s p = (Index s p \<noteq> None)"

text \<open>\<open>strings.SplitN(s, sep, 2)\<close> for a one-byte separator: the part before it, and the rest if any.\<close>

definition cut_at :: "char \<Rightarrow> string \<Rightarrow> string \<times> string option" where
  "cut_at c s =
     (takeWhile (\<lambda>x. x \<noteq> c) s,
      case dropWhile (\<lambda>x. x \<noteq> c) s of [] \<Rightarrow> None | _ # r \<Rightarrow> Some r)"

fun split_at :: "char \<Rightarrow> string \<Rightarrow> string list" where
  "split_at c [] = [[]]"
| "split_at c (x # s) =
     (if x = c then [] # split_at c s
      else (case split_at c s of [] \<Rightarrow> [[x]] | p # ps \<Rightarrow> (x # p) # ps))"

text \<open>\<open>unicode.IsSpace\<close>, by the UTF-8 sequences, and \<open>strings.TrimSpace\<close>.\<close>

definition unicode_spaces :: "string list" where
  "unicode_spaces =
     [[CHR 0x20], [CHR 0x09], [CHR 0x0A], [CHR 0x0B], [CHR 0x0C], [CHR 0x0D],
      [CHR 0xC2, CHR 0x85], [CHR 0xC2, CHR 0xA0], [CHR 0xE1, CHR 0x9A, CHR 0x80]] @
     map (\<lambda>n. [CHR 0xE2, CHR 0x80, char_of (0x80 + n)]) [0..<11] @
     [[CHR 0xE2, CHR 0x80, CHR 0xA8], [CHR 0xE2, CHR 0x80, CHR 0xA9], [CHR 0xE2, CHR 0x80, CHR 0xAF],
      [CHR 0xE2, CHR 0x81, CHR 0x9F], [CHR 0xE3, CHR 0x80, CHR 0x80]]"

function trim_front :: "string list \<Rightarrow> string \<Rightarrow> string" where
  "trim_front ps s =
     (case List.find (\<lambda>p. p \<noteq> [] \<and> take (length p) s = p) ps of
        None \<Rightarrow> s
      | Some p \<Rightarrow> trim_front ps (drop (length p) s))"
  by auto
termination
proof (relation "measure (length \<circ> snd)", simp)
  fix ps s p
  assume "List.find (\<lambda>p. p \<noteq> [] \<and> take (length p) s = p) ps = Some p"
  then have "p \<noteq> []" "take (length p) s = p" by (auto simp: find_Some_iff)
  then have "s \<noteq> []" by auto
  with \<open>p \<noteq> []\<close> show "((ps, drop (length p) s), ps, s) \<in> measure (length \<circ> snd)" by simp
qed

declare trim_front.simps [simp del]

definition TrimSpace :: "string \<Rightarrow> string" where
  "TrimSpace s = rev (trim_front (map rev unicode_spaces) (rev (trim_front unicode_spaces s)))"

text \<open>\<open>strconv.ParseInt(s, 10, 64)\<close>\<close>

definition ParseInt64 :: "string \<Rightarrow> int option" where
  "ParseInt64 s =
     (let (neg, ds) = (case s of
            [] \<Rightarrow> (False, [])
          | c # r \<Rightarrow> if c = CHR ''-'' then (True, r) else if c = CHR ''+'' then (False, r) else (False, s))
      in if ds = [] \<or> \<not> list_all is_digit ds then None
         else (let n = (if neg then - int (read_digits 0 ds) else int (read_digits 0 ds)) in
               if - (2 ^ 63) \<le> n \<and> n < 2 ^ 63 then Some n else None))"

section \<open>Requests and responses\<close>

text \<open>
  A request: its method, the decoded path, the query's first value per key, the body (\<open>None\<close> when
  it cannot be read), and whether its context is done when it is looked at for the n-th time. The
  mux and the handlers see the same path: requests whose path escapes a slash or a dot, which the
  mux of Go 1.22 and later does not decode before it cleans and splits the path, are left out.
\<close>

record Request =
  rq_Method :: string
  rq_Path :: string
  rq_Query :: "string \<Rightarrow> string"
  rq_Body :: "string option"
  rq_Done :: "nat \<Rightarrow> bool"

text \<open>What a handler does to the \<open>ResponseWriter\<close>; \<open>Abort\<close> is a panic, which \<open>net/http\<close> answers by
  closing the connection.\<close>

datatype act = SetHeader string string | DelHeader string | WriteHeader int | Write string | Flush | Abort

record Response =
  rs_Header :: "(string, string) gomap"     \<comment> \<open>the handler's header map\<close>
  rs_Sent :: "(int \<times> (string, string) gomap) option"  \<comment> \<open>status and header, once sent\<close>
  rs_Wire :: "string option"  \<comment> \<open>what there is of the body when the header goes out\<close>
  rs_Body :: string
  rs_Aborted :: bool

definition no_response :: Response where
  "no_response = \<lparr>rs_Header = [], rs_Sent = None, rs_Wire = None, rs_Body = '''', rs_Aborted = False\<rparr>"

text \<open>The header is settled by the first \<open>WriteHeader\<close>, or with status 200 by the first \<open>Write\<close> or
  \<open>Flush\<close>; what is done to it afterwards has no effect. It goes out with the first bytes of the
  body, when these are flushed or fill the buffer, or when the handler returns. (A full buffer
  holds more than the sniffed part of the body, so only \<open>Flush\<close> matters here.)\<close>

definition send_header :: "int \<Rightarrow> Response \<Rightarrow> Response" where
  "send_header code r = (case rs_Sent r of None \<Rightarrow> r\<lparr>rs_Sent := Some (code, rs_Header r)\<rparr> | Some _ \<Rightarrow> r)"

definition flush_out :: "Response \<Rightarrow> Response" where
  "flush_out r = (case rs_Wire r of None \<Rightarrow> r\<lparr>rs_Wire := Some (rs_Body r)\<rparr> | Some _ \<Rightarrow> r)"

lemma flush_out_simps [simp]:
  "rs_Body (flush_out r) = rs_Body r" "rs_Header (flush_out r) = rs_Header r" "rs_Sent (flush_out r) = rs_Sent r"
  by (simp_all add: flush_out_def split: option.split)

fun perform :: "act \<Rightarrow> Response \<Rightarrow> Response" where
  "perform (SetHeader k v) r = r\<lparr>rs_Header := mput k v (rs_Header r)\<rparr>"
| "perform (DelHeader k) r = r\<lparr>rs_Header := mdel k (rs_Header r)\<rparr>"
| "perform (WriteHeader code) r = send_header code r"
| "perform (Write s) r = (send_header 200 r)\<lparr>rs_Body := rs_Body r @ s\<rparr>"
| "perform Flush r = flush_out (send_header 200 r)"
| "perform Abort r = r\<lparr>rs_Aborted := True\<rparr>"

text \<open>A handler that returns has its header sent.\<close>

definition respond :: "act list \<Rightarrow> Response" where
  "respond acts = flush_out (send_header 200 (fold perform acts no_response))"

definition status_of :: "act list \<Rightarrow> int" where
  "status_of acts = (case rs_Sent (respond acts) of Some (code, _) \<Rightarrow> code | None \<Rightarrow> 200)"

text \<open>
  The header that goes out: to what the handler had set when it was settled, \<open>net/http\<close> adds the
  content type that it finds in the first bytes of the body, if none was set, the status allows a
  body and no encoding is declared. (The date and the length, which it adds too, are left out.)
\<close>

definition bodyAllowedForStatus :: "int \<Rightarrow> bool" where
  "bodyAllowedForStatus code = (\<not> (100 \<le> code \<and> code \<le> 199 \<or> code = 204 \<or> code = 304))"

definition wire_header :: "int \<Rightarrow> (string, string) gomap \<Rightarrow> string \<Rightarrow> (string, string) gomap" where
  "wire_header code h first =
     (if bodyAllowedForStatus code \<and> first \<noteq> '''' \<and> mget h ''Content-Type'' = None \<and>
         mget h ''Content-Encoding'' \<in> {None, Some ''''} \<and> mget h ''Transfer-Encoding'' \<in> {None, Some ''''}
      then mput ''Content-Type'' (DetectContentType first) h else h)"

definition header_of :: "act list \<Rightarrow> string \<Rightarrow> string option" where
  "header_of acts k =
     (case rs_Sent (respond acts) of
        Some (code, h) \<Rightarrow>
          (case rs_Wire (respond acts) of Some first \<Rightarrow> mget (wire_header code h first) k | None \<Rightarrow> mget h k)
      | None \<Rightarrow> None)"

lemma wire_header_typed: "mget h ''Content-Type'' \<noteq> None \<Longrightarrow> wire_header code h first = h"
  by (auto simp: wire_header_def)

definition body_of :: "act list \<Rightarrow> string" where
  "body_of acts = rs_Body (respond acts)"

text \<open>\<open>http.Error\<close> and \<open>writeJSON\<close>\<close>

definition httpError :: "string \<Rightarrow> int \<Rightarrow> act list" where
  "httpError msg code =
     [DelHeader ''Content-Length'', SetHeader ''Content-Type'' ''text/plain; charset=utf-8'',
      SetHeader ''X-Content-Type-Options'' ''nosniff'', WriteHeader code, Write (msg @ nl)]"

definition writeJSON :: "json \<Rightarrow> act list" where
  "writeJSON v =
     SetHeader ''Content-Type'' ''application/json'' #
     (if bad_float v = None then [Write (marshal v @ nl)] else [])"

text \<open>\<open>err.Error()\<close>\<close>

fun err_text :: "err \<Rightarrow> string" where
  "err_text (NotFound s) = s"
| "err_text (AlreadyExists s) = s"
| "err_text (ConflictErr s) = s"
| "err_text (OtherErr s) = s"
| "err_text RequeueNeeded = ''requeue needed''"
| "err_text (Wrap p e) = p @ err_text e"
| "err_text (Errorf s) = s"
| "err_text (PanicErr s) = s"

section \<open>Lines\<close>

text \<open>
  \<open>bufio.Scanner\<close> with \<open>ScanLines\<close>: lines without their end and one trailing carriage return. A line
  that does not fit the buffer of 64 KiB ends the scan.
\<close>

definition MaxScanTokenSize :: nat where
  "MaxScanTokenSize = 65536"

definition dropCR :: "string \<Rightarrow> string" where
  "dropCR s = (if HasSuffix s [CHR 0x0D] then butlast s else s)"

function scan_lines :: "string \<Rightarrow> string list" where
  "scan_lines s =
     (if s = [] then []
      else (let (line, rest) = cut_at CHR 0x0A s in
            if MaxScanTokenSize \<le> length line then []
            else dropCR line # (case rest of None \<Rightarrow> [] | Some r \<Rightarrow> scan_lines r)))"
  by auto
termination
proof (relation "measure length", simp)
  fix s :: string and x line rest r
  assume "s \<noteq> []" "x = cut_at CHR 0x0A s" "(line, rest) = x" "rest = Some r"
  then obtain y where "dropWhile (\<lambda>x. x \<noteq> CHR 0x0A) s = y # r"
    by (cases "dropWhile (\<lambda>x. x \<noteq> CHR 0x0A) s") (simp_all add: cut_at_def)
  then show "(r, s) \<in> measure length"
    using length_dropWhile_le [of "\<lambda>x. x \<noteq> CHR 0x0A" s] by simp
qed

declare scan_lines.simps [simp del]

section \<open>Decoding a struct of strings\<close>

text \<open>
  \<open>json.Unmarshal\<close> into a struct whose fields are strings with the given names: a member sets the
  field of its name, or of its name in another case; null leaves the field; members of other
  names are skipped; a value of another type is an error.
\<close>

definition field_named :: "string list \<Rightarrow> string \<Rightarrow> string option" where
  "field_named names k =
     (if k \<in> set names then Some k else List.find (\<lambda>n. ToUpper n = ToUpper k) names)"

fun decode_members :: "string list \<Rightarrow> (string \<times> json) list \<Rightarrow> (string \<Rightarrow> string) \<Rightarrow> (string \<Rightarrow> string) option" where
  "decode_members names [] f = Some f"
| "decode_members names ((k, v) # m) f =
     (case field_named names k of
        None \<Rightarrow> decode_members names m f
      | Some n \<Rightarrow>
          (case v of
             JStr s \<Rightarrow> decode_members names m (f(n := s))
           | JNull \<Rightarrow> decode_members names m f
           | _ \<Rightarrow> None))"

definition decode_strings :: "string list \<Rightarrow> json \<Rightarrow> (string \<Rightarrow> string) option" where
  "decode_strings names v =
     (case v of
        JObj m \<Rightarrow> decode_members names m (\<lambda>_. '''')
      | JNull \<Rightarrow> Some (\<lambda>_. '''')
      | _ \<Rightarrow> None)"

section \<open>Routing\<close>

text \<open>\<open>path.Clean\<close> of a rooted path, and the mux's \<open>cleanPath\<close>.\<close>

fun clean_segments :: "string list \<Rightarrow> string list \<Rightarrow> string list" where
  "clean_segments acc [] = acc"
| "clean_segments acc (p # ps) =
     (if p = '''' \<or> p = ''.'' then clean_segments acc ps
      else if p = ''..'' then clean_segments (butlast acc) ps
      else clean_segments (acc @ [p]) ps)"

definition path_Clean :: "string \<Rightarrow> string" where
  "path_Clean p = ''/'' @ Join (clean_segments [] (split_at CHR ''/'' p)) ''/''"

definition cleanPath :: "string \<Rightarrow> string" where
  "cleanPath p =
     (let q = (if p = '''' \<or> hd p \<noteq> CHR ''/'' then CHR ''/'' # p else p); np = path_Clean q
      in if HasSuffix q ''/'' \<and> np \<noteq> ''/'' then np @ ''/'' else np)"

text \<open>
  A mux is the list of its registered patterns. A pattern that ends in a slash matches the paths
  that start with it, another one only itself; the longest match wins. A path that only a longer
  pattern with a slash at the end would match is redirected there.
\<close>

definition pattern_matches :: "string \<Rightarrow> string \<Rightarrow> bool" where
  "pattern_matches pat p = (pat = p \<or> HasSuffix pat ''/'' \<and> take (length pat) p = pat)"

definition better :: "(string \<times> 'h) option \<Rightarrow> string \<times> 'h \<Rightarrow> (string \<times> 'h) option" where
  "better best m =
     (case best of None \<Rightarrow> Some m | Some b \<Rightarrow> if length (fst b) < length (fst m) then Some m else best)"

definition mux_match :: "(string \<times> 'h) list \<Rightarrow> string \<Rightarrow> (string \<times> 'h) option" where
  "mux_match mux p = foldl better None (filter (\<lambda>m. pattern_matches (fst m) p) mux)"

datatype 'h routed = Routed string 'h | Redirected string | NotRouted

text \<open>\<open>ServeMux.Handler\<close>: the handler with its pattern, or a redirect to another path.\<close>

definition mux_handler :: "(string \<times> 'h) list \<Rightarrow> string \<Rightarrow> string \<Rightarrow> 'h routed" where
  "mux_handler mux meth p =
     (let path = (if meth = ''CONNECT'' then p else cleanPath p); m = mux_match mux path in
      if (case m of Some (pat, _) \<Rightarrow> pat \<noteq> path | None \<Rightarrow> True) \<and> \<not> HasSuffix path ''/'' \<and> map_of mux (path @ ''/'') \<noteq> None
      then Redirected (path @ ''/'')
      else if path \<noteq> p then Redirected path
      else (case m of Some (pat, h) \<Rightarrow> Routed pat h | None \<Rightarrow> NotRouted))"

end
