(* ===== verification/ApiServer.thy ===== *)
theory ApiServer
  imports ApiHttp
begin

text \<open>
  The control plane API (\<open>internal/api\<close>): the server's handlers as state transformers over the world
  that return what they do to the response, the routes they are registered on, and the whole
  request path, cross-origin headers included.
\<close>

section \<open>The server and what it calls\<close>

text \<open>A single activity of the feed, and its JSON form (fields in the order of the struct).\<close>

record ActivityEvent =
  Ac_Timestamp :: string
  Ac_Agent :: string
  Ac_Direction :: string
  Ac_Type :: string
  Ac_TaskID :: string
  Ac_Status :: string
  Ac_Duration :: int
  Ac_Message :: string

definition new_event :: "string \<Rightarrow> string \<Rightarrow> string \<Rightarrow> string \<Rightarrow> ActivityEvent" where
  "new_event ts agent type msg = \<lparr>Ac_Timestamp = ts, Ac_Agent = agent, Ac_Direction = '''', Ac_Type = type,
     Ac_TaskID = '''', Ac_Status = '''', Ac_Duration = 0, Ac_Message = msg\<rparr>"

text \<open>A field with \<open>omitempty\<close>.\<close>

definition nonempty_str :: "string \<Rightarrow> string \<Rightarrow> (string \<times> json) list" where
  "nonempty_str k s = (if s = '''' then [] else [(k, JStr s)])"

definition nonempty_strs :: "string \<Rightarrow> string list \<Rightarrow> (string \<times> json) list" where
  "nonempty_strs k xs = (if xs = [] then [] else [(k, jstrs xs)])"

definition nonempty_map :: "string \<Rightarrow> (string, string) gomap \<Rightarrow> (string \<times> json) list" where
  "nonempty_map k m = (if m = [] then [] else [(k, JObj (map (\<lambda>(a, b). (a, JStr b)) m))])"

definition nonzero :: "string \<Rightarrow> int \<Rightarrow> (string \<times> json) list" where
  "nonzero k i = (if i = 0 then [] else [(k, JInt i)])"

text \<open>A nil slice is null.\<close>

definition json_slice :: "json list \<Rightarrow> json" where
  "json_slice xs = (if xs = [] then JNull else JArr xs)"

definition event_json :: "ActivityEvent \<Rightarrow> json" where
  "event_json e = JObj
     ([(''ts'', JStr (Ac_Timestamp e)), (''agent'', JStr (Ac_Agent e))] @
      nonempty_str ''direction'' (Ac_Direction e) @ nonempty_str ''type'' (Ac_Type e) @
      nonempty_str ''taskId'' (Ac_TaskID e) @ nonempty_str ''status'' (Ac_Status e) @
      nonzero ''durationMs'' (Ac_Duration e) @ nonempty_str ''message'' (Ac_Message e))"

text \<open>The clientset's calls: a pod of a namespace, the first pod of a label selector, a pod's log.\<close>

record PodLogOptions =
  PLO_Container :: string
  PLO_Follow :: bool
  PLO_TailLines :: int

record 'w clientset =
  cs_GetPod :: "string \<Rightarrow> string \<Rightarrow> ('w, err + Pod) state"
  cs_ListPods :: "string \<Rightarrow> string \<Rightarrow> ('w, err + Pod list) state"
  cs_Logs :: "string \<Rightarrow> string \<Rightarrow> PodLogOptions \<Rightarrow> ('w, err + string) state"

record 'w Server =
  srv_Client :: "'w kube"
  srv_Clientset :: "'w clientset option"
  srv_Namespace :: string
  srv_Port :: int
  srv_UIAssets :: "(string \<Rightarrow> act list) option"  \<comment> \<open>the file server, when there are assets\<close>

text \<open>
  The rest of what the handlers call: \<open>%q\<close>; the text of an error of \<open>encoding/json\<close> or of reading
  the body; a number as \<open>int(float64)\<close>, when it is in range; \<open>sort.Slice\<close> by a function that tells
  which of two elements comes first, which may put equal ones in any order; the JSON form of API
  objects, whose metadata belongs to the Kubernetes library, and \<open>json.Unmarshal\<close> into one; what the
  client leaves in an object it has sent to be created or updated, after it has decoded the server's
  answer into it; the check of a URL, and the HTTP client.
\<close>

record 'w apilib =
  al_Quote :: "string \<Rightarrow> string"
  al_DecodeError :: "string option \<Rightarrow> string"
  al_Number :: "string \<Rightarrow> int option"
  al_SortSlice :: "(ActivityEvent \<Rightarrow> ActivityEvent \<Rightarrow> bool) \<Rightarrow> ActivityEvent list \<Rightarrow> ActivityEvent list"
  al_Marshal :: "Obj \<Rightarrow> json"
  al_MarshalList :: "Kind \<Rightarrow> Obj list \<Rightarrow> json"
  al_Unmarshal :: "string \<Rightarrow> Obj \<Rightarrow> string + Obj"
  al_Answer :: "'w \<Rightarrow> Obj \<Rightarrow> Obj"
  al_NewRequest :: "string \<Rightarrow> string option"
  al_Do :: "string \<Rightarrow> string \<Rightarrow> ('w, err + (int \<times> string)) state"

definition NewServer ::
  "err + 'c \<Rightarrow> err + 'c \<Rightarrow> ('c \<Rightarrow> err + 'w clientset) \<Rightarrow> 'w kube \<Rightarrow> string \<Rightarrow> int \<Rightarrow> 'w Server" where
  "NewServer config1 config2 newForConfig c ns port =
     (let srv = \<lparr>srv_Client = c, srv_Clientset = None, srv_Namespace = ns, srv_Port = port, srv_UIAssets = None\<rparr>;
          config = (case config1 of Inr _ \<Rightarrow> config1 | Inl _ \<Rightarrow> config2)
      in case config of
           Inl _ \<Rightarrow> srv
         | Inr cfg \<Rightarrow> (case newForConfig cfg of Inl _ \<Rightarrow> srv | Inr cs \<Rightarrow> srv\<lparr>srv_Clientset := Some cs\<rparr>))"

section \<open>Lists and the summary (server.go)\<close>

definition agent_response_json ::
  "ClawAgent \<Rightarrow> string \<Rightarrow> int \<Rightarrow> int \<Rightarrow> string list \<Rightarrow> json" where
  "agent_response_json a soul daily monthly deny =
     (let s = Agent_Spec a in JObj
     ([(''name'', JStr (Meta_Name (Agent_Meta a))), (''phase'', JStr (ASt_Phase (Agent_Status a)))] @
      nonempty_str ''podName'' (ASt_PodName (Agent_Status a)) @
      nonempty_str ''provider'' (Model_Provider (AS_Model s)) @
      nonempty_str ''model'' (Model_Name (AS_Model s)) @
      nonempty_str ''soul'' soul @
      nonempty_strs ''channels'' (AS_Channels s) @
      nonempty_str ''workspacePVC'' (ASt_WorkspacePVC (Agent_Status a)) @
      nonempty_str ''workspaceMode'' (WS_Mode (AS_Workspace s)) @
      nonempty_str ''reclaimPolicy'' (ResolvedReclaimPolicy (AS_Workspace s)) @
      [(''a2aEnabled'', JBool (A2A_Enabled (AS_A2A s)))] @
      nonempty_strs ''a2aPeers'' (map Peer_Name (A2A_Peers (AS_A2A s))) @
      nonempty_strs ''a2aSkills'' (A2A_Skills (AS_A2A s)) @
      nonzero ''budgetDaily'' daily @ nonzero ''budgetMonthly'' monthly @
      nonempty_strs ''toolDeny'' deny @
      nonempty_map ''labels'' (Meta_Labels (Agent_Meta a))))"

definition soul_snippet :: "string \<Rightarrow> string" where
  "soul_snippet soul = (if 150 < length soul then take 150 soul @ ''...'' else soul)"

fun agent_responses :: "'w Server \<Rightarrow> ClawAgent list \<Rightarrow> ('w, json list) state" where
  "agent_responses srv [] = State_Monad.return []"
| "agent_responses srv (a # as) = do {
     p \<leftarrow> (if AS_Policy (Agent_Spec a) \<noteq> ''''
           then getAs asClawPolicy (srv_Client srv) KClawPolicy (nn (AS_Policy (Agent_Spec a)) (srv_Namespace srv))
           else throwE (OtherErr ''''));
     rest \<leftarrow> agent_responses srv as;
     (let soul = soul_snippet (Identity_Soul (AS_Identity (Agent_Spec a))) in
      State_Monad.return
        ((case p of
            Inl _ \<Rightarrow> agent_response_json a soul 0 0 []
          | Inr pol \<Rightarrow> agent_response_json a soul (B_Daily (PS_Budget (Policy_Spec pol)))
              (B_Monthly (PS_Budget (Policy_Spec pol))) (TP_Deny (PS_ToolPolicy (Policy_Spec pol)))) # rest))
   }"

definition handleAgents :: "'w Server \<Rightarrow> ('w, act list) state" where
  "handleAgents srv = do {
     r \<leftarrow> listAs asClawAgent (srv_Client srv) KClawAgent (srv_Namespace srv);
     case r of
       Inl e \<Rightarrow> State_Monad.return (httpError (err_text e) 500)
     | Inr items \<Rightarrow> do {
         resp \<leftarrow> agent_responses srv items;
         State_Monad.return (writeJSON (json_slice resp))
       }
   }"

definition channel_response_json :: "ClawChannel \<Rightarrow> json" where
  "channel_response_json ch =
     (let s = Channel_Spec ch in JObj
     ([(''name'', JStr (Meta_Name (Channel_Meta ch))), (''type'', JStr (Ch_Type s)), (''enabled'', JBool (IsEnabled s))] @
      nonempty_str ''credentialsSecret'' (Ch_CredentialsSecret s) @ nonempty_map ''config'' (Ch_Config s)))"

definition handleChannels :: "'w Server \<Rightarrow> ('w, act list) state" where
  "handleChannels srv = do {
     r \<leftarrow> listAs asClawChannel (srv_Client srv) KClawChannel (srv_Namespace srv);
     State_Monad.return (case r of
         Inl e \<Rightarrow> httpError (err_text e) 500
       | Inr items \<Rightarrow> writeJSON (json_slice (map channel_response_json items)))
   }"

definition summary_json :: "ClawAgent list \<Rightarrow> ClawChannel list \<Rightarrow> json" where
  "summary_json agents channels = JObj
     [(''totalAgents'', JInt (int (length agents))),
      (''runningAgents'', JInt (int (length (filter (\<lambda>a. ASt_Phase (Agent_Status a) = ''Running'') agents)))),
      (''totalChannels'', JInt (int (length channels))),
      (''a2aConnections'', JInt (sum_list (map (\<lambda>a. int (length (A2A_Peers (AS_A2A (Agent_Spec a))))) agents)))]"

definition handleSummary :: "'w Server \<Rightarrow> ('w, act list) state" where
  "handleSummary srv = do {
     r \<leftarrow> listAs asClawAgent (srv_Client srv) KClawAgent (srv_Namespace srv);
     case r of
       Inl e \<Rightarrow> State_Monad.return (httpError (err_text e) 500)
     | Inr agents \<Rightarrow> do {
         q \<leftarrow> listAs asClawChannel (srv_Client srv) KClawChannel (srv_Namespace srv);
         State_Monad.return (case q of
             Inl e \<Rightarrow> httpError (err_text e) 500
           | Inr channels \<Rightarrow> writeJSON (summary_json agents channels))
       }
   }"

section \<open>Activity (server.go)\<close>

definition maxEvents :: nat where
  "maxEvents = 50"

text \<open>Decoding into \<open>map[string]any\<close>: an object, or null for the empty map; a number out of the range of
  \<open>float64\<close> is an error.\<close>

fun numbers_in_range :: "(string \<Rightarrow> int option) \<Rightarrow> json \<Rightarrow> bool"
  and numbers_in_range_items :: "(string \<Rightarrow> int option) \<Rightarrow> json list \<Rightarrow> bool"
  and numbers_in_range_members :: "(string \<Rightarrow> int option) \<Rightarrow> (string \<times> json) list \<Rightarrow> bool" where
  "numbers_in_range f (JFloat (Finite t)) = (f t \<noteq> None)"
| "numbers_in_range f (JArr xs) = numbers_in_range_items f xs"
| "numbers_in_range f (JObj m) = numbers_in_range_members f m"
| "numbers_in_range f _ = True"
| "numbers_in_range_items f [] = True"
| "numbers_in_range_items f (x # xs) = (numbers_in_range f x \<and> numbers_in_range_items f xs)"
| "numbers_in_range_members f [] = True"
| "numbers_in_range_members f ((k, v) # m) = (numbers_in_range f v \<and> numbers_in_range_members f m)"

definition decode_any_map :: "(string \<Rightarrow> int option) \<Rightarrow> string \<Rightarrow> (string \<Rightarrow> json option) option" where
  "decode_any_map f s =
     (case json_parse s of
        Some (JObj m) \<Rightarrow> if numbers_in_range f (JObj m) then Some (map_of (rev m)) else None
      | Some JNull \<Rightarrow> Some (\<lambda>_. None)
      | _ \<Rightarrow> None)"

text \<open>\<open>if v, ok := evt[k].(string); ok\<close>\<close>

definition string_or :: "string \<Rightarrow> json option \<Rightarrow> string" where
  "string_or d v = (case v of Some (JStr s) \<Rightarrow> s | _ \<Rightarrow> d)"

definition duration_or :: "(string \<Rightarrow> int option) \<Rightarrow> int \<Rightarrow> json option \<Rightarrow> int" where
  "duration_or f d v =
     (case v of Some (JFloat (Finite t)) \<Rightarrow> (case f t of Some i \<Rightarrow> i | None \<Rightarrow> d) | _ \<Rightarrow> d)"

definition a2a_event :: "(string \<Rightarrow> int option) \<Rightarrow> string \<Rightarrow> (string \<Rightarrow> json option) \<Rightarrow> ActivityEvent" where
  "a2a_event f agent evt = \<lparr>Ac_Timestamp = string_or '''' (evt ''ts''), Ac_Agent = agent, Ac_Direction = '''',
     Ac_Type = ''a2a'', Ac_TaskID = string_or '''' (evt ''task_id''), Ac_Status = string_or '''' (evt ''event''),
     Ac_Duration = duration_or f 0 (evt ''duration_ms''), Ac_Message = string_or '''' (evt ''state'')\<rparr>"

definition line_timestamp :: "string \<Rightarrow> string" where
  "line_timestamp line = (if 23 < length line then take 23 line else '''')"

definition alert_events :: "string \<Rightarrow> string \<Rightarrow> ActivityEvent list" where
  "alert_events agent line =
     (if Contains line ''[observeclaw] alert:''
      then [new_event (line_timestamp line) agent ''alert''
              (case Index line ''alert:'' of
                 Some (Suc i) \<Rightarrow> TrimSpace (drop (Suc i + 6) line)
               | _ \<Rightarrow> '''')]
      else [])"

definition run_events :: "string \<Rightarrow> string \<Rightarrow> ActivityEvent list" where
  "run_events agent line =
     (if Contains line ''embedded run agent end''
      then [new_event (line_timestamp line) agent ''llm-call'' ''Agent LLM call completed''] else [])"

text \<open>The events of one log line; a line that looks like a gateway event and does not decode is
  skipped altogether.\<close>

definition line_events :: "(string \<Rightarrow> int option) \<Rightarrow> string \<Rightarrow> string \<Rightarrow> ActivityEvent list" where
  "line_events f agent line =
     (if Contains line (dq @ ''component'' @ dq @ '':'' @ dq @ ''a2a-gateway'' @ dq) \<and> Contains line (dq @ ''event'' @ dq)
      then (case Index line ''{'' of
              None \<Rightarrow> []
            | Some jsonStart \<Rightarrow>
                (case decode_any_map f (drop jsonStart line) of
                   None \<Rightarrow> []
                 | Some evt \<Rightarrow> a2a_event f agent evt # alert_events agent line @ run_events agent line))
      else alert_events agent line @ run_events agent line)"

definition getPodLogs :: "'w Server \<Rightarrow> string \<Rightarrow> int \<Rightarrow> ('w, string list) state" where
  "getPodLogs srv podName lines =
     (case srv_Clientset srv of
        None \<Rightarrow> State_Monad.return []
      | Some cs \<Rightarrow> do {
          r \<leftarrow> cs_Logs cs (srv_Namespace srv) podName
                 \<lparr>PLO_Container = ''openclaw'', PLO_Follow = False, PLO_TailLines = lines\<rparr>;
          State_Monad.return (case r of Inl _ \<Rightarrow> [] | Inr stream \<Rightarrow> scan_lines stream)
        })"

text \<open>\<open>client.MatchingLabels{"app": name}\<close>\<close>

definition has_app :: "string \<Rightarrow> Pod \<Rightarrow> bool" where
  "has_app name pod = (mget (Meta_Labels (Pod_Meta pod)) ''app'' = Some name)"

definition agentPods :: "'w Server \<Rightarrow> string \<Rightarrow> ('w, Pod list) state" where
  "agentPods srv name = do {
     r \<leftarrow> listAs asPod (srv_Client srv) KPod (srv_Namespace srv);
     State_Monad.return (case r of Inl _ \<Rightarrow> [] | Inr pods \<Rightarrow> filter (has_app name) pods)
   }"

fun collectEvents :: "'w Server \<Rightarrow> 'w apilib \<Rightarrow> ClawAgent list \<Rightarrow> ActivityEvent list \<Rightarrow> ('w, ActivityEvent list) state" where
  "collectEvents srv lib [] events = State_Monad.return events"
| "collectEvents srv lib (a # as) events =
     (if maxEvents \<le> length events then State_Monad.return events
      else (let name = Meta_Name (Agent_Meta a) in do {
        pods \<leftarrow> agentPods srv name;
        case pods of
          [] \<Rightarrow> collectEvents srv lib as events
        | pod # _ \<Rightarrow> do {
            logLines \<leftarrow> getPodLogs srv (Meta_Name (Pod_Meta pod)) 50;
            collectEvents srv lib as (events @ concat (map (line_events (al_Number lib) name) logLines))
          }
      }))"

text \<open>The order of the list, as \<open>handleActivity\<close> gives it to \<open>sort.Slice\<close>: by falling timestamps, which
  are compared as texts.\<close>

definition activity_less :: "ActivityEvent \<Rightarrow> ActivityEvent \<Rightarrow> bool" where
  "activity_less ei ej = (Ac_Timestamp ei > Ac_Timestamp ej)"

definition handleActivity :: "'w Server \<Rightarrow> 'w apilib \<Rightarrow> ('w, act list) state" where
  "handleActivity srv lib = do {
     r \<leftarrow> listAs asClawAgent (srv_Client srv) KClawAgent (srv_Namespace srv);
     case r of
       Inl e \<Rightarrow> State_Monad.return (httpError (err_text e) 500)
     | Inr agents \<Rightarrow> do {
         events \<leftarrow> collectEvents srv lib agents [];
         let sorted_events = al_SortSlice lib activity_less events;
         State_Monad.return (writeJSON (json_slice (map event_json
           (if 50 < length sorted_events then take 50 sorted_events else sorted_events))))
       }
   }"

definition getPVCInfo :: "'w Server \<Rightarrow> string \<Rightarrow> ('w, (string, string) gomap option) state" where
  "getPVCInfo srv agentName = do {
     r \<leftarrow> getAs asPVC (srv_Client srv) KPVC (nn (agentName @ PVCSuffix) (srv_Namespace srv));
     State_Monad.return (case r of
         Inl _ \<Rightarrow> None
       | Inr pvc \<Rightarrow> Some (mputs [(''name'', Meta_Name (PVC_Meta pvc)), (''status'', PVC_Phase pvc)] []))
   }"

section \<open>Logs (logs.go)\<close>

definition firstContainerName :: "Pod \<Rightarrow> string" where
  "firstContainerName pod =
     (case Pod_Containers (Pod_Spec pod) of [] \<Rightarrow> '''' | c # _ \<Rightarrow> C_Name c)"

text \<open>A nil clientset is dereferenced: the handler panics.\<close>

definition nil_clientset :: err where
  "nil_clientset = PanicErr ''invalid memory address or nil pointer dereference''"

definition podByLabel :: "'w Server \<Rightarrow> 'w apilib \<Rightarrow> 'w clientset \<Rightarrow> string \<Rightarrow> ('w, err + (string \<times> string)) state" where
  "podByLabel srv lib cs agentName = do {
     r \<leftarrow> cs_ListPods cs (srv_Namespace srv) (''app='' @ agentName);
     case r of
       Inl e \<Rightarrow> throwE (Wrap (''listing pods for agent '' @ al_Quote lib agentName @ '': '') e)
     | Inr [] \<Rightarrow> throwE (Errorf (''no pods found for agent '' @ al_Quote lib agentName))
     | Inr (pod # _) \<Rightarrow> retE (Meta_Name (Pod_Meta pod), firstContainerName pod)
   }"

definition resolveAgentPod :: "'w Server \<Rightarrow> 'w apilib \<Rightarrow> string \<Rightarrow> ('w, err + (string \<times> string)) state" where
  "resolveAgentPod srv lib agentName = do {
     r \<leftarrow> getAs asClawAgent (srv_Client srv) KClawAgent (nn agentName (srv_Namespace srv));
     case r of
       Inl e \<Rightarrow> throwE (Wrap (''getting agent '' @ al_Quote lib agentName @ '': '') e)
     | Inr agent \<Rightarrow>
         (case srv_Clientset srv of
            None \<Rightarrow> throwE nil_clientset
          | Some cs \<Rightarrow>
              if ASt_PodName (Agent_Status agent) \<noteq> '''' then do {
                p \<leftarrow> cs_GetPod cs (srv_Namespace srv) (ASt_PodName (Agent_Status agent));
                case p of
                  Inr pod \<Rightarrow> retE (Meta_Name (Pod_Meta pod), firstContainerName pod)
                | Inl _ \<Rightarrow> podByLabel srv lib cs agentName
              }
              else podByLabel srv lib cs agentName)
   }"

definition log_tailLines :: "Request \<Rightarrow> int" where
  "log_tailLines rq =
     (let tl = rq_Query rq ''tailLines'' in
      if tl \<noteq> '''' then (case ParseInt64 tl of Some v \<Rightarrow> if 0 < v then v else 100 | None \<Rightarrow> 100) else 100)"

text \<open>One Server-Sent Event per line, until the client is gone. (The writer of \<open>net/http\<close> is a
  \<open>Flusher\<close>, so the type assertion holds.)\<close>

fun stream_lines :: "(nat \<Rightarrow> bool) \<Rightarrow> nat \<Rightarrow> string list \<Rightarrow> act list" where
  "stream_lines gone n [] = []"
| "stream_lines gone n (l # ls) =
     Write (''data: '' @ l @ nl @ nl) # Flush # (if gone n then [] else stream_lines gone (Suc n) ls)"

definition handleAgentLogs :: "'w Server \<Rightarrow> 'w apilib \<Rightarrow> Request \<Rightarrow> string \<Rightarrow> ('w, act list) state" where
  "handleAgentLogs srv lib rq agentName =
     (if rq_Method rq \<noteq> ''GET'' then State_Monad.return (httpError ''method not allowed'' 405)
      else do {
        r \<leftarrow> resolveAgentPod srv lib agentName;
        case (r, srv_Clientset srv) of
          (Inr (podName, containerName), Some cs) \<Rightarrow> do {
            s \<leftarrow> cs_Logs cs (srv_Namespace srv) podName
                   \<lparr>PLO_Container = containerName, PLO_Follow = (rq_Query rq ''follow'' = ''true''),
                    PLO_TailLines = log_tailLines rq\<rparr>;
            State_Monad.return (case s of
                Inl e \<Rightarrow> httpError (''opening log stream: '' @ err_text e) 500
              | Inr stream \<Rightarrow>
                  [SetHeader ''Content-Type'' ''text/event-stream'', SetHeader ''Cache-Control'' ''no-cache'',
                   SetHeader ''Connection'' ''keep-alive'', SetHeader ''Access-Control-Allow-Origin'' ''*''] @
                  stream_lines (rq_Done rq) 0 (scan_lines stream))
          }
        | (Inl (PanicErr _), _) \<Rightarrow> State_Monad.return [Abort]
        | (Inl e, _) \<Rightarrow> State_Monad.return (httpError (''resolving agent pod: '' @ err_text e) 404)
        | (Inr _, None) \<Rightarrow> State_Monad.return [Abort]
      })"

section \<open>Chat (chat.go)\<close>

definition defaultOpenClawGatewayPort :: int where
  "defaultOpenClawGatewayPort = 18789"

definition defaultGatewayPort :: int where
  "defaultGatewayPort = 8443"

fun findServicePort :: "ServicePort list \<Rightarrow> string \<Rightarrow> int" where
  "findServicePort [] portName = 0"
| "findServicePort (p # ps) portName = (if SP_Name p = portName then sint (SP_Port p) else findServicePort ps portName)"

definition cluster_url :: "string \<Rightarrow> string \<Rightarrow> int \<Rightarrow> string" where
  "cluster_url host ns port = ''http://'' @ host @ ''.'' @ ns @ ''.svc.cluster.local:'' @ show_int port"

definition resolveGatewayFromCR :: "'w Server \<Rightarrow> 'w apilib \<Rightarrow> string \<Rightarrow> ('w, err + string) state" where
  "resolveGatewayFromCR srv lib gatewayName = do {
     r \<leftarrow> getAs asClawGateway (srv_Client srv) KClawGateway (nn gatewayName (srv_Namespace srv));
     case r of
       Inl e \<Rightarrow> throwE (Wrap (''getting gateway '' @ al_Quote lib gatewayName @ '': '') e)
     | Inr gw \<Rightarrow>
         (let port = (if GW_Port (Gateway_Spec gw) = 0 then defaultGatewayPort else GW_Port (Gateway_Spec gw)) in
          retE (cluster_url (gatewayName @ ''-gateway'') (srv_Namespace srv) port))
   }"

definition resolveGatewayURL :: "'w Server \<Rightarrow> 'w apilib \<Rightarrow> string \<Rightarrow> ('w, err + string) state" where
  "resolveGatewayURL srv lib agentName = do {
     r \<leftarrow> getAs asClawAgent (srv_Client srv) KClawAgent (nn agentName (srv_Namespace srv));
     case r of
       Inl e \<Rightarrow> throwE (Wrap (''getting agent '' @ al_Quote lib agentName @ '': '') e)
     | Inr agent \<Rightarrow> do {
         q \<leftarrow> getAs asService (srv_Client srv) KService (nn agentName (srv_Namespace srv));
         case q of
           Inl e \<Rightarrow>
             if AS_Gateway (Agent_Spec agent) \<noteq> '''' then resolveGatewayFromCR srv lib (AS_Gateway (Agent_Spec agent))
             else throwE (Wrap (''getting service '' @ al_Quote lib agentName @ '': '') e)
         | Inr svc \<Rightarrow>
             (let p = findServicePort (Svc_Ports svc) ''gateway'';
                  port = (if p = 0 then defaultOpenClawGatewayPort else p)
              in retE (cluster_url agentName (srv_Namespace srv) port))
       }
   }"

definition chat_body :: "string \<Rightarrow> string \<Rightarrow> json" where
  "chat_body role content =
     jobj [(''model'', JStr ''openclaw/default''),
           (''messages'', JArr [jobj [(''role'', JStr role), (''content'', JStr content)]])]"

definition relayChat :: "'w apilib \<Rightarrow> string \<Rightarrow> string \<Rightarrow> string \<Rightarrow> ('w, act list) state" where
  "relayChat lib gatewayURL role content =
     (let upstream = gatewayURL @ ''/v1/chat/completions'' in
      case al_NewRequest lib upstream of
        Some msg \<Rightarrow> State_Monad.return (httpError (''building upstream request: '' @ msg) 500)
      | None \<Rightarrow> do {
          r \<leftarrow> al_Do lib upstream (marshal (chat_body role content));
          State_Monad.return (case r of
              Inl e \<Rightarrow> httpError (''calling agent gateway: '' @ err_text e) 502
            | Inr (status, body) \<Rightarrow>
                [SetHeader ''Content-Type'' ''application/json'', SetHeader ''Access-Control-Allow-Origin'' ''*'',
                 WriteHeader status, Write body])
        })"

definition decode_chat :: "'w apilib \<Rightarrow> string option \<Rightarrow> string + (string \<Rightarrow> string)" where
  "decode_chat lib body =
     (case Option.bind (Option.bind body json_decode) (decode_strings [''role'', ''content'']) of
        None \<Rightarrow> Inl (al_DecodeError lib body)
      | Some f \<Rightarrow> Inr f)"

definition handleAgentChat :: "'w Server \<Rightarrow> 'w apilib \<Rightarrow> Request \<Rightarrow> string \<Rightarrow> ('w, act list) state" where
  "handleAgentChat srv lib rq agentName =
     (if rq_Method rq \<noteq> ''POST'' then State_Monad.return (httpError ''method not allowed'' 405)
      else (case decode_chat lib (rq_Body rq) of
              Inl msg \<Rightarrow> State_Monad.return (httpError (''invalid request body: '' @ msg) 400)
            | Inr req \<Rightarrow>
                if req ''content'' = '''' then State_Monad.return (httpError ''content is required'' 400)
                else do {
                  u \<leftarrow> resolveGatewayURL srv lib agentName;
                  case u of
                    Inl e \<Rightarrow> State_Monad.return (httpError (''resolving gateway: '' @ err_text e) 404)
                  | Inr gatewayURL \<Rightarrow> relayChat lib gatewayURL (req ''role'') (req ''content'')
                }))"

section \<open>Create, read, update, delete (crud.go)\<close>

text \<open>\<open>newObj()\<close>: the zero value of the kind.\<close>

definition zero_meta :: ObjectMeta where
  "zero_meta = new_meta '''' '''' []"

fun newObj :: "Kind \<Rightarrow> Obj" where
  "newObj KClawChannel = OClawChannel \<lparr>Channel_Meta = zero_meta,
     Channel_Spec = \<lparr>Ch_Type = '''', Ch_Enabled = None, Ch_CredentialsSecret = '''', Ch_Config = []\<rparr>\<rparr>"
| "newObj KClawPolicy = OClawPolicy \<lparr>Policy_Meta = zero_meta,
     Policy_Spec = \<lparr>PS_ToolPolicy = \<lparr>TP_Allow = [], TP_Deny = []\<rparr>,
       PS_Budget = \<lparr>B_Daily = 0, B_Monthly = 0, B_WarnAt = '''', B_DowngradeModel = '''', B_DowngradeProvider = ''''\<rparr>\<rparr>\<rparr>"
| "newObj KClawSkillSet = OClawSkillSet \<lparr>SkillSet_Meta = zero_meta, SkillSet_Spec = \<lparr>SS_Skills = []\<rparr>\<rparr>"
| "newObj KClawGateway = OClawGateway \<lparr>Gateway_Meta = zero_meta,
     Gateway_Spec = \<lparr>GW_Topology = '''', GW_Port = 0,
       GW_Routing = \<lparr>Routing_Enabled = False, Routing_LogEveryDecision = False, Routing_Evaluators = []\<rparr>,
       GW_Anomaly = \<lparr>Anom_SpendSpikeMultiplier = 0, Anom_IdleBurnMinutes = 0, Anom_ErrorLoopThreshold = 0,
         Anom_TokenInflationMultiplier = 0, Anom_CheckIntervalSeconds = 0\<rparr>,
       GW_Webhooks = []\<rparr>\<rparr>"
| "newObj KClawObservability = OClawObservability \<lparr>Observability_Meta = zero_meta,
     Observability_Spec = \<lparr>
       Obs_Tempo = \<lparr>Tempo_Enabled = False, Tempo_RetentionDays = 0, Tempo_Storage = \<lparr>TS_Size = '''', TS_StorageClass = ''''\<rparr>\<rparr>,
       Obs_Grafana = \<lparr>Grafana_Enabled = False, Grafana_Dashboards = [], Grafana_AdminCredentialsSecret = '''', Grafana_Expose = ''''\<rparr>,
       Obs_OTLPEndpoint = '''', Obs_OTLPProtocol = ''''\<rparr>,
     Observability_Status = \<lparr>ObsSt_TempoReady = False, ObsSt_GrafanaReady = False\<rparr>\<rparr>"
| "newObj _ = OClawAgent zero_ClawAgent"

definition setNameNs :: "string \<Rightarrow> string \<Rightarrow> Obj \<Rightarrow> Obj" where
  "setNameNs name ns ob = set_meta ((meta_of ob)\<lparr>Meta_Name := name, Meta_Namespace := ns\<rparr>) ob"

definition handleGetOne :: "'w Server \<Rightarrow> 'w apilib \<Rightarrow> string \<Rightarrow> Kind \<Rightarrow> ('w, act list) state" where
  "handleGetOne srv lib name k = do {
     r \<leftarrow> kube_Get (srv_Client srv) k (nn name (srv_Namespace srv));
     State_Monad.return (case r of
         Inl e \<Rightarrow> httpError (err_text e) 404
       | Inr ob \<Rightarrow> writeJSON (al_Marshal lib ob))
   }"

definition handleList :: "'w Server \<Rightarrow> 'w apilib \<Rightarrow> Kind \<Rightarrow> ('w, act list) state" where
  "handleList srv lib k = do {
     r \<leftarrow> kube_List (srv_Client srv) k (srv_Namespace srv);
     State_Monad.return (case r of
         Inl e \<Rightarrow> httpError (err_text e) 500
       | Inr obs \<Rightarrow> writeJSON (al_MarshalList lib k obs))
   }"

text \<open>\<open>json.Unmarshal(body, &req)\<close> into \<open>crudRequest\<close>: the name.\<close>

definition decode_crud :: "'w apilib \<Rightarrow> string \<Rightarrow> string + string" where
  "decode_crud lib body =
     (case Option.bind (json_parse body) (decode_strings [''name'']) of
        None \<Rightarrow> Inl (al_DecodeError lib (Some body))
      | Some f \<Rightarrow> Inr (f ''name''))"

definition storeCreated :: "'w Server \<Rightarrow> 'w apilib \<Rightarrow> Obj \<Rightarrow> ('w, act list) state" where
  "storeCreated srv lib ob = do {
     r \<leftarrow> kube_Create (srv_Client srv) ob;
     case r of
       Inl e \<Rightarrow> State_Monad.return (httpError (err_text e) 409)
     | Inr _ \<Rightarrow> do {
         w \<leftarrow> State_Monad.get;
         State_Monad.return (WriteHeader 201 # writeJSON (al_Marshal lib (al_Answer lib w ob)))
       }
   }"

definition handleCreate :: "'w Server \<Rightarrow> 'w apilib \<Rightarrow> Request \<Rightarrow> Kind \<Rightarrow> ('w, act list) state" where
  "handleCreate srv lib rq k =
     (case rq_Body rq of
        None \<Rightarrow> State_Monad.return (httpError ''failed to read request body'' 400)
      | Some body \<Rightarrow>
          (case decode_crud lib body of
             Inl msg \<Rightarrow> State_Monad.return (httpError (''invalid JSON: '' @ msg) 400)
           | Inr name \<Rightarrow>
               if name = '''' then State_Monad.return (httpError ''name is required'' 400)
               else (case al_Unmarshal lib body (newObj k) of
                       Inl msg \<Rightarrow> State_Monad.return (httpError (''failed to parse object: '' @ msg) 400)
                     | Inr ob \<Rightarrow> storeCreated srv lib (setNameNs name (srv_Namespace srv) ob))))"

text \<open>The metadata the client must not overwrite.\<close>

definition restoreMeta :: "string \<Rightarrow> string \<Rightarrow> Obj \<Rightarrow> Obj \<Rightarrow> Obj" where
  "restoreMeta name ns existing ob =
     set_meta ((meta_of ob)\<lparr>Meta_Name := name, Meta_Namespace := ns,
       Meta_ResourceVersion := Meta_ResourceVersion (meta_of existing), Meta_UID := Meta_UID (meta_of existing)\<rparr>) ob"

definition storeUpdated :: "'w Server \<Rightarrow> 'w apilib \<Rightarrow> Obj \<Rightarrow> ('w, act list) state" where
  "storeUpdated srv lib ob = do {
     r \<leftarrow> kube_Update (srv_Client srv) ob;
     case r of
       Inl e \<Rightarrow> State_Monad.return (httpError (err_text e) 409)
     | Inr _ \<Rightarrow> do {
         w \<leftarrow> State_Monad.get;
         State_Monad.return (writeJSON (al_Marshal lib (al_Answer lib w ob)))
       }
   }"

definition handleUpdate :: "'w Server \<Rightarrow> 'w apilib \<Rightarrow> Request \<Rightarrow> string \<Rightarrow> Kind \<Rightarrow> ('w, act list) state" where
  "handleUpdate srv lib rq name k =
     (case rq_Body rq of
        None \<Rightarrow> State_Monad.return (httpError ''failed to read request body'' 400)
      | Some body \<Rightarrow> do {
          r \<leftarrow> kube_Get (srv_Client srv) k (nn name (srv_Namespace srv));
          case r of
            Inl e \<Rightarrow> State_Monad.return (httpError (err_text e) 404)
          | Inr existing \<Rightarrow>
              (case al_Unmarshal lib body existing of
                 Inl msg \<Rightarrow> State_Monad.return (httpError (''failed to parse object: '' @ msg) 400)
               | Inr ob \<Rightarrow> storeUpdated srv lib (restoreMeta name (srv_Namespace srv) existing ob))
        })"

definition handleDelete :: "'w Server \<Rightarrow> string \<Rightarrow> Kind \<Rightarrow> ('w, act list) state" where
  "handleDelete srv name k = do {
     r \<leftarrow> kube_Delete (srv_Client srv) (setNameNs name (srv_Namespace srv) (newObj k));
     State_Monad.return (case r of
         Inl e \<Rightarrow> httpError (err_text e) 404
       | Inr _ \<Rightarrow> writeJSON (jobj [(''status'', JStr ''deleted''), (''name'', JStr name)]))
   }"

section \<open>Routes\<close>

text \<open>The registered handlers; a collection keeps the handler its path had before, if any.\<close>

datatype handler =
    HSummary | HActivity | HHealth | HItem Kind string | HCollection Kind "handler option" | HUI

text \<open>\<open>/api/{resource}/{name}\<close> and its sub-resources.\<close>

definition handleItem :: "'w Server \<Rightarrow> 'w apilib \<Rightarrow> Request \<Rightarrow> Kind \<Rightarrow> string \<Rightarrow> ('w, act list) state" where
  "handleItem srv lib rq k path =
     (let rest = TrimSuffix (TrimPrefix (rq_Path rq) (path @ ''/'')) ''/'' in
      if rest = '''' then State_Monad.return (httpError ''resource name is required'' 400)
      else (case cut_at CHR ''/'' rest of
              (name, Some sub) \<Rightarrow>
                if path = ''/api/agents'' \<and> sub = ''logs'' then handleAgentLogs srv lib rq name
                else if path = ''/api/agents'' \<and> sub = ''chat'' then handleAgentChat srv lib rq name
                else State_Monad.return (httpError ''unknown sub-resource'' 404)
            | (name, None) \<Rightarrow>
                if rq_Method rq = ''GET'' then handleGetOne srv lib name k
                else if rq_Method rq = ''PUT'' then handleUpdate srv lib rq name k
                else if rq_Method rq = ''DELETE'' then handleDelete srv name k
                else State_Monad.return (httpError ''method not allowed'' 405)))"

fun dispatch :: "'w Server \<Rightarrow> 'w apilib \<Rightarrow> Request \<Rightarrow> handler \<Rightarrow> ('w, act list) state" where
  "dispatch srv lib rq HSummary = handleSummary srv"
| "dispatch srv lib rq HActivity = handleActivity srv lib"
| "dispatch srv lib rq HHealth = State_Monad.return (writeJSON (jobj [(''status'', JStr ''ok'')]))"
| "dispatch srv lib rq (HItem k path) = handleItem srv lib rq k path"
| "dispatch srv lib rq (HCollection k None) =
     (if rq_Method rq = ''POST'' then handleCreate srv lib rq k
      else if rq_Method rq = ''GET'' then handleList srv lib k
      else State_Monad.return (httpError ''method not allowed'' 405))"
| "dispatch srv lib rq (HCollection k (Some h)) =
     (if rq_Method rq = ''POST'' then handleCreate srv lib rq k
      else if rq_Method rq = ''GET'' then dispatch srv lib rq h
      else State_Monad.return (httpError ''method not allowed'' 405))"
| "dispatch srv lib rq HUI =
     State_Monad.return (case srv_UIAssets srv of Some serve \<Rightarrow> serve (rq_Path rq) | None \<Rightarrow> [])"

definition getExistingHandler :: "(string \<times> handler) list \<Rightarrow> string \<Rightarrow> handler option" where
  "getExistingHandler mux path =
     (case mux_handler mux ''GET'' path of
        Routed pattern h \<Rightarrow> if pattern = path then Some h else None
      | _ \<Rightarrow> None)"

definition registerCRUD :: "string \<Rightarrow> Kind \<Rightarrow> (string \<times> handler) list \<Rightarrow> (string \<times> handler) list" where
  "registerCRUD path k mux =
     (let mux1 = mux @ [(path @ ''/'', HItem k path)] in
      mux1 @ [(path, HCollection k (getExistingHandler mux1 path))])"

definition registerCRUDRoutes :: "(string \<times> handler) list \<Rightarrow> (string \<times> handler) list" where
  "registerCRUDRoutes mux =
     registerCRUD ''/api/observabilities'' KClawObservability
       (registerCRUD ''/api/gateways'' KClawGateway
         (registerCRUD ''/api/skillsets'' KClawSkillSet
           (registerCRUD ''/api/policies'' KClawPolicy
             (registerCRUD ''/api/channels'' KClawChannel
               (registerCRUD ''/api/agents'' KClawAgent mux)))))"

definition routes :: "'w Server \<Rightarrow> (string \<times> handler) list" where
  "routes srv =
     registerCRUDRoutes [(''/api/summary'', HSummary), (''/api/activity'', HActivity), (''/api/health'', HHealth)] @
     (if srv_UIAssets srv \<noteq> None then [(''/'', HUI)] else [])"

text \<open>The mux's answers of its own: a redirect (its body, a link, is left out) and not found.\<close>

definition serveMux :: "'w Server \<Rightarrow> 'w apilib \<Rightarrow> Request \<Rightarrow> ('w, act list) state" where
  "serveMux srv lib rq =
     (case mux_handler (routes srv) (rq_Method rq) (rq_Path rq) of
        Routed _ h \<Rightarrow> dispatch srv lib rq h
      | Redirected p \<Rightarrow> State_Monad.return [SetHeader ''Location'' p, WriteHeader 301]
      | NotRouted \<Rightarrow> State_Monad.return (httpError ''404 page not found'' 404))"

definition cors_headers :: "act list" where
  "cors_headers =
     [SetHeader ''Access-Control-Allow-Origin'' ''*'',
      SetHeader ''Access-Control-Allow-Methods'' ''GET, POST, PUT, DELETE, OPTIONS'',
      SetHeader ''Access-Control-Allow-Headers'' ''Content-Type'']"

definition withCORS :: "(Request \<Rightarrow> ('w, act list) state) \<Rightarrow> Request \<Rightarrow> ('w, act list) state" where
  "withCORS handle rq =
     (if rq_Method rq = ''OPTIONS'' then State_Monad.return (cors_headers @ [WriteHeader 204])
      else do {
        acts \<leftarrow> handle rq;
        State_Monad.return (cors_headers @ acts)
      })"

text \<open>The handler of the HTTP server \<open>Start\<close> runs.\<close>

definition serve :: "'w Server \<Rightarrow> 'w apilib \<Rightarrow> Request \<Rightarrow> ('w, act list) state" where
  "serve srv lib = withCORS (serveMux srv lib)"

end
