(* ===== verification/ApiRoutes.thy ===== *)
theory ApiRoutes
  imports ApiServer
begin

text \<open>
  Where a request goes: the registered routes written out, and the handler of the paths the API
  documents, for every resource and every name a resource can have.
\<close>

section \<open>Paths\<close>

lemma split_at_nonempty [simp]: "split_at c s \<noteq> []"
  by (induction s) (auto split: list.split)

lemma split_at_append: "split_at c (a @ c # b) = split_at c a @ split_at c b"
  by (induction a) (auto split: list.split)

lemma split_at_plain: "c \<notin> set s \<Longrightarrow> split_at c s = [s]"
  by (induction s) auto

text \<open>A name that is one segment of a path and stays as it is.\<close>

definition segment :: "string \<Rightarrow> bool" where
  "segment n \<longleftrightarrow> n \<noteq> '''' \<and> n \<noteq> ''.'' \<and> n \<noteq> ''..'' \<and> CHR ''/'' \<notin> set n"

lemma clean_segments_append: "clean_segments acc (xs @ ys) = clean_segments (clean_segments acc xs) ys"
  by (induction acc xs rule: clean_segments.induct) auto

lemma clean_segments_segments: "list_all segment xs \<Longrightarrow> clean_segments acc xs = acc @ xs"
  by (induction acc xs rule: clean_segments.induct) (auto simp: segment_def)

text \<open>The documented paths are clean.\<close>

fun path_of :: "string list \<Rightarrow> string" where
  "path_of [] = ''''"
| "path_of (s # ss) = CHR ''/'' # s @ path_of ss"

lemma split_path_of: "list_all segment ss \<Longrightarrow> CHR ''/'' \<notin> set s \<Longrightarrow> split_at CHR ''/'' (s @ path_of ss) = s # ss"
proof (induction ss arbitrary: s)
  case Nil
  then show ?case by (simp add: split_at_plain)
next
  case (Cons t ts)
  then show ?case by (simp add: split_at_append split_at_plain segment_def)
qed

lemma Join_path_of: "ss \<noteq> [] \<Longrightarrow> CHR ''/'' # Join ss ''/'' = path_of ss"
  by (induction ss "''/''" rule: Join.induct) auto

lemma HasSuffix_byte [simp]: "HasSuffix s [c] \<longleftrightarrow> s \<noteq> [] \<and> last s = c"
  by (cases s rule: rev_cases) (auto simp: HasSuffix_def)

lemma no_slash_end: "list_all segment ss \<Longrightarrow> ss \<noteq> [] \<Longrightarrow> last (path_of ss) \<noteq> CHR ''/''"
proof (induction ss)
  case (Cons s ss)
  then have s: "s \<noteq> []" "CHR ''/'' \<notin> set s" by (auto simp: segment_def)
  show ?case
  proof (cases "ss = []")
    case True
    then show ?thesis using s by simp (metis last_in_set)
  next
    case False
    with Cons show ?thesis by (cases ss) auto
  qed
qed simp

lemma cleanPath_path_of:
  assumes "list_all segment ss" "ss \<noteq> []"
  shows "cleanPath (path_of ss) = path_of ss"
proof -
  have "path_of ss = [] @ path_of ss" by simp
  then have "split_at CHR ''/'' (path_of ss) = [] # ss"
    using split_path_of [OF assms(1), of "[]"] by simp
  then have "path_Clean (path_of ss) = path_of ss"
    using assms by (simp add: path_Clean_def clean_segments_segments Join_path_of)
  then show ?thesis
    using no_slash_end [OF assms] assms(2) by (cases ss) (simp_all add: cleanPath_def Let_def)
qed

section \<open>The routes\<close>

definition resources :: "(string \<times> Kind) list" where
  "resources =
     [(''/api/agents'', KClawAgent), (''/api/channels'', KClawChannel), (''/api/policies'', KClawPolicy),
      (''/api/skillsets'', KClawSkillSet), (''/api/gateways'', KClawGateway),
      (''/api/observabilities'', KClawObservability)]"

text \<open>No path had a handler before its collection is registered: the collections list the stored
  objects themselves.\<close>

lemma registerCRUDRoutes_eq:
  "registerCRUDRoutes [(''/api/summary'', HSummary), (''/api/activity'', HActivity), (''/api/health'', HHealth)] =
     [(''/api/summary'', HSummary), (''/api/activity'', HActivity), (''/api/health'', HHealth)] @
     concat (map (\<lambda>(path, k). [(path @ ''/'', HItem k path), (path, HCollection k None)]) resources)"
  by code_simp

lemmas routes_eq = routes_def [unfolded registerCRUDRoutes_eq resources_def, simplified]

text \<open>The matching pattern of a path is the longest.\<close>

lemma foldl_better:
  "foldl better best ms = Some m \<Longrightarrow>
     (m \<in> set ms \<or> best = Some m) \<and> (\<forall>q \<in> set ms \<union> set_option best. length (fst q) \<le> length (fst m))"
proof (induction ms arbitrary: best)
  case (Cons a ms)
  from Cons.IH [of "better best a"] Cons.prems show ?case
    by (cases best) (auto simp: better_def split: if_splits)
qed simp

lemma foldl_better_Some: "best \<noteq> None \<or> ms \<noteq> [] \<Longrightarrow> foldl better best ms \<noteq> None"
  by (induction ms arbitrary: best) (auto simp: better_def split: option.splits)

lemma mux_match_longest:
  assumes "(p, h) \<in> set mux" "pattern_matches p path" "distinct (map fst mux)"
    and "\<And>q g. (q, g) \<in> set mux \<Longrightarrow> pattern_matches q path \<Longrightarrow> q \<noteq> p \<Longrightarrow> length q < length p"
  shows "mux_match mux path = Some (p, h)"
proof -
  let ?ms = "filter (\<lambda>m. pattern_matches (fst m) path) mux"
  have m: "(p, h) \<in> set ?ms" using assms(1,2) by simp
  then have "?ms \<noteq> []" by (metis empty_iff empty_set)
  then obtain m' where q: "foldl better None ?ms = Some m'"
    using foldl_better_Some [of None ?ms] by blast
  obtain q g where m': "m' = (q, g)" by fastforce
  from foldl_better [OF q] m have qg: "(q, g) \<in> set mux" "pattern_matches q path" "length p \<le> length q"
    by (auto simp: m')
  with assms(4) have "q = p" by fastforce
  with qg(1) assms(1,3) have "g = h" by (metis eq_key_imp_eq_value)
  with q \<open>q = p\<close> m' show ?thesis by (simp add: mux_match_def)
qed

lemma distinct_routes: "distinct (map fst (routes srv))"
  by (simp add: routes_eq)

text \<open>\<open>/api/{resource}\<close> and \<open>/api/{resource}/...\<close>\<close>

lemma resource_path: "(path, k) \<in> set resources \<Longrightarrow> \<exists>s. segment s \<and> path = path_of [''api'', s]"
  by (rule exI [of _ "drop 5 path"]) (auto simp: resources_def segment_def)

lemma segment_api [simp]: "segment ''api''"
  by (simp add: segment_def)

lemma route_collection:
  assumes "(path, k) \<in> set resources"
  shows "mux_handler (routes srv) meth path = Routed path (HCollection k None)"
proof -
  from resource_path [OF assms] obtain s where "segment s" "path = path_of [''api'', s]" by blast
  then have c: "cleanPath path = path" using cleanPath_path_of [of "[''api'', s]"] by simp
  have "(path, HCollection k None) \<in> set (routes srv)" using assms by (auto simp: resources_def routes_eq)
  then have "mux_match (routes srv) path = Some (path, HCollection k None)"
  proof (rule mux_match_longest [OF _ _ distinct_routes])
    show "pattern_matches path path" by (simp add: pattern_matches_def)
  next
    fix q g assume "pattern_matches q path" "q \<noteq> path"
    then have "take (length q) path = q" by (simp add: pattern_matches_def)
    with \<open>q \<noteq> path\<close> show "length q < length path"
      by (metis append_take_drop_id length_append append_Nil2 length_0_conv less_add_same_cancel1 not_gr_zero)
  qed
  with c show ?thesis by (simp add: mux_handler_def Let_def)
qed

text \<open>No other pattern goes below a resource.\<close>

lemma item_only_table:
  "list_all (\<lambda>(path, k). list_all (\<lambda>(q, g). take (Suc (length path)) q = path @ ''/'' \<longrightarrow> q = path @ ''/'')
     (registerCRUDRoutes [(''/api/summary'', HSummary), (''/api/activity'', HActivity), (''/api/health'', HHealth)])) resources"
  by code_simp

lemma item_only:
  assumes "(path, k) \<in> set resources" "(q, g) \<in> set (routes srv)" "take (Suc (length path)) q = path @ ''/''"
  shows "q = path @ ''/''"
proof (cases "q = ''/''")
  case True
  with assms(1,3) show ?thesis by (auto simp: resources_def)
next
  case False
  with assms item_only_table show ?thesis by (fastforce simp: routes_def list_all_iff split: if_splits)
qed

lemma route_item:
  assumes "(path, k) \<in> set resources" "cleanPath p = p" "take (Suc (length path)) p = path @ ''/''"
  shows "mux_handler (routes srv) meth p = Routed (path @ ''/'') (HItem k path)"
proof -
  have m: "(path @ ''/'', HItem k path) \<in> set (routes srv)" using assms(1) by (auto simp: resources_def routes_eq)
  have long: "mux_match (routes srv) p = Some (path @ ''/'', HItem k path)"
  proof (rule mux_match_longest [OF m _ distinct_routes])
    show "pattern_matches (path @ ''/'') p" using assms(3) by (simp add: pattern_matches_def)
  next
    fix q g
    assume q: "(q, g) \<in> set (routes srv)" "pattern_matches q p" "q \<noteq> path @ ''/''"
    show "length q < length (path @ ''/'')"
    proof (rule ccontr)
      assume "\<not> ?thesis"
      with q(2) assms(3) have "take (Suc (length path)) q = path @ ''/''"
        by (auto simp: pattern_matches_def) (metis min.absorb1 not_less take_take length_append_singleton)
      then show False using q(1,3) item_only [OF assms(1)] by fastforce
    qed
  qed
  obtain r where p: "p = path @ CHR ''/'' # r"
    using assms(3) append_take_drop_id [of "Suc (length path)" p] by (metis append.assoc append_Cons append_Nil)
  have "map_of (routes srv) (p @ ''/'') = None"
  proof (rule ccontr)
    assume "\<not> ?thesis"
    then obtain g where "(p @ ''/'', g) \<in> set (routes srv)" using map_of_SomeD by fastforce
    from item_only [OF assms(1) this] have "p @ ''/'' = path @ ''/''" unfolding p by simp
    then show False unfolding p by simp
  qed
  then show ?thesis
    using long assms(2) by (auto simp: mux_handler_def Let_def)
qed

end
