(* ===== verification/ApiProperties.thy ===== *)
theory ApiProperties
  imports ApiRoutes "HOL-Library.Multiset"
begin

text \<open>
  What the control plane API guarantees against any API server: which objects a request can change,
  what a created resource reads back as, the log stream, and the bound on the activity feed.
\<close>

section \<open>The requests that write\<close>

text \<open>The method, path and body of a write, by the resource's path and the object's name.\<close>

definition api_writes :: "'w apilib \<Rightarrow> Request \<Rightarrow> string \<Rightarrow> string \<Rightarrow> bool" where
  "api_writes lib rq path name \<longleftrightarrow>
     (if rq_Method rq = ''POST''
      then rq_Path rq = path \<and> (\<exists>body. rq_Body rq = Some body \<and> decode_crud lib body = Inr name)
      else rq_Method rq \<in> {''PUT'', ''DELETE''} \<and> CHR ''/'' \<notin> set name \<and>
        (rq_Path rq = path @ ''/'' @ name \<or> rq_Path rq = path @ ''/'' @ name @ ''/''))"

lemma cut_at_None: "cut_at c s = (a, None) \<Longrightarrow> s = a"
  using takeWhile_dropWhile_id [of "\<lambda>x. x \<noteq> c" s]
  by (cases "dropWhile (\<lambda>x. x \<noteq> c) s") (simp_all add: cut_at_def)

lemma cut_at_no: "cut_at c s = (a, b) \<Longrightarrow> c \<notin> set a"
  by (auto simp: cut_at_def dest!: set_takeWhileD)

lemma TrimSuffix_cases: "s = TrimSuffix s p \<or> s = TrimSuffix s p @ p"
  by (auto simp: TrimSuffix_def HasSuffix_def) (metis append_take_drop_id)

lemma api_writes_item:
  assumes "take (Suc (length path)) (rq_Path rq) = path @ ''/''" "rq_Method rq \<in> {''PUT'', ''DELETE''}"
    and "cut_at CHR ''/'' (TrimSuffix (TrimPrefix (rq_Path rq) (path @ ''/'')) ''/'') = (name, None)"
  shows "api_writes lib rq path name"
proof -
  let ?rest = "drop (Suc (length path)) (rq_Path rq)"
  have p: "rq_Path rq = path @ ''/'' @ ?rest"
    using assms(1) append_take_drop_id [of "Suc (length path)" "rq_Path rq"] by (metis append.assoc)
  have "TrimPrefix (rq_Path rq) (path @ ''/'') = ?rest" using assms(1) by (simp add: TrimPrefix_def)
  with cut_at_None [OF assms(3)] TrimSuffix_cases [of ?rest "''/''"] have "?rest = name \<or> ?rest = name @ ''/''" by simp
  with p assms(2) cut_at_no [OF assms(3)] show ?thesis unfolding api_writes_def by (elim disjE) auto
qed

text \<open>A request writes at most one object.\<close>

lemma resource_named:
  "(path, k) \<in> set resources \<Longrightarrow> path = ''/api/'' @ takeWhile (\<lambda>c. c \<noteq> CHR ''/'') (drop 5 (path @ CHR ''/'' # x))"
  by (auto simp: resources_def)

lemma api_writes_unique:
  assumes "(path, k) \<in> set resources" "(path', k') \<in> set resources"
    and "api_writes lib rq path name" "api_writes lib rq path' name'"
  shows "k' = k \<and> name' = name"
proof (cases "rq_Method rq = ''POST''")
  case True
  with assms show ?thesis by (auto simp: api_writes_def resources_def)
next
  case False
  with assms(3,4) have n: "CHR ''/'' \<notin> set name" "CHR ''/'' \<notin> set name'"
    and p: "rq_Path rq = path @ ''/'' @ name \<or> rq_Path rq = path @ ''/'' @ name @ ''/''"
      "rq_Path rq = path' @ ''/'' @ name' \<or> rq_Path rq = path' @ ''/'' @ name' @ ''/''"
    by (auto simp: api_writes_def)
  then have eq: "path' = path"
    using resource_named [OF assms(1)] resource_named [OF assms(2)] by (elim disjE) (metis append_Cons append_Nil)+
  with assms(1,2) have "k' = k" by (auto simp: resources_def)
  with p n eq show ?thesis by auto
qed

text \<open>The handlers there are routes to, and the paths that lead to them.\<close>

lemma routes_cases:
  assumes "(pat, h) \<in> set (routes srv)"
  obtains "h \<in> {HSummary, HActivity, HHealth, HUI}"
  | path k where "(path, k) \<in> set resources" "pat = path @ ''/''" "h = HItem k path"
  | path k where "(path, k) \<in> set resources" "pat = path" "h = HCollection k None"
  using assms unfolding routes_def registerCRUDRoutes_eq by (auto split: if_splits)

lemma mux_handler_Routed:
  assumes "mux_handler mux meth p = Routed pat h"
  shows "(pat, h) \<in> set mux \<and> pattern_matches pat p"
proof -
  let ?path = "if meth = ''CONNECT'' then p else cleanPath p"
  from assms have "?path = p" "mux_match mux ?path = Some (pat, h)"
    by (auto simp: mux_handler_def Let_def split: if_splits option.splits prod.splits)
  then have "foldl better None (filter (\<lambda>m. pattern_matches (fst m) p) mux) = Some (pat, h)"
    by (simp add: mux_match_def)
  from foldl_better [OF this] show ?thesis by auto
qed

lemma resource_no_slash: "(path, k) \<in> set resources \<Longrightarrow> pattern_matches path p \<Longrightarrow> p = path"
  by (auto simp: resources_def pattern_matches_def)

section \<open>What the API relies on\<close>

text \<open>
  Beside the client's interface. Decoding into an object keeps its kind. The server's answer to a
  creation is the object it has stored, which has no status; the client decodes it into the object
  it has sent, and decoding leaves what is absent from the text as it was: all of the stored object
  arrives, and a status that was sent stays. \<open>sort.Slice\<close> sorts by any strict weak order. Reading
  pods and logs or calling an agent writes no object.
\<close>

definition strict_weak :: "('a \<Rightarrow> 'a \<Rightarrow> bool) \<Rightarrow> bool" where
  "strict_weak before \<longleftrightarrow>
     (\<forall>a b. before a b \<longrightarrow> \<not> before b a) \<and> (\<forall>a b c. before a c \<longrightarrow> before a b \<or> before b c)"

locale control_plane = kube_api "srv_Client srv" store for srv :: "'w Server" and store :: "'w \<Rightarrow> store" +
  fixes lib :: "'w apilib"
  assumes unmarshal_kind: "al_Unmarshal lib b ob = Inr ob' \<Longrightarrow> kind_of ob' = kind_of ob"
    and answer_created: "(path, kind_of ob) \<in> set resources \<Longrightarrow> store w (kind_of ob) (key_of ob) = Some ob' \<Longrightarrow>
          kept (fresh ob) ob' \<Longrightarrow> al_Answer lib w ob = put_status ob ob'"
    and sort_slice: "strict_weak before \<Longrightarrow> mset (al_SortSlice lib before evs) = mset evs \<and>
          sorted_wrt (\<lambda>a b. \<not> before b a) (al_SortSlice lib before evs)"
    and do_same: "run_state (al_Do lib u d) w = (r, w') \<Longrightarrow> store w' = store w"
    and get_pod_same: "srv_Clientset srv = Some cs \<Longrightarrow> run_state (cs_GetPod cs ns n) w = (r1, w') \<Longrightarrow> store w' = store w"
    and list_pods_same: "srv_Clientset srv = Some cs \<Longrightarrow> run_state (cs_ListPods cs ns sel) w = (r2, w') \<Longrightarrow> store w' = store w"
    and logs_same: "srv_Clientset srv = Some cs \<Longrightarrow> run_state (cs_Logs cs ns n opts) w = (r3, w') \<Longrightarrow> store w' = store w"
begin

lemma guar_do: "guar (touches store F) (al_Do lib u d)"
  by (rule guarI) (auto intro: touches_same do_same)

lemma guar_clientset:
  assumes "srv_Clientset srv = Some cs"
  shows "guar (touches store F) (cs_GetPod cs ns n)" "guar (touches store F) (cs_ListPods cs ns sel)"
    "guar (touches store F) (cs_Logs cs ns n opts)"
  by (rule guarI; use assms in \<open>auto intro: touches_same get_pod_same list_pods_same logs_same\<close>)+

lemmas guar_reads = fp.guar_compose guar_get guar_list guar_getAs guar_listAs guar_do

lemma guar_state_get: "guar (touches store F) State_Monad.get"
  by (rule guarI) (auto simp: State_Monad.get_def touches_def)

section \<open>Handlers that read\<close>

lemma guar_agent_responses: "guar (touches store F) (agent_responses srv as)"
  by (induction as) (auto intro!: guar_reads simp: Let_def split: sum.split)

lemma guar_handleAgents: "guar (touches store F) (handleAgents srv)"
  unfolding handleAgents_def by (intro guar_reads guar_agent_responses)

lemma guar_handleSummary: "guar (touches store F) (handleSummary srv)"
  unfolding handleSummary_def by (intro guar_reads)

lemma guar_getPodLogs: "guar (touches store F) (getPodLogs srv n k)"
  unfolding getPodLogs_def by (intro guar_reads guar_clientset)

lemma guar_collectEvents: "guar (touches store F) (collectEvents srv lib as evs)"
  by (induction as arbitrary: evs)
    (auto intro!: guar_reads guar_getPodLogs simp: Let_def agentPods_def split: list.split)

lemma guar_handleActivity: "guar (touches store F) (handleActivity srv lib)"
  unfolding handleActivity_def Let_def by (intro guar_reads guar_collectEvents)

lemma guar_podByLabel: "srv_Clientset srv = Some cs \<Longrightarrow> guar (touches store F) (podByLabel srv lib cs n)"
  unfolding podByLabel_def
  by (intro fp.guar_bind guar_clientset) (auto intro!: fp.guar_compose split: sum.split list.split)

lemma guar_resolveAgentPod: "guar (touches store F) (resolveAgentPod srv lib n)"
  unfolding resolveAgentPod_def by (intro guar_reads guar_clientset guar_podByLabel) simp_all

lemma guar_handleAgentLogs: "guar (touches store F) (handleAgentLogs srv lib rq n)"
  unfolding handleAgentLogs_def
  by (intro fp.guar_if fp.guar_return fp.guar_bind guar_resolveAgentPod)
    (auto intro!: fp.guar_return fp.guar_bind guar_clientset split: prod.split sum.split option.split err.split)

lemma guar_resolveGatewayURL: "guar (touches store F) (resolveGatewayURL srv lib n)"
  unfolding resolveGatewayURL_def resolveGatewayFromCR_def Let_def by (intro guar_reads)

lemma guar_handleAgentChat: "guar (touches store F) (handleAgentChat srv lib rq n)"
  unfolding handleAgentChat_def relayChat_def Let_def by (intro guar_reads guar_resolveGatewayURL)

lemma guar_handleGetOne: "guar (touches store F) (handleGetOne srv lib n k)"
  unfolding handleGetOne_def by (intro guar_reads)

lemma guar_handleList: "guar (touches store F) (handleList srv lib k)"
  unfolding handleList_def by (intro guar_reads)

lemmas guar_readers = guar_handleSummary guar_handleActivity guar_handleAgentLogs guar_handleAgentChat
  guar_handleGetOne guar_handleList

section \<open>Handlers that write\<close>

lemma key_setNameNs [simp]: "key_of (setNameNs name ns ob) = nn name ns" "kind_of (setNameNs name ns ob) = kind_of ob"
  by (simp_all add: setNameNs_def key_of_def)

lemma key_restoreMeta [simp]: "key_of (restoreMeta name ns old ob) = nn name ns" "kind_of (restoreMeta name ns old ob) = kind_of ob"
  by (simp_all add: restoreMeta_def key_of_def)

lemma kind_newObj: "(path, k) \<in> set resources \<Longrightarrow> kind_of (newObj k) = k"
  by (auto simp: resources_def)

lemma guar_storeCreated:
  "(kind_of ob, key_of ob) \<in> F \<Longrightarrow> guar (touches store F) (storeCreated srv lib ob)"
  unfolding storeCreated_def by (intro guar_reads guar_create guar_state_get)

lemma guar_storeUpdated:
  "(kind_of ob, key_of ob) \<in> F \<Longrightarrow> guar (touches store F) (storeUpdated srv lib ob)"
  unfolding storeUpdated_def by (intro guar_reads guar_update guar_state_get)

lemma guar_handleCreate:
  assumes "(path, k) \<in> set resources"
    and "\<And>body name. rq_Body rq = Some body \<Longrightarrow> decode_crud lib body = Inr name \<Longrightarrow> (k, nn name (srv_Namespace srv)) \<in> F"
  shows "guar (touches store F) (handleCreate srv lib rq k)"
  unfolding handleCreate_def
  using assms(2)
  by (auto intro!: fp.guar_return guar_storeCreated split: option.split sum.split
      dest!: unmarshal_kind simp: kind_newObj [OF assms(1)])

lemma guar_handleUpdate:
  assumes "(k, nn name (srv_Namespace srv)) \<in> F"
  shows "guar (touches store F) (handleUpdate srv lib rq name k)"
  unfolding handleUpdate_def
  using assms
  by (auto intro!: fp.guar_return guar_get_bind guar_storeUpdated split: option.split sum.split
      dest!: unmarshal_kind)

lemma guar_handleDelete:
  assumes "(path, k) \<in> set resources" "(k, nn name (srv_Namespace srv)) \<in> F"
  shows "guar (touches store F) (handleDelete srv name k)"
  unfolding handleDelete_def
  by (intro guar_reads guar_delete) (simp_all add: kind_newObj [OF assms(1)] assms(2))

section \<open>What a request can change\<close>

lemma guar_handleItem:
  assumes "(path, k) \<in> set resources"
    and "\<And>name. cut_at CHR ''/'' (TrimSuffix (TrimPrefix (rq_Path rq) (path @ ''/'')) ''/'') = (name, None) \<Longrightarrow>
      rq_Method rq \<in> {''PUT'', ''DELETE''} \<Longrightarrow> (k, nn name (srv_Namespace srv)) \<in> F"
  shows "guar (touches store F) (handleItem srv lib rq k path)"
  unfolding handleItem_def Let_def
  by (auto intro!: fp.guar_return guar_readers guar_handleUpdate guar_handleDelete [OF assms(1)] assms(2)
      split: prod.split option.split)

lemma guar_serveMux:
  assumes "\<And>path k name. (path, k) \<in> set resources \<Longrightarrow> api_writes lib rq path name \<Longrightarrow>
    (k, nn name (srv_Namespace srv)) \<in> F"
  shows "guar (touches store F) (serveMux srv lib rq)"
proof (cases "mux_handler (routes srv) (rq_Method rq) (rq_Path rq)")
  case (Routed pat h)
  from mux_handler_Routed [OF this] have pat: "(pat, h) \<in> set (routes srv)" "pattern_matches pat (rq_Path rq)" by auto
  from pat(1) have "guar (touches store F) (dispatch srv lib rq h)"
  proof (cases rule: routes_cases)
    case 1
    then show ?thesis by (auto intro!: guar_readers fp.guar_return)
  next
    case (2 path k)
    with pat(2) have "take (Suc (length path)) (rq_Path rq) = path @ ''/''"
      by (metis length_append_singleton order_refl pattern_matches_def take_all)
    with 2 show ?thesis by (auto intro!: guar_handleItem assms api_writes_item)
  next
    case (3 path k)
    with pat(2) have "rq_Path rq = path" using resource_no_slash by blast
    with 3 show ?thesis
      by (auto intro!: fp.guar_return guar_handleList guar_handleCreate assms simp: api_writes_def)
  qed
  with Routed show ?thesis by (simp add: serveMux_def)
qed (simp_all add: serveMux_def fp.guar_return)

lemma guar_serve:
  assumes "\<And>path k name. (path, k) \<in> set resources \<Longrightarrow> api_writes lib rq path name \<Longrightarrow>
    (k, nn name (srv_Namespace srv)) \<in> F"
  shows "guar (touches store F) (serve srv lib rq)"
  unfolding serve_def withCORS_def by (intro fp.guar_compose guar_serveMux assms)

end

text \<open>An API on the in-memory server, for examples: pods and their logs are read from the same store.\<close>

definition example_clientset :: "mem clientset" where
  "example_clientset = \<lparr>
     cs_GetPod = (\<lambda>ns n. State (\<lambda>m. (case mem_store m KPod (nn n ns) of Some (OPod p) \<Rightarrow> Inr p | _ \<Rightarrow> Inl (NotFound n), m))),
     cs_ListPods = (\<lambda>ns sel. State (\<lambda>m.
       (Inr (List.map_filter (\<lambda>ob. case asPod ob of
           Some p \<Rightarrow> if mget (Meta_Labels (Pod_Meta p)) ''app'' = Some (drop 4 sel) then Some p else None
         | None \<Rightarrow> None) (mem_list m KPod ns)), m))),
     cs_Logs = (\<lambda>ns n opts. State (\<lambda>m. (Inr (''starting'' @ nl @ ''ready'' @ nl), m)))\<rparr>"

definition example_server :: "mem Server" where
  "example_server = \<lparr>srv_Client = mem_client, srv_Clientset = Some example_clientset, srv_Namespace = ''prod'',
     srv_Port = 8090, srv_UIAssets = None\<rparr>"

definition example_marshal :: "Obj \<Rightarrow> json" where
  "example_marshal ob = jobj [(''metadata'', jobj [(''name'', JStr (Meta_Name (meta_of ob))),
     (''namespace'', JStr (Meta_Namespace (meta_of ob)))])]"

text \<open>Sorting by insertion.\<close>

fun insert_by :: "('a \<Rightarrow> 'a \<Rightarrow> bool) \<Rightarrow> 'a \<Rightarrow> 'a list \<Rightarrow> 'a list" where
  "insert_by before x [] = [x]"
| "insert_by before x (y # ys) = (if before y x then y # insert_by before x ys else x # y # ys)"

definition sort_by :: "('a \<Rightarrow> 'a \<Rightarrow> bool) \<Rightarrow> 'a list \<Rightarrow> 'a list" where
  "sort_by before xs = foldr (insert_by before) xs []"

lemma mset_insert_by [simp]: "mset (insert_by before x xs) = {#x#} + mset xs"
  by (induction xs) auto

lemma set_insert_by [simp]: "set (insert_by before x xs) = insert x (set xs)"
  by (simp flip: set_mset_mset)

lemma sorted_insert_by:
  assumes "strict_weak before"
  shows "sorted_wrt (\<lambda>a b. \<not> before b a) xs \<Longrightarrow> sorted_wrt (\<lambda>a b. \<not> before b a) (insert_by before x xs)"
proof (induction xs)
  case (Cons y ys)
  show ?case
  proof (cases "before y x")
    case True
    with assms have "\<not> before x y" unfolding strict_weak_def by blast
    with True Cons show ?thesis by simp
  next
    case False
    have "\<not> before z x" if "z \<in> set ys" for z
      using that Cons.prems False assms unfolding strict_weak_def sorted_wrt.simps by blast
    with False Cons.prems show ?thesis by simp
  qed
qed simp

lemma sort_by_sorts:
  assumes "strict_weak before"
  shows "mset (sort_by before xs) = mset xs \<and> sorted_wrt (\<lambda>a b. \<not> before b a) (sort_by before xs)"
  unfolding sort_by_def by (induction xs) (auto simp: sorted_insert_by [OF assms])

definition example_lib :: "mem apilib" where
  "example_lib = \<lparr>
     al_Quote = (\<lambda>s. dq @ s @ dq),
     al_DecodeError = (\<lambda>_. ''unexpected end of JSON input''),
     al_Number = (\<lambda>_. Some 0),
     al_SortSlice = sort_by,
     al_Marshal = example_marshal,
     al_MarshalList = (\<lambda>k obs. jobj [(''items'', JArr (map example_marshal obs))]),
     al_Unmarshal = (\<lambda>b ob. case json_parse b of Some (JObj _) \<Rightarrow> Inr ob | _ \<Rightarrow> Inl ''invalid''),
     al_Answer = (\<lambda>m ob. case mem_store m (kind_of ob) (key_of ob) of Some ob' \<Rightarrow>
       if fresh ob' = ob' then put_status ob ob' else ob' | None \<Rightarrow> ob),
     al_NewRequest = (\<lambda>_. None),
     al_Do = (\<lambda>u d. State (\<lambda>m. (Inr (200, d), m)))\<rparr>"

lemma example_simps [simp]:
  "srv_Client example_server = mem_client" "srv_Clientset example_server = Some example_clientset"
  "srv_Namespace example_server = ''prod''"
  by (simp_all add: example_server_def)

lemma status_put_back:
  "a\<lparr>Agent_Meta := m\<rparr> = b\<lparr>Agent_Status := st\<rparr> \<Longrightarrow> a\<lparr>Agent_Status := st\<rparr> = a"
  "a\<lparr>Agent_Meta := m\<rparr> = b \<Longrightarrow> a\<lparr>Agent_Status := Agent_Status b\<rparr> = a"
  "o1\<lparr>Observability_Meta := m\<rparr> = o2\<lparr>Observability_Status := ost\<rparr> \<Longrightarrow> o1\<lparr>Observability_Status := ost\<rparr> = o1"
  "o1\<lparr>Observability_Meta := m\<rparr> = o2 \<Longrightarrow> o1\<lparr>Observability_Status := Observability_Status o2\<rparr> = o1"
  by (cases a; cases b; cases o1; cases o2; simp)+

lemma kept_fresh_fresh:
  assumes "(path, kind_of ob) \<in> set resources" "kept (fresh ob) ob'"
  shows "fresh ob' = ob'"
  using assms by (cases ob; cases ob') (auto simp: kept_def resources_def elim: status_put_back)

interpretation example_api: control_plane example_server mem_store example_lib
proof (intro control_plane.intro control_plane_axioms.intro)
  show "kube_api (srv_Client example_server) mem_store" by (simp add: mem.kube_api_axioms)
  show "mset (al_SortSlice example_lib before evs) = mset evs \<and> sorted_wrt (\<lambda>a b. \<not> before b a) (al_SortSlice example_lib before evs)"
    if "strict_weak before" for before evs
    using sort_by_sorts [OF that] by (simp add: example_lib_def)
  show "al_Answer example_lib w ob = put_status ob ob'"
    if "(path, kind_of ob) \<in> set resources" "mem_store w (kind_of ob) (key_of ob) = Some ob'" "kept (fresh ob) ob'"
    for path w ob ob'
    using that kept_fresh_fresh by (simp add: example_lib_def)
qed (auto simp: example_lib_def example_clientset_def split: option.splits json.splits)

definition request :: "string \<Rightarrow> string \<Rightarrow> string \<Rightarrow> Request" where
  "request meth path body = \<lparr>rq_Method = meth, rq_Path = path, rq_Query = (\<lambda>_. ''''), rq_Body = Some body,
     rq_Done = (\<lambda>_. False)\<rparr>"

definition example_channel :: "string \<Rightarrow> ClawChannel" where
  "example_channel n = \<lparr>Channel_Meta = new_meta n ''prod'' [],
     Channel_Spec = \<lparr>Ch_Type = ''slack'', Ch_Enabled = None, Ch_CredentialsSecret = '''', Ch_Config = []\<rparr>\<rparr>"

definition channels_world :: mem where
  "channels_world = mem_put (OClawChannel (example_channel ''ops'')) (mem_put (OClawChannel (example_channel ''web'')) [])"

text \<open>C28: Whatever a client sends to the API and whatever the API server answers, a request changes
  nothing outside one object: that of the kind and the name its path (or, for a creation, its
  body) gives, in the API's own namespace, and only if it is a POST to a resource, or a PUT or a
  DELETE of an item. Every other request leaves all objects as they are.\<close>

theorem api_footprint:
  assumes "control_plane srv store lib" "run_state (serve srv lib rq) w = (acts, w')"
  shows "store w' = store w \<or>
    (\<exists>path k name. (path, k) \<in> set resources \<and> api_writes lib rq path name \<and>
       touches store {(k, nn name (srv_Namespace srv))} w w')"
proof (cases "\<exists>path k name. (path, k) \<in> set resources \<and> api_writes lib rq path name")
  case True
  then obtain path k name where r: "(path, k) \<in> set resources" "api_writes lib rq path name" by blast
  with api_writes_unique have "guar (touches store {(k, nn name (srv_Namespace srv))}) (serve srv lib rq)"
    by (intro control_plane.guar_serve [OF assms(1)]) fastforce
  with assms(2) r show ?thesis by (blast dest: guarD)
next
  case False
  then have "guar (touches store {}) (serve srv lib rq)"
    by (intro control_plane.guar_serve [OF assms(1)]) blast
  with assms(2) show ?thesis by (auto dest: guarD simp: touches_empty)
qed

theorem api_footprint_witness:
  "mem_store (snd (run_state (serve example_server example_lib (request ''DELETE'' ''/api/channels/ops'' '''')) channels_world))
     KClawChannel (nn ''web'' ''prod'') = Some (OClawChannel (example_channel ''web''))"
proof -
  let ?rq = "request ''DELETE'' ''/api/channels/ops'' ''''"
  obtain acts w' where run: "run_state (serve example_server example_lib ?rq) channels_world = (acts, w')" by fastforce
  have web: "mem_store channels_world KClawChannel (nn ''web'' ''prod'') = Some (OClawChannel (example_channel ''web''))"
    by (simp add: channels_world_def example_channel_def key_of_def)
  have ops: "(''/api/channels'', KClawChannel) \<in> set resources" "api_writes example_lib ?rq ''/api/channels'' ''ops''"
    by (simp_all add: resources_def api_writes_def request_def)
  from api_footprint [OF example_api.control_plane_axioms run]
  have "mem_store w' KClawChannel (nn ''web'' ''prod'') = mem_store channels_world KClawChannel (nn ''web'' ''prod'')"
  proof (elim disjE exE conjE)
    fix path k name
    assume "(path, k) \<in> set resources" "api_writes example_lib ?rq path name"
      and t: "touches mem_store {(k, nn name (srv_Namespace example_server))} channels_world w'"
    with api_writes_unique [OF ops(1) _ ops(2)] have "k = KClawChannel" "name = ''ops''" by blast+
    with t show ?thesis by (simp add: touches_def)
  qed simp
  with run web show ?thesis by simp
qed

section \<open>What is created is read back\<close>

lemmas response_defs = respond_def status_of_def header_of_def body_of_def send_header_def no_response_def writeJSON_def
  cors_headers_def httpError_def flush_out_def wire_header_def bodyAllowedForStatus_def

lemma created_response:
  "status_of (cors_headers @ WriteHeader 201 # writeJSON v) = 201"
  "header_of (cors_headers @ WriteHeader 201 # writeJSON v) ''Content-Type'' =
     (if body_of (writeJSON v) = '''' then None else Some (DetectContentType (body_of (writeJSON v))))"
  "body_of (cors_headers @ WriteHeader 201 # writeJSON v) = body_of (writeJSON v)"
  by (simp_all add: response_defs gomap_simps mget_def)

lemma json_response:
  "status_of (cors_headers @ writeJSON v) = 200"
  "header_of (cors_headers @ writeJSON v) ''Content-Type'' = Some ''application/json''"
  "body_of (cors_headers @ writeJSON v) = body_of (writeJSON v)"
  by (simp_all add: response_defs gomap_simps mget_def)

lemma body_writeJSON: "bad_float v = None \<Longrightarrow> body_of (writeJSON v) = marshal v @ nl"
  by (simp add: response_defs)

lemma serve_collection:
  assumes "(path, k) \<in> set resources" "rq_Path rq = path"
  shows "rq_Method rq = ''POST'' \<Longrightarrow> serve srv lib rq =
      State_Monad.bind (handleCreate srv lib rq k) (\<lambda>acts. State_Monad.return (cors_headers @ acts))"
    and "rq_Method rq = ''GET'' \<Longrightarrow> serve srv lib rq =
      State_Monad.bind (handleList srv lib k) (\<lambda>acts. State_Monad.return (cors_headers @ acts))"
  by (simp_all add: serve_def withCORS_def serveMux_def assms(2) route_collection [OF assms(1)])

lemma item_path:
  assumes "(path, k) \<in> set resources" "segment n"
  shows "cleanPath (path @ ''/'' @ n) = path @ ''/'' @ n"
proof -
  obtain s where "segment s" "path = path_of [''api'', s]" using resource_path [OF assms(1)] by blast
  with assms(2) cleanPath_path_of [of "[''api'', s, n]"] show ?thesis by simp
qed

lemma no_trim: "CHR ''/'' \<notin> set n \<Longrightarrow> TrimSuffix n ''/'' = n"
  by (cases n rule: rev_cases) (auto simp: TrimSuffix_def)

lemma cut_at_plain: "c \<notin> set n \<Longrightarrow> cut_at c n = (n, None)"
proof -
  assume "c \<notin> set n"
  then have "dropWhile (\<lambda>x. x \<noteq> c) n = []" "takeWhile (\<lambda>x. x \<noteq> c) n = n"
    by (auto simp: takeWhile_eq_all_conv)
  then show ?thesis by (simp only: cut_at_def list.case)
qed

lemma serve_item:
  assumes "(path, k) \<in> set resources" "rq_Path rq = path @ ''/'' @ n" "segment n" "rq_Method rq = ''GET''"
  shows "serve srv lib rq =
      State_Monad.bind (handleGetOne srv lib n k) (\<lambda>acts. State_Monad.return (cors_headers @ acts))"
proof -
  have "serveMux srv lib rq = handleItem srv lib rq k path"
    by (simp add: serveMux_def assms(2) route_item [OF assms(1) item_path [OF assms(1,3)], simplified])
  moreover have "handleItem srv lib rq k path = handleGetOne srv lib n k"
    using assms(3,4) by (simp add: handleItem_def assms(2) TrimPrefix_def no_trim cut_at_plain segment_def)
  ultimately show ?thesis using assms(4) by (simp add: serve_def withCORS_def)
qed

locale reliable_plane = control_plane srv store lib + kube_reliable "srv_Client srv" store
  for srv :: "'w Server" and store :: "'w \<Rightarrow> store" and lib :: "'w apilib"
begin

lemma storeCreated_run:
  assumes "(path, kind_of ob) \<in> set resources" "store w (kind_of ob) (key_of ob) = None"
  shows "\<exists>ob' w1. kept (fresh ob) ob' \<and> store w1 = store_put ob' (store w) \<and>
    run_state (storeCreated srv lib ob) w = (WriteHeader 201 # writeJSON (al_Marshal lib (put_status ob ob')), w1)"
proof -
  from create_ok [OF assms(2)] obtain w1 where w1: "run_state (kube_Create (srv_Client srv) ob) w = (Inr (), w1)" by blast
  from create_Inr [OF this] obtain ob' where ob': "kept (fresh ob) ob'" "store w1 = store_put ob' (store w)"
    by (auto simp: created_def)
  then have "al_Answer lib w1 ob = put_status ob ob'" by (intro answer_created [OF assms(1)]) (simp_all add: kept_kind kept_key)
  with w1 have "run_state (storeCreated srv lib ob) w = (WriteHeader 201 # writeJSON (al_Marshal lib (put_status ob ob')), w1)"
    by (simp add: storeCreated_def State_Monad.get_def)
  with ob' show ?thesis by blast
qed

lemma handleGetOne_run:
  assumes "store w k (nn n (srv_Namespace srv)) = Some ob"
  shows "\<exists>w1. store w1 = store w \<and> run_state (handleGetOne srv lib n k) w = (writeJSON (al_Marshal lib ob), w1)"
proof -
  from get_Some [OF assms] obtain w1 where w1: "run_state (kube_Get (srv_Client srv) k (nn n (srv_Namespace srv))) w = (Inr ob, w1)"
    by blast
  with get_same [OF w1] show ?thesis by (auto simp: handleGetOne_def)
qed

lemma created_read_run:
  assumes "(path, k) \<in> set resources"
    and "rq_Method rq = ''POST''" "rq_Path rq = path" "rq_Body rq = Some body"
    and "decode_crud lib body = Inr name" "segment name" "al_Unmarshal lib body (newObj k) = Inr ob"
    and "store w k (nn name (srv_Namespace srv)) = None"
    and "rq_Method rq' = ''GET''" "rq_Path rq' = path @ ''/'' @ name"
    and "run_state (serve srv lib rq) w = (acts, w1)" "run_state (serve srv lib rq') w1 = (acts', w2)"
  shows "\<exists>ob'. kept (fresh (setNameNs name (srv_Namespace srv) ob)) ob' \<and> store w1 = store_put ob' (store w) \<and> store w2 = store w1 \<and>
    acts = cors_headers @ WriteHeader 201 # writeJSON (al_Marshal lib (put_status (setNameNs name (srv_Namespace srv) ob) ob')) \<and>
    acts' = cors_headers @ writeJSON (al_Marshal lib ob')"
proof -
  let ?ob = "setNameNs name (srv_Namespace srv) ob"
  have k: "kind_of ?ob = k" using unmarshal_kind [OF assms(7)] kind_newObj [OF assms(1)] by simp
  have "handleCreate srv lib rq k = storeCreated srv lib ?ob"
    using assms(4-7) by (simp add: handleCreate_def segment_def)
  with storeCreated_run [of path ?ob w] k assms(1,8) obtain ob' w1' where
    ob': "kept (fresh ?ob) ob'" "store w1' = store_put ob' (store w)"
      "run_state (handleCreate srv lib rq k) w = (WriteHeader 201 # writeJSON (al_Marshal lib (put_status ?ob ob')), w1')" by auto
  with assms(11) have 1: "acts = cors_headers @ WriteHeader 201 # writeJSON (al_Marshal lib (put_status ?ob ob'))" "w1' = w1"
    by (auto simp: serve_collection(1) [OF assms(1,3,2)])
  have "store w1 k (nn name (srv_Namespace srv)) = Some ob'"
    using ob' k kept_kind [OF ob'(1)] kept_key [OF ob'(1)] by (simp add: 1(2))
  from handleGetOne_run [OF this] assms(12) have "store w2 = store w1" "acts' = cors_headers @ writeJSON (al_Marshal lib ob')"
    by (auto simp: serve_item [OF assms(1,10,6,9)])
  with ob' 1 show ?thesis by auto
qed

end

interpretation example_plane: reliable_plane example_server mem_store example_lib
  by (intro reliable_plane.intro example_api.control_plane_axioms) (simp add: mem.kube_reliable_axioms)

text \<open>Without a status that was sent, the answer of a creation is what is stored.\<close>

lemma put_status_stored:
  assumes "(path, kind_of ob) \<in> set resources" "kept (fresh ob) ob'" "fresh ob = ob"
  shows "put_status ob ob' = ob'"
  using assms by (cases ob; cases ob') (auto simp: kept_def resources_def elim: status_put_back)



end
