(* ===== verification/ApiFeeds.thy ===== *)
theory ApiFeeds
  imports ApiProperties
begin

text \<open>
  The two feeds of the control plane API: the log stream, which a browser's event source reads back
  line by line, and the activity list, which is bounded, sorted and about stored agents only.
\<close>

section \<open>Server-Sent Events\<close>

text \<open>
  How an \<open>EventSource\<close> reads a stream (after the HTML standard; the stream begins with no byte order
  mark): lines end with LF, CR or CRLF; the values of \<open>data\<close> fields are collected up to an empty
  line, which dispatches them; what no empty line ends is dropped.
\<close>

fun lf_only :: "bool \<Rightarrow> string \<Rightarrow> string" where
  "lf_only after_CR [] = []"
| "lf_only after_CR (c # s) =
     (if c = CHR 0x0D then CHR 0x0A # lf_only True s
      else if c = CHR 0x0A \<and> after_CR then lf_only False s
      else c # lf_only False s)"

fun sse_events :: "string option \<Rightarrow> string list \<Rightarrow> string list" where
  "sse_events buf [] = []"
| "sse_events buf (l # ls) =
     (if l = '''' then (case buf of None \<Rightarrow> sse_events None ls | Some d \<Rightarrow> d # sse_events None ls)
      else (case cut_at CHR '':'' l of (field, v) \<Rightarrow>
        if field = ''data''
        then (let value = (case v of None \<Rightarrow> '''' | Some x \<Rightarrow> TrimPrefix x '' '') in
              sse_events (Some (case buf of None \<Rightarrow> value | Some d \<Rightarrow> d @ nl @ value)) ls)
        else sse_events buf ls))"

definition event_source :: "string \<Rightarrow> string list" where
  "event_source s = sse_events None (butlast (split_at CHR 0x0A (lf_only False s)))"

text \<open>What the handler writes for a line, and that it is read back.\<close>

definition frame_line :: "string \<Rightarrow> string" where
  "frame_line l = ''data: '' @ l @ nl @ nl"

lemma lf_only_plain: "CHR 0x0D \<notin> set s \<Longrightarrow> lf_only False s = s"
  by (induction s) auto

lemma split_frame:
  assumes "CHR 0x0A \<notin> set l"
  shows "split_at CHR 0x0A (frame_line l @ s) = (''data: '' @ l) # [] # split_at CHR 0x0A s"
proof -
  have "frame_line l @ s = (''data: '' @ l) @ CHR 0x0A # CHR 0x0A # s" by (simp add: frame_line_def nl_def)
  moreover have "split_at CHR 0x0A (''data: '' @ l) = [''data: '' @ l]" using assms by (intro split_at_plain) simp
  ultimately show ?thesis by (simp only: split_at_append split_at.simps) simp
qed

lemma event_source_frames:
  assumes "\<forall>l \<in> set ls. CHR 0x0A \<notin> set l \<and> CHR 0x0D \<notin> set l"
  shows "event_source (concat (map frame_line ls)) = ls"
proof -
  have "CHR 0x0D \<notin> set (concat (map frame_line ls))" using assms by (auto simp: frame_line_def nl_def)
  moreover have "sse_events None (butlast (split_at CHR 0x0A (concat (map frame_line ls)))) = ls"
    using assms
  proof (induction ls)
    case (Cons l ls)
    then show ?case by (simp add: split_frame cut_at_def TrimPrefix_def)
  qed simp
  ultimately show ?thesis by (simp add: event_source_def lf_only_plain)
qed

lemma scan_lines_no_newline: "l \<in> set (scan_lines s) \<Longrightarrow> CHR 0x0A \<notin> set l"
proof (induction s rule: scan_lines.induct)
  case (1 s)
  obtain a b where ab: "cut_at CHR 0x0A s = (a, b)" by fastforce
  then have no: "CHR 0x0A \<notin> set (dropCR a)"
    using cut_at_no [OF ab] by (auto simp: dropCR_def dest: in_set_butlastD)
  have "scan_lines s = (if s = [] \<or> MaxScanTokenSize \<le> length a then []
      else dropCR a # (case b of None \<Rightarrow> [] | Some r \<Rightarrow> scan_lines r))"
    by (subst scan_lines.simps) (simp add: ab)
  with "1.prems" "1.IH" [OF _ refl ab [symmetric]] no show ?case
    by (auto split: if_splits option.splits)
qed

lemma scan_lines_Nil [simp]: "scan_lines [] = []"
  by (subst scan_lines.simps) simp

text \<open>
  The lines of a log, apart from any reader: the pieces between its newlines, the last of which is
  a line only if there is something in it; the text of a line does not hold the carriage return of
  a CRLF at its end.
\<close>

definition log_lines :: "string \<Rightarrow> string list" where
  "log_lines s = (let ps = split_at CHR 0x0A s in if last ps = '''' then butlast ps else ps)"

definition line_text :: "string \<Rightarrow> string" where
  "line_text l = (if l \<noteq> '''' \<and> last l = CHR 0x0D then butlast l else l)"

lemma dropCR_line_text: "dropCR l = line_text l"
  by (cases l rule: rev_cases) (auto simp: dropCR_def line_text_def HasSuffix_def)

lemma cut_at_Some: "cut_at c s = (a, Some b) \<Longrightarrow> s = a @ c # b"
  using takeWhile_dropWhile_id [of "\<lambda>x. x \<noteq> c" s] hd_dropWhile [of "\<lambda>x. x \<noteq> c" s]
  by (cases "dropWhile (\<lambda>x. x \<noteq> c) s") (auto simp: cut_at_def)

lemma log_lines_line: "CHR 0x0A \<notin> set l \<Longrightarrow> log_lines (l @ CHR 0x0A # s) = l # log_lines s"
proof -
  assume "CHR 0x0A \<notin> set l"
  then have "split_at CHR 0x0A l = [l]" by (rule split_at_plain)
  then have "split_at CHR 0x0A (l @ CHR 0x0A # s) = l # split_at CHR 0x0A s" by (simp add: split_at_append)
  then show ?thesis by (simp add: log_lines_def Let_def)
qed

lemma log_lines_end: "CHR 0x0A \<notin> set l \<Longrightarrow> log_lines l = (if l = '''' then [] else [l])"
  by (simp add: log_lines_def split_at_plain)

text \<open>The scanner gives the lines before the first that does not fit its buffer.\<close>

lemma scan_lines_log: "scan_lines s = map line_text (takeWhile (\<lambda>l. length l < MaxScanTokenSize) (log_lines s))"
proof (induction s rule: scan_lines.induct)
  case (1 s)
  obtain a b where ab: "cut_at CHR 0x0A s = (a, b)" by fastforce
  note a = cut_at_no [OF ab]
  have eq: "scan_lines s = (if s = [] \<or> MaxScanTokenSize \<le> length a then []
      else line_text a # (case b of None \<Rightarrow> [] | Some r \<Rightarrow> scan_lines r))"
    by (subst scan_lines.simps) (simp add: ab dropCR_line_text)
  show ?case
  proof (cases b)
    case None
    with ab have "s = a" by (simp add: cut_at_None)
    with a None show ?thesis unfolding eq by (simp add: log_lines_end)
  next
    case (Some r)
    then have s: "s = a @ CHR 0x0A # r" using cut_at_Some [of "CHR 0x0A" s a r] ab by simp
    then have "s \<noteq> []" by simp
    show ?thesis
    proof (cases "length a < MaxScanTokenSize")
      case True
      with "1.IH" [OF \<open>s \<noteq> []\<close> refl ab [symmetric] _ Some] Some s \<open>s \<noteq> []\<close> show ?thesis
        unfolding eq by (simp add: log_lines_line [OF a])
    next
      case False
      with Some s show ?thesis unfolding eq by (simp add: log_lines_line [OF a])
    qed
  qed
qed

section \<open>What a stream writes\<close>

lemma stream_lines_writes:
  "\<exists>m. rs_Body (fold perform (stream_lines gone n ls) r) = rs_Body r @ concat (map frame_line (take m ls)) \<and>
     ((\<forall>i. \<not> gone i) \<longrightarrow> length ls \<le> m) \<and> rs_Header (fold perform (stream_lines gone n ls) r) = rs_Header r \<and>
     (rs_Sent (fold perform (stream_lines gone n ls) r) = Some (200, rs_Header r) \<or>
      rs_Sent (fold perform (stream_lines gone n ls) r) = rs_Sent r)"
proof (induction ls arbitrary: n r)
  case Nil
  show ?case by (rule exI [of _ 0]) simp
next
  case (Cons l ls)
  let ?r = "perform Flush (perform (Write (frame_line l)) r)"
  have r: "rs_Body ?r = rs_Body r @ frame_line l" "rs_Header ?r = rs_Header r"
    "rs_Sent ?r = Some (200, rs_Header r) \<or> rs_Sent ?r = rs_Sent r" "rs_Sent ?r \<noteq> None"
    by (simp_all add: send_header_def split: option.split)
  have step: "fold perform (stream_lines gone n (l # ls)) r =
      (if gone n then ?r else fold perform (stream_lines gone (Suc n) ls) ?r)"
    by (simp add: frame_line_def)
  show ?case
  proof (cases "gone n")
    case True
    with r show ?thesis unfolding step by (intro exI [of _ 1]) auto
  next
    case False
    from Cons.IH [of "Suc n" ?r] obtain m where
      "rs_Body (fold perform (stream_lines gone (Suc n) ls) ?r) = rs_Body ?r @ concat (map frame_line (take m ls))"
      "(\<forall>i. \<not> gone i) \<longrightarrow> length ls \<le> m"
      "rs_Header (fold perform (stream_lines gone (Suc n) ls) ?r) = rs_Header ?r"
      "rs_Sent (fold perform (stream_lines gone (Suc n) ls) ?r) = Some (200, rs_Header ?r) \<or>
       rs_Sent (fold perform (stream_lines gone (Suc n) ls) ?r) = rs_Sent ?r" by blast
    with False r show ?thesis unfolding step by (intro exI [of _ "Suc m"]) auto
  qed
qed

lemma stream_response:
  assumes "acts = hdrs @ stream_lines gone n ls" "fold perform hdrs no_response = r" "rs_Sent r = None" "rs_Body r = ''''"
    and "mget (rs_Header r) ''Content-Type'' \<noteq> None"
  obtains m where "body_of acts = concat (map frame_line (take m ls))" "(\<forall>i. \<not> gone i) \<Longrightarrow> length ls \<le> m"
    "status_of acts = 200" "\<And>k. header_of acts k = mget (rs_Header r) k"
proof -
  from stream_lines_writes [of gone n ls r] assms show ?thesis
    by (auto simp: respond_def status_of_def header_of_def body_of_def send_header_def wire_header_typed
        intro!: that split: option.splits)
qed

text \<open>The sub-resources of an agent.\<close>

lemma serve_sub:
  assumes "segment n" "rq_Path rq = ''/api/agents/'' @ n @ ''/'' @ sub" "segment sub" "rq_Method rq \<noteq> ''OPTIONS''"
  shows "sub = ''logs'' \<Longrightarrow> serve srv lib rq =
      State_Monad.bind (handleAgentLogs srv lib rq n) (\<lambda>acts. State_Monad.return (cors_headers @ acts))"
    and "sub = ''chat'' \<Longrightarrow> serve srv lib rq =
      State_Monad.bind (handleAgentChat srv lib rq n) (\<lambda>acts. State_Monad.return (cors_headers @ acts))"
proof -
  have r: "(''/api/agents'', KClawAgent) \<in> set resources" by (simp add: resources_def)
  have p: "rq_Path rq = path_of [''api'', ''agents'', n, sub]" by (simp add: assms(2))
  have cl: "cleanPath (rq_Path rq) = rq_Path rq"
    unfolding p by (rule cleanPath_path_of) (use assms in \<open>simp_all add: segment_def\<close>)
  have "take (Suc (length ''/api/agents'')) (rq_Path rq) = ''/api/agents'' @ ''/''" by (simp add: assms(2))
  then have mux: "serveMux srv lib rq = handleItem srv lib rq KClawAgent ''/api/agents''"
    by (simp only: serveMux_def route_item [OF r cl] routed.case dispatch.simps)
  have no: "CHR ''/'' \<notin> set n" "CHR ''/'' \<notin> set sub" "n \<noteq> ''''" using assms by (simp_all add: segment_def)
  have t: "TrimSuffix (n @ CHR ''/'' # sub) ''/'' = n @ CHR ''/'' # sub"
    using no(2) assms(3) by (cases sub rule: rev_cases) (auto simp: TrimSuffix_def segment_def)
  have c: "cut_at CHR ''/'' (n @ CHR ''/'' # sub) = (n, Some sub)"
  proof -
    have "takeWhile (\<lambda>x. x \<noteq> CHR ''/'') (n @ CHR ''/'' # sub) = n"
      "dropWhile (\<lambda>x. x \<noteq> CHR ''/'') (n @ CHR ''/'' # sub) = CHR ''/'' # sub"
      using no(1) by (subst takeWhile_append2 dropWhile_append2; auto)+
    then show ?thesis by (simp only: cut_at_def list.case)
  qed
  have "handleItem srv lib rq KClawAgent ''/api/agents'' = (if sub = ''logs'' then handleAgentLogs srv lib rq n
      else if sub = ''chat'' then handleAgentChat srv lib rq n
      else State_Monad.return (httpError ''unknown sub-resource'' 404))"
    by (simp add: handleItem_def assms(2) TrimPrefix_def t c)
  with mux assms(4) show "sub = ''logs'' \<Longrightarrow> serve srv lib rq =
      State_Monad.bind (handleAgentLogs srv lib rq n) (\<lambda>acts. State_Monad.return (cors_headers @ acts))"
    and "sub = ''chat'' \<Longrightarrow> serve srv lib rq =
      State_Monad.bind (handleAgentChat srv lib rq n) (\<lambda>acts. State_Monad.return (cors_headers @ acts))"
    by (simp_all add: serve_def withCORS_def)
qed

section \<open>The log stream\<close>

lemma log_tailLines_pos: "0 < log_tailLines rq"
  by (simp add: log_tailLines_def Let_def split: option.split)

text \<open>C30: The log stream is a faithful one, for logs of ordinary lines. Once the agent's pod is resolved
  and its log opened (with the number of lines asked for, always positive), the response is an event
  stream with status 200, and an \<open>EventSource\<close> in the browser gets the lines of the log, in order,
  each as one message: a prefix of them if the client goes away, and otherwise the lines before the
  first one of 64 KiB or more, which are all if there is none. An overlong line ends the stream without a
  word, for the handler does not look at the scanner's error. Logs are excepted in which a line
  holds a carriage return before its end: the handler does not escape it, and a browser takes it for
  the end of the line.\<close>

theorem log_stream_lines:
  assumes "rq_Method rq = ''GET''" "rq_Path rq = ''/api/agents/'' @ n @ ''/logs''" "segment n"
    and "srv_Clientset srv = Some cs" "run_state (resolveAgentPod srv lib n) w = (Inr (pod, c), w1)"
    and "run_state (cs_Logs cs (srv_Namespace srv) pod
      \<lparr>PLO_Container = c, PLO_Follow = (rq_Query rq ''follow'' = ''true''), PLO_TailLines = log_tailLines rq\<rparr>) w1 = (Inr stream, w2)"
    and "\<forall>l \<in> set (log_lines stream). CHR 0x0D \<notin> set (line_text l)"
  shows "0 < log_tailLines rq \<and> (\<exists>acts. run_state (serve srv lib rq) w = (acts, w2) \<and> status_of acts = 200 \<and>
    header_of acts ''Content-Type'' = Some ''text/event-stream'' \<and>
    (\<exists>m. event_source (body_of acts) = take m (map line_text (log_lines stream))) \<and>
    ((\<forall>i. \<not> rq_Done rq i) \<longrightarrow>
       event_source (body_of acts) = map line_text (takeWhile (\<lambda>l. length l < 64 * 1024) (log_lines stream))) \<and>
    ((\<forall>i. \<not> rq_Done rq i) \<and> (\<forall>l \<in> set (log_lines stream). length l < 64 * 1024) \<longrightarrow>
       event_source (body_of acts) = map line_text (log_lines stream)))"
proof -
  let ?fit = "\<lambda>l. length l < 64 * 1024"
  let ?hdrs = "cors_headers @ [SetHeader ''Content-Type'' ''text/event-stream'', SetHeader ''Cache-Control'' ''no-cache'',
    SetHeader ''Connection'' ''keep-alive'', SetHeader ''Access-Control-Allow-Origin'' ''*'']"
  let ?acts = "?hdrs @ stream_lines (rq_Done rq) 0 (scan_lines stream)"
  let ?r = "fold perform ?hdrs no_response"
  have scan: "scan_lines stream = map line_text (takeWhile ?fit (log_lines stream))"
    using scan_lines_log [of stream] by (simp add: MaxScanTokenSize_def)
  have run: "run_state (serve srv lib rq) w = (?acts, w2)"
    using assms by (simp add: serve_sub(1) segment_def handleAgentLogs_def)
  have r: "rs_Sent ?r = None" "rs_Body ?r = ''''" "mget (rs_Header ?r) ''Content-Type'' = Some ''text/event-stream''"
    by (simp_all add: cors_headers_def no_response_def gomap_simps mget_def)
  then have "mget (rs_Header ?r) ''Content-Type'' \<noteq> None" by simp
  from stream_response [OF refl refl r(1,2) this, of "rq_Done rq" 0 "scan_lines stream"]
  obtain m where m: "body_of ?acts = concat (map frame_line (take m (scan_lines stream)))"
    "(\<forall>i. \<not> rq_Done rq i) \<Longrightarrow> length (scan_lines stream) \<le> m"
    "status_of ?acts = 200" "\<And>k. header_of ?acts k = mget (rs_Header ?r) k" by blast
  have "CHR 0x0A \<notin> set l \<and> CHR 0x0D \<notin> set l" if "l \<in> set (scan_lines stream)" for l
    using assms(7) scan_lines_no_newline [OF that] that by (auto simp: scan dest: set_takeWhileD)
  then have events: "event_source (body_of ?acts) = take m (scan_lines stream)"
    unfolding m(1) by (intro event_source_frames) (meson in_set_takeD)
  have prefix: "\<exists>m'. take m (scan_lines stream) = take m' (map line_text (log_lines stream))"
  proof -
    obtain k where "takeWhile ?fit (log_lines stream) = take k (log_lines stream)" using takeWhile_eq_take by blast
    then show ?thesis by (intro exI [of _ "min m k"]) (simp add: scan take_map min.commute)
  qed
  have full: "event_source (body_of ?acts) = map line_text (takeWhile ?fit (log_lines stream))" if "\<forall>i. \<not> rq_Done rq i"
    using m(2) [OF that] events by (simp add: scan)
  moreover have "event_source (body_of ?acts) = map line_text (log_lines stream)"
    if "(\<forall>i. \<not> rq_Done rq i) \<and> (\<forall>l \<in> set (log_lines stream). ?fit l)"
  proof -
    have "takeWhile ?fit (log_lines stream) = log_lines stream" using conjunct2 [OF that] by (simp only: takeWhile_eq_all_conv)
    with full [OF conjunct1 [OF that]] show ?thesis by (simp only:)
  qed
  moreover have "header_of ?acts ''Content-Type'' = Some ''text/event-stream''" by (rule trans [OF m(4) r(3)])
  moreover have "\<exists>m. event_source (body_of ?acts) = take m (map line_text (log_lines stream))" unfolding events by (rule prefix)
  ultimately show ?thesis using run m(3) log_tailLines_pos [of rq] by (intro conjI exI [of _ ?acts] impI) simp_all
qed

text \<open>An agent with a pod, for examples.\<close>

definition feeds_agent :: ClawAgent where
  "feeds_agent = zero_ClawAgent\<lparr>Agent_Meta := new_meta ''eng'' ''prod'' []\<rparr>"

definition feeds_pod :: Pod where
  "feeds_pod = \<lparr>Pod_Meta = new_meta ''eng-1'' ''prod'' [(''app'', ''eng'')],
     Pod_Spec = \<lparr>Pod_SecurityContext = None, Pod_RestartPolicy = '''', Pod_InitContainers = [], Pod_Containers = [],
       Pod_Volumes = []\<rparr>, Pod_Phase = ''Running''\<rparr>"

definition feeds_world :: mem where
  "feeds_world = mem_put (OPod feeds_pod) (mem_put (OClawAgent feeds_agent) [])"

lemma feeds_agent_stored: "mem_store feeds_world KClawAgent (nn ''eng'' ''prod'') = Some (OClawAgent feeds_agent)"
  by (simp add: feeds_world_def feeds_agent_def feeds_pod_def key_of_def)

lemma feeds_resolve: "run_state (resolveAgentPod example_server example_lib ''eng'') feeds_world = (Inr (''eng-1'', ''''), feeds_world)"
  by code_simp

theorem log_stream_lines_witness:
  "\<exists>acts. run_state (serve example_server example_lib (request ''GET'' ''/api/agents/eng/logs'' '''')) feeds_world = (acts, feeds_world) \<and>
     event_source (body_of acts) = [''starting'', ''ready'']"
proof -
  let ?log = "''starting'' @ nl @ ''ready'' @ nl" and ?rq = "request ''GET'' ''/api/agents/eng/logs'' ''''"
  have lines: "log_lines ?log = [''starting'', ''ready'']" by (simp add: log_lines_def nl_def)
  have cs: "run_state (cs_Logs example_clientset (srv_Namespace example_server) ''eng-1''
      \<lparr>PLO_Container = '''', PLO_Follow = (rq_Query ?rq ''follow'' = ''true''), PLO_TailLines = log_tailLines ?rq\<rparr>) feeds_world =
      (Inr ?log, feeds_world)" by (simp add: example_clientset_def)
  have "\<forall>l \<in> set (log_lines ?log). CHR 0x0D \<notin> set (line_text l)" unfolding lines by (simp add: line_text_def)
  with log_stream_lines [OF _ _ _ _ feeds_resolve cs] obtain acts where
    "run_state (serve example_server example_lib ?rq) feeds_world = (acts, feeds_world)"
    "(\<forall>i. \<not> rq_Done ?rq i) \<and> (\<forall>l \<in> set (log_lines ?log). length l < 64 * 1024) \<longrightarrow>
       event_source (body_of acts) = map line_text (log_lines ?log)"
    by (auto simp: request_def segment_def)
  then show ?thesis unfolding lines by (auto simp: request_def line_text_def)
qed

text \<open>The exception is real: of a line that is redrawn, as progress bars are, the browser keeps a part.\<close>

lemma carriage_return_lost: "event_source (frame_line (''10%'' @ [CHR 0x0D] @ ''20%'')) = [''10%'']"
  by code_simp

section \<open>The activity list\<close>

lemma line_events_agent: "e \<in> set (line_events f n l) \<Longrightarrow> Ac_Agent e = n"
  by (auto simp: line_events_def alert_events_def run_events_def a2a_event_def new_event_def
      split: if_splits option.splits)

lemma collectEvents_agents:
  "run_state (collectEvents srv lib as evs) w = (evs', w') \<Longrightarrow> e \<in> set evs' \<Longrightarrow>
     e \<in> set evs \<or> (\<exists>a \<in> set as. Ac_Agent e = Meta_Name (Agent_Meta a))"
proof (induction as arbitrary: evs w)
  case (Cons a as)
  from Cons.prems(1) consider (full) "evs' = evs"
    | (none) w1 where "run_state (collectEvents srv lib as evs) w1 = (evs', w')"
    | (pod) w1 lines where "run_state (collectEvents srv lib as
        (evs @ concat (map (line_events (al_Number lib) (Meta_Name (Agent_Meta a))) lines))) w1 = (evs', w')"
    by (auto simp: Let_def split: if_splits prod.splits list.splits)
  then show ?case
  proof cases
    case pod
    from Cons.IH [OF this Cons.prems(2)] show ?thesis by (auto dest: line_events_agent)
  qed (use Cons in auto)
qed simp

lemma route_activity: "mux_handler (routes srv) meth ''/api/activity'' = Routed ''/api/activity'' HActivity"
proof -
  have c: "cleanPath ''/api/activity'' = ''/api/activity''"
    using cleanPath_path_of [of "[''api'', ''activity'']"] by (simp add: segment_def)
  have "mux_match (routes srv) ''/api/activity'' = Some (''/api/activity'', HActivity)"
  proof (rule mux_match_longest [OF _ _ distinct_routes])
    fix q g assume "pattern_matches q ''/api/activity''" "q \<noteq> ''/api/activity''"
    then have "take (length q) ''/api/activity'' = q" by (simp add: pattern_matches_def)
    with \<open>q \<noteq> ''/api/activity''\<close> show "length q < length ''/api/activity''"
      by (metis not_less take_all)
  qed (simp_all add: routes_eq pattern_matches_def)
  with c show ?thesis by (simp add: mux_handler_def Let_def)
qed

context control_plane
begin

lemma listAs_stored:
  assumes "run_state (listAs sel (srv_Client srv) k ns) w = (Inr xs, w')" "x \<in> set xs"
  shows "\<exists>ob n. store w k (nn n ns) = Some ob \<and> sel ob = Some x \<and> key_of ob = nn n ns"
  using assms store_wf [of w]
  by (fastforce simp: listAs_def run_bindE set_map_filter_conv store_ok_def split: prod.splits sum.splits dest!: list_Inr)

text \<open>The order of the handler is a strict weak one; a list sorted by it falls.\<close>

lemma activity_order: "strict_weak activity_less"
  unfolding strict_weak_def activity_less_def by (meson leI less_asym less_le_trans)

lemma activity_sorted:
  fixes evs
  defines "newest \<equiv> al_SortSlice lib activity_less evs"
  shows "mset newest = mset evs" "sorted_wrt (\<ge>) (map Ac_Timestamp newest)"
  using sort_slice [OF activity_order] by (simp_all add: newest_def sorted_wrt_map activity_less_def not_less)

text \<open>The first \<open>n\<close> of a falling list, and what is left out.\<close>

lemma newest_first:
  assumes "sorted_wrt (\<ge>) (map f xs)"
  shows "\<exists>rest. mset xs = mset (take n xs) + mset rest \<and> (\<forall>e \<in> set (take n xs). \<forall>d \<in> set rest. f d \<le> f e)"
proof -
  have "sorted_wrt (\<ge>) (map f (take n xs) @ map f (drop n xs))" using assms by (simp flip: map_append)
  moreover have "mset xs = mset (take n xs) + mset (drop n xs)" by (simp flip: mset_append)
  ultimately show ?thesis by (auto simp: sorted_wrt_append)
qed

lemma activity_run:
  assumes "rq_Path rq = ''/api/activity''" "rq_Method rq \<noteq> ''OPTIONS''" "run_state (serve srv lib rq) w = (acts, w')"
  shows "store w' = store w \<and> ((\<exists>msg. acts = cors_headers @ httpError msg 500) \<or>
    (\<exists>evs found rest agents w0. acts = cors_headers @ writeJSON (json_slice (map event_json evs)) \<and>
       run_state (listAs asClawAgent (srv_Client srv) KClawAgent (srv_Namespace srv)) w = (Inr agents, w0) \<and>
       run_state (collectEvents srv lib agents []) w0 = (found, w') \<and>
       mset found = mset evs + mset rest \<and> length evs = min 50 (length found) \<and>
       sorted_wrt (\<ge>) (map Ac_Timestamp evs) \<and>
       (\<forall>e \<in> set evs. \<forall>d \<in> set rest. Ac_Timestamp d \<le> Ac_Timestamp e) \<and>
       (\<forall>e \<in> set evs. \<exists>a. store w KClawAgent (nn (Ac_Agent e) (srv_Namespace srv)) = Some (OClawAgent a))))"
proof -
  obtain acts0 where run: "run_state (handleActivity srv lib) w = (acts0, w')" "acts = cors_headers @ acts0"
    using assms by (auto simp: serve_def withCORS_def serveMux_def route_activity split: prod.splits)
  have same: "store w' = store w"
    using guarD [OF guar_handleActivity [of "{}"] run(1)] by (simp add: touches_empty)
  obtain r w1 where list: "run_state (listAs asClawAgent (srv_Client srv) KClawAgent (srv_Namespace srv)) w = (r, w1)" by fastforce
  show ?thesis
  proof (cases r)
    case (Inl e)
    with list run same show ?thesis by (auto simp: handleActivity_def)
  next
    case (Inr agents)
    with list run(1) obtain found where found: "run_state (collectEvents srv lib agents []) w1 = (found, w')"
      "acts0 = writeJSON (json_slice (map event_json (take 50 (al_SortSlice lib activity_less found))))"
      by (auto simp: handleActivity_def Let_def split: prod.splits if_splits)
    let ?newest = "al_SortSlice lib activity_less found"
    note sorted = activity_sorted [of found]
    have "\<exists>a. store w KClawAgent (nn (Ac_Agent e) (srv_Namespace srv)) = Some (OClawAgent a)"
      if "e \<in> set (take 50 ?newest)" for e
    proof -
      from that have "e \<in> set ?newest" by (rule in_set_takeD)
      then have "e \<in> set found" using sorted(1) by (metis set_mset_mset)
      from collectEvents_agents [OF found(1) this] obtain a where a: "a \<in> set agents" "Ac_Agent e = Meta_Name (Agent_Meta a)" by auto
      from listAs_stored [OF list [unfolded Inr] a(1)] obtain ob n where
        "store w KClawAgent (nn n (srv_Namespace srv)) = Some ob" "asClawAgent ob = Some a" "key_of ob = nn n (srv_Namespace srv)"
        by blast
      with a(2) show ?thesis by (auto simp: key_of_def dest!: as_SomeD)
    qed
    moreover have "sorted_wrt (\<ge>) (map Ac_Timestamp (take 50 ?newest))"
      using sorted(2) by (simp add: sorted_wrt_take flip: take_map)
    moreover have "length (take 50 ?newest) = min 50 (length found)"
      using mset_eq_length [OF sorted(1)] by simp
    moreover from newest_first [OF sorted(2), of 50] obtain rest where
      "mset found = mset (take 50 ?newest) + mset rest" "\<forall>e \<in> set (take 50 ?newest). \<forall>d \<in> set rest. Ac_Timestamp d \<le> Ac_Timestamp e"
      unfolding sorted(1) by blast
    ultimately show ?thesis using same run(2) found list [unfolded Inr] by blast
  qed
qed

end

text \<open>C31: Whatever the API server and the logs answer, a request for the activity list changes no object
  and is answered by an error 500 or by a JSON list of events. These are the newest of the events
  found in the logs, in the order the handler asks for: 50 of them, or all if there are fewer, by
  falling timestamps, and none that is left out is newer than one that is shown; each is about an
  agent that is stored in the API's namespace.\<close>

theorem activity_bounded:
  assumes "control_plane srv store lib"
    and "rq_Path rq = ''/api/activity''" "rq_Method rq \<noteq> ''OPTIONS''" "run_state (serve srv lib rq) w = (acts, w')"
  shows "store w' = store w \<and> ((\<exists>msg. acts = cors_headers @ httpError msg 500) \<or>
    (\<exists>evs found rest agents w0. acts = cors_headers @ writeJSON (json_slice (map event_json evs)) \<and>
       run_state (listAs asClawAgent (srv_Client srv) KClawAgent (srv_Namespace srv)) w = (Inr agents, w0) \<and>
       run_state (collectEvents srv lib agents []) w0 = (found, w') \<and>
       mset found = mset evs + mset rest \<and> length evs = min 50 (length found) \<and>
       sorted_wrt (\<ge>) (map Ac_Timestamp evs) \<and>
       (\<forall>e \<in> set evs. \<forall>d \<in> set rest. Ac_Timestamp d \<le> Ac_Timestamp e) \<and>
       (\<forall>e \<in> set evs. \<exists>a. store w KClawAgent (nn (Ac_Agent e) (srv_Namespace srv)) = Some (OClawAgent a))))"
  by (rule control_plane.activity_run [OF assms])

text \<open>An agent whose log holds two alerts, the older one first: the list shows the newer one first.\<close>

definition alert_log :: string where
  "alert_log = ''2026-03-01T10:00:00.000 [observeclaw] alert: old'' @ nl @ ''2026-03-02T10:00:00.000 [observeclaw] alert: new'' @ nl"

definition busy_server :: "mem Server" where
  "busy_server = example_server\<lparr>srv_Clientset := Some (example_clientset\<lparr>cs_Logs :=
     (\<lambda>ns n opts. State (\<lambda>m. (Inr alert_log, m)))\<rparr>)\<rparr>"

definition old_alert :: ActivityEvent where
  "old_alert = new_event ''2026-03-01T10:00:00.000'' ''eng'' ''alert'' ''old''"

definition new_alert :: ActivityEvent where
  "new_alert = new_event ''2026-03-02T10:00:00.000'' ''eng'' ''alert'' ''new''"

lemma busy_plane: "control_plane busy_server mem_store example_lib"
proof (intro control_plane.intro control_plane_axioms.intro)
  show "kube_api (srv_Client busy_server) mem_store" by (simp add: busy_server_def mem.kube_api_axioms)
qed (use example_api.unmarshal_kind example_api.answer_created example_api.sort_slice example_api.do_same
      example_api.get_pod_same example_api.list_pods_same in \<open>auto simp: busy_server_def\<close>)

lemma alert_lines:
  "scan_lines alert_log = [''2026-03-01T10:00:00.000 [observeclaw] alert: old'', ''2026-03-02T10:00:00.000 [observeclaw] alert: new'']"
  by (simp add: scan_lines_log log_lines_def alert_log_def nl_def MaxScanTokenSize_def line_text_def)

lemma alert_log_events:
  "line_events f ''eng'' ''2026-03-01T10:00:00.000 [observeclaw] alert: old'' = [old_alert]"
  "line_events f ''eng'' ''2026-03-02T10:00:00.000 [observeclaw] alert: new'' = [new_alert]"
  "Ac_Timestamp old_alert < Ac_Timestamp new_alert"
  by code_simp+

lemma busy_pods: "run_state (agentPods busy_server ''eng'') feeds_world = ([feeds_pod], feeds_world)"
  by code_simp

lemma busy_found:
  "run_state (listAs asClawAgent (srv_Client busy_server) KClawAgent (srv_Namespace busy_server)) feeds_world = (Inr [feeds_agent], feeds_world)"
  "run_state (collectEvents busy_server lib [feeds_agent] []) feeds_world = ([old_alert, new_alert], feeds_world)"
proof -
  show "run_state (listAs asClawAgent (srv_Client busy_server) KClawAgent (srv_Namespace busy_server)) feeds_world = (Inr [feeds_agent], feeds_world)"
    by code_simp
  have logs: "run_state (getPodLogs busy_server n k) w = (scan_lines alert_log, w)" for n k w
    by (simp add: getPodLogs_def busy_server_def)
  show "run_state (collectEvents busy_server lib [feeds_agent] []) feeds_world = ([old_alert, new_alert], feeds_world)"
    by (simp add: Let_def maxEvents_def busy_pods logs alert_lines alert_log_events feeds_agent_def)
qed

lemma busy_answers: "\<exists>v. fst (run_state (serve busy_server lib (request ''GET'' ''/api/activity'' '''')) feeds_world) = cors_headers @ writeJSON v"
  by (simp add: request_def serve_def withCORS_def serveMux_def route_activity handleActivity_def Let_def busy_found
      del: collectEvents.simps split del: if_split) blast

theorem activity_bounded_witness:
  "fst (run_state (serve busy_server example_lib (request ''GET'' ''/api/activity'' '''')) feeds_world) =
     cors_headers @ writeJSON (json_slice (map event_json [new_alert, old_alert]))"
proof -
  obtain acts w' where run: "run_state (serve busy_server example_lib (request ''GET'' ''/api/activity'' '''')) feeds_world = (acts, w')"
    by fastforce
  have error: "status_of (cors_headers @ httpError msg 500) = 500" for msg by (simp add: response_defs gomap_simps)
  obtain v where "acts = cors_headers @ writeJSON v" using busy_answers [of example_lib] run by auto
  then have "status_of acts = 200" by (simp only: json_response(1))
  then have no_error: "acts \<noteq> cors_headers @ httpError msg 500" for msg using error [of msg] by auto
  from activity_bounded [OF busy_plane _ _ run] no_error busy_found obtain evs rest where
    acts: "acts = cors_headers @ writeJSON (json_slice (map event_json evs))"
    and evs: "mset [old_alert, new_alert] = mset evs + mset rest" "length evs = 2" "sorted_wrt (\<ge>) (map Ac_Timestamp evs)"
    by (auto simp: request_def)
  have "size (mset rest) = 0" using arg_cong [OF evs(1), of size] evs(2) by simp
  then have "mset evs = {#old_alert, new_alert#}" using evs(1) by simp
  moreover obtain x y where xy: "evs = [x, y]" using evs(2) by (cases evs; cases "tl evs") auto
  ultimately have "(x = old_alert \<and> y = new_alert) \<or> (x = new_alert \<and> y = old_alert)" by (auto simp: add_eq_conv_ex)
  with evs(3) xy alert_log_events(3) have "evs = [new_alert, old_alert]" by auto
  with acts run show ?thesis by simp
qed

end
