(* ===== verification/CreateOnly.thy ===== *)
theory CreateOnly
  imports KubeClient
begin

text \<open>
  What the gateway and the observability controllers share: their \<open>ensureResource\<close> creates an object
  that is missing and leaves one that is there alone, and their \<open>Reconcile\<close> ensures a list of
  objects one after the other. The abstract specification of such a list is \<open>filled\<close>: every
  missing key of the list gets its object, nothing else changes.
\<close>

section \<open>Creating what is missing\<close>

definition ensureCreated ::
  "ext \<Rightarrow> 'w kube \<Rightarrow> Kind \<Rightarrow> ObjectMeta \<Rightarrow> Obj \<Rightarrow> string \<Rightarrow> ('w, err + unit) state" where
  "ensureCreated x kc ok owner ob desc =
     (case ext_SetControllerReference x ok owner (meta_of ob) of
        Inl e \<Rightarrow> throwE (Wrap (''setting owner reference on '' @ desc @ '': '') e)
      | Inr m \<Rightarrow>
          (let desired = set_meta m ob in do {
             r \<leftarrow> kube_Get kc (kind_of desired) (key_of desired);
             case r of
               Inl e \<Rightarrow> if is_not_found e then kube_Create kc desired else throwE e
             | Inr _ \<Rightarrow> retE ()
           }))"

fun ensureAll ::
  "ext \<Rightarrow> 'w kube \<Rightarrow> Kind \<Rightarrow> ObjectMeta \<Rightarrow> (string \<times> Obj) list \<Rightarrow> ('w, err + unit) state" where
  "ensureAll x kc ok owner [] = retE ()"
| "ensureAll x kc ok owner ((desc, ob) # rest) =
     bindE (ensureCreated x kc ok owner ob desc) (\<lambda>_. ensureAll x kc ok owner rest)"

lemma ensureAll_append:
  "ensureAll x kc ok owner (xs @ ys) = bindE (ensureAll x kc ok owner xs) (\<lambda>_. ensureAll x kc ok owner ys)"
  by (induction xs rule: induct_list012) (auto simp: bindE_assoc split: prod.split)

section \<open>The abstract specification\<close>

definition id_of :: "Obj \<Rightarrow> Kind \<times> NamespacedName" where
  "id_of ob = (kind_of ob, key_of ob)"

text \<open>The stored object is the desired one, with its owner, in what the server keeps.\<close>

definition made :: "ext \<Rightarrow> Kind \<Rightarrow> ObjectMeta \<Rightarrow> Obj \<Rightarrow> Obj \<Rightarrow> bool" where
  "made x ok owner ob ob' \<longleftrightarrow>
     (\<exists>m. ext_SetControllerReference x ok owner (meta_of ob) = Inr m \<and> kept (fresh (set_meta m ob)) ob')"

text \<open>Missing objects of the list are made, in any number; the rest is as before.\<close>

definition partly_filled :: "(Obj \<Rightarrow> Obj \<Rightarrow> bool) \<Rightarrow> Obj list \<Rightarrow> store \<Rightarrow> store \<Rightarrow> bool" where
  "partly_filled P obs s s' \<longleftrightarrow>
     (\<forall>k key. s' k key = s k key \<or>
        s k key = None \<and> (\<exists>ob \<in> set obs. id_of ob = (k, key) \<and> (\<exists>ob'. P ob ob' \<and> s' k key = Some ob')))"

text \<open>All of them are made.\<close>

definition filled :: "(Obj \<Rightarrow> Obj \<Rightarrow> bool) \<Rightarrow> Obj list \<Rightarrow> store \<Rightarrow> store \<Rightarrow> bool" where
  "filled P obs s s' \<longleftrightarrow>
     partly_filled P obs s s' \<and> (\<forall>ob \<in> set obs. s' (kind_of ob) (key_of ob) \<noteq> None)"

lemma partly_filled_refl [simp]: "partly_filled P obs s s"
  by (simp add: partly_filled_def)

lemma partly_filled_trans:
  assumes "partly_filled P obs s s1" "partly_filled P obs s1 s2"
  shows "partly_filled P obs s s2"
  unfolding partly_filled_def
proof (intro allI)
  fix k key
  show "s2 k key = s k key \<or>
      s k key = None \<and> (\<exists>ob \<in> set obs. id_of ob = (k, key) \<and> (\<exists>ob'. P ob ob' \<and> s2 k key = Some ob'))"
    using assms [unfolded partly_filled_def, rule_format, of k key] by metis
qed

lemma partly_filled_mono: "partly_filled P obs s s' \<Longrightarrow> set obs \<subseteq> set obs' \<Longrightarrow> partly_filled P obs' s s'"
  unfolding partly_filled_def by (metis subsetD)

lemma partly_filled_stays: "partly_filled P obs s s' \<Longrightarrow> s k key \<noteq> None \<Longrightarrow> s' k key = s k key"
  unfolding partly_filled_def by metis

text \<open>A filled store stays filled, and filling it again changes nothing.\<close>

lemma filled_again:
  assumes "filled P obs s s1" "partly_filled P obs s1 s2"
  shows "s2 = s1"
proof (intro ext)
  fix k key
  show "s2 k key = s1 k key"
  proof (cases "\<exists>ob \<in> set obs. id_of ob = (k, key)")
    case True
    with assms(1) have "s1 k key \<noteq> None" unfolding filled_def id_of_def by auto
    with assms(2) show ?thesis by (rule partly_filled_stays)
  next
    case False
    with assms(2) show ?thesis unfolding partly_filled_def by metis
  qed
qed

interpretation pf: guarantee "\<lambda>w w'. partly_filled P obs (st w) (st w')" for P obs and st :: "'w \<Rightarrow> store"
  by unfold_locales (auto intro: partly_filled_trans)

section \<open>The code fills\<close>

context controller_api
begin

lemma ensureCreated_partly:
  assumes "ob \<in> set obs"
  shows "guar (\<lambda>w w'. partly_filled (made x ok owner) obs (store w) (store w')) (ensureCreated x kc ok owner ob desc)"
proof (cases "ext_SetControllerReference x ok owner (meta_of ob)")
  case (Inr m)
  let ?d = "set_meta m ob"
  from set_owner_keeps [OF Inr] have id: "id_of ?d = id_of ob" by (simp add: id_of_def key_of_def)
  have c: "partly_filled (made x ok owner) obs (store w) (store w')" if "run_state (kube_Create kc ?d) w = (r, w')" for r w w'
  proof -
    have "store w' = store w \<or> created ?d (store w) (store w')"
      using that by (cases r) (auto dest: create_Inl create_Inr)
    then show ?thesis
    proof
      assume "created ?d (store w) (store w')"
      then obtain ob' where ob': "store w (kind_of ?d) (key_of ?d) = None" "kept (fresh ?d) ob'" "store w' = store_put ob' (store w)"
        by (auto simp: created_def)
      from ob'(2) have "made x ok owner ob ob'" using Inr by (auto simp: made_def)
      moreover from ob'(2) have "kind_of ob' = kind_of ?d" "key_of ob' = key_of ?d"
        by (rule kept_fresh)+
      ultimately show ?thesis
        using ob' assms id unfolding partly_filled_def id_of_def by auto
    qed simp
  qed
  have g: "guar (\<lambda>w w'. partly_filled (made x ok owner) obs (store w) (store w')) (kube_Get kc k key)" for k key
    by (rule guarI) (simp add: get_same)
  show ?thesis
    unfolding ensureCreated_def Inr Let_def sum.case
    by (intro pf.guar_bind g) (auto intro!: guarI pf.guar_throwE pf.guar_retE dest: c split: sum.split)
qed (simp add: ensureCreated_def pf.guar_throwE)

lemma ensureAll_partly:
  "set (map snd objs) \<subseteq> set obs \<Longrightarrow>
     guar (\<lambda>w w'. partly_filled (made x ok owner) obs (store w) (store w')) (ensureAll x kc ok owner objs)"
  by (induction objs) (auto intro!: pf.guar_bindE ensureCreated_partly pf.guar_retE)

lemma ensureCreated_there:
  assumes "run_state (ensureCreated x kc ok owner ob desc) w = (Inr u, w')"
  shows "store w' (kind_of ob) (key_of ob) \<noteq> None"
proof -
  from assms obtain m r w1 where m: "ext_SetControllerReference x ok owner (meta_of ob) = Inr m"
    and r: "run_state (kube_Get kc (kind_of (set_meta m ob)) (key_of (set_meta m ob))) w = (r, w1)"
    and k: "run_state (case r of Inl e \<Rightarrow> if is_not_found e then kube_Create kc (set_meta m ob) else throwE e
      | Inr _ \<Rightarrow> retE ()) w1 = (Inr u, w')"
    by (auto simp: ensureCreated_def Let_def split: sum.splits prod.splits)
  from set_owner_keeps [OF m] have id: "kind_of (set_meta m ob) = kind_of ob" "key_of (set_meta m ob) = key_of ob"
    by (simp_all add: key_of_def)
  show ?thesis
  proof (cases r)
    case (Inl e)
    with k have "created (set_meta m ob) (store w1) (store w')" by (auto split: if_splits dest: create_Inr)
    then obtain ob' where ob': "kept (fresh (set_meta m ob)) ob'" "store w' = store_put ob' (store w1)" by (auto simp: created_def)
    with id kept_fresh [OF ob'(1)] show ?thesis by simp
  next
    case (Inr ex)
    with k get_same [OF r] get_Inr [of _ _ w ex w1] r id show ?thesis by auto
  qed
qed

lemma ensureAll_filled:
  "run_state (ensureAll x kc ok owner objs) w = (Inr u, w') \<Longrightarrow> filled (made x ok owner) (map snd objs) (store w) (store w')"
proof (induction objs arbitrary: w)
  case (Cons p objs)
  obtain desc ob where p: "p = (desc, ob)" by (cases p)
  from Cons.prems obtain v where v: "run_state (ensureCreated x kc ok owner ob desc) w = (Inr (), v)"
    "run_state (ensureAll x kc ok owner objs) v = (Inr u, w')"
    by (auto simp: p elim: bindE_InrE)
  have 1: "partly_filled (made x ok owner) (map snd (p # objs)) (store w) (store v)"
    by (rule guarD [OF ensureCreated_partly v(1)]) (simp add: p)
  have 2: "partly_filled (made x ok owner) (map snd (p # objs)) (store v) (store w')"
    by (rule guarD [OF ensureAll_partly v(2)]) auto
  have "store w' (kind_of ob) (key_of ob) \<noteq> None"
    using partly_filled_stays [OF 2] ensureCreated_there [OF v(1)] by simp
  with Cons.IH [OF v(2)] partly_filled_trans [OF 1 2] show ?case by (simp add: filled_def p)
qed (simp add: filled_def)

end

context reliable_api
begin

lemma ensureCreated_succeeds:
  assumes "Meta_OwnerReferences (meta_of ob) = []" "Meta_Namespace (meta_of ob) = Meta_Namespace owner"
  shows "succeeds (ensureCreated x kc ok owner ob desc) w"
proof -
  obtain m where m: "ext_SetControllerReference x ok owner (meta_of ob) = Inr m"
    using set_owner_fresh [OF assms, of ok] by blast
  let ?d = "set_meta m ob"
  show ?thesis
  proof (cases "store w (kind_of ?d) (key_of ?d)")
    case None
    from get_None [OF None] obtain e w1 where g: "run_state (kube_Get kc (kind_of ?d) (key_of ?d)) w = (Inl e, w1)"
      "is_not_found e" by blast
    with None get_same have "store w1 (kind_of ?d) (key_of ?d) = None" by metis
    from create_ok [OF this] g show ?thesis by (auto simp: succeeds_def ensureCreated_def Let_def m)
  next
    case (Some ex)
    from get_Some [OF Some] show ?thesis by (auto simp: succeeds_def ensureCreated_def Let_def m)
  qed
qed

lemma ensureAll_succeeds:
  "(\<And>ob. ob \<in> set (map snd objs) \<Longrightarrow> Meta_OwnerReferences (meta_of ob) = [] \<and> Meta_Namespace (meta_of ob) = Meta_Namespace owner) \<Longrightarrow>
     succeeds (ensureAll x kc ok owner objs) w"
  by (induction objs arbitrary: w) (auto intro!: succeeds_bindE ensureCreated_succeeds)

end

section \<open>Handlers\<close>

text \<open>A handler reads its object, ends quietly when there is none, and goes on with it.\<close>

definition with_object :: "(Obj \<Rightarrow> 'a option) \<Rightarrow> 'w kube \<Rightarrow> Kind \<Rightarrow> NamespacedName \<Rightarrow> ('a \<Rightarrow> ('w, err + unit) state) \<Rightarrow>
    ('w, err + unit) state" where
  "with_object sel kc k req f = do {
     r \<leftarrow> getAs sel kc k req;
     case r of
       Inl e \<Rightarrow> if is_not_found e then retE () else throwE e
     | Inr v \<Rightarrow> f v
   }"

context controller_api
begin

lemma with_object_cases:
  assumes "store w k req = Some ob" "sel ob = Some v" "run_state (with_object sel kc k req f) w = (r, w')"
  obtains e where "r = Inl e" "store w' = store w"
  | w1 where "store w1 = store w" "run_state (f v) w1 = (r, w')"
proof -
  obtain g w1 where g: "run_state (getAs sel kc k req) w = (g, w1)" by fastforce
  have w1: "store w1 = store w" using g by (rule getAs_same)
  show thesis
  proof (cases g)
    case (Inl e)
    with g assms(1) getAs_not_found have "\<not> is_not_found e" by fastforce
    with g Inl assms(3) have "r = Inl e" "w' = w1" by (simp_all add: with_object_def)
    with w1 that(1) show thesis by blast
  next
    case (Inr v')
    with g assms(1,2) have "v' = v" by (auto dest!: getAs_Inr)
    with g Inr assms(3) w1 that(2) show thesis by (simp add: with_object_def)
  qed
qed

end

context reliable_api
begin

lemma with_object_succeeds:
  assumes "store w k req = Some ob" "sel ob = Some v" "\<And>w1. store w1 = store w \<Longrightarrow> succeeds (f v) w1"
  shows "succeeds (with_object sel kc k req f) w"
proof -
  obtain w1 where "run_state (getAs sel kc k req) w = (Inr v, w1)" "store w1 = store w"
    by (rule getAs_Some [where sel = sel, OF assms(1) assms(2)])
  with assms(3) [of w1] show ?thesis by (auto simp: succeeds_def with_object_def)
qed

end

section \<open>The lists of objects\<close>

text \<open>What a builder promises of its list: objects of the owner's namespace with no owner yet, each
  under its own name.\<close>

locale owned_objects =
  fixes ns :: string and objs :: "(string \<times> Obj) list"
  assumes in_namespace: "(desc, ob) \<in> set objs \<Longrightarrow> Meta_Namespace (meta_of ob) = ns"
    and unowned: "(desc, ob) \<in> set objs \<Longrightarrow> Meta_OwnerReferences (meta_of ob) = []"
    and apart: "distinct (map (id_of \<circ> snd) objs)"
begin

lemma id_determines:
  assumes "ob \<in> set (map snd objs)" "ob' \<in> set (map snd objs)" "id_of ob = id_of ob'"
  shows "ob = ob'"
  using assms apart by (auto simp: distinct_map comp_def dest: inj_onD)

text \<open>With distinct names, a filled list is determined object by object.\<close>

lemma filled_made:
  assumes "filled P (map snd objs) s s'" "ob \<in> set (map snd objs)" "s (kind_of ob) (key_of ob) = None"
  shows "\<exists>ob'. P ob ob' \<and> s' (kind_of ob) (key_of ob) = Some ob'"
proof -
  from assms(1,2) have "s' (kind_of ob) (key_of ob) \<noteq> None" unfolding filled_def by blast
  with assms(1,3) obtain ob2 ob' where "ob2 \<in> set (map snd objs)" "id_of ob2 = (kind_of ob, key_of ob)" "P ob2 ob'"
    "s' (kind_of ob) (key_of ob) = Some ob'"
    unfolding filled_def partly_filled_def by metis
  with id_determines [of ob2 ob] assms(2) show ?thesis by (auto simp: id_of_def)
qed

end

end
