(* ===== verification/GatewayScript.thy ===== *)
theory GatewayScript
  imports GoStd
begin

text \<open>
  The text of the gateway's server program, \<open>gatewayServerScript\<close> of
  \<open>internal/controller/clawgateway_controller.go\<close>, in the five parts the program has: the pattern
  table, redaction, the proxy endpoint, the classifier, health and start-up.
\<close>

definition server_py_patterns :: string where
  "server_py_patterns =
     dq @ dq @ dq @ nl @ ''ObserveClaw Server '' @ em_dash @
     '' PII redaction proxy + optional local HF classifier.'' @ nl @ nl @ ''Endpoints:'' @ nl @
     ''  POST /v1/messages          '' @ em_dash @
     '' PII-redacting proxy (strips PII, forwards to upstream)'' @ nl @
     ''  POST /v1/chat/completions  '' @ em_dash @ '' Local HuggingFace classifier (optional)'' @
     nl @ ''  POST /config/patterns      '' @ em_dash @ '' Push PII patterns from plugin config'' @
     nl @ ''  GET  /health               '' @ em_dash @ '' Health check'' @ nl @ nl @
     ''The proxy reads the API key from the ANTHROPIC_API_KEY environment variable'' @ nl @
     ''and injects it server-side. Agents never see or send the key.'' @ nl @ dq @ dq @ dq @ nl @
     ''import argparse'' @ nl @ ''import os'' @ nl @ ''import re'' @ nl @ ''import time'' @ nl @
     ''import threading'' @ nl @ nl @ ''import httpx'' @ nl @ ''import uvicorn'' @ nl @
     ''from fastapi import FastAPI, Request'' @ nl @
     ''from fastapi.responses import JSONResponse, StreamingResponse'' @ nl @
     ''from pydantic import BaseModel'' @ nl @ nl @ ''app = FastAPI(title='' @ dq @
     ''ObserveClaw Server'' @ dq @ '')'' @ nl @ nl @ ''UPSTREAM_BASE = os.environ.get('' @ dq @
     ''UPSTREAM_BASE_URL'' @ dq @ '', '' @ dq @ ''https://api.anthropic.com'' @ dq @ '')'' @ nl @
     nl @ ''_patterns_lock = threading.Lock()'' @ nl @
     ''_pii_patterns: list[tuple[re.Pattern, str]] = []'' @ nl @ nl @ nl @
     ''def _compile_patterns(raw: list[dict]) -> list[tuple[re.Pattern, str]]:'' @ nl @
     ''    compiled = []'' @ nl @ ''    for entry in raw:'' @ nl @ ''        try:'' @ nl @
     ''            compiled.append((re.compile(entry['' @ dq @ ''pattern'' @ dq @
     '']), entry.get('' @ dq @ ''replacement'' @ dq @ '', '' @ dq @ ''[REDACTED]'' @ dq @ '')))'' @
     nl @ ''        except re.error as e:'' @ nl @ ''            print(f'' @ dq @
     ''[config] bad pattern {entry.get('' @ sq @ ''pattern'' @ sq @ '')!r}: {e}'' @ dq @ '')'' @
     nl @ ''    return compiled'' @ nl @ nl @ nl @ ''class PatternEntry(BaseModel):'' @ nl @
     ''    pattern: str'' @ nl @ ''    replacement: str = '' @ dq @ ''[REDACTED]'' @ dq @ nl @ nl @
     nl @ ''class PatternsConfig(BaseModel):'' @ nl @ ''    patterns: list[PatternEntry]'' @ nl @
     nl @ nl @ ''@app.post('' @ dq @ ''/config/patterns'' @ dq @ '')'' @ nl @
     ''async def update_patterns(config: PatternsConfig):'' @ nl @ ''    global _pii_patterns'' @
     nl @ ''    raw = [p.model_dump() for p in config.patterns]'' @ nl @
     ''    compiled = _compile_patterns(raw)'' @ nl @ ''    with _patterns_lock:'' @ nl @
     ''        _pii_patterns = compiled'' @ nl @ ''    print(f'' @ dq @
     ''[config] loaded {len(compiled)} PII pattern(s)'' @ dq @ '')'' @ nl @
     ''    for p, r in compiled:'' @ nl @ ''        print(f'' @ dq @ ''  {p.pattern} -> {r}'' @
     dq @ '')'' @ nl @ ''    return {'' @ dq @ ''status'' @ dq @ '': '' @ dq @ ''ok'' @ dq @
     '', '' @ dq @ ''patterns'' @ dq @ '': len(compiled)}'' @ nl @ nl @ nl"

definition server_py_redact :: string where
  "server_py_redact =
     ''def redact(text: str) -> tuple[str, list[dict]]:'' @ nl @ ''    with _patterns_lock:'' @
     nl @ ''        patterns = list(_pii_patterns)'' @ nl @ ''    redactions = []'' @ nl @
     ''    for pattern, replacement in patterns:'' @ nl @
     ''        for match in pattern.finditer(text):'' @ nl @ ''            redactions.append({'' @
     nl @ ''                '' @ dq @ ''original'' @ dq @ '': match.group(),'' @ nl @
     ''                '' @ dq @ ''replacement'' @ dq @ '': replacement,'' @ nl @
     ''                '' @ dq @ ''pattern'' @ dq @ '': pattern.pattern,'' @ nl @
     ''            })'' @ nl @ ''        text = pattern.sub(replacement, text)'' @ nl @
     ''    return text, redactions'' @ nl @ nl @ nl @
     ''def redact_messages(messages: list[dict]) -> tuple[list[dict], list[dict]]:'' @ nl @
     ''    all_redactions = []'' @ nl @ ''    cleaned = []'' @ nl @ ''    for msg in messages:'' @
     nl @ ''        if msg.get('' @ dq @ ''role'' @ dq @ '') == '' @ dq @ ''user'' @ dq @ '':'' @
     nl @ ''            content = msg.get('' @ dq @ ''content'' @ dq @ '', '' @ dq @ dq @ '')'' @
     nl @ ''            if isinstance(content, str):'' @ nl @
     ''                redacted, redactions = redact(content)'' @ nl @
     ''                all_redactions.extend(redactions)'' @ nl @
     ''                cleaned.append({**msg, '' @ dq @ ''content'' @ dq @ '': redacted})'' @ nl @
     ''            elif isinstance(content, list):'' @ nl @ ''                new_blocks = []'' @
     nl @ ''                for block in content:'' @ nl @
     ''                    if isinstance(block, dict) and block.get('' @ dq @ ''type'' @ dq @
     '') == '' @ dq @ ''text'' @ dq @ '':'' @ nl @
     ''                        redacted, redactions = redact(block.get('' @ dq @ ''text'' @ dq @
     '', '' @ dq @ dq @ ''))'' @ nl @
     ''                        all_redactions.extend(redactions)'' @ nl @
     ''                        new_blocks.append({**block, '' @ dq @ ''text'' @ dq @
     '': redacted})'' @ nl @ ''                    else:'' @ nl @
     ''                        new_blocks.append(block)'' @ nl @
     ''                cleaned.append({**msg, '' @ dq @ ''content'' @ dq @ '': new_blocks})'' @
     nl @ ''            else:'' @ nl @ ''                cleaned.append(msg)'' @ nl @
     ''        else:'' @ nl @ ''            cleaned.append(msg)'' @ nl @
     ''    return cleaned, all_redactions'' @ nl @ nl @ nl"

definition server_py_proxy :: string where
  "server_py_proxy =
     ''_FORWARD_HEADERS = ('' @ dq @ ''anthropic-version'' @ dq @ '', '' @ dq @ ''authorization'' @
     dq @ '', '' @ dq @ ''anthropic-beta'' @ dq @ '')'' @ nl @ nl @
     ''# Server-side API key injection -- the agent never sees or sends the key.'' @ nl @
     ''_SERVER_API_KEY = os.environ.get('' @ dq @ ''ANTHROPIC_API_KEY'' @ dq @ '', '' @ dq @ dq @
     '')'' @ nl @ nl @ nl @ ''@app.api_route('' @ dq @ ''/v1/messages'' @ dq @ '', methods=['' @
     dq @ ''POST'' @ dq @ ''])'' @ nl @ ''async def proxy_messages(request: Request):'' @ nl @
     ''    body = await request.json()'' @ nl @ nl @ ''    original_messages = body.get('' @ dq @
     ''messages'' @ dq @ '', [])'' @ nl @
     ''    cleaned_messages, redactions = redact_messages(original_messages)'' @ nl @
     ''    body['' @ dq @ ''messages'' @ dq @ ''] = cleaned_messages'' @ nl @ nl @
     ''    if redactions:'' @ nl @ ''        print(f'' @ dq @
     ''[redact] {len(redactions)} PII match(es):'' @ dq @ '')'' @ nl @
     ''        for r in redactions:'' @ nl @ ''            print(f'' @ dq @ ''  {r['' @ sq @
     ''original'' @ sq @ '']} -> {r['' @ sq @ ''replacement'' @ sq @ '']}'' @ dq @ '')'' @ nl @
     nl @ ''    headers = {'' @ dq @ ''Content-Type'' @ dq @ '': '' @ dq @ ''application/json'' @
     dq @ ''}'' @ nl @ ''    if _SERVER_API_KEY:'' @ nl @ ''        headers['' @ dq @
     ''x-api-key'' @ dq @ ''] = _SERVER_API_KEY'' @ nl @ ''    for key in _FORWARD_HEADERS:'' @
     nl @ ''        val = request.headers.get(key)'' @ nl @ ''        if val:'' @ nl @
     ''            headers[key] = val'' @ nl @ nl @ ''    is_stream = body.get('' @ dq @
     ''stream'' @ dq @ '', False)'' @ nl @ nl @ ''    if is_stream:'' @ nl @
     ''        stream_headers = {**headers, '' @ dq @ ''Accept-Encoding'' @ dq @ '': '' @ dq @
     ''identity'' @ dq @ ''}'' @ nl @ ''        client = httpx.AsyncClient(timeout=120.0)'' @ nl @
     ''        req = client.build_request('' @ nl @ ''            '' @ dq @ ''POST'' @ dq @ '','' @
     nl @ ''            f'' @ dq @ ''{UPSTREAM_BASE}/v1/messages'' @ dq @ '','' @ nl @
     ''            json=body,'' @ nl @ ''            headers=stream_headers,'' @ nl @
     ''        )'' @ nl @ ''        resp = await client.send(req, stream=True)'' @ nl @ nl @
     ''        response_headers = {}'' @ nl @ ''        for key in ('' @ dq @ ''content-type'' @
     dq @ '', '' @ dq @ ''x-request-id'' @ dq @ '', '' @ dq @ ''content-encoding'' @ dq @ ''):'' @
     nl @ ''            val = resp.headers.get(key)'' @ nl @ ''            if val:'' @ nl @
     ''                response_headers[key] = val'' @ nl @ nl @
     ''        async def passthrough():'' @ nl @ ''            try:'' @ nl @
     ''                async for raw in resp.aiter_raw():'' @ nl @
     ''                    yield raw'' @ nl @ ''            finally:'' @ nl @
     ''                await resp.aclose()'' @ nl @ ''                await client.aclose()'' @
     nl @ nl @ ''        return StreamingResponse('' @ nl @ ''            passthrough(),'' @ nl @
     ''            status_code=resp.status_code,'' @ nl @
     ''            headers=response_headers,'' @ nl @ ''        )'' @ nl @ ''    else:'' @ nl @
     ''        async with httpx.AsyncClient(timeout=120.0) as client:'' @ nl @
     ''            resp = await client.post('' @ nl @ ''                f'' @ dq @
     ''{UPSTREAM_BASE}/v1/messages'' @ dq @ '','' @ nl @ ''                json=body,'' @ nl @
     ''                headers=headers,'' @ nl @ ''            )'' @ nl @
     ''            return resp.json()'' @ nl @ nl @ nl"

definition server_py_classifier :: string where
  "server_py_classifier =
     ''_classifier = None'' @ nl @ nl @ nl @
     ''def _load_classifier(model_id: str, labels: list[str]) -> dict:'' @ nl @
     ''    import torch'' @ nl @
     ''    from transformers import AutoModelForSequenceClassification, AutoTokenizer'' @ nl @ nl @
     ''    print(f'' @ dq @ ''Loading classifier: {model_id}...'' @ dq @ '')'' @ nl @
     ''    t = time.time()'' @ nl @ ''    tokenizer = AutoTokenizer.from_pretrained(model_id)'' @
     nl @ ''    model = AutoModelForSequenceClassification.from_pretrained(model_id)'' @ nl @
     ''    print(f'' @ dq @
     ''Classifier loaded in {time.time() - t:.1f}s ({model_id}, labels: {labels})'' @ dq @ '')'' @
     nl @ ''    return {'' @ dq @ ''tokenizer'' @ dq @ '': tokenizer, '' @ dq @ ''model'' @ dq @
     '': model, '' @ dq @ ''labels'' @ dq @ '': labels, '' @ dq @ ''model_id'' @ dq @
     '': model_id}'' @ nl @ nl @ nl @ ''class ClassifierMessage(BaseModel):'' @ nl @
     ''    role: str'' @ nl @ ''    content: str'' @ nl @ nl @ nl @
     ''class ClassifierRequest(BaseModel):'' @ nl @ ''    model: str = '' @ dq @ dq @ nl @
     ''    messages: list[ClassifierMessage]'' @ nl @ ''    max_tokens: int = 50'' @ nl @
     ''    temperature: float = 0'' @ nl @ nl @ nl @ ''@app.post('' @ dq @
     ''/v1/chat/completions'' @ dq @ '')'' @ nl @
     ''async def chat_completions(req: ClassifierRequest):'' @ nl @ ''    import torch'' @ nl @
     nl @ ''    if _classifier is None:'' @ nl @ ''        return JSONResponse('' @ nl @
     ''            status_code=503,'' @ nl @ ''            content={'' @ dq @ ''error'' @ dq @
     '': '' @ dq @ ''Classifier not loaded. Start server without --no-classifier.'' @ dq @ ''},'' @
     nl @ ''        )'' @ nl @ nl @ ''    tokenizer = _classifier['' @ dq @ ''tokenizer'' @ dq @
     '']'' @ nl @ ''    model = _classifier['' @ dq @ ''model'' @ dq @ '']'' @ nl @
     ''    labels = _classifier['' @ dq @ ''labels'' @ dq @ '']'' @ nl @ nl @
     ''    text = req.messages[-1].content if req.messages else '' @ dq @ dq @ nl @ nl @
     ''    start = time.time()'' @ nl @ ''    inputs = tokenizer(text, return_tensors='' @ dq @
     ''pt'' @ dq @ '', truncation=True, max_length=512)'' @ nl @ ''    with torch.no_grad():'' @
     nl @ ''        outputs = model(**inputs)'' @ nl @
     ''    probs = torch.softmax(outputs.logits, dim=1)[0].tolist()'' @ nl @
     ''    prediction = torch.argmax(outputs.logits, dim=1).item()'' @ nl @
     ''    label = labels[prediction] if prediction < len(labels) else f'' @ dq @
     ''class_{prediction}'' @ dq @ nl @ ''    elapsed_ms = (time.time() - start) * 1000'' @ nl @
     nl @ ''    prob_str = '' @ dq @ '' '' @ dq @ ''.join(f'' @ dq @
     ''{labels[i] if i < len(labels) else f'' @ sq @ ''c{i}'' @ sq @ ''}:{p:.2f}'' @ dq @
     '' for i, p in enumerate(probs))'' @ nl @ ''    preview = text[:80] + '' @ dq @ ''...'' @ dq @
     '' if len(text) > 80 else text'' @ nl @ ''    print(f'' @ dq @
     ''[classify] [{label}] {prob_str} ({elapsed_ms:.0f}ms) | {preview}'' @ dq @ '')'' @ nl @ nl @
     ''    return {'' @ nl @ ''        '' @ dq @ ''id'' @ dq @ '': '' @ dq @ ''cmpl-classifier'' @
     dq @ '','' @ nl @ ''        '' @ dq @ ''object'' @ dq @ '': '' @ dq @ ''chat.completion'' @
     dq @ '','' @ nl @ ''        '' @ dq @ ''model'' @ dq @ '': req.model or _classifier['' @ dq @
     ''model_id'' @ dq @ ''],'' @ nl @ ''        '' @ dq @ ''choices'' @ dq @ '': ['' @ nl @
     ''            {'' @ nl @ ''                '' @ dq @ ''index'' @ dq @ '': 0,'' @ nl @
     ''                '' @ dq @ ''message'' @ dq @ '': {'' @ dq @ ''role'' @ dq @ '': '' @ dq @
     ''assistant'' @ dq @ '', '' @ dq @ ''content'' @ dq @ '': label},'' @ nl @
     ''                '' @ dq @ ''finish_reason'' @ dq @ '': '' @ dq @ ''stop'' @ dq @ '','' @
     nl @ ''            }'' @ nl @ ''        ],'' @ nl @ ''        '' @ dq @ ''usage'' @ dq @
     '': {'' @ nl @ ''            '' @ dq @ ''prompt_tokens'' @ dq @ '': len(inputs['' @ dq @
     ''input_ids'' @ dq @ ''][0]),'' @ nl @ ''            '' @ dq @ ''completion_tokens'' @ dq @
     '': 1,'' @ nl @ ''            '' @ dq @ ''total_tokens'' @ dq @ '': len(inputs['' @ dq @
     ''input_ids'' @ dq @ ''][0]) + 1,'' @ nl @ ''        },'' @ nl @ ''    }'' @ nl @ nl @ nl"

definition server_py_main :: string where
  "server_py_main =
     ''@app.get('' @ dq @ ''/health'' @ dq @ '')'' @ nl @ ''async def health():'' @ nl @
     ''    with _patterns_lock:'' @ nl @ ''        pattern_count = len(_pii_patterns)'' @ nl @
     ''    result: dict = {'' @ nl @ ''        '' @ dq @ ''status'' @ dq @ '': '' @ dq @ ''ok'' @
     dq @ '','' @ nl @ ''        '' @ dq @ ''services'' @ dq @ '': {'' @ nl @ ''            '' @
     dq @ ''redaction_proxy'' @ dq @ '': {'' @ nl @ ''                '' @ dq @ ''pii_patterns'' @
     dq @ '': pattern_count,'' @ nl @ ''                '' @ dq @ ''upstream'' @ dq @
     '': UPSTREAM_BASE,'' @ nl @ ''            },'' @ nl @ ''        },'' @ nl @ ''    }'' @ nl @
     ''    if _classifier is not None:'' @ nl @ ''        result['' @ dq @ ''services'' @ dq @
     '']['' @ dq @ ''classifier'' @ dq @ ''] = {'' @ nl @ ''            '' @ dq @ ''model'' @ dq @
     '': _classifier['' @ dq @ ''model_id'' @ dq @ ''],'' @ nl @ ''            '' @ dq @
     ''labels'' @ dq @ '': _classifier['' @ dq @ ''labels'' @ dq @ ''],'' @ nl @ ''        }'' @
     nl @ ''    else:'' @ nl @ ''        result['' @ dq @ ''services'' @ dq @ '']['' @ dq @
     ''classifier'' @ dq @ ''] = {'' @ dq @ ''status'' @ dq @ '': '' @ dq @ ''disabled'' @ dq @
     ''}'' @ nl @ ''    return result'' @ nl @ nl @ nl @ ''DEFAULT_CLASSIFIER_MODEL = '' @ dq @
     ''Shaheer001/Query-Complexity-Classifier'' @ dq @ nl @ ''DEFAULT_CLASSIFIER_LABELS = '' @ dq @
     ''simple,medium,complex'' @ dq @ nl @ nl @ ''if __name__ == '' @ dq @ ''__main__'' @ dq @
     '':'' @ nl @ ''    parser = argparse.ArgumentParser(description='' @ dq @
     ''ObserveClaw Server'' @ dq @ '')'' @ nl @ ''    parser.add_argument('' @ dq @ ''--port'' @
     dq @ '', type=int, default=int(os.environ.get('' @ dq @ ''GATEWAY_PORT'' @ dq @ '', '' @ dq @
     ''8443'' @ dq @ '')))'' @ nl @ ''    parser.add_argument('' @ dq @ ''--host'' @ dq @
     '', default='' @ dq @ ''0.0.0.0'' @ dq @ '')'' @ nl @ ''    parser.add_argument('' @ nl @
     ''        '' @ dq @ ''--upstream'' @ dq @ '','' @ nl @ ''        default=os.environ.get('' @
     dq @ ''UPSTREAM_BASE_URL'' @ dq @ '', '' @ dq @ ''https://api.anthropic.com'' @ dq @ ''),'' @
     nl @ ''        help='' @ dq @ ''Upstream LLM base URL'' @ dq @ '','' @ nl @ ''    )'' @ nl @
     ''    parser.add_argument('' @ nl @ ''        '' @ dq @ ''--classifier-model'' @ dq @ '','' @
     nl @ ''        default=os.environ.get('' @ dq @ ''CLASSIFIER_MODEL'' @ dq @
     '', DEFAULT_CLASSIFIER_MODEL),'' @ nl @ ''        help=f'' @ dq @
     ''HuggingFace model ID (default: {DEFAULT_CLASSIFIER_MODEL})'' @ dq @ '','' @ nl @ ''    )'' @
     nl @ ''    parser.add_argument('' @ nl @ ''        '' @ dq @ ''--classifier-labels'' @ dq @
     '','' @ nl @ ''        default=os.environ.get('' @ dq @ ''CLASSIFIER_LABELS'' @ dq @
     '', DEFAULT_CLASSIFIER_LABELS),'' @ nl @ ''        help=f'' @ dq @
     ''Comma-separated labels (default: {DEFAULT_CLASSIFIER_LABELS})'' @ dq @ '','' @ nl @
     ''    )'' @ nl @ ''    parser.add_argument('' @ nl @ ''        '' @ dq @ ''--no-classifier'' @
     dq @ '','' @ nl @ ''        action='' @ dq @ ''store_true'' @ dq @ '','' @ nl @
     ''        help='' @ dq @ ''Skip classifier model loading (PII proxy only, fast startup)'' @
     dq @ '','' @ nl @ ''    )'' @ nl @ ''    args = parser.parse_args()'' @ nl @ nl @
     ''    UPSTREAM_BASE = args.upstream'' @ nl @ nl @ ''    if not args.no_classifier:'' @ nl @
     ''        labels = [l.strip() for l in args.classifier_labels.split('' @ dq @ '','' @ dq @
     '')]'' @ nl @ ''        _classifier = _load_classifier(args.classifier_model, labels)'' @ nl @
     nl @ ''    print(f'' @ dq @
     ''ObserveClaw Server listening on http://{args.host}:{args.port}'' @ dq @ '')'' @ nl @
     ''    print(f'' @ dq @
     ''  /v1/messages         -> PII redaction proxy ({0} patterns) -> {UPSTREAM_BASE}'' @ dq @
     '')'' @ nl @ ''    print(f'' @ dq @
     ''  /config/patterns     -> push PII patterns from plugin'' @ dq @ '')'' @ nl @
     ''    if _classifier:'' @ nl @ ''        print(f'' @ dq @
     ''  /v1/chat/completions -> classifier ({_classifier['' @ sq @ ''model_id'' @ sq @ '']})'' @
     dq @ '')'' @ nl @ ''    else:'' @ nl @ ''        print(f'' @ dq @
     ''  /v1/chat/completions -> disabled'' @ dq @ '')'' @ nl @
     ''    uvicorn.run(app, host=args.host, port=args.port, log_level='' @ dq @ ''warning'' @ dq @
     '')'' @ nl"

definition gatewayServerScript :: string where
  "gatewayServerScript =
     server_py_patterns @ server_py_redact @ server_py_proxy @ server_py_classifier @ server_py_main"

end
