(* ===== verification/GatewayController.thy ===== *)
theory GatewayController
  imports CreateOnly GatewayScript
begin

text \<open>
  The gateway controller (\<open>internal/controller/clawgateway_controller.go\<close>): the objects of a gateway
  (server script, deployment, service, and Ollama when an evaluator asks for it) and its
  create-only reconcile, with the proof that the handler is \<open>ensureAll\<close> of the list of objects.
\<close>

section \<open>Settings\<close>

definition gatewayPort :: "ClawGateway \<Rightarrow> int" where
  "gatewayPort gw = (if GW_Port (Gateway_Spec gw) = 0 then 8443 else GW_Port (Gateway_Spec gw))"

text \<open>The loop over the evaluators, up to its \<open>break\<close>: whether Ollama is needed, and its model.\<close>

fun findOllama :: "GatewayEvaluatorSpec list \<Rightarrow> bool \<times> string" where
  "findOllama [] = (False, ''llama-guard3:1b'')"
| "findOllama (ev # rest) =
     (if Ev_Type ev = ''classifier'' \<and> Ev_OllamaEndpoint ev \<noteq> ''''
      then (True, if Ev_ClassifierModel ev \<noteq> '''' then Ev_ClassifierModel ev else ''llama-guard3:1b'')
      else findOllama rest)"

definition gatewayLabels :: "string \<Rightarrow> Labels" where
  "gatewayLabels name =
     mputs [(''app'', name @ ''-gateway''),
            (''clawbernetes.io/gateway'', name),
            (''app.kubernetes.io/managed-by'', ''clawbernetes'')] []"

section \<open>The gateway's objects\<close>

definition gatewayScriptConfigMap :: "string \<Rightarrow> string \<Rightarrow> ConfigMap" where
  "gatewayScriptConfigMap ns name =
     \<lparr>CM_Meta = new_meta (name @ ''-gateway-script'') ns (gatewayLabels name),
      CM_Data = Some (mputs [(''server.py'', gatewayServerScript)] []), CM_BinaryData = None\<rparr>"

text \<open>The variables one evaluator adds.\<close>

definition routeEnv :: "GatewayEvaluatorSpec \<Rightarrow> EnvVar list" where
  "routeEnv ev =
     (case (if Ev_Type ev = ''classifier'' then Ev_Routes ev else None) of
        None \<Rightarrow> []
      | Some routes \<Rightarrow>
          (case mget routes ''simple'' of
             Some r \<Rightarrow> [env_var ''ROUTE_SIMPLE_MODEL'' (Route_Model r)] | None \<Rightarrow> []) @
          (case mget routes ''complex'' of
             Some r \<Rightarrow> [env_var ''ROUTE_COMPLEX_MODEL'' (Route_Model r)] | None \<Rightarrow> []))"

definition gatewayEnv :: "ClawGateway \<Rightarrow> int \<Rightarrow> string \<Rightarrow> EnvVar list" where
  "gatewayEnv gw port ollamaEndpoint =
     [env_var ''GATEWAY_PORT'' (show_int port),
      env_var ''UPSTREAM_BASE_URL'' ''https://api.anthropic.com'',
      env_var ''PYTHONPATH'' ''/deps''] @
     (if ollamaEndpoint \<noteq> '''' then [env_var ''OLLAMA_ENDPOINT'' ollamaEndpoint] else []) @
     concat (map routeEnv (Routing_Evaluators (GW_Routing (Gateway_Spec gw))))"

definition gatewayInstallDeps :: Container where
  "gatewayInstallDeps = (container0 ''install-deps'' ''python:3.11-slim'')\<lparr>
     C_Command := [''pip'', ''install'', ''--target=/deps'', ''fastapi'', ''uvicorn[standard]'', ''httpx'', ''pydantic''],
     C_VolumeMounts := [vmount ''deps'' ''/deps'' False]\<rparr>"

definition gatewayContainer :: "ClawGateway \<Rightarrow> int \<Rightarrow> string \<Rightarrow> Container" where
  "gatewayContainer gw port ollamaEndpoint = (container0 ''gateway'' ''python:3.11-slim'')\<lparr>
     C_Command := [''python'', ''/app/server.py'', ''--port'', show_int port, ''--no-classifier''],
     C_Ports := [cport ''http'' (to_int32 port)],
     C_Env := gatewayEnv gw port ollamaEndpoint,
     C_EnvFrom := [\<lparr>SES_Name = ''openclaw-api-keys'', SES_Optional = Some True\<rparr>],
     C_VolumeMounts := [vmount ''script'' ''/app'' True, vmount ''deps'' ''/deps'' True]\<rparr>"

definition gatewayDeployment :: "ClawGateway \<Rightarrow> string \<Rightarrow> string \<Rightarrow> int \<Rightarrow> string \<Rightarrow> Deployment" where
  "gatewayDeployment gw ns name port ollamaEndpoint =
     (let labels = gatewayLabels name in
      \<lparr>Dep_Meta = new_meta (name @ ''-gateway'') ns labels,
       Dep_Spec = \<lparr>
         DS_Replicas = Some 1,
         DS_Selector = labels,
         DS_TemplateLabels = labels,
         DS_PodSpec = \<lparr>
           Pod_SecurityContext = None,
           Pod_RestartPolicy = '''',
           Pod_InitContainers = [gatewayInstallDeps],
           Pod_Containers = [gatewayContainer gw port ollamaEndpoint],
           Pod_Volumes =
             [vol ''script'' (ConfigMapSource (name @ ''-gateway-script'') None), vol ''deps'' EmptyDir]\<rparr>\<rparr>,
       Dep_Status = no_dep_status\<rparr>)"

definition gatewayService :: "string \<Rightarrow> string \<Rightarrow> int \<Rightarrow> Service" where
  "gatewayService ns name port =
     (let labels = gatewayLabels name in
      \<lparr>Svc_Meta = new_meta (name @ ''-gateway'') ns labels,
       Svc_Selector = labels, Svc_Ports = [sport ''http'' port], Svc_ClusterIP = ''''\<rparr>)"

section \<open>Ollama\<close>

definition ollamaLabels :: "string \<Rightarrow> Labels" where
  "ollamaLabels gwName =
     mputs [(''app'', gwName @ ''-ollama''),
            (''clawbernetes.io/gateway'', gwName),
            (''app.kubernetes.io/managed-by'', ''clawbernetes'')] []"

text \<open>\<open>resource.MustParse\<close> of a constant: a panic when it is not a quantity.\<close>

definition quantity :: "ext \<Rightarrow> string \<Rightarrow> err + Quantity" where
  "quantity x s =
     (case ext_ParseQuantity x s of None \<Rightarrow> Inl (PanicErr (''cannot parse '' @ s)) | Some q \<Rightarrow> Inr q)"

definition ollamaResources :: "ext \<Rightarrow> err + ResourceRequirements" where
  "ollamaResources x =
     (case quantity x ''2Gi'' of Inl e \<Rightarrow> Inl e | Inr memRequest \<Rightarrow>
      case quantity x ''500m'' of Inl e \<Rightarrow> Inl e | Inr cpuRequest \<Rightarrow>
      case quantity x ''4Gi'' of Inl e \<Rightarrow> Inl e | Inr memLimit \<Rightarrow>
      case quantity x ''2'' of Inl e \<Rightarrow> Inl e | Inr cpuLimit \<Rightarrow>
        Inr \<lparr>RR_Requests = Some (mputs [(''memory'', memRequest), (''cpu'', cpuRequest)] []),
             RR_Limits = Some (mputs [(''memory'', memLimit), (''cpu'', cpuLimit)] [])\<rparr>)"

definition ollamaContainer :: "ResourceRequirements \<Rightarrow> string \<Rightarrow> Container" where
  "ollamaContainer res model = (container0 ''ollama'' ''ollama/ollama:latest'')\<lparr>
     C_Ports := [cport ''http'' 11434],
     C_PostStart := Some [''sh'', ''-c'', ''sleep 5 && ollama pull '' @ model],
     C_Resources := res\<rparr>"

definition ollamaDeployment :: "ext \<Rightarrow> string \<Rightarrow> string \<Rightarrow> string \<Rightarrow> err + Deployment" where
  "ollamaDeployment x ns gwName model =
     (let labels = ollamaLabels gwName in
      case ollamaResources x of
        Inl e \<Rightarrow> Inl e
      | Inr res \<Rightarrow> Inr
          \<lparr>Dep_Meta = new_meta (gwName @ ''-ollama'') ns labels,
           Dep_Spec = \<lparr>
             DS_Replicas = Some 1,
             DS_Selector = labels,
             DS_TemplateLabels = labels,
             DS_PodSpec = \<lparr>
               Pod_SecurityContext = None, Pod_RestartPolicy = '''', Pod_InitContainers = [],
               Pod_Containers = [ollamaContainer res model], Pod_Volumes = []\<rparr>\<rparr>,
           Dep_Status = no_dep_status\<rparr>)"

definition ollamaService :: "string \<Rightarrow> string \<Rightarrow> Service" where
  "ollamaService ns gwName =
     (let labels = ollamaLabels gwName in
      \<lparr>Svc_Meta = new_meta (gwName @ ''-ollama'') ns labels,
       Svc_Selector = labels, Svc_Ports = [sport ''http'' 11434], Svc_ClusterIP = ''''\<rparr>)"

definition ollamaEndpointFor :: "bool \<Rightarrow> string \<Rightarrow> string \<Rightarrow> string" where
  "ollamaEndpointFor needsOllama ns name =
     (if needsOllama then ''http://'' @ name @ ''-ollama.'' @ ns @ ''.svc.cluster.local:11434'' else '''')"

section \<open>Reconcile\<close>

definition gateway_ensureResource :: "ext \<Rightarrow> 'w kube \<Rightarrow> ClawGateway \<Rightarrow> Obj \<Rightarrow> string \<Rightarrow> ('w, err + unit) state" where
  "gateway_ensureResource x kc gw ob desc = ensureCreated x kc KClawGateway (Gateway_Meta gw) ob desc"

definition reconcileGateway :: "ext \<Rightarrow> 'w kube \<Rightarrow> ClawGateway \<Rightarrow> ('w, err + unit) state" where
  "reconcileGateway x kc gw =
     (let ns = Meta_Namespace (Gateway_Meta gw); name = Meta_Name (Gateway_Meta gw); port = gatewayPort gw;
          (needsOllama, ollamaModel) = findOllama (Routing_Evaluators (GW_Routing (Gateway_Spec gw)))
      in
      bindE
        (if needsOllama then
           (case ollamaDeployment x ns name ollamaModel of
              Inl e \<Rightarrow> throwE e
            | Inr dep \<Rightarrow>
                bindE (gateway_ensureResource x kc gw (ODeployment dep) ''ollama-deployment'') (\<lambda>_.
                gateway_ensureResource x kc gw (OService (ollamaService ns name)) ''ollama-service''))
         else retE ())
      (\<lambda>_. bindE (gateway_ensureResource x kc gw (OConfigMap (gatewayScriptConfigMap ns name)) ''gateway-script-cm'') (\<lambda>_.
      (let ollamaEndpoint = ollamaEndpointFor needsOllama ns name in
      bindE (gateway_ensureResource x kc gw (ODeployment (gatewayDeployment gw ns name port ollamaEndpoint)) ''gateway-deployment'') (\<lambda>_.
      gateway_ensureResource x kc gw (OService (gatewayService ns name port)) ''gateway-service'')))))"

definition gateway_Reconcile :: "ext \<Rightarrow> 'w kube \<Rightarrow> NamespacedName \<Rightarrow> ('w, err + unit) state" where
  "gateway_Reconcile x kc req = with_object asClawGateway kc KClawGateway req (reconcileGateway x kc)"

text \<open>\<open>SetupWithManager\<close>: its own resources, and the owned deployments, services and config maps.\<close>

definition gateway_requests :: "Obj \<Rightarrow> NamespacedName list" where
  "gateway_requests ob =
     (case kind_of ob of
        KClawGateway \<Rightarrow> [key_of ob]
      | KDeployment \<Rightarrow> owner_requests KClawGateway (meta_of ob)
      | KService \<Rightarrow> owner_requests KClawGateway (meta_of ob)
      | KConfigMap \<Rightarrow> owner_requests KClawGateway (meta_of ob)
      | _ \<Rightarrow> [])"

section \<open>The list of objects\<close>

definition gatewayObjects :: "ext \<Rightarrow> ClawGateway \<Rightarrow> err + (string \<times> Obj) list" where
  "gatewayObjects x gw =
     (let ns = Meta_Namespace (Gateway_Meta gw); name = Meta_Name (Gateway_Meta gw); port = gatewayPort gw;
          (needsOllama, ollamaModel) = findOllama (Routing_Evaluators (GW_Routing (Gateway_Spec gw)));
          own = [(''gateway-script-cm'', OConfigMap (gatewayScriptConfigMap ns name)),
                 (''gateway-deployment'', ODeployment (gatewayDeployment gw ns name port (ollamaEndpointFor needsOllama ns name))),
                 (''gateway-service'', OService (gatewayService ns name port))]
      in if needsOllama then
           (case ollamaDeployment x ns name ollamaModel of
              Inl e \<Rightarrow> Inl e
            | Inr dep \<Rightarrow> Inr ([(''ollama-deployment'', ODeployment dep),
                              (''ollama-service'', OService (ollamaService ns name))] @ own))
         else Inr own)"

definition gatewayObjs :: "ext \<Rightarrow> ClawGateway \<Rightarrow> (string \<times> Obj) list" where
  "gatewayObjs x gw = (case gatewayObjects x gw of Inl _ \<Rightarrow> [] | Inr objs \<Rightarrow> objs)"

lemma ensureAll_single: "ensureAll x kc ok owner [(d, ob)] = ensureCreated x kc ok owner ob d"
proof -
  have "bindE m (\<lambda>_. retE ()) = m" for m :: "('b, err + unit) state"
    by (rule state_ext) (auto simp: run_bindE split: prod.split sum.split)
  then show ?thesis by simp
qed

text \<open>The handler, with its early returns, ensures the list.\<close>

lemma reconcileGateway_ensureAll:
  "reconcileGateway x kc gw =
     (case gatewayObjects x gw of Inl e \<Rightarrow> throwE e
      | Inr objs \<Rightarrow> ensureAll x kc KClawGateway (Gateway_Meta gw) objs)"
proof -
  have last: "ensureCreated x kc ok owner ob d = ensureAll x kc ok owner [(d, ob)]" for ok owner ob d
    by (simp only: ensureAll_single)
  show ?thesis
    unfolding reconcileGateway_def gatewayObjects_def Let_def gateway_ensureResource_def
    by (simp add: last bindE_assoc ensureAll_append split: prod.split sum.split del: ensureAll.simps(2))
      (simp add: ensureAll_single bindE_assoc)
qed

lemma gateway_name_clashes [simp]: "n @ ''-ollama'' \<noteq> n' @ ''-gateway''" "n' @ ''-gateway'' \<noteq> n @ ''-ollama''"
  by (auto dest: arg_cong [where f = last])

interpretation gateway: owned_objects "Meta_Namespace (Gateway_Meta gw)" "gatewayObjs x gw" for x gw
proof -
  have dep: "ollamaDeployment x ns n model = Inr dep \<Longrightarrow> Dep_Meta dep = new_meta (n @ ''-ollama'') ns (ollamaLabels n)"
    for ns n model dep
    by (auto simp: ollamaDeployment_def Let_def split: sum.splits)
  show "owned_objects (Meta_Namespace (Gateway_Meta gw)) (gatewayObjs x gw)"
    by unfold_locales
      (auto simp: gatewayObjs_def gatewayObjects_def Let_def gatewayScriptConfigMap_def gatewayDeployment_def gatewayService_def
        ollamaService_def id_of_def split: sum.splits prod.splits if_splits dest!: dep)
qed

end
