(* ===== verification/FleetOverview.thy ===== *)
theory FleetOverview
  imports GoStd
begin

text \<open>
  The Grafana dashboard the operator embeds with \<open>go:embed\<close>, byte for byte:
  \<open>internal/controller/fleet-overview-dashboard.json\<close>, in four parts of its lines.
\<close>

definition fleet_overview_json_1 :: string where
  "fleet_overview_json_1 =
     ''{'' @ nl @ ''  '' @ dq @ ''uid'' @ dq @ '': '' @ dq @ ''clawbernetes-fleet'' @ dq @ '','' @
     nl @ ''  '' @ dq @ ''title'' @ dq @ '': '' @ dq @ ''Clawbernetes Fleet Overview'' @ dq @
     '','' @ nl @ ''  '' @ dq @ ''description'' @ dq @ '': '' @ dq @
     ''Fleet-wide monitoring for Clawbernetes AI agents.'' @ dq @ '','' @ nl @ ''  '' @ dq @
     ''tags'' @ dq @ '': ['' @ dq @ ''clawbernetes'' @ dq @ '', '' @ dq @ ''fleet'' @ dq @ '', '' @
     dq @ ''agents'' @ dq @ ''],'' @ nl @ ''  '' @ dq @ ''timezone'' @ dq @ '': '' @ dq @
     ''browser'' @ dq @ '','' @ nl @ ''  '' @ dq @ ''schemaVersion'' @ dq @ '': 39,'' @ nl @
     ''  '' @ dq @ ''version'' @ dq @ '': 2,'' @ nl @ ''  '' @ dq @ ''editable'' @ dq @
     '': true,'' @ nl @ ''  '' @ dq @ ''graphTooltip'' @ dq @ '': 1,'' @ nl @ ''  '' @ dq @
     ''refresh'' @ dq @ '': '' @ dq @ ''30s'' @ dq @ '','' @ nl @ ''  '' @ dq @ ''time'' @ dq @
     '': { '' @ dq @ ''from'' @ dq @ '': '' @ dq @ ''now-3h'' @ dq @ '', '' @ dq @ ''to'' @ dq @
     '': '' @ dq @ ''now'' @ dq @ '' },'' @ nl @ ''  '' @ dq @ ''timepicker'' @ dq @ '': {},'' @
     nl @ ''  '' @ dq @ ''templating'' @ dq @ '': { '' @ dq @ ''list'' @ dq @ '': [] },'' @ nl @
     ''  '' @ dq @ ''annotations'' @ dq @ '': { '' @ dq @ ''list'' @ dq @ '': [] },'' @ nl @
     ''  '' @ dq @ ''links'' @ dq @ '': [],'' @ nl @ ''  '' @ dq @ ''panels'' @ dq @ '': ['' @ nl @
     ''    {'' @ nl @ ''      '' @ dq @ ''id'' @ dq @ '': 100,'' @ nl @ ''      '' @ dq @
     ''type'' @ dq @ '': '' @ dq @ ''row'' @ dq @ '','' @ nl @ ''      '' @ dq @ ''title'' @ dq @
     '': '' @ dq @ ''Fleet Overview'' @ dq @ '','' @ nl @ ''      '' @ dq @ ''gridPos'' @ dq @
     '': { '' @ dq @ ''h'' @ dq @ '': 1, '' @ dq @ ''w'' @ dq @ '': 24, '' @ dq @ ''x'' @ dq @
     '': 0, '' @ dq @ ''y'' @ dq @ '': 0 },'' @ nl @ ''      '' @ dq @ ''collapsed'' @ dq @
     '': false'' @ nl @ ''    },'' @ nl @ ''    {'' @ nl @ ''      '' @ dq @ ''id'' @ dq @
     '': 1,'' @ nl @ ''      '' @ dq @ ''type'' @ dq @ '': '' @ dq @ ''stat'' @ dq @ '','' @ nl @
     ''      '' @ dq @ ''title'' @ dq @ '': '' @ dq @ ''Total LLM Calls'' @ dq @ '','' @ nl @
     ''      '' @ dq @ ''gridPos'' @ dq @ '': { '' @ dq @ ''h'' @ dq @ '': 5, '' @ dq @ ''w'' @
     dq @ '': 4, '' @ dq @ ''x'' @ dq @ '': 0, '' @ dq @ ''y'' @ dq @ '': 1 },'' @ nl @
     ''      '' @ dq @ ''datasource'' @ dq @ '': { '' @ dq @ ''type'' @ dq @ '': '' @ dq @
     ''tempo'' @ dq @ '', '' @ dq @ ''uid'' @ dq @ '': '' @ dq @ ''tempo'' @ dq @ '' },'' @ nl @
     ''      '' @ dq @ ''targets'' @ dq @ '': ['' @ nl @ ''        {'' @ nl @ ''          '' @ dq @
     ''refId'' @ dq @ '': '' @ dq @ ''A'' @ dq @ '','' @ nl @ ''          '' @ dq @
     ''datasource'' @ dq @ '': { '' @ dq @ ''type'' @ dq @ '': '' @ dq @ ''tempo'' @ dq @ '', '' @
     dq @ ''uid'' @ dq @ '': '' @ dq @ ''tempo'' @ dq @ '' },'' @ nl @ ''          '' @ dq @
     ''queryType'' @ dq @ '': '' @ dq @ ''traceql'' @ dq @ '','' @ nl @ ''          '' @ dq @
     ''query'' @ dq @ '': '' @ dq @ ''{span.gen_ai.operation.name = '' @ bsl @ dq @ ''chat'' @
     bsl @ dq @ ''}'' @ dq @ '','' @ nl @ ''          '' @ dq @ ''tableType'' @ dq @ '': '' @ dq @
     ''traces'' @ dq @ '','' @ nl @ ''          '' @ dq @ ''limit'' @ dq @ '': 500'' @ nl @
     ''        }'' @ nl @ ''      ],'' @ nl @ ''      '' @ dq @ ''options'' @ dq @ '': {'' @ nl @
     ''        '' @ dq @ ''reduceOptions'' @ dq @ '': { '' @ dq @ ''calcs'' @ dq @ '': ['' @ dq @
     ''count'' @ dq @ ''], '' @ dq @ ''fields'' @ dq @ '': '' @ dq @ ''/traceID/'' @ dq @ '', '' @
     dq @ ''values'' @ dq @ '': false },'' @ nl @ ''        '' @ dq @ ''colorMode'' @ dq @ '': '' @
     dq @ ''background'' @ dq @ '','' @ nl @ ''        '' @ dq @ ''graphMode'' @ dq @ '': '' @ dq @
     ''none'' @ dq @ '','' @ nl @ ''        '' @ dq @ ''textMode'' @ dq @ '': '' @ dq @ ''auto'' @
     dq @ '','' @ nl @ ''        '' @ dq @ ''orientation'' @ dq @ '': '' @ dq @ ''auto'' @ dq @
     nl @ ''      },'' @ nl @ ''      '' @ dq @ ''fieldConfig'' @ dq @ '': {'' @ nl @
     ''        '' @ dq @ ''defaults'' @ dq @ '': {'' @ nl @ ''          '' @ dq @ ''color'' @ dq @
     '': { '' @ dq @ ''mode'' @ dq @ '': '' @ dq @ ''thresholds'' @ dq @ '' },'' @ nl @
     ''          '' @ dq @ ''thresholds'' @ dq @ '': { '' @ dq @ ''mode'' @ dq @ '': '' @ dq @
     ''absolute'' @ dq @ '', '' @ dq @ ''steps'' @ dq @ '': ['' @ nl @ ''            { '' @ dq @
     ''color'' @ dq @ '': '' @ dq @ ''blue'' @ dq @ '', '' @ dq @ ''value'' @ dq @ '': null },'' @
     nl @ ''            { '' @ dq @ ''color'' @ dq @ '': '' @ dq @ ''green'' @ dq @ '', '' @ dq @
     ''value'' @ dq @ '': 5 }'' @ nl @ ''          ]}'' @ nl @ ''        },'' @ nl @ ''        '' @
     dq @ ''overrides'' @ dq @ '': []'' @ nl @ ''      }'' @ nl @ ''    },'' @ nl @ ''    {'' @
     nl @ ''      '' @ dq @ ''id'' @ dq @ '': 2,'' @ nl @ ''      '' @ dq @ ''type'' @ dq @
     '': '' @ dq @ ''stat'' @ dq @ '','' @ nl @ ''      '' @ dq @ ''title'' @ dq @ '': '' @ dq @
     ''Active Agents'' @ dq @ '','' @ nl @ ''      '' @ dq @ ''gridPos'' @ dq @ '': { '' @ dq @
     ''h'' @ dq @ '': 5, '' @ dq @ ''w'' @ dq @ '': 4, '' @ dq @ ''x'' @ dq @ '': 4, '' @ dq @
     ''y'' @ dq @ '': 1 },'' @ nl @ ''      '' @ dq @ ''datasource'' @ dq @ '': { '' @ dq @
     ''type'' @ dq @ '': '' @ dq @ ''tempo'' @ dq @ '', '' @ dq @ ''uid'' @ dq @ '': '' @ dq @
     ''tempo'' @ dq @ '' },'' @ nl @ ''      '' @ dq @ ''targets'' @ dq @ '': ['' @ nl @
     ''        {'' @ nl @ ''          '' @ dq @ ''refId'' @ dq @ '': '' @ dq @ ''A'' @ dq @ '','' @
     nl @ ''          '' @ dq @ ''datasource'' @ dq @ '': { '' @ dq @ ''type'' @ dq @ '': '' @ dq @
     ''tempo'' @ dq @ '', '' @ dq @ ''uid'' @ dq @ '': '' @ dq @ ''tempo'' @ dq @ '' },'' @ nl @
     ''          '' @ dq @ ''queryType'' @ dq @ '': '' @ dq @ ''traceql'' @ dq @ '','' @ nl @
     ''          '' @ dq @ ''query'' @ dq @ '': '' @ dq @ ''{span.gen_ai.operation.name = '' @
     bsl @ dq @ ''chat'' @ bsl @ dq @ ''}'' @ dq @ '','' @ nl @ ''          '' @ dq @
     ''tableType'' @ dq @ '': '' @ dq @ ''traces'' @ dq @ '','' @ nl @ ''          '' @ dq @
     ''limit'' @ dq @ '': 500'' @ nl @ ''        }'' @ nl @ ''      ],'' @ nl @ ''      '' @ dq @
     ''transformations'' @ dq @ '': ['' @ nl @ ''        {'' @ nl @ ''          '' @ dq @ ''id'' @
     dq @ '': '' @ dq @ ''groupBy'' @ dq @ '','' @ nl @ ''          '' @ dq @ ''options'' @ dq @
     '': {'' @ nl @ ''            '' @ dq @ ''fields'' @ dq @ '': {'' @ nl @ ''              '' @
     dq @ ''traceService'' @ dq @ '': { '' @ dq @ ''aggregations'' @ dq @ '': ['' @ dq @
     ''uniqueValues'' @ dq @ ''], '' @ dq @ ''operation'' @ dq @ '': '' @ dq @ ''groupby'' @ dq @
     '' }'' @ nl @ ''            }'' @ nl @ ''          }'' @ nl @ ''        },'' @ nl @
     ''        {'' @ nl @ ''          '' @ dq @ ''id'' @ dq @ '': '' @ dq @ ''reduce'' @ dq @
     '','' @ nl @ ''          '' @ dq @ ''options'' @ dq @ '': { '' @ dq @ ''reducers'' @ dq @
     '': ['' @ dq @ ''count'' @ dq @ ''] }'' @ nl @ ''        }'' @ nl @ ''      ],'' @ nl @
     ''      '' @ dq @ ''options'' @ dq @ '': {'' @ nl @ ''        '' @ dq @ ''reduceOptions'' @
     dq @ '': { '' @ dq @ ''calcs'' @ dq @ '': ['' @ dq @ ''lastNotNull'' @ dq @ ''], '' @ dq @
     ''fields'' @ dq @ '': '' @ dq @ dq @ '', '' @ dq @ ''values'' @ dq @ '': false },'' @ nl @
     ''        '' @ dq @ ''colorMode'' @ dq @ '': '' @ dq @ ''background'' @ dq @ '','' @ nl @
     ''        '' @ dq @ ''graphMode'' @ dq @ '': '' @ dq @ ''none'' @ dq @ '','' @ nl @
     ''        '' @ dq @ ''textMode'' @ dq @ '': '' @ dq @ ''auto'' @ dq @ '','' @ nl @
     ''        '' @ dq @ ''orientation'' @ dq @ '': '' @ dq @ ''auto'' @ dq @ nl @ ''      },'' @
     nl @ ''      '' @ dq @ ''fieldConfig'' @ dq @ '': {'' @ nl @ ''        '' @ dq @
     ''defaults'' @ dq @ '': {'' @ nl @ ''          '' @ dq @ ''color'' @ dq @ '': { '' @ dq @
     ''mode'' @ dq @ '': '' @ dq @ ''thresholds'' @ dq @ '' },'' @ nl @ ''          '' @ dq @
     ''thresholds'' @ dq @ '': { '' @ dq @ ''mode'' @ dq @ '': '' @ dq @ ''absolute'' @ dq @
     '', '' @ dq @ ''steps'' @ dq @ '': ['' @ nl @ ''            { '' @ dq @ ''color'' @ dq @
     '': '' @ dq @ ''purple'' @ dq @ '', '' @ dq @ ''value'' @ dq @ '': null },'' @ nl @
     ''            { '' @ dq @ ''color'' @ dq @ '': '' @ dq @ ''green'' @ dq @ '', '' @ dq @
     ''value'' @ dq @ '': 1 }'' @ nl @ ''          ]}'' @ nl @ ''        },'' @ nl @ ''        '' @
     dq @ ''overrides'' @ dq @ '': []'' @ nl @ ''      }'' @ nl @ ''    },'' @ nl @ ''    {'' @
     nl @ ''      '' @ dq @ ''id'' @ dq @ '': 3,'' @ nl @ ''      '' @ dq @ ''type'' @ dq @
     '': '' @ dq @ ''table'' @ dq @ '','' @ nl @ ''      '' @ dq @ ''title'' @ dq @ '': '' @ dq @
     ''Recent LLM Calls'' @ dq @ '','' @ nl @ ''      '' @ dq @ ''gridPos'' @ dq @ '': { '' @ dq @
     ''h'' @ dq @ '': 10, '' @ dq @ ''w'' @ dq @ '': 16, '' @ dq @ ''x'' @ dq @ '': 8, '' @ dq @
     ''y'' @ dq @ '': 1 },'' @ nl @ ''      '' @ dq @ ''datasource'' @ dq @ '': { '' @ dq @
     ''type'' @ dq @ '': '' @ dq @ ''tempo'' @ dq @ '', '' @ dq @ ''uid'' @ dq @ '': '' @ dq @
     ''tempo'' @ dq @ '' },'' @ nl @ ''      '' @ dq @ ''targets'' @ dq @ '': ['' @ nl @
     ''        {'' @ nl @ ''          '' @ dq @ ''refId'' @ dq @ '': '' @ dq @ ''A'' @ dq @ '','' @
     nl @ ''          '' @ dq @ ''datasource'' @ dq @ '': { '' @ dq @ ''type'' @ dq @ '': '' @ dq @
     ''tempo'' @ dq @ '', '' @ dq @ ''uid'' @ dq @ '': '' @ dq @ ''tempo'' @ dq @ '' },'' @ nl @
     ''          '' @ dq @ ''queryType'' @ dq @ '': '' @ dq @ ''traceql'' @ dq @ '','' @ nl @
     ''          '' @ dq @ ''query'' @ dq @ '': '' @ dq @ ''{span.gen_ai.operation.name = '' @
     bsl @ dq @ ''chat'' @ bsl @ dq @ ''}'' @ dq @ '','' @ nl"

definition fleet_overview_json_2 :: string where
  "fleet_overview_json_2 =
     ''          '' @ dq @ ''tableType'' @ dq @ '': '' @ dq @ ''traces'' @ dq @ '','' @ nl @
     ''          '' @ dq @ ''limit'' @ dq @ '': 20'' @ nl @ ''        }'' @ nl @ ''      ],'' @
     nl @ ''      '' @ dq @ ''options'' @ dq @ '': {'' @ nl @ ''        '' @ dq @ ''showHeader'' @
     dq @ '': true,'' @ nl @ ''        '' @ dq @ ''cellHeight'' @ dq @ '': '' @ dq @ ''sm'' @ dq @
     '','' @ nl @ ''        '' @ dq @ ''sortBy'' @ dq @ '': [{ '' @ dq @ ''displayName'' @ dq @
     '': '' @ dq @ ''Start time'' @ dq @ '', '' @ dq @ ''desc'' @ dq @ '': true }]'' @ nl @
     ''      },'' @ nl @ ''      '' @ dq @ ''fieldConfig'' @ dq @ '': {'' @ nl @ ''        '' @
     dq @ ''defaults'' @ dq @ '': {'' @ nl @ ''          '' @ dq @ ''custom'' @ dq @ '': { '' @
     dq @ ''align'' @ dq @ '': '' @ dq @ ''auto'' @ dq @ '', '' @ dq @ ''cellOptions'' @ dq @
     '': { '' @ dq @ ''type'' @ dq @ '': '' @ dq @ ''auto'' @ dq @ '' } }'' @ nl @ ''        },'' @
     nl @ ''        '' @ dq @ ''overrides'' @ dq @ '': ['' @ nl @ ''          {'' @ nl @
     ''            '' @ dq @ ''matcher'' @ dq @ '': { '' @ dq @ ''id'' @ dq @ '': '' @ dq @
     ''byName'' @ dq @ '', '' @ dq @ ''options'' @ dq @ '': '' @ dq @ ''traceDuration'' @ dq @
     '' },'' @ nl @ ''            '' @ dq @ ''properties'' @ dq @ '': ['' @ nl @
     ''              { '' @ dq @ ''id'' @ dq @ '': '' @ dq @ ''unit'' @ dq @ '', '' @ dq @
     ''value'' @ dq @ '': '' @ dq @ ''ns'' @ dq @ '' },'' @ nl @ ''              { '' @ dq @
     ''id'' @ dq @ '': '' @ dq @ ''displayName'' @ dq @ '', '' @ dq @ ''value'' @ dq @ '': '' @
     dq @ ''Duration'' @ dq @ '' }'' @ nl @ ''            ]'' @ nl @ ''          },'' @ nl @
     ''          {'' @ nl @ ''            '' @ dq @ ''matcher'' @ dq @ '': { '' @ dq @ ''id'' @
     dq @ '': '' @ dq @ ''byName'' @ dq @ '', '' @ dq @ ''options'' @ dq @ '': '' @ dq @
     ''traceService'' @ dq @ '' },'' @ nl @ ''            '' @ dq @ ''properties'' @ dq @
     '': [{ '' @ dq @ ''id'' @ dq @ '': '' @ dq @ ''displayName'' @ dq @ '', '' @ dq @ ''value'' @
     dq @ '': '' @ dq @ ''Agent'' @ dq @ '' }]'' @ nl @ ''          },'' @ nl @ ''          {'' @
     nl @ ''            '' @ dq @ ''matcher'' @ dq @ '': { '' @ dq @ ''id'' @ dq @ '': '' @ dq @
     ''byName'' @ dq @ '', '' @ dq @ ''options'' @ dq @ '': '' @ dq @ ''traceName'' @ dq @
     '' },'' @ nl @ ''            '' @ dq @ ''properties'' @ dq @ '': [{ '' @ dq @ ''id'' @ dq @
     '': '' @ dq @ ''displayName'' @ dq @ '', '' @ dq @ ''value'' @ dq @ '': '' @ dq @
     ''Operation'' @ dq @ '' }]'' @ nl @ ''          },'' @ nl @ ''          {'' @ nl @
     ''            '' @ dq @ ''matcher'' @ dq @ '': { '' @ dq @ ''id'' @ dq @ '': '' @ dq @
     ''byName'' @ dq @ '', '' @ dq @ ''options'' @ dq @ '': '' @ dq @ ''nested'' @ dq @ '' },'' @
     nl @ ''            '' @ dq @ ''properties'' @ dq @ '': [{ '' @ dq @ ''id'' @ dq @ '': '' @
     dq @ ''custom.hidden'' @ dq @ '', '' @ dq @ ''value'' @ dq @ '': true }]'' @ nl @
     ''          }'' @ nl @ ''        ]'' @ nl @ ''      }'' @ nl @ ''    },'' @ nl @ ''    {'' @
     nl @ ''      '' @ dq @ ''id'' @ dq @ '': 4,'' @ nl @ ''      '' @ dq @ ''type'' @ dq @
     '': '' @ dq @ ''piechart'' @ dq @ '','' @ nl @ ''      '' @ dq @ ''title'' @ dq @ '': '' @
     dq @ ''Calls by Agent'' @ dq @ '','' @ nl @ ''      '' @ dq @ ''gridPos'' @ dq @ '': { '' @
     dq @ ''h'' @ dq @ '': 5, '' @ dq @ ''w'' @ dq @ '': 4, '' @ dq @ ''x'' @ dq @ '': 0, '' @ dq @
     ''y'' @ dq @ '': 6 },'' @ nl @ ''      '' @ dq @ ''datasource'' @ dq @ '': { '' @ dq @
     ''type'' @ dq @ '': '' @ dq @ ''tempo'' @ dq @ '', '' @ dq @ ''uid'' @ dq @ '': '' @ dq @
     ''tempo'' @ dq @ '' },'' @ nl @ ''      '' @ dq @ ''targets'' @ dq @ '': ['' @ nl @
     ''        {'' @ nl @ ''          '' @ dq @ ''refId'' @ dq @ '': '' @ dq @ ''A'' @ dq @ '','' @
     nl @ ''          '' @ dq @ ''datasource'' @ dq @ '': { '' @ dq @ ''type'' @ dq @ '': '' @ dq @
     ''tempo'' @ dq @ '', '' @ dq @ ''uid'' @ dq @ '': '' @ dq @ ''tempo'' @ dq @ '' },'' @ nl @
     ''          '' @ dq @ ''queryType'' @ dq @ '': '' @ dq @ ''traceql'' @ dq @ '','' @ nl @
     ''          '' @ dq @ ''query'' @ dq @ '': '' @ dq @ ''{span.gen_ai.operation.name = '' @
     bsl @ dq @ ''chat'' @ bsl @ dq @ ''}'' @ dq @ '','' @ nl @ ''          '' @ dq @
     ''tableType'' @ dq @ '': '' @ dq @ ''traces'' @ dq @ '','' @ nl @ ''          '' @ dq @
     ''limit'' @ dq @ '': 500'' @ nl @ ''        }'' @ nl @ ''      ],'' @ nl @ ''      '' @ dq @
     ''transformations'' @ dq @ '': ['' @ nl @ ''        {'' @ nl @ ''          '' @ dq @ ''id'' @
     dq @ '': '' @ dq @ ''groupBy'' @ dq @ '','' @ nl @ ''          '' @ dq @ ''options'' @ dq @
     '': {'' @ nl @ ''            '' @ dq @ ''fields'' @ dq @ '': {'' @ nl @ ''              '' @
     dq @ ''traceService'' @ dq @ '': { '' @ dq @ ''aggregations'' @ dq @ '': [], '' @ dq @
     ''operation'' @ dq @ '': '' @ dq @ ''groupby'' @ dq @ '' },'' @ nl @ ''              '' @ dq @
     ''traceID'' @ dq @ '': { '' @ dq @ ''aggregations'' @ dq @ '': ['' @ dq @ ''count'' @ dq @
     ''], '' @ dq @ ''operation'' @ dq @ '': '' @ dq @ ''aggregate'' @ dq @ '' }'' @ nl @
     ''            }'' @ nl @ ''          }'' @ nl @ ''        }'' @ nl @ ''      ],'' @ nl @
     ''      '' @ dq @ ''options'' @ dq @ '': {'' @ nl @ ''        '' @ dq @ ''reduceOptions'' @
     dq @ '': { '' @ dq @ ''calcs'' @ dq @ '': ['' @ dq @ ''lastNotNull'' @ dq @ ''], '' @ dq @
     ''values'' @ dq @ '': true },'' @ nl @ ''        '' @ dq @ ''pieType'' @ dq @ '': '' @ dq @
     ''donut'' @ dq @ '','' @ nl @ ''        '' @ dq @ ''tooltip'' @ dq @ '': { '' @ dq @
     ''mode'' @ dq @ '': '' @ dq @ ''single'' @ dq @ '' },'' @ nl @ ''        '' @ dq @
     ''legend'' @ dq @ '': { '' @ dq @ ''displayMode'' @ dq @ '': '' @ dq @ ''list'' @ dq @
     '', '' @ dq @ ''placement'' @ dq @ '': '' @ dq @ ''bottom'' @ dq @ '' }'' @ nl @
     ''      },'' @ nl @ ''      '' @ dq @ ''fieldConfig'' @ dq @ '': {'' @ nl @ ''        '' @
     dq @ ''defaults'' @ dq @ '': { '' @ dq @ ''color'' @ dq @ '': { '' @ dq @ ''mode'' @ dq @
     '': '' @ dq @ ''palette-classic'' @ dq @ '' } },'' @ nl @ ''        '' @ dq @ ''overrides'' @
     dq @ '': []'' @ nl @ ''      }'' @ nl @ ''    },'' @ nl @ ''    {'' @ nl @ ''      '' @ dq @
     ''id'' @ dq @ '': 5,'' @ nl @ ''      '' @ dq @ ''type'' @ dq @ '': '' @ dq @ ''piechart'' @
     dq @ '','' @ nl @ ''      '' @ dq @ ''title'' @ dq @ '': '' @ dq @ ''Calls by Operation'' @
     dq @ '','' @ nl @ ''      '' @ dq @ ''gridPos'' @ dq @ '': { '' @ dq @ ''h'' @ dq @
     '': 5, '' @ dq @ ''w'' @ dq @ '': 4, '' @ dq @ ''x'' @ dq @ '': 4, '' @ dq @ ''y'' @ dq @
     '': 6 },'' @ nl @ ''      '' @ dq @ ''datasource'' @ dq @ '': { '' @ dq @ ''type'' @ dq @
     '': '' @ dq @ ''tempo'' @ dq @ '', '' @ dq @ ''uid'' @ dq @ '': '' @ dq @ ''tempo'' @ dq @
     '' },'' @ nl @ ''      '' @ dq @ ''targets'' @ dq @ '': ['' @ nl @ ''        {'' @ nl @
     ''          '' @ dq @ ''refId'' @ dq @ '': '' @ dq @ ''A'' @ dq @ '','' @ nl @
     ''          '' @ dq @ ''datasource'' @ dq @ '': { '' @ dq @ ''type'' @ dq @ '': '' @ dq @
     ''tempo'' @ dq @ '', '' @ dq @ ''uid'' @ dq @ '': '' @ dq @ ''tempo'' @ dq @ '' },'' @ nl @
     ''          '' @ dq @ ''queryType'' @ dq @ '': '' @ dq @ ''traceql'' @ dq @ '','' @ nl @
     ''          '' @ dq @ ''query'' @ dq @ '': '' @ dq @ ''{span.gen_ai.operation.name = '' @
     bsl @ dq @ ''chat'' @ bsl @ dq @ ''}'' @ dq @ '','' @ nl @ ''          '' @ dq @
     ''tableType'' @ dq @ '': '' @ dq @ ''traces'' @ dq @ '','' @ nl @ ''          '' @ dq @
     ''limit'' @ dq @ '': 500'' @ nl @ ''        }'' @ nl @ ''      ],'' @ nl @ ''      '' @ dq @
     ''transformations'' @ dq @ '': ['' @ nl @ ''        {'' @ nl @ ''          '' @ dq @ ''id'' @
     dq @ '': '' @ dq @ ''groupBy'' @ dq @ '','' @ nl @ ''          '' @ dq @ ''options'' @ dq @
     '': {'' @ nl @ ''            '' @ dq @ ''fields'' @ dq @ '': {'' @ nl @ ''              '' @
     dq @ ''traceName'' @ dq @ '': { '' @ dq @ ''aggregations'' @ dq @ '': [], '' @ dq @
     ''operation'' @ dq @ '': '' @ dq @ ''groupby'' @ dq @ '' },'' @ nl @ ''              '' @ dq @
     ''traceID'' @ dq @ '': { '' @ dq @ ''aggregations'' @ dq @ '': ['' @ dq @ ''count'' @ dq @
     ''], '' @ dq @ ''operation'' @ dq @ '': '' @ dq @ ''aggregate'' @ dq @ '' }'' @ nl @
     ''            }'' @ nl @ ''          }'' @ nl @ ''        }'' @ nl @ ''      ],'' @ nl @
     ''      '' @ dq @ ''options'' @ dq @ '': {'' @ nl @ ''        '' @ dq @ ''reduceOptions'' @
     dq @ '': { '' @ dq @ ''calcs'' @ dq @ '': ['' @ dq @ ''lastNotNull'' @ dq @ ''], '' @ dq @
     ''values'' @ dq @ '': true },'' @ nl @ ''        '' @ dq @ ''pieType'' @ dq @ '': '' @ dq @
     ''donut'' @ dq @ '','' @ nl @ ''        '' @ dq @ ''tooltip'' @ dq @ '': { '' @ dq @
     ''mode'' @ dq @ '': '' @ dq @ ''single'' @ dq @ '' },'' @ nl @ ''        '' @ dq @
     ''legend'' @ dq @ '': { '' @ dq @ ''displayMode'' @ dq @ '': '' @ dq @ ''list'' @ dq @
     '', '' @ dq @ ''placement'' @ dq @ '': '' @ dq @ ''bottom'' @ dq @ '' }'' @ nl @
     ''      },'' @ nl @ ''      '' @ dq @ ''fieldConfig'' @ dq @ '': {'' @ nl @ ''        '' @
     dq @ ''defaults'' @ dq @ '': { '' @ dq @ ''color'' @ dq @ '': { '' @ dq @ ''mode'' @ dq @
     '': '' @ dq @ ''palette-classic'' @ dq @ '' } },'' @ nl @ ''        '' @ dq @ ''overrides'' @
     dq @ '': []'' @ nl @ ''      }'' @ nl @ ''    },'' @ nl @ ''    {'' @ nl @ ''      '' @ dq @
     ''id'' @ dq @ '': 200,'' @ nl @ ''      '' @ dq @ ''type'' @ dq @ '': '' @ dq @ ''row'' @ dq @
     '','' @ nl @ ''      '' @ dq @ ''title'' @ dq @ '': '' @ dq @ ''Agent Activity'' @ dq @
     '','' @ nl @ ''      '' @ dq @ ''gridPos'' @ dq @ '': { '' @ dq @ ''h'' @ dq @ '': 1, '' @
     dq @ ''w'' @ dq @ '': 24, '' @ dq @ ''x'' @ dq @ '': 0, '' @ dq @ ''y'' @ dq @ '': 11 },'' @
     nl @ ''      '' @ dq @ ''collapsed'' @ dq @ '': false'' @ nl"

definition fleet_overview_json_3 :: string where
  "fleet_overview_json_3 =
     ''    },'' @ nl @ ''    {'' @ nl @ ''      '' @ dq @ ''id'' @ dq @ '': 6,'' @ nl @
     ''      '' @ dq @ ''type'' @ dq @ '': '' @ dq @ ''table'' @ dq @ '','' @ nl @ ''      '' @
     dq @ ''title'' @ dq @ '': '' @ dq @ ''eng-agent Traces'' @ dq @ '','' @ nl @ ''      '' @ dq @
     ''gridPos'' @ dq @ '': { '' @ dq @ ''h'' @ dq @ '': 8, '' @ dq @ ''w'' @ dq @ '': 12, '' @
     dq @ ''x'' @ dq @ '': 0, '' @ dq @ ''y'' @ dq @ '': 12 },'' @ nl @ ''      '' @ dq @
     ''datasource'' @ dq @ '': { '' @ dq @ ''type'' @ dq @ '': '' @ dq @ ''tempo'' @ dq @ '', '' @
     dq @ ''uid'' @ dq @ '': '' @ dq @ ''tempo'' @ dq @ '' },'' @ nl @ ''      '' @ dq @
     ''targets'' @ dq @ '': ['' @ nl @ ''        {'' @ nl @ ''          '' @ dq @ ''refId'' @ dq @
     '': '' @ dq @ ''A'' @ dq @ '','' @ nl @ ''          '' @ dq @ ''datasource'' @ dq @ '': { '' @
     dq @ ''type'' @ dq @ '': '' @ dq @ ''tempo'' @ dq @ '', '' @ dq @ ''uid'' @ dq @ '': '' @ dq @
     ''tempo'' @ dq @ '' },'' @ nl @ ''          '' @ dq @ ''queryType'' @ dq @ '': '' @ dq @
     ''traceql'' @ dq @ '','' @ nl @ ''          '' @ dq @ ''query'' @ dq @ '': '' @ dq @
     ''{resource.service.name = '' @ bsl @ dq @ ''eng-agent'' @ bsl @ dq @
     '' && span.gen_ai.operation.name = '' @ bsl @ dq @ ''chat'' @ bsl @ dq @ ''}'' @ dq @ '','' @
     nl @ ''          '' @ dq @ ''tableType'' @ dq @ '': '' @ dq @ ''traces'' @ dq @ '','' @ nl @
     ''          '' @ dq @ ''limit'' @ dq @ '': 20'' @ nl @ ''        }'' @ nl @ ''      ],'' @
     nl @ ''      '' @ dq @ ''options'' @ dq @ '': {'' @ nl @ ''        '' @ dq @ ''showHeader'' @
     dq @ '': true,'' @ nl @ ''        '' @ dq @ ''cellHeight'' @ dq @ '': '' @ dq @ ''sm'' @ dq @
     '','' @ nl @ ''        '' @ dq @ ''sortBy'' @ dq @ '': [{ '' @ dq @ ''displayName'' @ dq @
     '': '' @ dq @ ''Start time'' @ dq @ '', '' @ dq @ ''desc'' @ dq @ '': true }]'' @ nl @
     ''      },'' @ nl @ ''      '' @ dq @ ''fieldConfig'' @ dq @ '': {'' @ nl @ ''        '' @
     dq @ ''defaults'' @ dq @ '': {'' @ nl @ ''          '' @ dq @ ''custom'' @ dq @ '': { '' @
     dq @ ''align'' @ dq @ '': '' @ dq @ ''auto'' @ dq @ '', '' @ dq @ ''cellOptions'' @ dq @
     '': { '' @ dq @ ''type'' @ dq @ '': '' @ dq @ ''auto'' @ dq @ '' } }'' @ nl @ ''        },'' @
     nl @ ''        '' @ dq @ ''overrides'' @ dq @ '': ['' @ nl @ ''          {'' @ nl @
     ''            '' @ dq @ ''matcher'' @ dq @ '': { '' @ dq @ ''id'' @ dq @ '': '' @ dq @
     ''byName'' @ dq @ '', '' @ dq @ ''options'' @ dq @ '': '' @ dq @ ''traceDuration'' @ dq @
     '' },'' @ nl @ ''            '' @ dq @ ''properties'' @ dq @ '': [{ '' @ dq @ ''id'' @ dq @
     '': '' @ dq @ ''unit'' @ dq @ '', '' @ dq @ ''value'' @ dq @ '': '' @ dq @ ''ns'' @ dq @
     '' }, { '' @ dq @ ''id'' @ dq @ '': '' @ dq @ ''displayName'' @ dq @ '', '' @ dq @ ''value'' @
     dq @ '': '' @ dq @ ''Duration'' @ dq @ '' }]'' @ nl @ ''          },'' @ nl @
     ''          {'' @ nl @ ''            '' @ dq @ ''matcher'' @ dq @ '': { '' @ dq @ ''id'' @
     dq @ '': '' @ dq @ ''byName'' @ dq @ '', '' @ dq @ ''options'' @ dq @ '': '' @ dq @
     ''nested'' @ dq @ '' },'' @ nl @ ''            '' @ dq @ ''properties'' @ dq @ '': [{ '' @
     dq @ ''id'' @ dq @ '': '' @ dq @ ''custom.hidden'' @ dq @ '', '' @ dq @ ''value'' @ dq @
     '': true }]'' @ nl @ ''          }'' @ nl @ ''        ]'' @ nl @ ''      }'' @ nl @
     ''    },'' @ nl @ ''    {'' @ nl @ ''      '' @ dq @ ''id'' @ dq @ '': 7,'' @ nl @
     ''      '' @ dq @ ''type'' @ dq @ '': '' @ dq @ ''table'' @ dq @ '','' @ nl @ ''      '' @
     dq @ ''title'' @ dq @ '': '' @ dq @ ''sales-agent Traces'' @ dq @ '','' @ nl @ ''      '' @
     dq @ ''gridPos'' @ dq @ '': { '' @ dq @ ''h'' @ dq @ '': 8, '' @ dq @ ''w'' @ dq @
     '': 12, '' @ dq @ ''x'' @ dq @ '': 12, '' @ dq @ ''y'' @ dq @ '': 12 },'' @ nl @ ''      '' @
     dq @ ''datasource'' @ dq @ '': { '' @ dq @ ''type'' @ dq @ '': '' @ dq @ ''tempo'' @ dq @
     '', '' @ dq @ ''uid'' @ dq @ '': '' @ dq @ ''tempo'' @ dq @ '' },'' @ nl @ ''      '' @ dq @
     ''targets'' @ dq @ '': ['' @ nl @ ''        {'' @ nl @ ''          '' @ dq @ ''refId'' @ dq @
     '': '' @ dq @ ''A'' @ dq @ '','' @ nl @ ''          '' @ dq @ ''datasource'' @ dq @ '': { '' @
     dq @ ''type'' @ dq @ '': '' @ dq @ ''tempo'' @ dq @ '', '' @ dq @ ''uid'' @ dq @ '': '' @ dq @
     ''tempo'' @ dq @ '' },'' @ nl @ ''          '' @ dq @ ''queryType'' @ dq @ '': '' @ dq @
     ''traceql'' @ dq @ '','' @ nl @ ''          '' @ dq @ ''query'' @ dq @ '': '' @ dq @
     ''{resource.service.name = '' @ bsl @ dq @ ''sales-agent'' @ bsl @ dq @
     '' && span.gen_ai.operation.name = '' @ bsl @ dq @ ''chat'' @ bsl @ dq @ ''}'' @ dq @ '','' @
     nl @ ''          '' @ dq @ ''tableType'' @ dq @ '': '' @ dq @ ''traces'' @ dq @ '','' @ nl @
     ''          '' @ dq @ ''limit'' @ dq @ '': 20'' @ nl @ ''        }'' @ nl @ ''      ],'' @
     nl @ ''      '' @ dq @ ''options'' @ dq @ '': {'' @ nl @ ''        '' @ dq @ ''showHeader'' @
     dq @ '': true,'' @ nl @ ''        '' @ dq @ ''cellHeight'' @ dq @ '': '' @ dq @ ''sm'' @ dq @
     '','' @ nl @ ''        '' @ dq @ ''sortBy'' @ dq @ '': [{ '' @ dq @ ''displayName'' @ dq @
     '': '' @ dq @ ''Start time'' @ dq @ '', '' @ dq @ ''desc'' @ dq @ '': true }]'' @ nl @
     ''      },'' @ nl @ ''      '' @ dq @ ''fieldConfig'' @ dq @ '': {'' @ nl @ ''        '' @
     dq @ ''defaults'' @ dq @ '': {'' @ nl @ ''          '' @ dq @ ''custom'' @ dq @ '': { '' @
     dq @ ''align'' @ dq @ '': '' @ dq @ ''auto'' @ dq @ '', '' @ dq @ ''cellOptions'' @ dq @
     '': { '' @ dq @ ''type'' @ dq @ '': '' @ dq @ ''auto'' @ dq @ '' } }'' @ nl @ ''        },'' @
     nl @ ''        '' @ dq @ ''overrides'' @ dq @ '': ['' @ nl @ ''          {'' @ nl @
     ''            '' @ dq @ ''matcher'' @ dq @ '': { '' @ dq @ ''id'' @ dq @ '': '' @ dq @
     ''byName'' @ dq @ '', '' @ dq @ ''options'' @ dq @ '': '' @ dq @ ''traceDuration'' @ dq @
     '' },'' @ nl @ ''            '' @ dq @ ''properties'' @ dq @ '': [{ '' @ dq @ ''id'' @ dq @
     '': '' @ dq @ ''unit'' @ dq @ '', '' @ dq @ ''value'' @ dq @ '': '' @ dq @ ''ns'' @ dq @
     '' }, { '' @ dq @ ''id'' @ dq @ '': '' @ dq @ ''displayName'' @ dq @ '', '' @ dq @ ''value'' @
     dq @ '': '' @ dq @ ''Duration'' @ dq @ '' }]'' @ nl @ ''          },'' @ nl @
     ''          {'' @ nl @ ''            '' @ dq @ ''matcher'' @ dq @ '': { '' @ dq @ ''id'' @
     dq @ '': '' @ dq @ ''byName'' @ dq @ '', '' @ dq @ ''options'' @ dq @ '': '' @ dq @
     ''nested'' @ dq @ '' },'' @ nl @ ''            '' @ dq @ ''properties'' @ dq @ '': [{ '' @
     dq @ ''id'' @ dq @ '': '' @ dq @ ''custom.hidden'' @ dq @ '', '' @ dq @ ''value'' @ dq @
     '': true }]'' @ nl @ ''          }'' @ nl @ ''        ]'' @ nl @ ''      }'' @ nl @
     ''    },'' @ nl @ ''    {'' @ nl @ ''      '' @ dq @ ''id'' @ dq @ '': 300,'' @ nl @
     ''      '' @ dq @ ''type'' @ dq @ '': '' @ dq @ ''row'' @ dq @ '','' @ nl @ ''      '' @ dq @
     ''title'' @ dq @ '': '' @ dq @ ''Performance'' @ dq @ '','' @ nl @ ''      '' @ dq @
     ''gridPos'' @ dq @ '': { '' @ dq @ ''h'' @ dq @ '': 1, '' @ dq @ ''w'' @ dq @ '': 24, '' @
     dq @ ''x'' @ dq @ '': 0, '' @ dq @ ''y'' @ dq @ '': 20 },'' @ nl @ ''      '' @ dq @
     ''collapsed'' @ dq @ '': false'' @ nl @ ''    },'' @ nl @ ''    {'' @ nl @ ''      '' @ dq @
     ''id'' @ dq @ '': 8,'' @ nl @ ''      '' @ dq @ ''type'' @ dq @ '': '' @ dq @ ''bargauge'' @
     dq @ '','' @ nl @ ''      '' @ dq @ ''title'' @ dq @ '': '' @ dq @
     ''Average Call Duration per Agent'' @ dq @ '','' @ nl @ ''      '' @ dq @ ''gridPos'' @ dq @
     '': { '' @ dq @ ''h'' @ dq @ '': 7, '' @ dq @ ''w'' @ dq @ '': 12, '' @ dq @ ''x'' @ dq @
     '': 0, '' @ dq @ ''y'' @ dq @ '': 21 },'' @ nl @ ''      '' @ dq @ ''datasource'' @ dq @
     '': { '' @ dq @ ''type'' @ dq @ '': '' @ dq @ ''tempo'' @ dq @ '', '' @ dq @ ''uid'' @ dq @
     '': '' @ dq @ ''tempo'' @ dq @ '' },'' @ nl @ ''      '' @ dq @ ''targets'' @ dq @ '': ['' @
     nl @ ''        {'' @ nl @ ''          '' @ dq @ ''refId'' @ dq @ '': '' @ dq @ ''A'' @ dq @
     '','' @ nl @ ''          '' @ dq @ ''datasource'' @ dq @ '': { '' @ dq @ ''type'' @ dq @
     '': '' @ dq @ ''tempo'' @ dq @ '', '' @ dq @ ''uid'' @ dq @ '': '' @ dq @ ''tempo'' @ dq @
     '' },'' @ nl @ ''          '' @ dq @ ''queryType'' @ dq @ '': '' @ dq @ ''traceql'' @ dq @
     '','' @ nl @ ''          '' @ dq @ ''query'' @ dq @ '': '' @ dq @
     ''{span.gen_ai.operation.name = '' @ bsl @ dq @ ''chat'' @ bsl @ dq @ ''}'' @ dq @ '','' @
     nl @ ''          '' @ dq @ ''tableType'' @ dq @ '': '' @ dq @ ''traces'' @ dq @ '','' @ nl @
     ''          '' @ dq @ ''limit'' @ dq @ '': 200'' @ nl @ ''        }'' @ nl @ ''      ],'' @
     nl @ ''      '' @ dq @ ''transformations'' @ dq @ '': ['' @ nl @ ''        {'' @ nl @
     ''          '' @ dq @ ''id'' @ dq @ '': '' @ dq @ ''groupBy'' @ dq @ '','' @ nl @
     ''          '' @ dq @ ''options'' @ dq @ '': {'' @ nl @ ''            '' @ dq @ ''fields'' @
     dq @ '': {'' @ nl @ ''              '' @ dq @ ''traceService'' @ dq @ '': { '' @ dq @
     ''aggregations'' @ dq @ '': [], '' @ dq @ ''operation'' @ dq @ '': '' @ dq @ ''groupby'' @
     dq @ '' },'' @ nl @ ''              '' @ dq @ ''traceDuration'' @ dq @ '': { '' @ dq @
     ''aggregations'' @ dq @ '': ['' @ dq @ ''mean'' @ dq @ ''], '' @ dq @ ''operation'' @ dq @
     '': '' @ dq @ ''aggregate'' @ dq @ '' }'' @ nl @ ''            }'' @ nl @ ''          }'' @
     nl @ ''        }'' @ nl @ ''      ],'' @ nl @ ''      '' @ dq @ ''options'' @ dq @ '': {'' @
     nl @ ''        '' @ dq @ ''reduceOptions'' @ dq @ '': { '' @ dq @ ''calcs'' @ dq @ '': ['' @
     dq @ ''lastNotNull'' @ dq @ ''], '' @ dq @ ''fields'' @ dq @ '': '' @ dq @
     ''/traceDuration/'' @ dq @ '', '' @ dq @ ''values'' @ dq @ '': true },'' @ nl @ ''        '' @
     dq @ ''displayMode'' @ dq @ '': '' @ dq @ ''gradient'' @ dq @ '','' @ nl @ ''        '' @ dq @
     ''orientation'' @ dq @ '': '' @ dq @ ''horizontal'' @ dq @ '','' @ nl @ ''        '' @ dq @
     ''showUnfilled'' @ dq @ '': true,'' @ nl @ ''        '' @ dq @ ''namePlacement'' @ dq @
     '': '' @ dq @ ''auto'' @ dq @ nl @ ''      },'' @ nl @ ''      '' @ dq @ ''fieldConfig'' @
     dq @ '': {'' @ nl @ ''        '' @ dq @ ''defaults'' @ dq @ '': {'' @ nl"

definition fleet_overview_json_4 :: string where
  "fleet_overview_json_4 =
     ''          '' @ dq @ ''unit'' @ dq @ '': '' @ dq @ ''ns'' @ dq @ '','' @ nl @
     ''          '' @ dq @ ''color'' @ dq @ '': { '' @ dq @ ''mode'' @ dq @ '': '' @ dq @
     ''continuous-BlYlRd'' @ dq @ '' },'' @ nl @ ''          '' @ dq @ ''thresholds'' @ dq @
     '': { '' @ dq @ ''mode'' @ dq @ '': '' @ dq @ ''absolute'' @ dq @ '', '' @ dq @ ''steps'' @
     dq @ '': ['' @ nl @ ''            { '' @ dq @ ''color'' @ dq @ '': '' @ dq @ ''green'' @ dq @
     '', '' @ dq @ ''value'' @ dq @ '': null },'' @ nl @ ''            { '' @ dq @ ''color'' @ dq @
     '': '' @ dq @ ''yellow'' @ dq @ '', '' @ dq @ ''value'' @ dq @ '': 5000000000 },'' @ nl @
     ''            { '' @ dq @ ''color'' @ dq @ '': '' @ dq @ ''red'' @ dq @ '', '' @ dq @
     ''value'' @ dq @ '': 30000000000 }'' @ nl @ ''          ]}'' @ nl @ ''        },'' @ nl @
     ''        '' @ dq @ ''overrides'' @ dq @ '': []'' @ nl @ ''      }'' @ nl @ ''    },'' @ nl @
     ''    {'' @ nl @ ''      '' @ dq @ ''id'' @ dq @ '': 9,'' @ nl @ ''      '' @ dq @ ''type'' @
     dq @ '': '' @ dq @ ''stat'' @ dq @ '','' @ nl @ ''      '' @ dq @ ''title'' @ dq @ '': '' @
     dq @ ''Avg Duration'' @ dq @ '','' @ nl @ ''      '' @ dq @ ''gridPos'' @ dq @ '': { '' @ dq @
     ''h'' @ dq @ '': 7, '' @ dq @ ''w'' @ dq @ '': 4, '' @ dq @ ''x'' @ dq @ '': 12, '' @ dq @
     ''y'' @ dq @ '': 21 },'' @ nl @ ''      '' @ dq @ ''datasource'' @ dq @ '': { '' @ dq @
     ''type'' @ dq @ '': '' @ dq @ ''tempo'' @ dq @ '', '' @ dq @ ''uid'' @ dq @ '': '' @ dq @
     ''tempo'' @ dq @ '' },'' @ nl @ ''      '' @ dq @ ''targets'' @ dq @ '': ['' @ nl @
     ''        {'' @ nl @ ''          '' @ dq @ ''refId'' @ dq @ '': '' @ dq @ ''A'' @ dq @ '','' @
     nl @ ''          '' @ dq @ ''datasource'' @ dq @ '': { '' @ dq @ ''type'' @ dq @ '': '' @ dq @
     ''tempo'' @ dq @ '', '' @ dq @ ''uid'' @ dq @ '': '' @ dq @ ''tempo'' @ dq @ '' },'' @ nl @
     ''          '' @ dq @ ''queryType'' @ dq @ '': '' @ dq @ ''traceql'' @ dq @ '','' @ nl @
     ''          '' @ dq @ ''query'' @ dq @ '': '' @ dq @ ''{span.gen_ai.operation.name = '' @
     bsl @ dq @ ''chat'' @ bsl @ dq @ ''}'' @ dq @ '','' @ nl @ ''          '' @ dq @
     ''tableType'' @ dq @ '': '' @ dq @ ''traces'' @ dq @ '','' @ nl @ ''          '' @ dq @
     ''limit'' @ dq @ '': 200'' @ nl @ ''        }'' @ nl @ ''      ],'' @ nl @ ''      '' @ dq @
     ''options'' @ dq @ '': {'' @ nl @ ''        '' @ dq @ ''reduceOptions'' @ dq @ '': { '' @ dq @
     ''calcs'' @ dq @ '': ['' @ dq @ ''mean'' @ dq @ ''], '' @ dq @ ''fields'' @ dq @ '': '' @ dq @
     ''/traceDuration/'' @ dq @ '', '' @ dq @ ''values'' @ dq @ '': false },'' @ nl @
     ''        '' @ dq @ ''colorMode'' @ dq @ '': '' @ dq @ ''background'' @ dq @ '','' @ nl @
     ''        '' @ dq @ ''graphMode'' @ dq @ '': '' @ dq @ ''none'' @ dq @ '','' @ nl @
     ''        '' @ dq @ ''textMode'' @ dq @ '': '' @ dq @ ''auto'' @ dq @ nl @ ''      },'' @ nl @
     ''      '' @ dq @ ''fieldConfig'' @ dq @ '': {'' @ nl @ ''        '' @ dq @ ''defaults'' @
     dq @ '': {'' @ nl @ ''          '' @ dq @ ''unit'' @ dq @ '': '' @ dq @ ''ns'' @ dq @ '','' @
     nl @ ''          '' @ dq @ ''color'' @ dq @ '': { '' @ dq @ ''mode'' @ dq @ '': '' @ dq @
     ''thresholds'' @ dq @ '' },'' @ nl @ ''          '' @ dq @ ''thresholds'' @ dq @ '': { '' @
     dq @ ''mode'' @ dq @ '': '' @ dq @ ''absolute'' @ dq @ '', '' @ dq @ ''steps'' @ dq @
     '': ['' @ nl @ ''            { '' @ dq @ ''color'' @ dq @ '': '' @ dq @ ''green'' @ dq @
     '', '' @ dq @ ''value'' @ dq @ '': null },'' @ nl @ ''            { '' @ dq @ ''color'' @ dq @
     '': '' @ dq @ ''yellow'' @ dq @ '', '' @ dq @ ''value'' @ dq @ '': 5000000000 },'' @ nl @
     ''            { '' @ dq @ ''color'' @ dq @ '': '' @ dq @ ''red'' @ dq @ '', '' @ dq @
     ''value'' @ dq @ '': 15000000000 }'' @ nl @ ''          ]}'' @ nl @ ''        },'' @ nl @
     ''        '' @ dq @ ''overrides'' @ dq @ '': []'' @ nl @ ''      }'' @ nl @ ''    },'' @ nl @
     ''    {'' @ nl @ ''      '' @ dq @ ''id'' @ dq @ '': 10,'' @ nl @ ''      '' @ dq @ ''type'' @
     dq @ '': '' @ dq @ ''stat'' @ dq @ '','' @ nl @ ''      '' @ dq @ ''title'' @ dq @ '': '' @
     dq @ ''Max Duration'' @ dq @ '','' @ nl @ ''      '' @ dq @ ''gridPos'' @ dq @ '': { '' @ dq @
     ''h'' @ dq @ '': 7, '' @ dq @ ''w'' @ dq @ '': 4, '' @ dq @ ''x'' @ dq @ '': 16, '' @ dq @
     ''y'' @ dq @ '': 21 },'' @ nl @ ''      '' @ dq @ ''datasource'' @ dq @ '': { '' @ dq @
     ''type'' @ dq @ '': '' @ dq @ ''tempo'' @ dq @ '', '' @ dq @ ''uid'' @ dq @ '': '' @ dq @
     ''tempo'' @ dq @ '' },'' @ nl @ ''      '' @ dq @ ''targets'' @ dq @ '': ['' @ nl @
     ''        {'' @ nl @ ''          '' @ dq @ ''refId'' @ dq @ '': '' @ dq @ ''A'' @ dq @ '','' @
     nl @ ''          '' @ dq @ ''datasource'' @ dq @ '': { '' @ dq @ ''type'' @ dq @ '': '' @ dq @
     ''tempo'' @ dq @ '', '' @ dq @ ''uid'' @ dq @ '': '' @ dq @ ''tempo'' @ dq @ '' },'' @ nl @
     ''          '' @ dq @ ''queryType'' @ dq @ '': '' @ dq @ ''traceql'' @ dq @ '','' @ nl @
     ''          '' @ dq @ ''query'' @ dq @ '': '' @ dq @ ''{span.gen_ai.operation.name = '' @
     bsl @ dq @ ''chat'' @ bsl @ dq @ ''}'' @ dq @ '','' @ nl @ ''          '' @ dq @
     ''tableType'' @ dq @ '': '' @ dq @ ''traces'' @ dq @ '','' @ nl @ ''          '' @ dq @
     ''limit'' @ dq @ '': 200'' @ nl @ ''        }'' @ nl @ ''      ],'' @ nl @ ''      '' @ dq @
     ''options'' @ dq @ '': {'' @ nl @ ''        '' @ dq @ ''reduceOptions'' @ dq @ '': { '' @ dq @
     ''calcs'' @ dq @ '': ['' @ dq @ ''max'' @ dq @ ''], '' @ dq @ ''fields'' @ dq @ '': '' @ dq @
     ''/traceDuration/'' @ dq @ '', '' @ dq @ ''values'' @ dq @ '': false },'' @ nl @
     ''        '' @ dq @ ''colorMode'' @ dq @ '': '' @ dq @ ''background'' @ dq @ '','' @ nl @
     ''        '' @ dq @ ''graphMode'' @ dq @ '': '' @ dq @ ''none'' @ dq @ '','' @ nl @
     ''        '' @ dq @ ''textMode'' @ dq @ '': '' @ dq @ ''auto'' @ dq @ nl @ ''      },'' @ nl @
     ''      '' @ dq @ ''fieldConfig'' @ dq @ '': {'' @ nl @ ''        '' @ dq @ ''defaults'' @
     dq @ '': {'' @ nl @ ''          '' @ dq @ ''unit'' @ dq @ '': '' @ dq @ ''ns'' @ dq @ '','' @
     nl @ ''          '' @ dq @ ''color'' @ dq @ '': { '' @ dq @ ''mode'' @ dq @ '': '' @ dq @
     ''thresholds'' @ dq @ '' },'' @ nl @ ''          '' @ dq @ ''thresholds'' @ dq @ '': { '' @
     dq @ ''mode'' @ dq @ '': '' @ dq @ ''absolute'' @ dq @ '', '' @ dq @ ''steps'' @ dq @
     '': ['' @ nl @ ''            { '' @ dq @ ''color'' @ dq @ '': '' @ dq @ ''green'' @ dq @
     '', '' @ dq @ ''value'' @ dq @ '': null },'' @ nl @ ''            { '' @ dq @ ''color'' @ dq @
     '': '' @ dq @ ''orange'' @ dq @ '', '' @ dq @ ''value'' @ dq @ '': 10000000000 },'' @ nl @
     ''            { '' @ dq @ ''color'' @ dq @ '': '' @ dq @ ''red'' @ dq @ '', '' @ dq @
     ''value'' @ dq @ '': 30000000000 }'' @ nl @ ''          ]}'' @ nl @ ''        },'' @ nl @
     ''        '' @ dq @ ''overrides'' @ dq @ '': []'' @ nl @ ''      }'' @ nl @ ''    },'' @ nl @
     ''    {'' @ nl @ ''      '' @ dq @ ''id'' @ dq @ '': 11,'' @ nl @ ''      '' @ dq @ ''type'' @
     dq @ '': '' @ dq @ ''stat'' @ dq @ '','' @ nl @ ''      '' @ dq @ ''title'' @ dq @ '': '' @
     dq @ ''P95 Duration'' @ dq @ '','' @ nl @ ''      '' @ dq @ ''gridPos'' @ dq @ '': { '' @ dq @
     ''h'' @ dq @ '': 7, '' @ dq @ ''w'' @ dq @ '': 4, '' @ dq @ ''x'' @ dq @ '': 20, '' @ dq @
     ''y'' @ dq @ '': 21 },'' @ nl @ ''      '' @ dq @ ''datasource'' @ dq @ '': { '' @ dq @
     ''type'' @ dq @ '': '' @ dq @ ''tempo'' @ dq @ '', '' @ dq @ ''uid'' @ dq @ '': '' @ dq @
     ''tempo'' @ dq @ '' },'' @ nl @ ''      '' @ dq @ ''targets'' @ dq @ '': ['' @ nl @
     ''        {'' @ nl @ ''          '' @ dq @ ''refId'' @ dq @ '': '' @ dq @ ''A'' @ dq @ '','' @
     nl @ ''          '' @ dq @ ''datasource'' @ dq @ '': { '' @ dq @ ''type'' @ dq @ '': '' @ dq @
     ''tempo'' @ dq @ '', '' @ dq @ ''uid'' @ dq @ '': '' @ dq @ ''tempo'' @ dq @ '' },'' @ nl @
     ''          '' @ dq @ ''queryType'' @ dq @ '': '' @ dq @ ''traceql'' @ dq @ '','' @ nl @
     ''          '' @ dq @ ''query'' @ dq @ '': '' @ dq @ ''{span.gen_ai.operation.name = '' @
     bsl @ dq @ ''chat'' @ bsl @ dq @ ''}'' @ dq @ '','' @ nl @ ''          '' @ dq @
     ''tableType'' @ dq @ '': '' @ dq @ ''traces'' @ dq @ '','' @ nl @ ''          '' @ dq @
     ''limit'' @ dq @ '': 200'' @ nl @ ''        }'' @ nl @ ''      ],'' @ nl @ ''      '' @ dq @
     ''options'' @ dq @ '': {'' @ nl @ ''        '' @ dq @ ''reduceOptions'' @ dq @ '': { '' @ dq @
     ''calcs'' @ dq @ '': ['' @ dq @ ''percentile95'' @ dq @ ''], '' @ dq @ ''fields'' @ dq @
     '': '' @ dq @ ''/traceDuration/'' @ dq @ '', '' @ dq @ ''values'' @ dq @ '': false },'' @ nl @
     ''        '' @ dq @ ''colorMode'' @ dq @ '': '' @ dq @ ''background'' @ dq @ '','' @ nl @
     ''        '' @ dq @ ''graphMode'' @ dq @ '': '' @ dq @ ''none'' @ dq @ '','' @ nl @
     ''        '' @ dq @ ''textMode'' @ dq @ '': '' @ dq @ ''auto'' @ dq @ nl @ ''      },'' @ nl @
     ''      '' @ dq @ ''fieldConfig'' @ dq @ '': {'' @ nl @ ''        '' @ dq @ ''defaults'' @
     dq @ '': {'' @ nl @ ''          '' @ dq @ ''unit'' @ dq @ '': '' @ dq @ ''ns'' @ dq @ '','' @
     nl @ ''          '' @ dq @ ''color'' @ dq @ '': { '' @ dq @ ''mode'' @ dq @ '': '' @ dq @
     ''thresholds'' @ dq @ '' },'' @ nl @ ''          '' @ dq @ ''thresholds'' @ dq @ '': { '' @
     dq @ ''mode'' @ dq @ '': '' @ dq @ ''absolute'' @ dq @ '', '' @ dq @ ''steps'' @ dq @
     '': ['' @ nl @ ''            { '' @ dq @ ''color'' @ dq @ '': '' @ dq @ ''green'' @ dq @
     '', '' @ dq @ ''value'' @ dq @ '': null },'' @ nl @ ''            { '' @ dq @ ''color'' @ dq @
     '': '' @ dq @ ''orange'' @ dq @ '', '' @ dq @ ''value'' @ dq @ '': 10000000000 },'' @ nl @
     ''            { '' @ dq @ ''color'' @ dq @ '': '' @ dq @ ''red'' @ dq @ '', '' @ dq @
     ''value'' @ dq @ '': 30000000000 }'' @ nl @ ''          ]}'' @ nl @ ''        },'' @ nl @
     ''        '' @ dq @ ''overrides'' @ dq @ '': []'' @ nl @ ''      }'' @ nl @ ''    }'' @ nl @
     ''  ]'' @ nl @ ''}'' @ nl"

definition fleetOverviewDashboardJSON :: string where
  "fleetOverviewDashboardJSON =
     fleet_overview_json_1 @ fleet_overview_json_2 @ fleet_overview_json_3 @ fleet_overview_json_4"

end
