(* ===== verification/ObservabilityController.thy ===== *)
theory ObservabilityController
  imports CreateOnly FleetOverview
begin

text \<open>
  The observability controller (\<open>internal/controller/clawobservability_controller.go\<close>): Tempo and
  Grafana as fixed objects of a namespace, the create-only reconcile and the status.
\<close>

section \<open>Tempo\<close>

definition tempoLabels :: Labels where
  "tempoLabels = mputs [(''app'', ''tempo''), (''app.kubernetes.io/managed-by'', ''clawbernetes'')] []"

definition tempoYAML :: string where
  "tempoYAML =
     ''stream_over_http_enabled: true'' @ nl @ ''server:'' @ nl @ ''  http_listen_port: 3200'' @
     nl @ ''distributor:'' @ nl @ ''  receivers:'' @ nl @ ''    otlp:'' @ nl @
     ''      protocols:'' @ nl @ ''        http:'' @ nl @ ''          endpoint: '' @ dq @
     ''0.0.0.0:4318'' @ dq @ nl @ ''storage:'' @ nl @ ''  trace:'' @ nl @ ''    backend: local'' @
     nl @ ''    local:'' @ nl @ ''      path: /var/tempo/traces'' @ nl @ ''    wal:'' @ nl @
     ''      path: /var/tempo/wal'' @ nl"

definition tempoConfigMap :: "string \<Rightarrow> ConfigMap" where
  "tempoConfigMap ns =
     \<lparr>CM_Meta = new_meta ''tempo-config'' ns tempoLabels,
      CM_Data = Some (mputs [(''tempo.yaml'', tempoYAML)] []), CM_BinaryData = None\<rparr>"

definition tempoContainer :: Container where
  "tempoContainer = (container0 ''tempo'' ''grafana/tempo:2.6.1'')\<lparr>
     C_Args := [''-config.file=/etc/tempo/tempo.yaml''],
     C_Ports := [cport ''otlp-http'' 4318, cport ''tempo-http'' 3200],
     C_VolumeMounts := [vmount ''tempo-config'' ''/etc/tempo'' True]\<rparr>"

text \<open>The \<open>Deployment\<close> literal both stacks use: one replica of a pod without init containers.\<close>

definition simpleDeployment :: "string \<Rightarrow> string \<Rightarrow> Labels \<Rightarrow> Container \<Rightarrow> Volume list \<Rightarrow> Deployment" where
  "simpleDeployment name ns labels c vols =
     \<lparr>Dep_Meta = new_meta name ns labels,
      Dep_Spec = \<lparr>
        DS_Replicas = Some 1,
        DS_Selector = labels,
        DS_TemplateLabels = labels,
        DS_PodSpec = \<lparr>
          Pod_SecurityContext = None, Pod_RestartPolicy = '''', Pod_InitContainers = [],
          Pod_Containers = [c], Pod_Volumes = vols\<rparr>\<rparr>,
      Dep_Status = no_dep_status\<rparr>"

definition tempoDeployment :: "string \<Rightarrow> Deployment" where
  "tempoDeployment ns = simpleDeployment ''tempo'' ns tempoLabels tempoContainer
     [vol ''tempo-config'' (ConfigMapSource ''tempo-config'' None)]"

definition tempoService :: "string \<Rightarrow> Service" where
  "tempoService ns =
     \<lparr>Svc_Meta = new_meta ''tempo'' ns tempoLabels,
      Svc_Selector = tempoLabels,
      Svc_Ports = [sport ''otlp-http'' 4318, sport ''tempo-http'' 3200], Svc_ClusterIP = ''''\<rparr>"

section \<open>Grafana\<close>

definition grafanaLabels :: Labels where
  "grafanaLabels = mputs [(''app'', ''grafana''), (''app.kubernetes.io/managed-by'', ''clawbernetes'')] []"

definition grafanaEndpoint :: "string \<Rightarrow> string" where
  "grafanaEndpoint ns = ''http://tempo.'' @ ns @ ''.svc.cluster.local:3200''"

definition datasourceYAML :: "string \<Rightarrow> string" where
  "datasourceYAML endpoint =
     ''apiVersion: 1'' @ nl @ ''datasources:'' @ nl @ ''  - name: Tempo'' @ nl @
     ''    type: tempo'' @ nl @ ''    uid: tempo'' @ nl @ ''    access: proxy'' @ nl @
     ''    url: '' @ endpoint @ nl @ ''    isDefault: true'' @ nl @ ''    editable: false'' @ nl"

definition grafanaDatasourceConfigMap :: "string \<Rightarrow> ConfigMap" where
  "grafanaDatasourceConfigMap ns =
     \<lparr>CM_Meta = new_meta ''grafana-datasources'' ns grafanaLabels,
      CM_Data = Some (mputs [(''datasources.yaml'', datasourceYAML (grafanaEndpoint ns))] []),
      CM_BinaryData = None\<rparr>"

definition providerYAML :: string where
  "providerYAML =
     ''apiVersion: 1'' @ nl @ ''providers:'' @ nl @ ''  - name: clawbernetes'' @ nl @
     ''    orgId: 1'' @ nl @ ''    folder: Clawbernetes'' @ nl @ ''    type: file'' @ nl @
     ''    disableDeletion: false'' @ nl @ ''    editable: true'' @ nl @ ''    options:'' @ nl @
     ''      path: /var/lib/grafana/dashboards'' @ nl @
     ''      foldersFromFilesStructure: false'' @ nl"

definition grafanaDashboardConfigMap :: "string \<Rightarrow> ConfigMap" where
  "grafanaDashboardConfigMap ns =
     \<lparr>CM_Meta = new_meta ''grafana-dashboards'' ns grafanaLabels,
      CM_Data = Some (mputs [(''dashboards.yaml'', providerYAML)] []), CM_BinaryData = None\<rparr>"

definition grafanaDashboardJSONConfigMap :: "string \<Rightarrow> ConfigMap" where
  "grafanaDashboardJSONConfigMap ns =
     \<lparr>CM_Meta = new_meta ''grafana-dashboard-json'' ns grafanaLabels,
      CM_Data = Some (mputs [(''fleet-overview.json'', fleetOverviewDashboardJSON)] []), CM_BinaryData = None\<rparr>"

definition grafanaContainer :: Container where
  "grafanaContainer = (container0 ''grafana'' ''grafana/grafana:latest'')\<lparr>
     C_Ports := [cport ''http'' 3000],
     C_Env := [env_var ''GF_AUTH_ANONYMOUS_ENABLED'' ''true'',
               env_var ''GF_AUTH_ANONYMOUS_ORG_ROLE'' ''Admin'',
               env_var ''GF_AUTH_DISABLE_LOGIN_FORM'' ''true''],
     C_VolumeMounts := [vmount ''datasources'' ''/etc/grafana/provisioning/datasources'' True,
                        vmount ''dashboard-provider'' ''/etc/grafana/provisioning/dashboards'' True,
                        vmount ''dashboard-json'' ''/var/lib/grafana/dashboards'' True]\<rparr>"

definition grafanaDeployment :: "string \<Rightarrow> Deployment" where
  "grafanaDeployment ns = simpleDeployment ''grafana'' ns grafanaLabels grafanaContainer
     [vol ''datasources'' (ConfigMapSource ''grafana-datasources'' None),
      vol ''dashboard-provider'' (ConfigMapSource ''grafana-dashboards'' None),
      vol ''dashboard-json'' (ConfigMapSource ''grafana-dashboard-json'' None)]"

definition grafanaService :: "string \<Rightarrow> Service" where
  "grafanaService ns =
     \<lparr>Svc_Meta = new_meta ''grafana'' ns grafanaLabels,
      Svc_Selector = grafanaLabels, Svc_Ports = [sport ''http'' 3000], Svc_ClusterIP = ''''\<rparr>"

section \<open>Reconcile\<close>

definition observability_ensureResource ::
  "ext \<Rightarrow> 'w kube \<Rightarrow> ClawObservability \<Rightarrow> Obj \<Rightarrow> string \<Rightarrow> ('w, err + unit) state" where
  "observability_ensureResource x kc obs ob desc =
     ensureCreated x kc KClawObservability (Observability_Meta obs) ob desc"

definition isDeploymentAvailable :: "'w kube \<Rightarrow> string \<Rightarrow> string \<Rightarrow> ('w, bool) state" where
  "isDeploymentAvailable kc ns name = do {
     r \<leftarrow> getAs asDeployment kc KDeployment (nn name ns);
     State_Monad.return
       (case r of
          Inl _ \<Rightarrow> False
        | Inr dep \<Rightarrow> list_ex (\<lambda>c. DC_Type c = ''Available'' \<and> DC_Status c = ''True'') (DSt_Conditions (Dep_Status dep)))
   }"

definition observabilityStatus :: "'w kube \<Rightarrow> ClawObservability \<Rightarrow> string \<Rightarrow> ('w, err + unit) state" where
  "observabilityStatus kc obs ns = do {
     tempoReady \<leftarrow> isDeploymentAvailable kc ns ''tempo'';
     grafanaReady \<leftarrow> isDeploymentAvailable kc ns ''grafana'';
     kube_StatusUpdate kc (OClawObservability (obs\<lparr>Observability_Status :=
       (Observability_Status obs)\<lparr>ObsSt_TempoReady := tempoReady, ObsSt_GrafanaReady := grafanaReady\<rparr>\<rparr>))
   }"

definition reconcileObservability :: "ext \<Rightarrow> 'w kube \<Rightarrow> ClawObservability \<Rightarrow> ('w, err + unit) state" where
  "reconcileObservability x kc obs =
     (let ns = Meta_Namespace (Observability_Meta obs); spec = Observability_Spec obs;
          ensure = observability_ensureResource x kc obs
      in
      bindE
        (if Tempo_Enabled (Obs_Tempo spec) then
           bindE (ensure (OConfigMap (tempoConfigMap ns)) ''tempo-config-cm'') (\<lambda>_.
           bindE (ensure (ODeployment (tempoDeployment ns)) ''tempo-deployment'') (\<lambda>_.
           ensure (OService (tempoService ns)) ''tempo-service''))
         else retE ())
      (\<lambda>_. bindE
        (if Grafana_Enabled (Obs_Grafana spec) then
           bindE (ensure (OConfigMap (grafanaDatasourceConfigMap ns)) ''grafana-datasource-cm'') (\<lambda>_.
           bindE (ensure (OConfigMap (grafanaDashboardConfigMap ns)) ''grafana-dashboard-cm'') (\<lambda>_.
           bindE (ensure (OConfigMap (grafanaDashboardJSONConfigMap ns)) ''grafana-dashboard-json-cm'') (\<lambda>_.
           bindE (ensure (ODeployment (grafanaDeployment ns)) ''grafana-deployment'') (\<lambda>_.
           ensure (OService (grafanaService ns)) ''grafana-service''))))
         else retE ())
      (\<lambda>_. observabilityStatus kc obs ns)))"

definition observability_Reconcile :: "ext \<Rightarrow> 'w kube \<Rightarrow> NamespacedName \<Rightarrow> ('w, err + unit) state" where
  "observability_Reconcile x kc req = with_object asClawObservability kc KClawObservability req (reconcileObservability x kc)"

text \<open>\<open>SetupWithManager\<close>: its own resources, and the owned deployments, services and config maps.\<close>

definition observability_requests :: "Obj \<Rightarrow> NamespacedName list" where
  "observability_requests ob =
     (case kind_of ob of
        KClawObservability \<Rightarrow> [key_of ob]
      | KDeployment \<Rightarrow> owner_requests KClawObservability (meta_of ob)
      | KService \<Rightarrow> owner_requests KClawObservability (meta_of ob)
      | KConfigMap \<Rightarrow> owner_requests KClawObservability (meta_of ob)
      | _ \<Rightarrow> [])"

section \<open>The list of objects\<close>

definition observabilityObjects :: "ClawObservability \<Rightarrow> (string \<times> Obj) list" where
  "observabilityObjects obs =
     (let ns = Meta_Namespace (Observability_Meta obs); spec = Observability_Spec obs in
      (if Tempo_Enabled (Obs_Tempo spec) then
         [(''tempo-config-cm'', OConfigMap (tempoConfigMap ns)),
          (''tempo-deployment'', ODeployment (tempoDeployment ns)),
          (''tempo-service'', OService (tempoService ns))]
       else []) @
      (if Grafana_Enabled (Obs_Grafana spec) then
         [(''grafana-datasource-cm'', OConfigMap (grafanaDatasourceConfigMap ns)),
          (''grafana-dashboard-cm'', OConfigMap (grafanaDashboardConfigMap ns)),
          (''grafana-dashboard-json-cm'', OConfigMap (grafanaDashboardJSONConfigMap ns)),
          (''grafana-deployment'', ODeployment (grafanaDeployment ns)),
          (''grafana-service'', OService (grafanaService ns))]
       else []))"

lemma reconcileObservability_ensureAll:
  "reconcileObservability x kc obs =
     bindE (ensureAll x kc KClawObservability (Observability_Meta obs) (observabilityObjects obs))
       (\<lambda>_. observabilityStatus kc obs (Meta_Namespace (Observability_Meta obs)))"
  unfolding reconcileObservability_def observabilityObjects_def Let_def observability_ensureResource_def ensureAll_append
  by (simp add: bindE_assoc)

interpretation observability: owned_objects "Meta_Namespace (Observability_Meta obs)" "observabilityObjects obs" for obs
  by unfold_locales
    (auto simp: observabilityObjects_def Let_def tempoConfigMap_def tempoDeployment_def tempoService_def
      simpleDeployment_def grafanaDatasourceConfigMap_def grafanaDashboardConfigMap_def
      grafanaDashboardJSONConfigMap_def grafanaDeployment_def grafanaService_def id_of_def split: if_splits)

end
