(* ===== verification/StackProperties.thy ===== *)
theory StackProperties
  imports GatewayController ObservabilityController AgentProperties
begin

text \<open>
  What the gateway and the observability controllers guarantee: their reconciles refine the
  abstract filling of \<open>CreateOnly\<close>, converge and are idempotent; the stacks they build are closed;
  the URL agents get for a gateway is served by its first reconcile, and by no later one when the
  port changes; and agents and gateways leave each other's objects alone.
\<close>

section \<open>The gateway controller refines the filling of its list\<close>

context controller_api
begin

lemma gateway_run:
  assumes "store w KClawGateway req = Some (OClawGateway gw)" "run_state (gateway_Reconcile x kc req) w = (r, w')"
  defines "P \<equiv> made x KClawGateway (Gateway_Meta gw)" and "obs \<equiv> map snd (gatewayObjs x gw)"
  shows "partly_filled P obs (store w) (store w') \<and>
    (r = Inr () \<longrightarrow> gatewayObjects x gw = Inr (gatewayObjs x gw) \<and> filled P obs (store w) (store w'))"
proof (rule with_object_cases [OF assms(1) _ assms(2) [unfolded gateway_Reconcile_def]])
  show "asClawGateway (OClawGateway gw) = Some gw" by simp
next
  fix w1 assume w1: "store w1 = store w" "run_state (reconcileGateway x kc gw) w1 = (r, w')"
  show ?thesis
  proof (cases "gatewayObjects x gw")
    case (Inl e)
    with w1 show ?thesis by (auto simp: reconcileGateway_ensureAll)
  next
    case (Inr objs)
    with w1(2) have run: "run_state (ensureAll x kc KClawGateway (Gateway_Meta gw) objs) w1 = (r, w')"
      by (simp add: reconcileGateway_ensureAll)
    have obs: "obs = map snd objs" "gatewayObjs x gw = objs" by (simp_all add: obs_def gatewayObjs_def Inr)
    have "partly_filled P obs (store w) (store w')"
      using guarD [OF ensureAll_partly run, of obs] by (simp add: obs P_def w1(1))
    moreover have "filled P obs (store w) (store w')" if "r = Inr ()"
      using ensureAll_filled [OF run [unfolded that]] by (simp add: obs P_def w1(1))
    ultimately show ?thesis by (simp add: Inr obs(2))
  qed
qed simp

end

context reliable_api
begin

lemma gateway_Reconcile_succeeds:
  assumes gw: "store w KClawGateway req = Some (OClawGateway gw)" and objs: "gatewayObjects x gw = Inr objs"
  shows "\<exists>w'. run_state (gateway_Reconcile x kc req) w = (Inr (), w')"
proof -
  have o: "gatewayObjs x gw = objs" by (simp add: gatewayObjs_def objs)
  have "succeeds (reconcileGateway x kc gw) w1" for w1
    unfolding reconcileGateway_ensureAll objs sum.case
    by (rule ensureAll_succeeds) (use gateway.in_namespace [of _ _ x gw] gateway.unowned [of _ _ x gw] in \<open>auto simp: o\<close>)
  then have "succeeds (gateway_Reconcile x kc req) w"
    unfolding gateway_Reconcile_def by (intro with_object_succeeds [OF gw]) simp_all
  then show ?thesis by (simp add: succeeds_def)
qed

end

text \<open>A gateway with a prompt-injection classifier on Ollama, for examples.\<close>

definition example_evaluator :: GatewayEvaluatorSpec where
  "example_evaluator = \<lparr>Ev_Name = ''guard'', Ev_Type = ''classifier'', Ev_Priority = 10, Ev_Patterns = [], Ev_Action = ''block'',
     Ev_BlockReply = '''', Ev_EmitEvent = False, Ev_ClassifierModel = '''', Ev_OllamaEndpoint = ''http://ollama'',
     Ev_TimeoutMs = 0, Ev_ProxyURL = '''', Ev_RedactReplacement = '''', Ev_Webhooks = [], Ev_ClassifierEndpoint = '''',
     Ev_Routes = None\<rparr>"

definition example_gateway :: "int \<Rightarrow> ClawGateway" where
  "example_gateway port = \<lparr>Gateway_Meta = new_meta ''gw'' ''prod'' [],
     Gateway_Spec = \<lparr>GW_Topology = '''', GW_Port = port,
       GW_Routing = \<lparr>Routing_Enabled = True, Routing_LogEveryDecision = False, Routing_Evaluators = [example_evaluator]\<rparr>,
       GW_Anomaly = \<lparr>Anom_SpendSpikeMultiplier = 0, Anom_IdleBurnMinutes = 0, Anom_ErrorLoopThreshold = 0,
         Anom_TokenInflationMultiplier = 0, Anom_CheckIntervalSeconds = 0\<rparr>,
       GW_Webhooks = []\<rparr>\<rparr>"

definition gateway_world :: "int \<Rightarrow> mem" where
  "gateway_world port = mem_put (OClawGateway (example_gateway port)) []"

lemma mem_store_empty [simp]: "mem_store [] k key = None"
  by (simp add: mem_store_def)

lemma gateway_world_gateway:
  "mem_store (gateway_world port) KClawGateway (nn ''gw'' ''prod'') = Some (OClawGateway (example_gateway port))"
  by (simp add: gateway_world_def example_gateway_def key_of_def)

lemma example_quantities:
  "quantity example_ext ''2Gi'' = Inr 2147483648000" "quantity example_ext ''500m'' = Inr 500"
  "quantity example_ext ''4Gi'' = Inr 4294967296000" "quantity example_ext ''2'' = Inr 2000"
  by (simp_all add: quantity_def example_ext_def is_digit_def less_eq_char_def)

lemma example_gateway_objects: "gatewayObjects example_ext (example_gateway port) = Inr (gatewayObjs example_ext (example_gateway port))"
  by (simp add: gatewayObjs_def gatewayObjects_def Let_def example_gateway_def example_evaluator_def ollamaDeployment_def
      ollamaResources_def example_quantities)

text \<open>C19: The gateway controller implements the filling of its list of objects. Whatever the server
  answers, a reconcile only adds missing objects of the list (with their owner), and changes or
  removes nothing; one that reports success has added every one of them.\<close>

theorem gateway_reconcile_fills:
  assumes "controller_api kc store x" "store w KClawGateway req = Some (OClawGateway gw)"
    and "run_state (gateway_Reconcile x kc req) w = (r, w')"
  shows "partly_filled (made x KClawGateway (Gateway_Meta gw)) (map snd (gatewayObjs x gw)) (store w) (store w') \<and>
    (r = Inr () \<longrightarrow> gatewayObjects x gw = Inr (gatewayObjs x gw) \<and>
       filled (made x KClawGateway (Gateway_Meta gw)) (map snd (gatewayObjs x gw)) (store w) (store w'))"
  by (rule controller_api.gateway_run [OF assms])

theorem gateway_reconcile_fills_witness:
  "\<exists>w'. filled (made example_ext KClawGateway (new_meta ''gw'' ''prod'' [])) (map snd (gatewayObjs example_ext (example_gateway 0)))
     (mem_store (gateway_world 0)) (mem_store w')"
proof -
  obtain w' where run: "run_state (gateway_Reconcile example_ext mem_client (nn ''gw'' ''prod'')) (gateway_world 0) = (Inr (), w')"
    using mem_controller.gateway_Reconcile_succeeds [OF gateway_world_gateway example_gateway_objects] by blast
  from gateway_reconcile_fills [OF mem_controller.controller_api_axioms, OF gateway_world_gateway run]
  show ?thesis by (auto simp: example_gateway_def)
qed

text \<open>C25: The gateway controller converges: on a server that carries out every call, one reconcile
  succeeds from any state of the objects, provided the quantities in the code are quantities;
  and after a success the next reconcile, whatever it reports, changes nothing.\<close>

theorem gateway_reconcile_converges:
  assumes "reliable_api kc store x" "store w KClawGateway req = Some (OClawGateway gw)" "gatewayObjects x gw = Inr objs"
  shows "\<exists>w1. run_state (gateway_Reconcile x kc req) w = (Inr (), w1) \<and>
    (\<forall>r w2. run_state (gateway_Reconcile x kc req) w1 = (r, w2) \<longrightarrow> store w2 = store w1)"
proof -
  have api: "controller_api kc store x"
    using assms(1) unfolding reliable_api_def controller_api_def kube_reliable_def by blast
  obtain w1 where run: "run_state (gateway_Reconcile x kc req) w = (Inr (), w1)"
    using reliable_api.gateway_Reconcile_succeeds [OF assms] by blast
  note first = controller_api.gateway_run [OF api, OF assms(2) run]
  have gw: "store w1 KClawGateway req = Some (OClawGateway gw)"
    using partly_filled_stays [of _ _ "store w" "store w1" KClawGateway req] first assms(2) by fastforce
  have "store w2 = store w1" if "run_state (gateway_Reconcile x kc req) w1 = (r, w2)" for r w2
    using filled_again first controller_api.gateway_run [OF api, OF gw that] by blast
  with run show ?thesis by blast
qed

theorem gateway_reconcile_converges_witness:
  "\<exists>w1. run_state (gateway_Reconcile example_ext mem_client (nn ''gw'' ''prod'')) (gateway_world 0) = (Inr (), w1)"
  using gateway_reconcile_converges [OF mem_controller.reliable_api_axioms, OF gateway_world_gateway example_gateway_objects] by blast

lemma made_meta: "made x ok owner ob ob' \<Longrightarrow> \<exists>m. ext_SetControllerReference x ok owner (meta_of ob) = Inr m \<and>
    kind_of ob' = kind_of ob \<and> kept_meta m (meta_of ob')"
  by (auto simp: made_def kept_def)

lemma gateway_kinds: "ob \<in> set (map snd (gatewayObjs x gw)) \<Longrightarrow> kind_of ob \<in> {KDeployment, KService, KConfigMap}"
  by (auto simp: gatewayObjs_def gatewayObjects_def Let_def split: sum.splits prod.splits if_splits)

text \<open>C24: The gateway controller repairs its objects. When an object it made is deleted, the event enqueues
  the gateway, and only it, and the reconcile that follows makes the object again, on a server that
  carries out every call.\<close>

theorem gateway_heals:
  assumes "reliable_api kc store x" "store w KClawGateway req = Some (OClawGateway gw)" "gatewayObjects x gw = Inr objs"
    and "run_state (gateway_Reconcile x kc req) w = (Inr (), w1)"
    and "ob \<in> set (map snd objs)" "store w (kind_of ob) (key_of ob) = None"
    and "store w2 = store_del (kind_of ob) (key_of ob) (store w1)"
  shows "\<exists>made_ob w3 new_ob. store w1 (kind_of ob) (key_of ob) = Some made_ob \<and> gateway_requests made_ob = [req] \<and>
    run_state (gateway_Reconcile x kc req) w2 = (Inr (), w3) \<and>
    store w3 (kind_of ob) (key_of ob) = Some new_ob \<and> made x KClawGateway (Gateway_Meta gw) ob new_ob"
proof -
  let ?P = "made x KClawGateway (Gateway_Meta gw)"
  have api: "controller_api kc store x"
    using assms(1) unfolding reliable_api_def controller_api_def kube_reliable_def by blast
  have owner: "owner_api x" using api unfolding controller_api_def by blast
  have wf: "store_ok (store w)" by (rule controller_api.axioms(1) [OF api, THEN kube_api.store_wf])
  have ob: "ob \<in> set (map snd (gatewayObjs x gw))" using assms(3,5) by (simp add: gatewayObjs_def)
  note first = controller_api.gateway_run [OF api, OF assms(2,4)]
  then obtain ob1 where ob1: "store w1 (kind_of ob) (key_of ob) = Some ob1" "?P ob ob1"
    using gateway.filled_made [where P = ?P and ob = ob and x = x and gw = gw and s = "store w" and s' = "store w1"]
      ob assms(6) by blast
  from made_meta [OF ob1(2)] obtain m where m: "ext_SetControllerReference x KClawGateway (Gateway_Meta gw) (meta_of ob) = Inr m"
    "kind_of ob1 = kind_of ob" "kept_meta m (meta_of ob1)" by blast
  have "owner_requests KClawGateway (meta_of ob1) = [nn (Meta_Name (Gateway_Meta gw)) (Meta_Namespace (meta_of ob1))]"
    by (rule owner_api.owner_requests_owned [OF owner, OF m(1)]) (use m(3) in \<open>simp add: kept_meta_def\<close>)
  moreover have "Meta_Namespace (meta_of ob1) = Meta_Namespace (Gateway_Meta gw)"
    using m(3) owner_api.set_owner_keeps [OF owner, OF m(1)] gateway.in_namespace [of _ ob x gw] ob by (auto simp: kept_meta_def)
  moreover have "req = nn (Meta_Name (Gateway_Meta gw)) (Meta_Namespace (Gateway_Meta gw))"
    using assms(2) wf unfolding store_ok_def by (metis key_of_def meta_of.simps(5))
  ultimately have req: "gateway_requests ob1 = [req]"
    using gateway_kinds [OF ob] m(2) by (auto simp: gateway_requests_def)
  have gw2: "store w2 KClawGateway req = Some (OClawGateway gw)"
    using partly_filled_stays [of _ _ "store w" "store w1" KClawGateway req] first assms(2) gateway_kinds [OF ob]
    by (fastforce simp: assms(7))
  obtain w3 where w3: "run_state (gateway_Reconcile x kc req) w2 = (Inr (), w3)"
    using reliable_api.gateway_Reconcile_succeeds [OF assms(1) gw2 assms(3)] by blast
  have "store w2 (kind_of ob) (key_of ob) = None" by (simp add: assms(7))
  then obtain ob3 where "?P ob ob3" "store w3 (kind_of ob) (key_of ob) = Some ob3"
    using gateway.filled_made [where P = ?P and ob = ob and x = x and gw = gw and s = "store w2" and s' = "store w3"]
      ob controller_api.gateway_run [OF api, OF gw2 w3] by blast
  with ob1(1) req w3 show ?thesis by blast
qed

theorem gateway_heals_witness:
  "\<exists>w1 w3. mem_store w1 KDeployment (nn ''gw-ollama'' ''prod'') = None \<and>
     run_state (gateway_Reconcile example_ext mem_client (nn ''gw'' ''prod'')) w1 = (Inr (), w3) \<and>
     mem_store w3 KDeployment (nn ''gw-ollama'' ''prod'') \<noteq> None"
proof -
  let ?objs = "gatewayObjs example_ext (example_gateway 0)"
  obtain w1 where run: "run_state (gateway_Reconcile example_ext mem_client (nn ''gw'' ''prod'')) (gateway_world 0) = (Inr (), w1)"
    using mem_controller.gateway_Reconcile_succeeds [OF gateway_world_gateway example_gateway_objects] by blast
  obtain dep where dep: "ollamaDeployment example_ext ''prod'' ''gw'' ''llama-guard3:1b'' = Inr dep" "key_of (ODeployment dep) = nn ''gw-ollama'' ''prod''"
    by (simp add: ollamaDeployment_def ollamaResources_def example_quantities Let_def)
  then have "ODeployment dep \<in> set (map snd ?objs)"
    by (simp add: gatewayObjs_def gatewayObjects_def Let_def example_gateway_def example_evaluator_def)
  from gateway_heals [OF mem_controller.reliable_api_axioms, OF gateway_world_gateway example_gateway_objects run this,
      where ?w2.0 = "mdel (mem_key KDeployment (nn ''gw-ollama'' ''prod'')) w1"] dep(2)
  obtain w3 where "run_state (gateway_Reconcile example_ext mem_client (nn ''gw'' ''prod'')) (mdel (mem_key KDeployment (nn ''gw-ollama'' ''prod'')) w1) = (Inr (), w3)"
    "mem_store w3 KDeployment (nn ''gw-ollama'' ''prod'') \<noteq> None"
    by (auto simp: gateway_world_def simp del: key_of_simps)
  then show ?thesis by (intro exI conjI) (auto simp: simp del: mem_store_empty)
qed

section \<open>The observability controller\<close>

context controller_api
begin

lemma getAs_read: "guar (\<lambda>w w'. store w' = store w) (getAs sel kc k key)"
  by (rule guarI) (rule getAs_same)

lemma isDeploymentAvailable_same: "run_state (isDeploymentAvailable kc ns name) w = (b, w') \<Longrightarrow> store w' = store w"
  by (auto simp: isDeploymentAvailable_def split: prod.splits dest: getAs_same)

end

text \<open>A deployment is available in a store when it is there with the condition of that name at
  \<open>True\<close>. The flags of a status are sound when no flag is set without that; they are exact when
  they say just that. A server answers a read when what is stored is what it returns.\<close>

definition deployment_available :: "store \<Rightarrow> NamespacedName \<Rightarrow> bool" where
  "deployment_available s key \<longleftrightarrow>
     (\<exists>dep c. s KDeployment key = Some (ODeployment dep) \<and> c \<in> set (DSt_Conditions (Dep_Status dep)) \<and>
        DC_Type c = ''Available'' \<and> DC_Status c = ''True'')"

definition ready_sound :: "store \<Rightarrow> string \<Rightarrow> ClawObservabilityStatus \<Rightarrow> bool" where
  "ready_sound s ns st \<longleftrightarrow>
     (ObsSt_TempoReady st \<longrightarrow> deployment_available s (nn ''tempo'' ns)) \<and>
     (ObsSt_GrafanaReady st \<longrightarrow> deployment_available s (nn ''grafana'' ns))"

definition ready_exact :: "store \<Rightarrow> string \<Rightarrow> ClawObservabilityStatus \<Rightarrow> bool" where
  "ready_exact s ns st \<longleftrightarrow>
     (ObsSt_TempoReady st \<longleftrightarrow> deployment_available s (nn ''tempo'' ns)) \<and>
     (ObsSt_GrafanaReady st \<longleftrightarrow> deployment_available s (nn ''grafana'' ns))"

definition answers_reads :: "'w kube \<Rightarrow> ('w \<Rightarrow> store) \<Rightarrow> bool" where
  "answers_reads kc store \<longleftrightarrow>
     (\<forall>w k key ob. store w k key = Some ob \<longrightarrow> fst (run_state (kube_Get kc k key) w) = Inr ob)"

context controller_api
begin

lemma isDeploymentAvailable_sound:
  assumes "run_state (isDeploymentAvailable kc ns name) w = (True, w')"
  shows "deployment_available (store w) (nn name ns)"
proof -
  obtain r v where r: "run_state (getAs asDeployment kc KDeployment (nn name ns)) w = (r, v)" by fastforce
  with assms obtain dep where "r = Inr dep"
    "list_ex (\<lambda>c. DC_Type c = ''Available'' \<and> DC_Status c = ''True'') (DSt_Conditions (Dep_Status dep))"
    by (cases r) (auto simp: isDeploymentAvailable_def)
  with r show ?thesis unfolding deployment_available_def list_ex_iff by (blast dest: getAs_Inr as_SomeD)
qed

lemma isDeploymentAvailable_exact:
  assumes "answers_reads kc store" "run_state (isDeploymentAvailable kc ns name) w = (b, w')"
  shows "b \<longleftrightarrow> deployment_available (store w) (nn name ns)"
proof
  show "deployment_available (store w) (nn name ns)" if b
    using isDeploymentAvailable_sound assms(2) that by simp
next
  assume "deployment_available (store w) (nn name ns)"
  then obtain dep c where d: "store w KDeployment (nn name ns) = Some (ODeployment dep)"
    "c \<in> set (DSt_Conditions (Dep_Status dep))" "DC_Type c = ''Available''" "DC_Status c = ''True''"
    unfolding deployment_available_def by blast
  with assms(1) have get: "fst (run_state (kube_Get kc KDeployment (nn name ns)) w) = Inr (ODeployment dep)"
    unfolding answers_reads_def by blast
  have "list_ex (\<lambda>c. DC_Type c = ''Available'' \<and> DC_Status c = ''True'') (DSt_Conditions (Dep_Status dep))"
    using d(2-4) unfolding list_ex_iff by blast
  then show b using assms(2) get by (auto simp: isDeploymentAvailable_def getAs_def bindE_def split: prod.splits)
qed

end

context controller_api
begin

lemma observabilityStatus_run:
  assumes obs: "store w KClawObservability (key_of (OClawObservability obs)) = Some (OClawObservability obs)"
    and run: "run_state (observabilityStatus kc obs ns) w = (r, w')"
  shows "touches store {id_of (OClawObservability obs)} w w' \<and>
    (r = Inr () \<longrightarrow> (\<exists>obs'. store w' KClawObservability (key_of (OClawObservability obs)) = Some (OClawObservability obs') \<and>
       Observability_Spec obs' = Observability_Spec obs \<and> ready_sound (store w') ns (Observability_Status obs') \<and>
       (answers_reads kc store \<longrightarrow> ready_exact (store w') ns (Observability_Status obs'))))"
proof -
  obtain t w1 where t: "run_state (isDeploymentAvailable kc ns ''tempo'') w = (t, w1)" by fastforce
  obtain g w2 where g: "run_state (isDeploymentAvailable kc ns ''grafana'') w1 = (g, w2)" by fastforce
  let ?st = "(Observability_Status obs)\<lparr>ObsSt_TempoReady := t, ObsSt_GrafanaReady := g\<rparr>"
  let ?new = "OClawObservability (obs\<lparr>Observability_Status := ?st\<rparr>)"
  have up: "run_state (kube_StatusUpdate kc ?new) w2 = (r, w')"
    using run t g by (simp add: observabilityStatus_def)
  have same: "store w1 = store w" "store w2 = store w"
    using isDeploymentAvailable_same [OF t] isDeploymentAvailable_same [OF g] by simp_all
  have sound: "ready_sound (store w) ns ?st"
    using isDeploymentAvailable_sound [of ns "''tempo''" w w1] isDeploymentAvailable_sound [of ns "''grafana''" w1 w2] t g same
    by (auto simp: ready_sound_def)
  have exact: "answers_reads kc store \<longrightarrow> ready_exact (store w) ns ?st"
    using isDeploymentAvailable_exact [OF _ t] isDeploymentAvailable_exact [OF _ g] same by (auto simp: ready_exact_def)
  have touch: "touches store {id_of (OClawObservability obs)} w w'"
    using guarD [OF guar_status up, of "{id_of (OClawObservability obs)}"] same by (simp add: id_of_def key_of_def touches_def)
  have "\<exists>obs'. store w' KClawObservability (key_of (OClawObservability obs)) = Some (OClawObservability obs') \<and>
       Observability_Spec obs' = Observability_Spec obs \<and> ready_sound (store w') ns (Observability_Status obs') \<and>
       (answers_reads kc store \<longrightarrow> ready_exact (store w') ns (Observability_Status obs'))" if "r = Inr ()"
  proof -
    have "status_updated ?new (store w2) (store w')" using up that by (auto dest: status_Inr)
    then obtain ob' where ob': "kept (put_status ?new (OClawObservability obs)) ob'" "store w' = store_put ob' (store w)"
      using obs same by (auto simp: status_updated_def key_of_def)
    then obtain obs' where o: "ob' = OClawObservability obs'" by (cases ob') (auto simp: kept_def)
    have "Observability_Spec obs' = Observability_Spec obs" "Observability_Status obs' = ?st"
      using ob'(1) unfolding o by (cases obs; cases obs'; simp add: kept_def)+
    moreover have "key_of ob' = key_of (OClawObservability obs)" using kept_key [OF ob'(1)] by (simp add: key_of_def)
    moreover have "deployment_available (store w') = deployment_available (store w)"
      using touch by (auto simp: touches_def id_of_def deployment_available_def fun_eq_iff)
    ultimately show ?thesis using ob'(2) sound exact by (auto simp: o ready_sound_def ready_exact_def)
  qed
  with touch show ?thesis by blast
qed

lemma observability_run:
  assumes obs: "store w KClawObservability req = Some (OClawObservability obs)"
    and run: "run_state (observability_Reconcile x kc req) w = (r, w')"
  defines "P \<equiv> made x KClawObservability (Observability_Meta obs)" and "objs \<equiv> map snd (observabilityObjects obs)"
  obtains s1 where "partly_filled P objs (store w) s1" "r = Inr () \<Longrightarrow> filled P objs (store w) s1"
    "\<forall>k key. (k, key) \<noteq> (KClawObservability, req) \<longrightarrow> store w' k key = s1 k key"
    "r = Inr () \<Longrightarrow> \<exists>obs'. store w' KClawObservability req = Some (OClawObservability obs') \<and>
       Observability_Spec obs' = Observability_Spec obs \<and>
       ready_sound (store w') (Meta_Namespace (Observability_Meta obs)) (Observability_Status obs') \<and>
       (answers_reads kc store \<longrightarrow>
          ready_exact (store w') (Meta_Namespace (Observability_Meta obs)) (Observability_Status obs'))"
proof (rule with_object_cases [OF obs _ run [unfolded observability_Reconcile_def]])
  show "asClawObservability (OClawObservability obs) = Some obs" by simp
next
  fix e assume "r = Inl e" "store w' = store w"
  with that [of "store w"] show thesis by simp
next
  let ?ns = "Meta_Namespace (Observability_Meta obs)"
  have key: "req = key_of (OClawObservability obs)" using obs store_wf [of w] unfolding store_ok_def by metis
  fix w1 assume w1: "store w1 = store w" "run_state (reconcileObservability x kc obs) w1 = (r, w')"
  obtain q w2 where q: "run_state (ensureAll x kc KClawObservability (Observability_Meta obs) (observabilityObjects obs)) w1 = (q, w2)"
    by fastforce
  have part: "partly_filled P objs (store w) (store w2)"
    using guarD [OF ensureAll_partly q, of objs] by (simp add: objs_def P_def w1(1))
  show thesis
  proof (cases q)
    case (Inl e)
    with w1(2) q have "r = Inl e" "w' = w2" by (simp_all add: reconcileObservability_ensureAll run_bindE)
    with that [OF part] show thesis by simp
  next
    case (Inr u)
    with w1(2) q have st: "run_state (observabilityStatus kc obs ?ns) w2 = (r, w')"
      by (simp add: reconcileObservability_ensureAll run_bindE)
    have fill: "filled P objs (store w) (store w2)"
      using ensureAll_filled [OF q [unfolded Inr]] by (simp add: objs_def P_def w1(1))
    have "store w2 KClawObservability (key_of (OClawObservability obs)) = Some (OClawObservability obs)"
      using partly_filled_stays [OF part, of KClawObservability req] obs key by simp
    from observabilityStatus_run [OF this st] that [OF part, OF fill] show thesis
      unfolding key touches_def id_of_def by simp
  qed
qed

end

context reliable_api
begin

lemma observability_Reconcile_succeeds:
  assumes obs: "store w KClawObservability req = Some (OClawObservability obs)"
  shows "\<exists>w'. run_state (observability_Reconcile x kc req) w = (Inr (), w')"
proof -
  let ?ns = "Meta_Namespace (Observability_Meta obs)" and ?P = "made x KClawObservability (Observability_Meta obs)"
  have key: "key_of (OClawObservability obs) = req" using obs store_wf [of w] unfolding store_ok_def by metis
  have "succeeds (reconcileObservability x kc obs) w1" if w1: "store w1 = store w" for w1
    unfolding reconcileObservability_ensureAll
  proof (rule succeeds_bindE)
    show "succeeds (ensureAll x kc KClawObservability (Observability_Meta obs) (observabilityObjects obs)) w1"
      by (rule ensureAll_succeeds) (use observability.in_namespace observability.unowned in fastforce)
    fix u w2 assume q: "run_state (ensureAll x kc KClawObservability (Observability_Meta obs) (observabilityObjects obs)) w1 = (Inr u, w2)"
    have "partly_filled ?P (map snd (observabilityObjects obs)) (store w1) (store w2)"
      by (rule guarD [OF ensureAll_partly q]) simp
    then have there: "store w2 KClawObservability req \<noteq> None"
      using partly_filled_stays [of _ _ "store w1" "store w2" KClawObservability req] obs w1 by simp
    show "succeeds (observabilityStatus kc obs ?ns) w2"
      unfolding observabilityStatus_def
    proof (intro succeeds_bind)
      fix t w3 g w4
      assume "run_state (isDeploymentAvailable kc ?ns ''tempo'') w2 = (t, w3)"
        and "run_state (isDeploymentAvailable kc ?ns ''grafana'') w3 = (g, w4)"
      then have "store w4 KClawObservability req \<noteq> None" using there isDeploymentAvailable_same by metis
      with key status_ok show "succeeds (kube_StatusUpdate kc (OClawObservability (obs\<lparr>Observability_Status :=
         (Observability_Status obs)\<lparr>ObsSt_TempoReady := t, ObsSt_GrafanaReady := g\<rparr>\<rparr>))) w4"
        by (auto simp: succeeds_def key_of_def)
    qed
  qed
  then have "succeeds (observability_Reconcile x kc req) w"
    unfolding observability_Reconcile_def by (intro with_object_succeeds [OF obs]) simp_all
  then show ?thesis by (simp add: succeeds_def)
qed

end

text \<open>Observability with both stacks, for examples.\<close>

definition example_observability :: "string \<Rightarrow> ClawObservability" where
  "example_observability n = \<lparr>Observability_Meta = new_meta n ''prod'' [],
     Observability_Spec = \<lparr>
       Obs_Tempo = \<lparr>Tempo_Enabled = True, Tempo_RetentionDays = 0, Tempo_Storage = \<lparr>TS_Size = '''', TS_StorageClass = ''''\<rparr>\<rparr>,
       Obs_Grafana = \<lparr>Grafana_Enabled = True, Grafana_Dashboards = [], Grafana_AdminCredentialsSecret = '''', Grafana_Expose = ''''\<rparr>,
       Obs_OTLPEndpoint = '''', Obs_OTLPProtocol = ''''\<rparr>,
     Observability_Status = \<lparr>ObsSt_TempoReady = False, ObsSt_GrafanaReady = False\<rparr>\<rparr>"

definition observability_world :: mem where
  "observability_world = mem_put (OClawObservability (example_observability ''second''))
     (mem_put (OClawObservability (example_observability ''first'')) [])"

lemma observability_world_stored:
  "mem_store observability_world KClawObservability (nn ''first'' ''prod'') = Some (OClawObservability (example_observability ''first''))"
  "mem_store observability_world KClawObservability (nn ''second'' ''prod'') = Some (OClawObservability (example_observability ''second''))"
  by (simp_all add: observability_world_def example_observability_def key_of_def)

text \<open>C20: The observability controller implements the filling of its list too. A reconcile that reports
  success has added every missing object of the enabled stacks and changed or removed nothing but
  its own status. The status keeps the stored spec; its ready flags are never set unless the Tempo
  or Grafana deployment of the namespace is stored as available, and when the server answers the
  two reads with what it has they agree exactly: each is set if and only if that deployment is
  stored with the condition \<open>Available\<close> at \<open>True\<close>. A read that fails counts as not ready.\<close>

theorem observability_reconcile_fills:
  assumes "controller_api kc store x" "store w KClawObservability req = Some (OClawObservability obs)"
    and "run_state (observability_Reconcile x kc req) w = (Inr (), w')"
  shows "(\<exists>s1. filled (made x KClawObservability (Observability_Meta obs)) (map snd (observabilityObjects obs)) (store w) s1 \<and>
      (\<forall>k key. (k, key) \<noteq> (KClawObservability, req) \<longrightarrow> store w' k key = s1 k key)) \<and>
    (\<exists>obs'. store w' KClawObservability req = Some (OClawObservability obs') \<and>
      Observability_Spec obs' = Observability_Spec obs \<and>
      ready_sound (store w') (Meta_Namespace (Observability_Meta obs)) (Observability_Status obs') \<and>
      (answers_reads kc store \<longrightarrow>
         ready_exact (store w') (Meta_Namespace (Observability_Meta obs)) (Observability_Status obs')))"
  by (rule controller_api.observability_run [OF assms]) blast

text \<open>A namespace whose Tempo is available and whose Grafana has not come up: the reconcile sets the
  one flag and not the other.\<close>

definition half_ready_world :: mem where
  "half_ready_world =
     mem_put (ODeployment ((tempoDeployment ''prod'')\<lparr>Dep_Status := no_dep_status\<lparr>DSt_Conditions :=
       [\<lparr>DC_Type = ''Available'', DC_Status = ''True''\<rparr>]\<rparr>\<rparr>))
     (mem_put (ODeployment ((grafanaDeployment ''prod'')\<lparr>Dep_Status := no_dep_status\<lparr>DSt_Conditions :=
       [\<lparr>DC_Type = ''Available'', DC_Status = ''False''\<rparr>]\<rparr>\<rparr>)) observability_world)"

theorem observability_reconcile_fills_witness:
  "\<exists>w' obs'. run_state (observability_Reconcile example_ext mem_client (nn ''first'' ''prod'')) half_ready_world = (Inr (), w') \<and>
     mem_store w' KClawObservability (nn ''first'' ''prod'') = Some (OClawObservability obs') \<and>
     ObsSt_TempoReady (Observability_Status obs') \<and> \<not> ObsSt_GrafanaReady (Observability_Status obs')"
proof -
  let ?s = "mem_store half_ready_world"
  have keys: "Meta_Name (Dep_Meta (tempoDeployment ns)) = ''tempo''" "Meta_Namespace (Dep_Meta (tempoDeployment ns)) = ns"
    "Meta_Name (Dep_Meta (grafanaDeployment ns)) = ''grafana''" "Meta_Namespace (Dep_Meta (grafanaDeployment ns)) = ns" for ns
    by (simp_all add: tempoDeployment_def grafanaDeployment_def simpleDeployment_def)
  have at: "?s KClawObservability (nn ''first'' ''prod'') = Some (OClawObservability (example_observability ''first''))"
    using observability_world_stored(1) by (simp add: half_ready_world_def store_put_def)
  have dep: "deployment_available ?s (nn ''tempo'' ''prod'')" "\<not> deployment_available ?s (nn ''grafana'' ''prod'')"
    "?s KDeployment (nn ''tempo'' ''prod'') \<noteq> None" "?s KDeployment (nn ''grafana'' ''prod'') \<noteq> None"
    by (auto simp: half_ready_world_def store_put_def keys deployment_available_def)
  obtain w' where run: "run_state (observability_Reconcile example_ext mem_client (nn ''first'' ''prod'')) half_ready_world = (Inr (), w')"
    using mem_controller.observability_Reconcile_succeeds [OF at] by blast
  have reads: "answers_reads mem_client mem_store"
    unfolding answers_reads_def using mem.get_Some by fastforce
  from observability_reconcile_fills [OF mem_controller.controller_api_axioms at run] reads
  obtain s1 obs' where s1: "filled (made example_ext KClawObservability (Observability_Meta (example_observability ''first'')))
        (map snd (observabilityObjects (example_observability ''first''))) ?s s1"
      "\<forall>k key. (k, key) \<noteq> (KClawObservability, nn ''first'' ''prod'') \<longrightarrow> mem_store w' k key = s1 k key"
    and o: "mem_store w' KClawObservability (nn ''first'' ''prod'') = Some (OClawObservability obs')"
      "ready_exact (mem_store w') ''prod'' (Observability_Status obs')"
    by (auto simp: example_observability_def)
  have "mem_store w' KDeployment (nn n ''prod'') = ?s KDeployment (nn n ''prod'')" if "n \<in> {''tempo'', ''grafana''}" for n
    using that s1(2) dep(3,4) partly_filled_stays [of _ _ ?s s1 KDeployment] s1(1) by (auto simp: filled_def)
  with dep(1,2) o(2) have "ObsSt_TempoReady (Observability_Status obs')" "\<not> ObsSt_GrafanaReady (Observability_Status obs')"
    by (auto simp: ready_exact_def deployment_available_def)
  with run o(1) show ?thesis by blast
qed

text \<open>C26: The stacks of a namespace are shared. Their names do not depend on the resource, so once one
  observability resource has been reconciled, reconciling another of the same namespace that
  enables no more than the first changes nothing except its own status, whatever the outcome.\<close>

theorem second_observability_adds_nothing:
  assumes "controller_api kc store x" "store w KClawObservability req1 = Some (OClawObservability obs1)"
    and "run_state (observability_Reconcile x kc req1) w = (Inr (), w1)"
    and "store w1 KClawObservability req2 = Some (OClawObservability obs2)"
    and "run_state (observability_Reconcile x kc req2) w1 = (r, w2)"
    and "Meta_Namespace (Observability_Meta obs2) = Meta_Namespace (Observability_Meta obs1)"
    and "Tempo_Enabled (Obs_Tempo (Observability_Spec obs2)) \<Longrightarrow> Tempo_Enabled (Obs_Tempo (Observability_Spec obs1))"
    and "Grafana_Enabled (Obs_Grafana (Observability_Spec obs2)) \<Longrightarrow> Grafana_Enabled (Obs_Grafana (Observability_Spec obs1))"
    and "(k, key) \<noteq> (KClawObservability, req2)"
  shows "store w2 k key = store w1 k key"
proof -
  have sub: "set (map snd (observabilityObjects obs2)) \<subseteq> set (map snd (observabilityObjects obs1))"
    unfolding observabilityObjects_def Let_def assms(6) using assms(7,8)
    by (cases "Tempo_Enabled (Obs_Tempo (Observability_Spec obs2))"; cases "Grafana_Enabled (Obs_Grafana (Observability_Spec obs2))") simp_all
  have kinds: "kind_of ob \<noteq> KClawObservability" if "ob \<in> set (map snd (observabilityObjects obs1))" for ob
    using that by (auto simp: observabilityObjects_def Let_def split: if_splits)
  obtain s1 where s1: "filled (made x KClawObservability (Observability_Meta obs1)) (map snd (observabilityObjects obs1)) (store w) s1"
    "\<forall>k key. (k, key) \<noteq> (KClawObservability, req1) \<longrightarrow> store w1 k key = s1 k key"
    using controller_api.observability_run [OF assms(1), OF assms(2,3)] by metis
  obtain s2 where s2: "partly_filled (made x KClawObservability (Observability_Meta obs2)) (map snd (observabilityObjects obs2)) (store w1) s2"
    "\<forall>k key. (k, key) \<noteq> (KClawObservability, req2) \<longrightarrow> store w2 k key = s2 k key"
    using controller_api.observability_run [OF assms(1), OF assms(4,5)] by metis
  have "store w1 (kind_of ob) (key_of ob) \<noteq> None" if "ob \<in> set (map snd (observabilityObjects obs2))" for ob
  proof -
    from that sub have ob: "ob \<in> set (map snd (observabilityObjects obs1))" by blast
    with s1(1) have "s1 (kind_of ob) (key_of ob) \<noteq> None" unfolding filled_def by blast
    with s1(2) kinds [OF ob] show ?thesis by simp
  qed
  with s2(1) have "s2 k key = store w1 k key"
    unfolding partly_filled_def id_of_def by (metis Pair_inject)
  with s2(2) assms(9) show ?thesis by metis
qed

theorem second_observability_adds_nothing_witness:
  "\<exists>w1 w2. run_state (observability_Reconcile example_ext mem_client (nn ''first'' ''prod'')) observability_world = (Inr (), w1) \<and>
     snd (run_state (observability_Reconcile example_ext mem_client (nn ''second'' ''prod'')) w1) = w2 \<and>
     mem_store w2 KDeployment (nn ''tempo'' ''prod'') = mem_store w1 KDeployment (nn ''tempo'' ''prod'')"
proof -
  obtain w1 where run: "run_state (observability_Reconcile example_ext mem_client (nn ''first'' ''prod'')) observability_world = (Inr (), w1)"
    using mem_controller.observability_Reconcile_succeeds [OF observability_world_stored(1)] by blast
  obtain s1 where s1: "partly_filled (made example_ext KClawObservability (Observability_Meta (example_observability ''first'')))
      (map snd (observabilityObjects (example_observability ''first''))) (mem_store observability_world) s1"
    "\<forall>k key. (k, key) \<noteq> (KClawObservability, nn ''first'' ''prod'') \<longrightarrow> mem_store w1 k key = s1 k key"
    using mem_controller.observability_run [OF observability_world_stored(1) run] by metis
  have "mem_store w1 KClawObservability (nn ''second'' ''prod'') = Some (OClawObservability (example_observability ''second''))"
    using partly_filled_stays [OF s1(1), of KClawObservability "nn ''second'' ''prod''"] s1(2) observability_world_stored(2) by simp
  from second_observability_adds_nothing [OF mem_controller.controller_api_axioms, OF observability_world_stored(1) run this
      surjective_pairing, where k = KDeployment and key = "nn ''tempo'' ''prod''"] run
  show ?thesis by (auto simp: example_observability_def)
qed

section \<open>Closed stacks\<close>

text \<open>
  A list of objects is closed when its pods can start and its services reach them: in every
  deployment, volumes are declared once, mounts name declared volumes, volumes name config maps of
  the list and the selector is the pods' labels; every service selects the pods of one deployment
  of the list, and each of its ports is a port of a container there.
\<close>

definition deployment_closed :: "Obj list \<Rightarrow> Deployment \<Rightarrow> bool" where
  "deployment_closed obs dep \<longleftrightarrow>
     (let pod = DS_PodSpec (Dep_Spec dep) in
      distinct (map Vol_Name (Pod_Volumes pod)) \<and>
      list_all (\<lambda>c. VM_Name ` set (C_VolumeMounts c) \<subseteq> Vol_Name ` set (Pod_Volumes pod)) (Pod_InitContainers pod @ Pod_Containers pod) \<and>
      list_all (\<lambda>v. case Vol_Source v of
           ConfigMapSource n _ \<Rightarrow> (KConfigMap, nn n (Meta_Namespace (Dep_Meta dep))) \<in> id_of ` set obs
         | _ \<Rightarrow> True) (Pod_Volumes pod) \<and>
      DS_Selector (Dep_Spec dep) = DS_TemplateLabels (Dep_Spec dep))"

definition service_closed :: "Obj list \<Rightarrow> Service \<Rightarrow> bool" where
  "service_closed obs svc \<longleftrightarrow>
     (\<exists>dep. ODeployment dep \<in> set obs \<and> Meta_Namespace (Dep_Meta dep) = Meta_Namespace (Svc_Meta svc) \<and>
        Svc_Selector svc = DS_TemplateLabels (Dep_Spec dep) \<and>
        (\<forall>dep'. ODeployment dep' \<in> set obs \<and> DS_TemplateLabels (Dep_Spec dep') = Svc_Selector svc \<longrightarrow> dep' = dep) \<and>
        list_all (\<lambda>sp. \<exists>c \<in> set (Pod_Containers (DS_PodSpec (Dep_Spec dep))). \<exists>cp \<in> set (C_Ports c).
           CP_Name cp = SP_Name sp \<and> CP_ContainerPort cp = SP_Port sp \<and> CP_Protocol cp = SP_Protocol sp) (Svc_Ports svc))"

definition stack_closed :: "Obj list \<Rightarrow> bool" where
  "stack_closed obs \<longleftrightarrow>
     (\<forall>dep. ODeployment dep \<in> set obs \<longrightarrow> deployment_closed obs dep) \<and>
     (\<forall>svc. OService svc \<in> set obs \<longrightarrow> service_closed obs svc)"

lemma service_closedI:
  assumes "ODeployment dep \<in> set obs" "Meta_Namespace (Dep_Meta dep) = Meta_Namespace (Svc_Meta svc)"
    and "Svc_Selector svc = DS_TemplateLabels (Dep_Spec dep)"
    and "\<And>dep'. ODeployment dep' \<in> set obs \<Longrightarrow> DS_TemplateLabels (Dep_Spec dep') = Svc_Selector svc \<Longrightarrow> dep' = dep"
    and "Pod_Containers (DS_PodSpec (Dep_Spec dep)) = [c]"
    and "map (\<lambda>sp. (SP_Name sp, SP_Port sp, SP_Protocol sp)) (Svc_Ports svc) =
         map (\<lambda>cp. (CP_Name cp, CP_ContainerPort cp, CP_Protocol cp)) (C_Ports c)"
  shows "service_closed obs svc"
proof -
  have "\<exists>cp \<in> set (C_Ports c). CP_Name cp = SP_Name sp \<and> CP_ContainerPort cp = SP_Port sp \<and> CP_Protocol cp = SP_Protocol sp"
    if "sp \<in> set (Svc_Ports svc)" for sp
  proof -
    have "(SP_Name sp, SP_Port sp, SP_Protocol sp) \<in> set (map (\<lambda>cp. (CP_Name cp, CP_ContainerPort cp, CP_Protocol cp)) (C_Ports c))"
      unfolding assms(6) [symmetric] using that by force
    then show ?thesis by auto
  qed
  then have "list_all (\<lambda>sp. \<exists>c \<in> set (Pod_Containers (DS_PodSpec (Dep_Spec dep))). \<exists>cp \<in> set (C_Ports c).
      CP_Name cp = SP_Name sp \<and> CP_ContainerPort cp = SP_Port sp \<and> CP_Protocol cp = SP_Protocol sp) (Svc_Ports svc)"
    by (simp add: list_all_iff assms(5))
  with assms(1-4) show ?thesis unfolding service_closed_def by (intro exI [of _ dep] conjI) blast+
qed

lemma labels_differ: "tempoLabels \<noteq> grafanaLabels"
  by (simp add: tempoLabels_def grafanaLabels_def mputs_def)

lemma tempo_closed:
  assumes "(KConfigMap, nn ''tempo-config'' ns) \<in> id_of ` set obs"
  shows "deployment_closed obs (tempoDeployment ns)"
  using assms by (simp add: deployment_closed_def tempoDeployment_def simpleDeployment_def tempoContainer_def container0_def
      vol_def vmount_def Let_def)

lemma grafana_closed:
  assumes "(KConfigMap, nn ''grafana-datasources'' ns) \<in> id_of ` set obs"
    "(KConfigMap, nn ''grafana-dashboards'' ns) \<in> id_of ` set obs"
    "(KConfigMap, nn ''grafana-dashboard-json'' ns) \<in> id_of ` set obs"
  shows "deployment_closed obs (grafanaDeployment ns)"
  using assms by (simp add: deployment_closed_def grafanaDeployment_def simpleDeployment_def grafanaContainer_def container0_def
      vol_def vmount_def Let_def)

lemma stack_template_labels [simp]:
  "DS_TemplateLabels (Dep_Spec (tempoDeployment ns)) = tempoLabels"
  "DS_TemplateLabels (Dep_Spec (grafanaDeployment ns)) = grafanaLabels"
  by (simp_all add: tempoDeployment_def grafanaDeployment_def simpleDeployment_def)

text \<open>The observability stacks are closed, for each choice of what is enabled.\<close>

theorem observability_stack_closed: "stack_closed (map snd (observabilityObjects obs))"
proof -
  let ?ns = "Meta_Namespace (Observability_Meta obs)" and ?obs = "map snd (observabilityObjects obs)"
  let ?t = "Tempo_Enabled (Obs_Tempo (Observability_Spec obs))" and ?g = "Grafana_Enabled (Obs_Grafana (Observability_Spec obs))"
  have m: "?obs = (if ?t then [OConfigMap (tempoConfigMap ?ns), ODeployment (tempoDeployment ?ns), OService (tempoService ?ns)] else []) @
      (if ?g then [OConfigMap (grafanaDatasourceConfigMap ?ns), OConfigMap (grafanaDashboardConfigMap ?ns),
         OConfigMap (grafanaDashboardJSONConfigMap ?ns), ODeployment (grafanaDeployment ?ns), OService (grafanaService ?ns)] else [])"
    by (simp add: observabilityObjects_def Let_def)
  have obs: "set ?obs = (if ?t then {OConfigMap (tempoConfigMap ?ns), ODeployment (tempoDeployment ?ns), OService (tempoService ?ns)} else {}) \<union>
      (if ?g then {OConfigMap (grafanaDatasourceConfigMap ?ns), OConfigMap (grafanaDashboardConfigMap ?ns),
         OConfigMap (grafanaDashboardJSONConfigMap ?ns), ODeployment (grafanaDeployment ?ns), OService (grafanaService ?ns)} else {})"
    unfolding m by (simp only: set_append if_distrib [of set] list.set)
  have deps: "ODeployment d \<in> set ?obs \<longleftrightarrow> ?t \<and> d = tempoDeployment ?ns \<or> ?g \<and> d = grafanaDeployment ?ns" for d
    unfolding obs by simp
  have svcs: "OService v \<in> set ?obs \<longleftrightarrow> ?t \<and> v = tempoService ?ns \<or> ?g \<and> v = grafanaService ?ns" for v
    unfolding obs by simp
  have named: "ob \<in> set ?obs \<Longrightarrow> id_of ob \<in> id_of ` set ?obs" for ob by (rule imageI)
  have "(KConfigMap, nn ''tempo-config'' ?ns) \<in> id_of ` set ?obs" if ?t
    using that named [of "OConfigMap (tempoConfigMap ?ns)"] unfolding obs by (simp add: id_of_def tempoConfigMap_def)
  moreover have "(KConfigMap, nn ''grafana-datasources'' ?ns) \<in> id_of ` set ?obs" if ?g
    using that named [of "OConfigMap (grafanaDatasourceConfigMap ?ns)"] unfolding obs by (simp add: id_of_def grafanaDatasourceConfigMap_def)
  moreover have "(KConfigMap, nn ''grafana-dashboards'' ?ns) \<in> id_of ` set ?obs" if ?g
    using that named [of "OConfigMap (grafanaDashboardConfigMap ?ns)"] unfolding obs by (simp add: id_of_def grafanaDashboardConfigMap_def)
  moreover have "(KConfigMap, nn ''grafana-dashboard-json'' ?ns) \<in> id_of ` set ?obs" if ?g
    using that named [of "OConfigMap (grafanaDashboardJSONConfigMap ?ns)"] unfolding obs by (simp add: id_of_def grafanaDashboardJSONConfigMap_def)
  ultimately have "deployment_closed ?obs d" if "ODeployment d \<in> set ?obs" for d
    using that tempo_closed grafana_closed unfolding deps by blast
  moreover have "service_closed ?obs (tempoService ?ns)" if ?t
  proof (rule service_closedI [of "tempoDeployment ?ns" _ _ tempoContainer])
    show "dep' = tempoDeployment ?ns" if "ODeployment dep' \<in> set ?obs" "DS_TemplateLabels (Dep_Spec dep') = Svc_Selector (tempoService ?ns)" for dep'
      using that(1) [unfolded deps] that(2) labels_differ by (auto simp: tempoService_def)
  next
    show "ODeployment (tempoDeployment ?ns) \<in> set ?obs" using that deps by blast
  qed (simp_all add: tempoDeployment_def simpleDeployment_def tempoService_def tempoContainer_def cport_def sport_def
      to_int32_def container0_def)
  moreover have "service_closed ?obs (grafanaService ?ns)" if ?g
  proof (rule service_closedI [of "grafanaDeployment ?ns" _ _ grafanaContainer])
    show "dep' = grafanaDeployment ?ns" if "ODeployment dep' \<in> set ?obs" "DS_TemplateLabels (Dep_Spec dep') = Svc_Selector (grafanaService ?ns)" for dep'
      using that(1) [unfolded deps] that(2) labels_differ by (auto simp: grafanaService_def)
  next
    show "ODeployment (grafanaDeployment ?ns) \<in> set ?obs" using that deps by blast
  qed (simp_all add: grafanaDeployment_def simpleDeployment_def grafanaService_def grafanaContainer_def cport_def sport_def
      to_int32_def container0_def)
  ultimately show ?thesis unfolding stack_closed_def svcs by blast
qed

lemma gateway_labels_differ: "gatewayLabels n \<noteq> ollamaLabels n" "ollamaLabels n \<noteq> gatewayLabels n"
proof -
  have "mget (gatewayLabels n) ''app'' \<noteq> mget (ollamaLabels n) ''app''"
    by (simp add: gatewayLabels_def ollamaLabels_def mputs_def mget_def)
  then show "gatewayLabels n \<noteq> ollamaLabels n" "ollamaLabels n \<noteq> gatewayLabels n" by auto
qed

lemma ollamaDeployment_fields:
  assumes "ollamaDeployment x ns n model = Inr dep"
  obtains res where "dep = \<lparr>Dep_Meta = new_meta (n @ ''-ollama'') ns (ollamaLabels n),
     Dep_Spec = \<lparr>DS_Replicas = Some 1, DS_Selector = ollamaLabels n, DS_TemplateLabels = ollamaLabels n,
       DS_PodSpec = \<lparr>Pod_SecurityContext = None, Pod_RestartPolicy = '''', Pod_InitContainers = [],
         Pod_Containers = [ollamaContainer res model], Pod_Volumes = []\<rparr>\<rparr>,
     Dep_Status = no_dep_status\<rparr>"
  using assms by (auto simp: ollamaDeployment_def Let_def split: sum.splits)

text \<open>The objects of a gateway are closed, with Ollama or without.\<close>

theorem gateway_stack_closed:
  assumes "gatewayObjects x gw = Inr objs"
  shows "stack_closed (map snd objs)"
proof -
  let ?ns = "Meta_Namespace (Gateway_Meta gw)" and ?n = "Meta_Name (Gateway_Meta gw)" and ?port = "gatewayPort gw"
  obtain needs model where fo: "findOllama (Routing_Evaluators (GW_Routing (Gateway_Spec gw))) = (needs, model)" by fastforce
  let ?gd = "gatewayDeployment gw ?ns ?n ?port (ollamaEndpointFor needs ?ns ?n)"
  let ?own = "[OConfigMap (gatewayScriptConfigMap ?ns ?n), ODeployment ?gd, OService (gatewayService ?ns ?n ?port)]"
  obtain pre where obs: "map snd objs = pre @ ?own" and pre: "pre = [] \<or>
      (\<exists>dep. ollamaDeployment x ?ns ?n model = Inr dep \<and> pre = [ODeployment dep, OService (ollamaService ?ns ?n)])"
    using assms fo by (auto simp: gatewayObjects_def Let_def split: if_splits sum.splits)
  have gd: "deployment_closed obs ?gd" if "OConfigMap (gatewayScriptConfigMap ?ns ?n) \<in> set obs" for obs
    using imageI [OF that, of id_of]
    by (simp add: deployment_closed_def gatewayDeployment_def gatewayContainer_def gatewayInstallDeps_def container0_def
        vol_def vmount_def Let_def id_of_def gatewayScriptConfigMap_def)
  have od: "deployment_closed obs dep \<and> DS_TemplateLabels (Dep_Spec dep) = ollamaLabels ?n" if "ollamaDeployment x ?ns ?n model = Inr dep" for obs dep
    by (rule ollamaDeployment_fields [OF that]) (simp add: deployment_closed_def ollamaContainer_def container0_def)
  have gl: "DS_TemplateLabels (Dep_Spec ?gd) = gatewayLabels ?n" by (simp add: gatewayDeployment_def Let_def)
  have "service_closed (map snd objs) (gatewayService ?ns ?n ?port)"
    by (rule service_closedI [of ?gd])
      (use obs pre od gateway_labels_differ in \<open>auto simp: gatewayDeployment_def gatewayService_def gatewayContainer_def
         container0_def cport_def sport_def Let_def\<close>)
  moreover have "service_closed (map snd objs) (ollamaService ?ns ?n)" if "pre \<noteq> []"
  proof -
    from that pre obtain dep where dep: "ollamaDeployment x ?ns ?n model = Inr dep" "pre = [ODeployment dep, OService (ollamaService ?ns ?n)]"
      by blast
    show ?thesis
    proof (rule ollamaDeployment_fields [OF dep(1)])
      fix res assume "dep = \<lparr>Dep_Meta = new_meta (?n @ ''-ollama'') ?ns (ollamaLabels ?n),
         Dep_Spec = \<lparr>DS_Replicas = Some 1, DS_Selector = ollamaLabels ?n, DS_TemplateLabels = ollamaLabels ?n,
           DS_PodSpec = \<lparr>Pod_SecurityContext = None, Pod_RestartPolicy = '''', Pod_InitContainers = [],
             Pod_Containers = [ollamaContainer res model], Pod_Volumes = []\<rparr>\<rparr>,
         Dep_Status = no_dep_status\<rparr>"
      then show ?thesis
        by (intro service_closedI [of dep _ _ "ollamaContainer res model"])
          (use obs dep(2) gl gateway_labels_differ in \<open>auto simp: ollamaService_def ollamaContainer_def container0_def cport_def
             sport_def to_int32_def Let_def\<close>)
    qed
  qed
  ultimately show ?thesis
    using obs pre gd od by (auto simp: stack_closed_def)
qed

theorem gateway_stack_closed_witness: "stack_closed (map snd (gatewayObjs example_ext (example_gateway 0)))"
  by (rule gateway_stack_closed [OF example_gateway_objects])

lemma show_3200: "show_int 3200 = ''3200''"
  by code_simp

text \<open>Grafana reads the traces where Tempo serves them: the provisioned data source is the cluster
  name of Tempo's service with the port that service and the Tempo container call tempo-http.\<close>

theorem grafana_reads_tempo:
  "\<exists>before after port sp. mget (data_of (grafanaDatasourceConfigMap ns)) ''datasources.yaml'' =
      Some (before @ ''url: http://'' @ Meta_Name (Svc_Meta (tempoService ns)) @ ''.'' @ Meta_Namespace (Svc_Meta (tempoService ns)) @
        ''.svc.cluster.local:'' @ show_int port @ nl @ after) \<and>
    sp \<in> set (Svc_Ports (tempoService ns)) \<and> SP_Name sp = ''tempo-http'' \<and> sint (SP_Port sp) = port \<and>
    cport ''tempo-http'' (SP_Port sp) \<in> set (C_Ports tempoContainer)"
proof (intro exI conjI)
  show "mget (data_of (grafanaDatasourceConfigMap ns)) ''datasources.yaml'' =
      Some ((''apiVersion: 1'' @ nl @ ''datasources:'' @ nl @ ''  - name: Tempo'' @ nl @ ''    type: tempo'' @ nl @ ''    uid: tempo'' @
          nl @ ''    access: proxy'' @ nl @ ''    '') @
        ''url: http://'' @ Meta_Name (Svc_Meta (tempoService ns)) @ ''.'' @ Meta_Namespace (Svc_Meta (tempoService ns)) @
        ''.svc.cluster.local:'' @ show_int 3200 @ nl @ ''    isDefault: true'' @ nl @ ''    editable: false'' @ nl)"
    by (simp add: grafanaDatasourceConfigMap_def data_of_def mputs_def mget_def datasourceYAML_def grafanaEndpoint_def tempoService_def
        show_3200)
  show "sport ''tempo-http'' 3200 \<in> set (Svc_Ports (tempoService ns))"
    by (simp add: tempoService_def)
qed (simp_all add: sport_def tempoContainer_def to_int32_def)

section \<open>The URL of a gateway\<close>

lemma gatewayURLFor_port:
  "gatewayURLFor g ns gw = ''http://'' @ g @ ''-gateway.'' @ ns @ ''.svc.cluster.local:'' @ show_int (gatewayPort gw)"
  by (simp add: gatewayURLFor_def gatewayPort_def Let_def)

lemma resolved_gateway_url:
  assumes "s KClawGateway (nn g ns) = Some (OClawGateway gw)" "AS_Gateway sp = g" "g \<noteq> ''''"
  shows "R_GatewayURL (resolve_in s sp ns) = gatewayURLFor g ns gw"
  using assms by (simp add: resolve_in_def resolved_of_def ref_in_def)

lemma made_service:
  assumes "made x ok owner (OService svc) ob"
  shows "\<exists>svc'. ob = OService svc' \<and> Svc_Ports svc' = Svc_Ports svc \<and> Svc_Selector svc' = Svc_Selector svc"
  using assms by (cases ob) (auto simp: made_def kept_def)

lemma made_deployment:
  assumes "made x ok owner (ODeployment dep) ob"
  shows "\<exists>dep'. ob = ODeployment dep' \<and> DS_TemplateLabels (Dep_Spec dep') = DS_TemplateLabels (Dep_Spec dep) \<and>
    pod_core (DS_PodSpec (Dep_Spec dep')) = pod_core (DS_PodSpec (Dep_Spec dep))"
  using assms by (cases ob) (auto simp: made_def kept_def kept_dep_def)

text \<open>C21: The URL the agent controller gives an agent for its gateway is served by what the gateway
  controller makes. When a gateway is first reconciled with success, the service the URL names is
  there with the URL's port, selects the pods of the gateway's deployment, and targets the port
  the server in them is told to listen on.\<close>

theorem gateway_url_served:
  assumes "controller_api kc store x" "store w KClawGateway (nn g ns) = Some (OClawGateway gw)"
    and "store w KService (nn (g @ ''-gateway'') ns) = None" "store w KDeployment (nn (g @ ''-gateway'') ns) = None"
    and "run_state (gateway_Reconcile x kc (nn g ns)) w = (Inr (), w')"
    and "0 \<le> gatewayPort gw" "gatewayPort gw < 65536"
    and "AS_Gateway sp = g" "g \<noteq> ''''"
  shows "\<exists>port svc dep c. R_GatewayURL (resolve_in (store w') sp ns) =
      ''http://'' @ g @ ''-gateway.'' @ ns @ ''.svc.cluster.local:'' @ show_int port \<and>
    store w' KService (nn (g @ ''-gateway'') ns) = Some (OService svc) \<and>
    (\<exists>p \<in> set (Svc_Ports svc). sint (SP_Port p) = port \<and> SP_TargetPort p = FromInt port) \<and>
    store w' KDeployment (nn (g @ ''-gateway'') ns) = Some (ODeployment dep) \<and>
    Svc_Selector svc = DS_TemplateLabels (Dep_Spec dep) \<and>
    c \<in> set (Pod_Containers (DS_PodSpec (Dep_Spec dep))) \<and>
    C_Command c = [''python'', ''/app/server.py'', ''--port'', show_int port, ''--no-classifier'']"
proof -
  let ?P = "made x KClawGateway (Gateway_Meta gw)" and ?port = "gatewayPort gw"
  note api = controller_api.gateway_run [OF assms(1), OF assms(2,5)]
  have meta: "Meta_Name (Gateway_Meta gw) = g" "Meta_Namespace (Gateway_Meta gw) = ns"
    using assms(1,2) unfolding controller_api_def kube_api_def store_ok_def
    by (metis key_of_def kind_of.simps(5) meta_of.simps(5) nn_eq_iff)+
  have fill: "filled ?P (map snd (gatewayObjs x gw)) (store w) (store w')"
    using api by simp
  obtain objs where o: "gatewayObjects x gw = Inr objs" "gatewayObjs x gw = objs" using api by simp
  obtain needs model where fo: "findOllama (Routing_Evaluators (GW_Routing (Gateway_Spec gw))) = (needs, model)" by fastforce
  let ?dep = "gatewayDeployment gw ns g ?port (ollamaEndpointFor needs ns g)" and ?svc = "gatewayService ns g ?port"
  have dep_in: "ODeployment ?dep \<in> set (map snd (gatewayObjs x gw))" and svc_in: "OService ?svc \<in> set (map snd (gatewayObjs x gw))"
    unfolding o(2) using o(1) fo meta by (auto simp: gatewayObjects_def Let_def split: if_splits sum.splits)
  obtain svc where svc: "store w' KService (nn (g @ ''-gateway'') ns) = Some (OService svc)" "Svc_Ports svc = [sport ''http'' ?port]"
    "Svc_Selector svc = gatewayLabels g"
    using gateway.filled_made [OF fill svc_in] assms(3) made_service by (fastforce simp: gatewayService_def Let_def)
  obtain dep where dep: "store w' KDeployment (nn (g @ ''-gateway'') ns) = Some (ODeployment dep)"
    "DS_TemplateLabels (Dep_Spec dep) = gatewayLabels g" "pod_core (DS_PodSpec (Dep_Spec dep)) = pod_core (DS_PodSpec (Dep_Spec ?dep))"
    using gateway.filled_made [OF fill dep_in] assms(4) made_deployment by (fastforce simp: gatewayDeployment_def Let_def)
  then obtain c where c: "Pod_Containers (DS_PodSpec (Dep_Spec dep)) = [c]" "container_core c = container_core (gatewayContainer gw ?port (ollamaEndpointFor needs ns g))"
    by (auto simp: pod_core_def gatewayDeployment_def Let_def)
  then have "C_Command c = [''python'', ''/app/server.py'', ''--port'', show_int ?port, ''--no-classifier'']"
    by (simp add: container_core_def gatewayContainer_def)
  moreover have "store w' KClawGateway (nn g ns) = Some (OClawGateway gw)"
    using partly_filled_stays [of _ _ "store w" "store w'" KClawGateway "nn g ns"] api assms(2) by fastforce
  moreover have "sint (SP_Port (sport ''http'' ?port)) = ?port"
    using assms(6,7) by (simp add: sport_def to_int32_in_range)
  ultimately show ?thesis
    using svc dep c(1) resolved_gateway_url [OF _ assms(8,9)]
    by (intro exI [of _ ?port] exI [of _ svc] exI [of _ dep] exI [of _ c]) (simp add: gatewayURLFor_port sport_def)
qed

theorem gateway_url_served_witness:
  "\<exists>w' svc. mem_store w' KService (nn ''gw-gateway'' ''prod'') = Some (OService svc) \<and>
     (\<exists>p \<in> set (Svc_Ports svc). sint (SP_Port p) = 8443)"
proof -
  obtain w' where run: "run_state (gateway_Reconcile example_ext mem_client (nn ''gw'' ''prod'')) (gateway_world 0) = (Inr (), w')"
    using mem_controller.gateway_Reconcile_succeeds [OF gateway_world_gateway example_gateway_objects] by blast
  have none: "mem_store (gateway_world 0) KService key = None" "mem_store (gateway_world 0) KDeployment key = None" for key
    by (simp_all add: gateway_world_def)
  have port: "gatewayPort (example_gateway 0) = 8443" by (simp add: gatewayPort_def example_gateway_def)
  from gateway_url_served [OF mem_controller.controller_api_axioms, OF gateway_world_gateway none(1) none(2) run,
      where sp = "zero_ClawAgentSpec\<lparr>AS_Gateway := ''gw''\<rparr>"]
  have "\<exists>port svc. R_GatewayURL (resolve_in (mem_store w') (zero_ClawAgentSpec\<lparr>AS_Gateway := ''gw''\<rparr>) ''prod'') =
      ''http://'' @ ''gw'' @ ''-gateway.'' @ ''prod'' @ ''.svc.cluster.local:'' @ show_int port \<and>
      mem_store w' KService (nn (''gw'' @ ''-gateway'') ''prod'') = Some (OService svc) \<and>
      (\<exists>p \<in> set (Svc_Ports svc). sint (SP_Port p) = port)"
    using port by auto
  moreover have "mem_store w' KClawGateway (nn ''gw'' ''prod'') = Some (OClawGateway (example_gateway 0))"
    using partly_filled_stays [of _ _ "mem_store (gateway_world 0)" "mem_store w'" KClawGateway "nn ''gw'' ''prod''"]
      mem_controller.gateway_run [OF gateway_world_gateway run] gateway_world_gateway by fastforce
  ultimately show ?thesis
    using resolved_gateway_url [of "mem_store w'" "''gw''" "''prod''" "example_gateway 0" "zero_ClawAgentSpec\<lparr>AS_Gateway := ''gw''\<rparr>"] port
    by (auto simp: gatewayURLFor_port)
qed

text \<open>C22: A change of a gateway's port does not reach its service. If the service exists with other
  ports than the one the gateway asks for, a reconcile leaves it as it is, whatever it reports,
  while the agents of the gateway get the URL with the new port, which the service does not have.\<close>

theorem gateway_port_change_ignored:
  assumes "controller_api kc store x" "store w KClawGateway (nn g ns) = Some (OClawGateway gw)"
    and "store w KService (nn (g @ ''-gateway'') ns) = Some (OService svc)"
    and "\<And>p. p \<in> set (Svc_Ports svc) \<Longrightarrow> sint (SP_Port p) \<noteq> gatewayPort gw"
    and "run_state (gateway_Reconcile x kc (nn g ns)) w = (r, w')" "AS_Gateway sp = g" "g \<noteq> ''''"
  shows "store w' KService (nn (g @ ''-gateway'') ns) = Some (OService svc) \<and>
    (\<forall>port. R_GatewayURL (resolve_in (store w') sp ns) =
         ''http://'' @ g @ ''-gateway.'' @ ns @ ''.svc.cluster.local:'' @ show_int port \<longrightarrow>
       port \<notin> (\<lambda>p. sint (SP_Port p)) ` set (Svc_Ports svc))"
proof -
  have part: "partly_filled (made x KClawGateway (Gateway_Meta gw)) (map snd (gatewayObjs x gw)) (store w) (store w')"
    using controller_api.gateway_run [OF assms(1), OF assms(2,5)] by blast
  have "store w' KClawGateway (nn g ns) = Some (OClawGateway gw)"
    using partly_filled_stays [OF part, of KClawGateway "nn g ns"] assms(2) by simp
  moreover have "store w' KService (nn (g @ ''-gateway'') ns) = Some (OService svc)"
    using partly_filled_stays [OF part, of KService "nn (g @ ''-gateway'') ns"] assms(3) by simp
  ultimately show ?thesis
    using resolved_gateway_url [OF _ assms(6,7)] by (auto simp: gatewayURLFor_port dest: assms(4))
qed

definition moved_world :: mem where
  "moved_world = mem_put (OService (gatewayService ''prod'' ''gw'' 8443)) (gateway_world 9000)"

theorem gateway_port_change_ignored_witness:
  "\<exists>w' svc. snd (run_state (gateway_Reconcile example_ext mem_client (nn ''gw'' ''prod'')) moved_world) = w' \<and>
     mem_store w' KService (nn ''gw-gateway'' ''prod'') = Some (OService (gatewayService ''prod'' ''gw'' 8443))"
proof -
  have gw: "mem_store moved_world KClawGateway (nn ''gw'' ''prod'') = Some (OClawGateway (example_gateway 9000))"
    using gateway_world_gateway by (simp add: moved_world_def gatewayService_def Let_def)
  have svc: "mem_store moved_world KService (nn (''gw'' @ ''-gateway'') ''prod'') = Some (OService (gatewayService ''prod'' ''gw'' 8443))"
    by (simp add: moved_world_def gatewayService_def Let_def)
  show ?thesis
    using gateway_port_change_ignored [OF mem_controller.controller_api_axioms, OF gw svc _ surjective_pairing,
        where sp = "zero_ClawAgentSpec\<lparr>AS_Gateway := ''gw''\<rparr>"]
    by (auto simp: gatewayService_def Let_def sport_def to_int32_def gatewayPort_def example_gateway_def)
qed

section \<open>Agents and gateways\<close>

lemma gateway_ids:
  assumes "ob \<in> set (map snd (gatewayObjs x gw))"
  shows "id_of ob \<in> (let n = Meta_Name (Gateway_Meta gw); ns = Meta_Namespace (Gateway_Meta gw) in
    {(KConfigMap, nn (n @ ''-gateway-script'') ns), (KDeployment, nn (n @ ''-gateway'') ns), (KService, nn (n @ ''-gateway'') ns),
     (KDeployment, nn (n @ ''-ollama'') ns), (KService, nn (n @ ''-ollama'') ns)})"
  using assms
  by (auto simp: gatewayObjs_def gatewayObjects_def Let_def id_of_def gatewayScriptConfigMap_def gatewayDeployment_def gatewayService_def
      ollamaService_def split: sum.splits prod.splits if_splits elim!: ollamaDeployment_fields)

lemma script_clashes [simp]:
  "n @ ''-gateway-script'' \<noteq> n' @ ''-identity''" "n @ ''-gateway-script'' \<noteq> n' @ ''-skills''"
  "n @ ''-gateway-script'' \<noteq> ''fleet-dashboard''" "n @ ''-gateway-script'' \<noteq> n' @ h_ConfigMapSuffix (ForType x t)"
proof -
  show "n @ ''-gateway-script'' \<noteq> n' @ ''-identity''" "n @ ''-gateway-script'' \<noteq> n' @ ''-skills''"
    "n @ ''-gateway-script'' \<noteq> ''fleet-dashboard''"
    by (auto dest: arg_cong [where f = last])
  have "last (n' @ h_ConfigMapSuffix (ForType x t)) = CHR ''g''" using suffix_cases [of x t] by auto
  then show "n @ ''-gateway-script'' \<noteq> n' @ h_ConfigMapSuffix (ForType x t)" by (auto dest: arg_cong [where f = last])
qed

text \<open>C23: Agents and gateways leave each other's objects alone. Unless the agent has the name of one of
  the gateway's deployments in the same namespace, reconciling the agent changes no object of the
  gateway, and reconciling the gateway changes no object of the agent, whatever the server answers.\<close>

theorem agents_and_gateways_apart:
  assumes "controller_api kc store x" "store w KClawAgent areq = Some (OClawAgent a)" "store w KClawGateway greq = Some (OClawGateway gw)"
    and "Meta_Namespace (Agent_Meta a) = Meta_Namespace (Gateway_Meta gw) \<Longrightarrow>
      Meta_Name (Agent_Meta a) \<notin> {Meta_Name (Gateway_Meta gw) @ ''-gateway'', Meta_Name (Gateway_Meta gw) @ ''-ollama''}"
    and "run_state (Reconcile x kc areq lastHash) w = (ra, wa)" "run_state (gateway_Reconcile x kc greq) w = (rg, wg)"
  shows "(\<forall>(desc, ob) \<in> set (gatewayObjs x gw). store wa (kind_of ob) (key_of ob) = store w (kind_of ob) (key_of ob)) \<and>
    (\<forall>(k, key) \<in> agent_footprint x a. store wg k key = store w k key)"
proof -
  have apart: "id_of ob \<notin> agent_footprint x a" if "ob \<in> set (map snd (gatewayObjs x gw))" for ob
    using gateway_ids [OF that] assms(4) script_clashes script_clashes [symmetric]
    by (auto simp: agent_footprint_def Let_def)
  have 1: "store wa (kind_of ob) (key_of ob) = store w (kind_of ob) (key_of ob)" if "ob \<in> set (map snd (gatewayObjs x gw))" for ob
    using controller_api.Reconcile_touches [OF assms(1), OF assms(2,5)] apart [OF that] by (simp add: touches_def id_of_def)
  have part: "partly_filled (made x KClawGateway (Gateway_Meta gw)) (map snd (gatewayObjs x gw)) (store w) (store wg)"
    using controller_api.gateway_run [OF assms(1), OF assms(3,6)] by blast
  have 2: "store wg k key = store w k key" if "(k, key) \<in> agent_footprint x a" for k key
    using part that apart unfolding partly_filled_def by metis
  from 1 2 show ?thesis by force
qed

theorem agents_and_gateways_apart_witness:
  defines "w \<equiv> mem_put (OClawAgent (example_agent ''eng'')) (gateway_world 0)"
  shows "mem_store (snd (run_state (Reconcile example_ext mem_client (nn ''eng'' ''prod'') '''') w)) KService (nn ''gw-gateway'' ''prod'') =
      mem_store w KService (nn ''gw-gateway'' ''prod'')"
proof -
  have stored: "mem_store w KClawAgent (nn ''eng'' ''prod'') = Some (OClawAgent (example_agent ''eng''))"
    "mem_store w KClawGateway (nn ''gw'' ''prod'') = Some (OClawGateway (example_gateway 0))"
    using gateway_world_gateway by (simp_all add: w_def del: key_of_simps)
  have "(''gateway-service'', OService (gatewayService ''prod'' ''gw'' 8443)) \<in> set (gatewayObjs example_ext (example_gateway 0))"
    by (simp add: gatewayObjs_def gatewayObjects_def Let_def example_gateway_def example_evaluator_def ollamaDeployment_def
      ollamaResources_def example_quantities gatewayPort_def)
  with agents_and_gateways_apart [OF mem_controller.controller_api_axioms, OF stored _ surjective_pairing surjective_pairing, where lastHash = "''''"]
  show ?thesis by (force simp: example_agent_def example_gateway_def gatewayService_def Let_def)
qed

end
