(* ===== verification/ApiChat.thy ===== *)
theory ApiChat
  imports ApiFeeds StackProperties
begin

text \<open>
  The chat relay of the control plane API against what the agent controller builds: a message goes to
  the port the agent's service exposes, and without a service to the URL agents themselves use for
  their gateway.
\<close>

section \<open>Where a message goes\<close>

definition relayed :: "err + (int \<times> string) \<Rightarrow> act list" where
  "relayed r = (case r of
       Inl e \<Rightarrow> httpError (''calling agent gateway: '' @ err_text e) 502
     | Inr (status, body) \<Rightarrow>
         [SetHeader ''Content-Type'' ''application/json'', SetHeader ''Access-Control-Allow-Origin'' ''*'',
          WriteHeader status, Write body])"

lemma relayed_response:
  "status_of (cors_headers @ relayed r) = (case r of Inl _ \<Rightarrow> 502 | Inr (status, _) \<Rightarrow> status)"
  "r = Inr (status, body) \<Longrightarrow> body_of (cors_headers @ relayed r) = body \<and>
     header_of (cors_headers @ relayed r) ''Content-Type'' = Some ''application/json''"
  by (auto simp: relayed_def response_defs gomap_simps mget_def split: sum.split prod.split)

lemma findServicePort_agentService: "findServicePort (Svc_Ports (agentService h a ns n)) ''gateway'' = sint (h_GatewayPort h)"
  by (simp add: agentService_def Let_def sport_def to_int32_def)

lemma kept_service: "kept (OService svc) ob \<Longrightarrow> \<exists>svc'. ob = OService svc' \<and> Svc_Ports svc' = Svc_Ports svc"
  by (cases ob) (auto simp: kept_def)

text \<open>The message is what the agent decodes.\<close>

lemma chat_body_eq:
  "chat_body role content = JObj [(''messages'', JArr [JObj [(''content'', JStr content), (''role'', JStr role)]]),
     (''model'', JStr ''openclaw/default'')]"
  by (simp add: chat_body_def jobj_def mputs_def gomap_simps)

lemma chat_body_read:
  assumes "utf8_ok role" "utf8_ok content"
  shows "json_parse (marshal (chat_body role content)) = Some (chat_body role content)"
proof -
  have k: "utf8_ok ''messages''" "utf8_ok ''content''" "utf8_ok ''role''" "utf8_ok ''model''" "utf8_ok ''openclaw/default''"
    by code_simp+
  have "json_ok (chat_body role content)"
    using assms k by (simp add: json_ok_def chat_body_eq maxNestingDepth_def)
  from json_parse_marshal [OF this, of "[]"] show ?thesis by (simp add: chat_body_eq)
qed

context reliable_plane
begin

lemma chat_run:
  assumes "rq_Method rq = ''POST''" "decode_chat lib (rq_Body rq) = Inr f" "f ''content'' \<noteq> ''''"
    and "store w KClawAgent (nn n (srv_Namespace srv)) = Some (OClawAgent a)"
    and "store w KService (nn n (srv_Namespace srv)) = Some ob"
    and "kept (OService (agentService h b ns m)) ob" "0 < sint (h_GatewayPort h)"
  defines "url \<equiv> cluster_url n (srv_Namespace srv) (sint (h_GatewayPort h)) @ ''/v1/chat/completions''"
  assumes "al_NewRequest lib url = None"
  shows "\<exists>w1. store w1 = store w \<and>
    run_state (handleAgentChat srv lib rq n) w =
      (case run_state (al_Do lib url (marshal (chat_body (f ''role'') (f ''content'')))) w1 of (r, w2) \<Rightarrow> (relayed r, w2))"
proof -
  from kept_service [OF assms(6)] obtain svc where
    ob: "ob = OService svc" and ports: "Svc_Ports svc = Svc_Ports (agentService h b ns m)" by auto
  obtain w0 where w0: "run_state (getAs asClawAgent (srv_Client srv) KClawAgent (nn n (srv_Namespace srv))) w = (Inr a, w0)"
    "store w0 = store w" using getAs_Some [OF assms(4), of asClawAgent a] by auto
  have "store w0 KService (nn n (srv_Namespace srv)) = Some (OService svc)" using assms(5) ob w0(2) by simp
  from getAs_Some [OF this, of asService svc] obtain w1 where
    w1: "run_state (getAs asService (srv_Client srv) KService (nn n (srv_Namespace srv))) w0 = (Inr svc, w1)"
    "store w1 = store w" using w0(2) by auto
  have "run_state (resolveGatewayURL srv lib n) w =
      (Inr (cluster_url n (srv_Namespace srv) (sint (h_GatewayPort h))), w1)"
    using assms(7) by (simp add: resolveGatewayURL_def w0(1) w1(1) ports findServicePort_agentService Let_def)
  with assms(1-3,9) have "run_state (handleAgentChat srv lib rq n) w =
      (case run_state (al_Do lib url (marshal (chat_body (f ''role'') (f ''content'')))) w1 of (r, w2) \<Rightarrow> (relayed r, w2))"
    by (simp add: handleAgentChat_def relayChat_def Let_def relayed_def url_def split: prod.split)
  with w1(2) show ?thesis by blast
qed

end

section \<open>The relay\<close>

text \<open>C32: On a server that carries out every call, a chat message reaches its agent. When the agent is
  stored and its service has the ports the agent controller gives it for a harness, the one thing
  a POST to the agent's chat does beyond reading is to call the in-cluster URL of that service on
  the harness's gateway port, with a body the agent decodes to the message; the agent's status and
  body are the client's answer, or 502 when it cannot be called.\<close>

theorem chat_reaches_agent:
  assumes "reliable_plane srv store lib" "rq_Method rq = ''POST''" "rq_Path rq = ''/api/agents/'' @ n @ ''/chat''" "segment n"
    and "decode_chat lib (rq_Body rq) = Inr f" "f ''content'' \<noteq> ''''"
    and "store w KClawAgent (nn n (srv_Namespace srv)) = Some (OClawAgent a)"
    and "store w KService (nn n (srv_Namespace srv)) = Some ob"
    and "kept (OService (agentService h a (srv_Namespace srv) n)) ob" "0 < sint (h_GatewayPort h)"
    and "al_NewRequest lib (cluster_url n (srv_Namespace srv) (sint (h_GatewayPort h)) @ ''/v1/chat/completions'') = None"
    and "run_state (serve srv lib rq) w = (acts, w')"
  shows "\<exists>w1 msg r. store w1 = store w \<and>
    run_state (al_Do lib (cluster_url n (srv_Namespace srv) (sint (h_GatewayPort h)) @ ''/v1/chat/completions'') msg) w1 = (r, w') \<and>
    (utf8_ok (f ''role'') \<and> utf8_ok (f ''content'') \<longrightarrow> json_parse msg = Some (chat_body (f ''role'') (f ''content''))) \<and>
    (\<forall>e. r = Inl e \<longrightarrow> status_of acts = 502) \<and>
    (\<forall>status body. r = Inr (status, body) \<longrightarrow> status_of acts = status \<and> body_of acts = body \<and>
       header_of acts ''Content-Type'' = Some ''application/json'')"
proof -
  let ?url = "cluster_url n (srv_Namespace srv) (sint (h_GatewayPort h)) @ ''/v1/chat/completions''"
  let ?msg = "marshal (chat_body (f ''role'') (f ''content''))"
  from reliable_plane.chat_run [OF assms(1,2,5,6,7,8,9,10,11)] obtain w1 where w1: "store w1 = store w"
    "run_state (handleAgentChat srv lib rq n) w = (case run_state (al_Do lib ?url ?msg) w1 of (r, w2) \<Rightarrow> (relayed r, w2))" by blast
  obtain r w2 where r: "run_state (al_Do lib ?url ?msg) w1 = (r, w2)" by fastforce
  have "serve srv lib rq = State_Monad.bind (handleAgentChat srv lib rq n) (\<lambda>acts. State_Monad.return (cors_headers @ acts))"
    by (rule serve_sub(2) [OF assms(4), of _ "''chat''"]) (use assms(2,3) in \<open>simp_all add: segment_def\<close>)
  with assms(12) w1(2) r have "acts = cors_headers @ relayed r" "w' = w2" by simp_all
  with w1(1) r relayed_response [of r] show ?thesis
    by (intro exI [of _ w1] exI [of _ ?msg] exI [of _ r]) (auto simp: chat_body_read)
qed

definition chat_world :: mem where
  "chat_world = mem_put (OService (agentService (HermesHarness id) feeds_agent ''prod'' ''eng'')) (mem_put (OClawAgent feeds_agent) [])"

definition chat_text :: string where
  "chat_text = ''{'' @ dq @ ''role'' @ dq @ '':'' @ dq @ ''user'' @ dq @ '','' @ dq @ ''content'' @ dq @ '':'' @ dq @ ''hi'' @ dq @ ''}''"

theorem chat_reaches_agent_witness:
  "\<exists>acts w'. run_state (serve example_server example_lib (request ''POST'' ''/api/agents/eng/chat'' chat_text)) chat_world = (acts, w') \<and>
     status_of acts = 200 \<and> json_parse (body_of acts) = Some (chat_body ''user'' ''hi'')"
proof -
  let ?rq = "request ''POST'' ''/api/agents/eng/chat'' chat_text" and ?svc = "agentService (HermesHarness id) feeds_agent ''prod'' ''eng''"
  obtain acts w' where run: "run_state (serve example_server example_lib ?rq) chat_world = (acts, w')" by fastforce
  have "json_decode chat_text = Some (JObj [(''role'', JStr ''user''), (''content'', JStr ''hi'')])" unfolding chat_text_def by code_simp
  then obtain f where d: "decode_chat example_lib (rq_Body ?rq) = Inr f" "f ''role'' = ''user''" "f ''content'' = ''hi''"
    by (simp add: decode_chat_def request_def decode_strings_def field_named_def)
  have s: "mem_store chat_world KClawAgent (nn ''eng'' (srv_Namespace example_server)) = Some (OClawAgent feeds_agent)"
    "mem_store chat_world KService (nn ''eng'' (srv_Namespace example_server)) = Some (OService ?svc)"
    by (simp_all add: chat_world_def feeds_agent_def agentService_def Let_def key_of_def)
  have u: "utf8_ok ''user''" "utf8_ok ''hi''" by code_simp+
  have port: "0 < sint (h_GatewayPort (HermesHarness id))" by (simp add: HermesHarness_def hermes_GatewayPort_def)
  from chat_reaches_agent [OF example_plane.reliable_plane_axioms _ _ _ d(1) _ s(1,2) _ port _ run] obtain w1 msg r where
    "run_state (al_Do example_lib (cluster_url ''eng'' ''prod'' (sint (h_GatewayPort (HermesHarness id))) @ ''/v1/chat/completions'') msg) w1 = (r, w')"
    "json_parse msg = Some (chat_body ''user'' ''hi'')"
    "\<forall>status body. r = Inr (status, body) \<longrightarrow> status_of acts = status \<and> body_of acts = body"
    using d u by (auto simp: request_def segment_def example_lib_def)
  then have "status_of acts = 200" "json_parse (body_of acts) = Some (chat_body ''user'' ''hi'')"
    by (auto simp: example_lib_def)
  with run show ?thesis by blast
qed

section \<open>The gateway's URL\<close>

lemma gatewayURLFor_cluster:
  "gatewayURLFor g ns gw =
     cluster_url (g @ ''-gateway'') ns (if GW_Port (Gateway_Spec gw) = 0 then defaultGatewayPort else GW_Port (Gateway_Spec gw))"
  by (simp add: gatewayURLFor_def cluster_url_def defaultGatewayPort_def Let_def)

text \<open>C33: The API and the agent controller agree on the URL of a gateway, though each computes it for itself:
  for an agent that has no service, what the API resolves through the agent's gateway is the URL
  the agent's own configuration gets for it.\<close>

theorem chat_gateway_url_agrees:
  assumes "reliable_plane srv store lib"
    and "store w KClawAgent (nn n (srv_Namespace srv)) = Some (OClawAgent a)"
    and "store w KService (nn n (srv_Namespace srv)) = None"
    and "store w KClawGateway (nn (AS_Gateway (Agent_Spec a)) (srv_Namespace srv)) = Some (OClawGateway gw)"
    and "AS_Gateway (Agent_Spec a) \<noteq> ''''"
  shows "\<exists>w'. store w' = store w \<and> run_state (resolveGatewayURL srv lib n) w =
    (Inr (R_GatewayURL (resolve_in (store w) (Agent_Spec a) (srv_Namespace srv))), w')"
proof -
  let ?ns = "srv_Namespace srv" and ?g = "AS_Gateway (Agent_Spec a)"
  have rel: "kube_reliable (srv_Client srv) store" using assms(1) by (simp add: reliable_plane_def)
  obtain w1 where w1: "run_state (getAs asClawAgent (srv_Client srv) KClawAgent (nn n ?ns)) w = (Inr a, w1)" "store w1 = store w"
    using kube_reliable.getAs_Some [OF rel assms(2), of asClawAgent a] by auto
  obtain e w2 where w2: "run_state (getAs asService (srv_Client srv) KService (nn n ?ns)) w1 = (Inl e, w2)" "store w2 = store w"
    using kube_reliable.getAs_None [OF rel, of w1 KService "nn n ?ns"] assms(3) w1(2) by metis
  obtain w3 where w3: "run_state (getAs asClawGateway (srv_Client srv) KClawGateway (nn ?g ?ns)) w2 = (Inr gw, w3)" "store w3 = store w"
    using kube_reliable.getAs_Some [OF rel, of w2 KClawGateway "nn ?g ?ns" "OClawGateway gw" asClawGateway gw] assms(4) w2(2) by auto
  have "R_GatewayURL (resolve_in (store w) (Agent_Spec a) ?ns) = gatewayURLFor ?g ?ns gw"
    by (rule resolved_gateway_url) (use assms(4,5) in simp_all)
  then have "run_state (resolveGatewayURL srv lib n) w = (Inr (R_GatewayURL (resolve_in (store w) (Agent_Spec a) ?ns)), w3)"
    using assms(5) by (simp add: resolveGatewayURL_def resolveGatewayFromCR_def w1(1) w2(1) w3(1) gatewayURLFor_cluster Let_def)
  with w3(2) show ?thesis by blast
qed

definition gateway_agent :: ClawAgent where
  "gateway_agent = zero_ClawAgent\<lparr>Agent_Meta := new_meta ''eng'' ''prod'' [],
     Agent_Spec := zero_ClawAgentSpec\<lparr>AS_Gateway := ''gw''\<rparr>\<rparr>"

definition plain_gateway :: ClawGateway where
  "plain_gateway = (case newObj KClawGateway of OClawGateway gw \<Rightarrow> gw\<lparr>Gateway_Meta := new_meta ''gw'' ''prod'' []\<rparr>)"

theorem chat_gateway_url_agrees_witness:
  "\<exists>w'. run_state (resolveGatewayURL example_server example_lib ''eng'')
       (mem_put (OClawGateway plain_gateway) (mem_put (OClawAgent gateway_agent) [])) =
     (Inr ''http://gw-gateway.prod.svc.cluster.local:8443'', w')"
proof -
  let ?w = "mem_put (OClawGateway plain_gateway) (mem_put (OClawAgent gateway_agent) [])"
  have k: "kind_of (OClawGateway plain_gateway) = KClawGateway" "key_of (OClawGateway plain_gateway) = nn ''gw'' ''prod''"
    "Agent_Meta gateway_agent = new_meta ''eng'' ''prod'' []" "AS_Gateway (Agent_Spec gateway_agent) = ''gw''"
    by (simp_all add: plain_gateway_def gateway_agent_def key_of_def)
  have s: "mem_store ?w KClawAgent (nn ''eng'' (srv_Namespace example_server)) = Some (OClawAgent gateway_agent)"
    "mem_store ?w KService (nn ''eng'' (srv_Namespace example_server)) = None"
    "mem_store ?w KClawGateway (nn (AS_Gateway (Agent_Spec gateway_agent)) (srv_Namespace example_server)) = Some (OClawGateway plain_gateway)"
    using k by simp_all
  have "show_int 8443 = ''8443''"
    by (simp add: show_int_def digit_def show_nat.simps [of 8443] show_nat.simps [of 844] show_nat.simps [of 84] show_nat.simps [of 8]) code_simp
  then have gw: "gatewayURLFor ''gw'' ''prod'' plain_gateway = ''http://gw-gateway.prod.svc.cluster.local:8443''"
    by (simp only: gatewayURLFor_def plain_gateway_def newObj.simps Obj.case Let_def) simp
  have url: "R_GatewayURL (resolve_in (mem_store ?w) (Agent_Spec gateway_agent) ''prod'') = gatewayURLFor ''gw'' ''prod'' plain_gateway"
    by (rule resolved_gateway_url [OF _ k(4)]) (use s(3) k(4) in simp_all)
  from chat_gateway_url_agrees [OF example_plane.reliable_plane_axioms s] show ?thesis
    unfolding example_simps url gw by (auto simp: k(4))
qed

end
