(* ===== verification/GoMemory.thy ===== *)
theory GoMemory
  imports Prelude "HOL-Library.AList"
begin

text \<open>
  Go values that share memory: pointers, slices and maps refer to cells, struct values hold their
  fields. What a value of a type reads as, which cells it reaches, the copying steps that deep copy
  functions are made of, and the contract such a function has.
\<close>

section \<open>Values and cells\<close>

datatype prim = GString string | GInt int | GBool bool | GFloat string

text \<open>
  A slice is a window of an array: its cell, where it begins and how many elements it has. \<open>Zero\<close> is
  what a fresh variable or array element holds before it is written.
\<close>

datatype val =
    Prim prim
  | Struct "(string \<times> val) list"
  | Pointer "nat option"
  | Slice "(nat \<times> nat \<times> nat) option"
  | MapRef "nat option"
  | Zero

text \<open>A table lists its entries in the order a \<open>range\<close> over it visits them; any order is possible.\<close>

datatype cell = Var val | Array "val list" | Table "(string \<times> val) list"

type_synonym memory = "cell list"

definition cell_at :: "memory \<Rightarrow> nat \<Rightarrow> cell option" where
  "cell_at m a = (if a < length m then Some (m ! a) else None)"

text \<open>\<open>new\<close> and \<open>make\<close>: the next cell.\<close>

definition alloc :: "cell \<Rightarrow> memory \<Rightarrow> nat \<times> memory" where
  "alloc c m = (length m, m @ [c])"

section \<open>Types, and what a value reads as\<close>

datatype ty = TPrim | TStruct "(string \<times> ty) list" | TPointer ty | TSlice ty | TMap ty

datatype tree =
    PrimT prim | StructT "(string \<times> tree) list" | NilT | PointerT tree | SliceT "tree list" | MapT "(string \<times> tree) list"

text \<open>All of a list, or nothing.\<close>

fun all_some :: "'a option list \<Rightarrow> 'a list option" where
  "all_some [] = Some []"
| "all_some (x # xs) = (case (x, all_some xs) of (Some y, Some ys) \<Rightarrow> Some (y # ys) | _ \<Rightarrow> None)"

lemma all_some_map [simp]: "all_some (map Some xs) = Some xs"
  by (induction xs) auto

lemma all_some_eq: "all_some xs = Some ys \<longleftrightarrow> xs = map Some ys"
proof
  show "all_some xs = Some ys \<Longrightarrow> xs = map Some ys"
    by (induction xs arbitrary: ys) (auto split: option.splits)
qed auto

lemma all_some_mem: "all_some (map f xs) \<noteq> None \<Longrightarrow> x \<in> set xs \<Longrightarrow> f x \<noteq> None"
  by (induction xs) (auto split: option.splits)

definition window :: "nat \<Rightarrow> nat \<Rightarrow> 'a list \<Rightarrow> 'a list" where
  "window off n xs = take n (drop off xs)"

text \<open>The value as a tree, through all its references; none when it is not of the type.\<close>

fun reads :: "ty \<Rightarrow> memory \<Rightarrow> val \<Rightarrow> tree option"
  and reads_fields :: "(string \<times> ty) list \<Rightarrow> memory \<Rightarrow> (string \<times> val) list \<Rightarrow> (string \<times> tree) list option" where
  "reads TPrim m v = (case v of Prim p \<Rightarrow> Some (PrimT p) | _ \<Rightarrow> None)"
| "reads (TStruct fs) m v = (case v of Struct vs \<Rightarrow> map_option StructT (reads_fields fs m vs) | _ \<Rightarrow> None)"
| "reads (TPointer t) m v = (case v of
      Pointer None \<Rightarrow> Some NilT
    | Pointer (Some a) \<Rightarrow> (case cell_at m a of Some (Var x) \<Rightarrow> map_option PointerT (reads t m x) | _ \<Rightarrow> None)
    | _ \<Rightarrow> None)"
| "reads (TSlice t) m v = (case v of
      Slice None \<Rightarrow> Some NilT
    | Slice (Some (a, off, n)) \<Rightarrow>
        (case cell_at m a of
           Some (Array xs) \<Rightarrow> if off + n \<le> length xs then map_option SliceT (all_some (map (reads t m) (window off n xs))) else None
         | _ \<Rightarrow> None)
    | _ \<Rightarrow> None)"
| "reads (TMap t) m v = (case v of
      MapRef None \<Rightarrow> Some NilT
    | MapRef (Some a) \<Rightarrow>
        (case cell_at m a of
           Some (Table kvs) \<Rightarrow>
             if distinct (map fst kvs)
             then map_option (\<lambda>xs. MapT (zip (map fst kvs) xs)) (all_some (map (reads t m \<circ> snd) kvs)) else None
         | _ \<Rightarrow> None)
    | _ \<Rightarrow> None)"
| "reads_fields [] m vs = (if vs = [] then Some [] else None)"
| "reads_fields ((f, t) # fs) m vs = (case vs of
      (g, v) # ws \<Rightarrow>
        if g = f then (case (reads t m v, reads_fields fs m ws) of (Some x, Some xs) \<Rightarrow> Some ((f, x) # xs) | _ \<Rightarrow> None)
        else None
    | [] \<Rightarrow> None)"

text \<open>The cells it reaches.\<close>

fun reaches :: "ty \<Rightarrow> memory \<Rightarrow> val \<Rightarrow> nat set"
  and reaches_fields :: "(string \<times> ty) list \<Rightarrow> memory \<Rightarrow> (string \<times> val) list \<Rightarrow> nat set" where
  "reaches TPrim m v = {}"
| "reaches (TStruct fs) m v = (case v of Struct vs \<Rightarrow> reaches_fields fs m vs | _ \<Rightarrow> {})"
| "reaches (TPointer t) m v = (case v of
      Pointer (Some a) \<Rightarrow> insert a (case cell_at m a of Some (Var x) \<Rightarrow> reaches t m x | _ \<Rightarrow> {})
    | _ \<Rightarrow> {})"
| "reaches (TSlice t) m v = (case v of
      Slice (Some (a, off, n)) \<Rightarrow>
        insert a (case cell_at m a of Some (Array xs) \<Rightarrow> \<Union> (reaches t m ` set (window off n xs)) | _ \<Rightarrow> {})
    | _ \<Rightarrow> {})"
| "reaches (TMap t) m v = (case v of
      MapRef (Some a) \<Rightarrow>
        insert a (case cell_at m a of Some (Table kvs) \<Rightarrow> \<Union> (reaches t m ` snd ` set kvs) | _ \<Rightarrow> {})
    | _ \<Rightarrow> {})"
| "reaches_fields [] m vs = {}"
| "reaches_fields ((f, t) # fs) m vs = (case vs of (g, v) # ws \<Rightarrow> reaches t m v \<union> reaches_fields fs m ws | [] \<Rightarrow> {})"

text \<open>Both depend on the reached cells only, and these exist.\<close>

lemma reads_frame:
  "\<forall>a \<in> reaches t m v. cell_at m' a = cell_at m a \<Longrightarrow> reads t m' v = reads t m v \<and> reaches t m' v = reaches t m v"
  "\<forall>a \<in> reaches_fields fs m vs. cell_at m' a = cell_at m a \<Longrightarrow>
     reads_fields fs m' vs = reads_fields fs m vs \<and> reaches_fields fs m' vs = reaches_fields fs m vs"
proof (induction t m v and fs m vs rule: reaches_reaches_fields.induct)
  case (3 t m v)
  then show ?case by (auto split: val.splits option.splits cell.splits)
next
  case (4 t m v)
  show ?case
  proof (cases "\<exists>a off n xs. v = Slice (Some (a, off, n)) \<and> cell_at m a = Some (Array xs)")
    case True
    then obtain a off n xs where v: "v = Slice (Some (a, off, n))" and a: "cell_at m a = Some (Array xs)" by blast
    have e: "reads t m' z = reads t m z \<and> reaches t m' z = reaches t m z" if "z \<in> set (window off n xs)" for z
      using "4.IH" [OF v refl refl refl a refl that] "4.prems" that by (auto simp: v a)
    then have "map (reads t m') (window off n xs) = map (reads t m) (window off n xs)" by simp
    moreover have "reaches t m' ` set (window off n xs) = reaches t m ` set (window off n xs)" using e by (intro image_cong) auto
    moreover have "cell_at m' a = Some (Array xs)" using "4.prems" by (simp add: v a)
    ultimately show ?thesis unfolding v reads.simps reaches.simps by (simp only: a val.case option.case prod.case cell.case)
  next
    case False
    with "4.prems" show ?thesis by (auto split: val.splits option.splits cell.splits)
  qed
next
  case (5 t m v)
  show ?case
  proof (cases "\<exists>a kvs. v = MapRef (Some a) \<and> cell_at m a = Some (Table kvs)")
    case True
    then obtain a kvs where v: "v = MapRef (Some a)" and a: "cell_at m a = Some (Table kvs)" by blast
    have e: "reads t m' z = reads t m z \<and> reaches t m' z = reaches t m z" if "z \<in> snd ` set kvs" for z
      using "5.IH" [OF v refl a refl that] "5.prems" that by (auto simp: v a)
    then have "map (reads t m' \<circ> snd) kvs = map (reads t m \<circ> snd) kvs" by auto
    moreover have "reaches t m' ` snd ` set kvs = reaches t m ` snd ` set kvs" using e by (intro image_cong) auto
    moreover have "cell_at m' a = Some (Table kvs)" using "5.prems" by (simp add: v a)
    ultimately show ?thesis unfolding v reads.simps reaches.simps by (simp only: a val.case option.case cell.case)
  next
    case False
    with "5.prems" show ?thesis by (auto split: val.splits option.splits cell.splits)
  qed
qed (auto split: val.splits option.splits list.splits)

lemma reads_reaches:
  "reads t m v \<noteq> None \<Longrightarrow> reaches t m v \<subseteq> {..<length m}"
  "reads_fields fs m vs \<noteq> None \<Longrightarrow> reaches_fields fs m vs \<subseteq> {..<length m}"
proof (induction t m v and fs m vs rule: reads_reads_fields.induct)
  case (4 t m v)
  show ?case
  proof (cases "\<exists>a off n. v = Slice (Some (a, off, n))")
    case True
    then obtain a off n where v: "v = Slice (Some (a, off, n))" by blast
    with "4.prems" obtain xs where a: "cell_at m a = Some (Array xs)" "off + n \<le> length xs"
      and ok: "all_some (map (reads t m) (window off n xs)) \<noteq> None"
      by (auto split: option.splits cell.splits if_splits)
    from all_some_mem [OF ok] have "\<forall>z \<in> set (window off n xs). reads t m z \<noteq> None" by blast
    with "4.IH" [OF v refl refl refl a(1) refl a(2)] a(1) show ?thesis
      by (auto simp: v cell_at_def split: if_splits)
  qed (use "4.prems" in \<open>auto split: val.splits option.splits\<close>)
next
  case (5 t m v)
  show ?case
  proof (cases "\<exists>a. v = MapRef (Some a)")
    case True
    then obtain a where v: "v = MapRef (Some a)" by blast
    with "5.prems" obtain kvs where a: "cell_at m a = Some (Table kvs)" "distinct (map fst kvs)"
      and ok: "all_some (map (reads t m \<circ> snd) kvs) \<noteq> None"
      by (auto split: option.splits cell.splits if_splits)
    from all_some_mem [OF ok] have "\<forall>z \<in> set kvs. (reads t m \<circ> snd) z \<noteq> None" by blast
    with "5.IH" [OF v refl a(1) refl a(2)] a(1) show ?thesis
      by (auto simp: v cell_at_def split: if_splits)
  qed (use "5.prems" in \<open>auto split: val.splits option.splits\<close>)
next
  case (7 f t fs m vs)
  from "7.prems" obtain v ws where vs: "vs = (f, v) # ws" and ok: "reads t m v \<noteq> None" "reads_fields fs m ws \<noteq> None"
    by (auto split: list.splits if_splits option.splits)
  from "7.IH" [OF vs refl refl] ok show ?case by (auto simp: vs)
qed (auto simp: cell_at_def split: val.splits option.splits cell.splits if_splits list.splits)

section \<open>Copying steps\<close>

text \<open>A copier gets the memory and a value and gives the copy with the memory after it; none stands for
  a value that is not of the shape the Go type has.\<close>

type_synonym copier = "memory \<Rightarrow> val \<Rightarrow> (val \<times> memory) option"

text \<open>\<open>out.F = in.F\<close>\<close>

definition assign :: copier where
  "assign m v = Some (v, m)"

text \<open>\<open>*out = *in\<close>, then the given fields of \<open>out\<close> one after the other from those of \<open>in\<close>.\<close>

definition get_field :: "string \<Rightarrow> val \<Rightarrow> val option" where
  "get_field f v = (case v of Struct vs \<Rightarrow> map_of vs f | _ \<Rightarrow> None)"

definition set_field :: "string \<Rightarrow> val \<Rightarrow> val \<Rightarrow> val" where
  "set_field f y v = (case v of Struct vs \<Rightarrow> Struct (map (\<lambda>(g, w). (g, if g = f then y else w)) vs) | _ \<Rightarrow> v)"

fun copy_fields :: "(string \<times> copier) list \<Rightarrow> val \<Rightarrow> val \<Rightarrow> memory \<Rightarrow> (val \<times> memory) option" where
  "copy_fields [] inp out m = Some (out, m)"
| "copy_fields ((f, c) # cs) inp out m =
     (case get_field f inp of
        None \<Rightarrow> None
      | Some x \<Rightarrow> (case c m x of None \<Rightarrow> None | Some (y, m1) \<Rightarrow> copy_fields cs inp (set_field f y out) m1))"

definition copy_struct :: "(string \<times> copier) list \<Rightarrow> copier" where
  "copy_struct cs m v = copy_fields cs v v m"

text \<open>\<open>*out = new(T); **out = **in\<close>, unless nil.\<close>

definition copy_pointer :: copier where
  "copy_pointer m v =
     (case v of
        Pointer None \<Rightarrow> Some (v, m)
      | Pointer (Some a) \<Rightarrow>
          (let (b, m1) = alloc (Var Zero) m in
           case cell_at m1 a of Some (Var x) \<Rightarrow> Some (Pointer (Some b), m1[b := Var x]) | _ \<Rightarrow> None)
      | _ \<Rightarrow> None)"

text \<open>\<open>*out = make([]T, len(*in)); copy(*out, *in)\<close>, unless nil.\<close>

definition copy_elems :: copier where
  "copy_elems m v =
     (case v of
        Slice None \<Rightarrow> Some (v, m)
      | Slice (Some (a, off, n)) \<Rightarrow>
          (let (b, m1) = alloc (Array (replicate n Zero)) m in
           case cell_at m1 a of
             Some (Array xs) \<Rightarrow>
               if off + n \<le> length xs then Some (Slice (Some (b, 0, n)), m1[b := Array (window off n xs)]) else None
           | _ \<Rightarrow> None)
      | _ \<Rightarrow> None)"

text \<open>\<open>for i := range *in { (*in)[i].DeepCopyInto(&(*out)[i]) }\<close>: the first \<open>k\<close> elements.\<close>

fun fill_elems :: "copier \<Rightarrow> nat \<Rightarrow> nat \<Rightarrow> nat \<Rightarrow> nat \<Rightarrow> memory \<Rightarrow> memory option" where
  "fill_elems c a off b 0 m = Some m"
| "fill_elems c a off b (Suc k) m =
     (case fill_elems c a off b k m of
        None \<Rightarrow> None
      | Some m1 \<Rightarrow>
          (case cell_at m1 a of
             Some (Array xs) \<Rightarrow>
               if off + k < length xs
               then (case c m1 (xs ! (off + k)) of
                       None \<Rightarrow> None
                     | Some (y, m2) \<Rightarrow>
                         (case cell_at m2 b of Some (Array ys) \<Rightarrow> Some (m2[b := Array (ys[k := y])]) | _ \<Rightarrow> None))
               else None
           | _ \<Rightarrow> None))"

definition copy_each :: "copier \<Rightarrow> copier" where
  "copy_each c m v =
     (case v of
        Slice None \<Rightarrow> Some (v, m)
      | Slice (Some (a, off, n)) \<Rightarrow>
          (let (b, m1) = alloc (Array (replicate n Zero)) m in
           map_option (\<lambda>m2. (Slice (Some (b, 0, n)), m2)) (fill_elems c a off b n m1))
      | _ \<Rightarrow> None)"

text \<open>\<open>for key, val := range *in { (*out)[key] = ... }\<close>\<close>

fun fill_table :: "copier \<Rightarrow> nat \<Rightarrow> (string \<times> val) list \<Rightarrow> memory \<Rightarrow> memory option" where
  "fill_table c b [] m = Some m"
| "fill_table c b ((k, v) # kvs) m =
     (case c m v of
        None \<Rightarrow> None
      | Some (y, m1) \<Rightarrow>
          (case cell_at m1 b of Some (Table t) \<Rightarrow> fill_table c b kvs (m1[b := Table (AList.update k y t)]) | _ \<Rightarrow> None))"

definition copy_map :: "copier \<Rightarrow> copier" where
  "copy_map c m v =
     (case v of
        MapRef None \<Rightarrow> Some (v, m)
      | MapRef (Some a) \<Rightarrow>
          (let (b, m1) = alloc (Table []) m in
           case cell_at m1 a of
             Some (Table kvs) \<Rightarrow> map_option (\<lambda>m2. (MapRef (Some b), m2)) (fill_table c b kvs m1)
           | _ \<Rightarrow> None)
      | _ \<Rightarrow> None)"

text \<open>\<open>DeepCopy\<close>: nil for nil, else \<open>out := new(T); in.DeepCopyInto(out); return out\<close>. \<open>DeepCopyObject\<close>
  returns the copy as an interface value, nil for nil.\<close>

definition new_copy :: "copier \<Rightarrow> copier" where
  "new_copy c m v =
     (case v of
        Pointer None \<Rightarrow> Some (Pointer None, m)
      | Pointer (Some a) \<Rightarrow>
          (let (b, m1) = alloc (Var Zero) m in
           case cell_at m1 a of
             Some (Var x) \<Rightarrow> map_option (\<lambda>(y, m2). (Pointer (Some b), m2[b := Var y])) (c m1 x)
           | _ \<Rightarrow> None)
      | _ \<Rightarrow> None)"

definition object_copy :: "copier \<Rightarrow> copier" where
  "object_copy dc m v =
     (case dc m v of
        None \<Rightarrow> None
      | Some (c, m1) \<Rightarrow> if c \<noteq> Pointer None then Some (c, m1) else Some (Pointer None, m1))"

section \<open>The contract of a deep copy\<close>

definition extends :: "memory \<Rightarrow> memory \<Rightarrow> bool" where
  "extends m m' \<longleftrightarrow> length m \<le> length m' \<and> take (length m) m' = m"

text \<open>The copy reads the same, and what was in memory before is as it was and out of the copy's reach.\<close>

definition deep_copies :: "ty \<Rightarrow> copier \<Rightarrow> bool" where
  "deep_copies t c \<longleftrightarrow> (\<forall>m v x. reads t m v = Some x \<longrightarrow>
     (\<exists>y m'. c m v = Some (y, m') \<and> extends m m' \<and> reads t m' y = Some x \<and> reaches t m' y \<subseteq> {length m..}))"

lemma deep_copiesD:
  assumes "deep_copies t c" "reads t m v = Some x"
  obtains y m' where "c m v = Some (y, m')" "extends m m'" "reads t m' y = Some x" "reaches t m' y \<subseteq> {length m..}"
  using assms unfolding deep_copies_def by blast

lemma extends_refl [simp]: "extends m m"
  by (simp add: extends_def)

lemma extends_trans: "extends m m' \<Longrightarrow> extends m' m'' \<Longrightarrow> extends m m''"
  unfolding extends_def by (metis min.absorb1 order_trans take_take)

lemma extends_alloc [simp]: "extends m (m @ [c])"
  by (simp add: extends_def)

lemma extends_update: "extends m m' \<Longrightarrow> length m \<le> b \<Longrightarrow> extends m (m'[b := c])"
  by (simp add: extends_def)

lemma extends_cell: "extends m m' \<Longrightarrow> a < length m \<Longrightarrow> cell_at m' a = cell_at m a"
  unfolding extends_def cell_at_def by (metis nth_take order_less_le_trans)

lemma extends_le: "extends m m' \<Longrightarrow> length m \<le> length m'"
  by (simp add: extends_def)

lemma extends_reads:
  assumes "extends m m'" "reads t m v = Some x"
  shows "reads t m' v = Some x \<and> reaches t m' v = reaches t m v"
proof -
  have "\<forall>a \<in> reaches t m v. cell_at m' a = cell_at m a"
    using reads_reaches(1) [of t m v] assms by (auto intro: extends_cell)
  from reads_frame(1) [OF this] assms(2) show ?thesis by simp
qed

text \<open>A cell that is not reached may be written.\<close>

lemma reads_update:
  assumes "b \<notin> reaches t m v"
  shows "reads t (m[b := c]) v = reads t m v \<and> reaches t (m[b := c]) v = reaches t m v"
proof (rule reads_frame(1), rule ballI)
  fix a assume "a \<in> reaches t m v"
  with assms have "a \<noteq> b" by blast
  then show "cell_at (m[b := c]) a = cell_at m a" by (simp add: cell_at_def)
qed

section \<open>The steps keep the contract\<close>

named_theorems deep_intros

text \<open>Types without references.\<close>

fun ref_free :: "ty \<Rightarrow> bool" and ref_free_fields :: "(string \<times> ty) list \<Rightarrow> bool" where
  "ref_free TPrim = True"
| "ref_free (TStruct fs) = ref_free_fields fs"
| "ref_free (TPointer t) = False"
| "ref_free (TSlice t) = False"
| "ref_free (TMap t) = False"
| "ref_free_fields [] = True"
| "ref_free_fields ((f, t) # fs) = (ref_free t \<and> ref_free_fields fs)"

lemma ref_free_reads:
  "ref_free t \<Longrightarrow> reaches t m v = {} \<and> reads t m' v = reads t m v"
  "ref_free_fields fs \<Longrightarrow> reaches_fields fs m vs = {} \<and> reads_fields fs m' vs = reads_fields fs m vs"
proof (induction t m v and fs m vs rule: reaches_reaches_fields.induct)
  case (7 f t fs m vs)
  show ?case
  proof (cases vs)
    case (Cons w ws)
    obtain g v where w: "w = (g, v)" by fastforce
    from "7.IH" [OF Cons w [symmetric]] "7.prems" show ?thesis by (simp add: Cons w)
  qed simp
qed (auto split: val.splits)

lemma deep_assign [deep_intros]: "ref_free t \<Longrightarrow> deep_copies t assign"
  by (simp add: deep_copies_def assign_def ref_free_reads)

lemma cell_at_append [simp]: "cell_at (m @ [c]) (length m) = Some c"
  by (simp add: cell_at_def)

lemma cell_at_updated [simp]: "b < length m \<Longrightarrow> cell_at (m[b := c]) b = Some c"
  by (simp add: cell_at_def)

lemma cell_at_Some: "cell_at m a = Some c \<Longrightarrow> a < length m"
  by (auto simp: cell_at_def split: if_splits)

lemma cell_at_snoc: "cell_at m a = Some c \<Longrightarrow> cell_at (m @ [d]) a = Some c"
  by (auto simp: cell_at_def nth_append split: if_splits)

lemma deep_new_copy [deep_intros]:
  assumes "deep_copies t c"
  shows "deep_copies (TPointer t) (new_copy c)"
  unfolding deep_copies_def
proof (intro allI impI)
  fix m v x
  assume r: "reads (TPointer t) m v = Some x"
  show "\<exists>y m'. new_copy c m v = Some (y, m') \<and> extends m m' \<and> reads (TPointer t) m' y = Some x \<and> reaches (TPointer t) m' y \<subseteq> {length m..}"
  proof (cases "v = Pointer None")
    case True
    with r show ?thesis by (simp add: new_copy_def)
  next
    case False
    with r obtain a w z where v: "v = Pointer (Some a)" "cell_at m a = Some (Var w)" "reads t m w = Some z" "x = PointerT z"
      by (auto split: val.splits option.splits cell.splits)
    let ?m1 = "m @ [Var Zero]"
    have "reads t ?m1 w = Some z" using extends_reads [OF extends_alloc v(3)] by blast
    from deep_copiesD [OF assms this] obtain y m2 where
      c: "c ?m1 w = Some (y, m2)" "extends ?m1 m2" "reads t m2 y = Some z" "reaches t m2 y \<subseteq> {length ?m1..}" by blast
    let ?m3 = "m2[length m := Var y]"
    have b: "length m < length m2" using extends_le [OF c(2)] by simp
    have "length m \<notin> reaches t m2 y" using c(4) by auto
    from reads_update [OF this] c have y: "reads t ?m3 y = Some z" "reaches t ?m3 y \<subseteq> {length m..}" by auto
    have "new_copy c m v = Some (Pointer (Some (length m)), ?m3)"
      using cell_at_snoc [OF v(2)] c(1) by (simp add: new_copy_def v(1) alloc_def)
    moreover have "extends m ?m3" using extends_trans [OF extends_alloc c(2)] by (simp add: extends_update)
    ultimately show ?thesis using b y v(4) by (intro exI [of _ "Pointer (Some (length m))"] exI [of _ ?m3]) simp
  qed
qed

lemma copy_pointer_new: "copy_pointer m v = new_copy assign m v"
  by (auto simp: copy_pointer_def new_copy_def assign_def Let_def split: val.split option.split cell.split prod.split)

lemma deep_copy_pointer [deep_intros]: "ref_free t \<Longrightarrow> deep_copies (TPointer t) copy_pointer"
  using deep_new_copy [OF deep_assign] by (simp add: deep_copies_def copy_pointer_new)

lemma object_copy_same: "object_copy dc = dc"
  by (intro ext) (auto simp: object_copy_def split: option.split)

lemma deep_object_copy [deep_intros]: "deep_copies t dc \<Longrightarrow> deep_copies t (object_copy dc)"
  by (simp add: object_copy_same)

text \<open>The loop over a slice: after \<open>k\<close> steps the first \<open>k\<close> elements are copied.\<close>

lemma fill_elems_run:
  assumes c: "deep_copies t c" and a: "cell_at m a = Some (Array xs)" "off + n \<le> length xs"
    and r: "\<forall>i < n. reads t m (xs ! (off + i)) = Some (ts ! i)"
  defines "b \<equiv> length m" and "m1 \<equiv> m @ [Array (replicate n Zero)]"
  shows "k \<le> n \<Longrightarrow> \<exists>m2 ys. fill_elems c a off b k m1 = Some m2 \<and> extends m m2 \<and> b < length m2 \<and> cell_at m2 b = Some (Array ys) \<and>
    length ys = n \<and> (\<forall>i < k. reads t m2 (ys ! i) = Some (ts ! i) \<and> reaches t m2 (ys ! i) \<subseteq> {Suc b..})"
proof (induction k)
  case 0
  show ?case by (simp add: b_def m1_def)
next
  case (Suc k)
  then obtain m2 ys where 2: "fill_elems c a off b k m1 = Some m2" "extends m m2" "b < length m2"
    "cell_at m2 b = Some (Array ys)" "length ys = n"
    and ys: "\<forall>i < k. reads t m2 (ys ! i) = Some (ts ! i) \<and> reaches t m2 (ys ! i) \<subseteq> {Suc b..}" by auto
  have a2: "cell_at m2 a = Some (Array xs)" using extends_cell [OF 2(2) cell_at_Some [OF a(1)]] a(1) by simp
  from r Suc.prems have "reads t m (xs ! (off + k)) = Some (ts ! k)" by simp
  with extends_reads [OF 2(2)] have "reads t m2 (xs ! (off + k)) = Some (ts ! k)" by blast
  from deep_copiesD [OF c this] obtain y m3 where
    3: "c m2 (xs ! (off + k)) = Some (y, m3)" "extends m2 m3" "reads t m3 y = Some (ts ! k)" "reaches t m3 y \<subseteq> {length m2..}" by blast
  have b3: "cell_at m3 b = Some (Array ys)" using extends_cell [OF 3(2) 2(3)] 2(4) by simp
  have lb: "b < length m3" using extends_le [OF 3(2)] 2(3) by simp
  let ?ys = "ys[k := y]" and ?m = "m3[b := Array (ys[k := y])]"
  have "fill_elems c a off b (Suc k) m1 = Some ?m"
    using 2(1) a2 3(1) b3 a(2) Suc.prems by simp
  moreover have "extends m ?m" using extends_trans [OF 2(2) 3(2)] by (simp add: extends_update b_def)
  moreover have "reads t ?m (?ys ! i) = Some (ts ! i) \<and> reaches t ?m (?ys ! i) \<subseteq> {Suc b..}" if "i < Suc k" for i
  proof -
    have "reads t m3 (?ys ! i) = Some (ts ! i) \<and> reaches t m3 (?ys ! i) \<subseteq> {Suc b..}"
    proof (cases "i = k")
      case True
      with 3 2(3,5) Suc.prems show ?thesis by auto
    next
      case False
      with that have "i < k" by simp
      with ys extends_reads [OF 3(2)] False show ?thesis by auto
    qed
    moreover from this have "b \<notin> reaches t m3 (?ys ! i)" by auto
    ultimately show ?thesis using reads_update by simp
  qed
  ultimately show ?case using lb 2(5) by (intro exI [of _ ?m] exI [of _ ?ys]) simp
qed

lemma window_nth: "off + n \<le> length xs \<Longrightarrow> window off n xs = map (\<lambda>i. xs ! (off + i)) [0..<n]"
  by (auto simp: window_def intro: nth_equalityI)

lemma deep_copy_each [deep_intros]:
  assumes "deep_copies t c"
  shows "deep_copies (TSlice t) (copy_each c)"
  unfolding deep_copies_def
proof (intro allI impI)
  fix m v x
  assume r: "reads (TSlice t) m v = Some x"
  show "\<exists>y m'. copy_each c m v = Some (y, m') \<and> extends m m' \<and> reads (TSlice t) m' y = Some x \<and> reaches (TSlice t) m' y \<subseteq> {length m..}"
  proof (cases "v = Slice None")
    case True
    with r show ?thesis by (simp add: copy_each_def)
  next
    case False
    with r obtain a off n xs ts where v: "v = Slice (Some (a, off, n))" "cell_at m a = Some (Array xs)" "off + n \<le> length xs"
      "map (reads t m) (window off n xs) = map Some ts" "x = SliceT ts"
      by (auto simp: all_some_eq split: val.splits option.splits cell.splits if_splits)
    have n: "length ts = n" using arg_cong [OF v(4), of length] v(3) by (simp add: window_def)
    have "reads t m (xs ! (off + i)) = Some (ts ! i)" if "i < n" for i
      using arg_cong [OF v(4), of "\<lambda>l. l ! i"] v(3) n that by (simp add: window_nth)
    with fill_elems_run [OF assms v(2,3), of ts n] obtain m2 ys where
      2: "fill_elems c a off (length m) n (m @ [Array (replicate n Zero)]) = Some m2" "extends m m2"
        "cell_at m2 (length m) = Some (Array ys)" "length ys = n"
      and ys: "\<forall>i < n. reads t m2 (ys ! i) = Some (ts ! i) \<and> reaches t m2 (ys ! i) \<subseteq> {Suc (length m)..}" by auto
    have "map (reads t m2) ys = map Some ts" using ys n 2(4) by (auto intro: nth_equalityI)
    moreover have "\<forall>y \<in> set ys. reaches t m2 y \<subseteq> {length m..}" using ys 2(4) by (fastforce simp: in_set_conv_nth)
    moreover have "window 0 n ys = ys" using 2(4) by (simp add: window_def)
    moreover have "copy_each c m v = Some (Slice (Some (length m, 0, n)), m2)"
      using 2(1) by (simp add: copy_each_def v(1) alloc_def)
    ultimately show ?thesis using 2 v(5)
      by (intro exI [of _ "Slice (Some (length m, 0, n))"] exI [of _ m2]) (auto simp del: map_eq_conv)
  qed
qed

lemma deep_copy_elems [deep_intros]:
  assumes "ref_free t"
  shows "deep_copies (TSlice t) copy_elems"
  unfolding deep_copies_def
proof (intro allI impI)
  fix m v x
  assume r: "reads (TSlice t) m v = Some x"
  show "\<exists>y m'. copy_elems m v = Some (y, m') \<and> extends m m' \<and> reads (TSlice t) m' y = Some x \<and> reaches (TSlice t) m' y \<subseteq> {length m..}"
  proof (cases "v = Slice None")
    case True
    with r show ?thesis by (simp add: copy_elems_def)
  next
    case False
    with r obtain a off n xs ts where v: "v = Slice (Some (a, off, n))" "cell_at m a = Some (Array xs)" "off + n \<le> length xs"
      "all_some (map (reads t m) (window off n xs)) = Some ts" "x = SliceT ts"
      by (auto split: val.splits option.splits cell.splits if_splits)
    let ?m = "m @ [Array (window off n xs)]"
    have w: "length (window off n xs) = n" "window 0 n (window off n xs) = window off n xs" using v(3) by (simp_all add: window_def)
    have "copy_elems m v = Some (Slice (Some (length m, 0, n)), ?m)"
      using cell_at_snoc [OF v(2)] v(3) by (simp add: copy_elems_def v(1) alloc_def)
    moreover have "reads t ?m = reads t m" "\<And>y. reaches t ?m y = {}" using ref_free_reads(1) [OF assms] by blast+
    ultimately show ?thesis using v(4,5) w
      by (intro exI [of _ "Slice (Some (length m, 0, n))"] exI [of _ ?m]) simp
  qed
qed

text \<open>The loop over a map.\<close>

lemma update_new: "k \<notin> fst ` set t \<Longrightarrow> AList.update k y t = t @ [(k, y)]"
  by (induction t) auto

lemma fill_table_run:
  assumes c: "deep_copies t c"
  shows "\<forall>(k, v) \<in> set kvs. reads t m0 v = Some (ts k) \<Longrightarrow> extends m0 m \<Longrightarrow> cell_at m (length m0) = Some (Table done) \<Longrightarrow>
    distinct (map fst done @ map fst kvs) \<Longrightarrow>
    \<forall>(k, v) \<in> set done. reads t m v = Some (ts k) \<and> reaches t m v \<subseteq> {Suc (length m0)..} \<Longrightarrow>
    \<exists>m' all. fill_table c (length m0) kvs m = Some m' \<and> extends m0 m' \<and> cell_at m' (length m0) = Some (Table all) \<and>
      map fst all = map fst done @ map fst kvs \<and>
      (\<forall>(k, v) \<in> set all. reads t m' v = Some (ts k) \<and> reaches t m' v \<subseteq> {Suc (length m0)..})"
proof (induction kvs arbitrary: m "done")
  case Nil
  then show ?case by auto
next
  case (Cons kv kvs)
  obtain k v where kv: "kv = (k, v)" by fastforce
  let ?b = "length m0"
  have "reads t m v = Some (ts k)" using extends_reads [OF Cons.prems(2)] Cons.prems(1) by (auto simp: kv)
  from deep_copiesD [OF c this] obtain y m1 where
    1: "c m v = Some (y, m1)" "extends m m1" "reads t m1 y = Some (ts k)" "reaches t m1 y \<subseteq> {length m..}" by blast
  have b: "?b < length m" using cell_at_Some [OF Cons.prems(3)] .
  then have b1: "cell_at m1 ?b = Some (Table done)" "?b < length m1"
    using extends_cell [OF 1(2)] Cons.prems(3) extends_le [OF 1(2)] by auto
  have new: "AList.update k y done = done @ [(k, y)]" using Cons.prems(4) by (auto intro: update_new simp: kv)
  let ?m = "m1[?b := Table (done @ [(k, y)])]"
  have keep: "reads t ?m w = Some (ts j) \<and> reaches t ?m w \<subseteq> {Suc ?b..}"
    if "reads t m1 w = Some (ts j)" "reaches t m1 w \<subseteq> {Suc ?b..}" for w j
  proof -
    from that have "?b \<notin> reaches t m1 w" by auto
    with that show ?thesis using reads_update by simp
  qed
  have ext: "extends m0 ?m" using extends_trans [OF Cons.prems(2) 1(2)] by (simp add: extends_update)
  have "\<forall>(j, w) \<in> set (done @ [(k, y)]). reads t ?m w = Some (ts j) \<and> reaches t ?m w \<subseteq> {Suc ?b..}"
  proof (intro ballI, clarify)
    fix j w assume "(j, w) \<in> set (done @ [(k, y)])"
    then have "reads t m1 w = Some (ts j) \<and> reaches t m1 w \<subseteq> {Suc ?b..}"
      using Cons.prems(5) extends_reads [OF 1(2)] 1(3,4) b by fastforce
    with keep show "reads t ?m w = Some (ts j) \<and> reaches t ?m w \<subseteq> {Suc ?b..}" by blast
  qed
  from Cons.IH [OF _ ext _ _ this] Cons.prems(1,4) b1(2) show ?case
    using 1(1) b1(1) by (simp add: kv new)
qed

lemma deep_copy_map [deep_intros]:
  assumes "deep_copies t c"
  shows "deep_copies (TMap t) (copy_map c)"
  unfolding deep_copies_def
proof (intro allI impI)
  fix m v x
  assume r: "reads (TMap t) m v = Some x"
  show "\<exists>y m'. copy_map c m v = Some (y, m') \<and> extends m m' \<and> reads (TMap t) m' y = Some x \<and> reaches (TMap t) m' y \<subseteq> {length m..}"
  proof (cases "v = MapRef None")
    case True
    with r show ?thesis by (simp add: copy_map_def)
  next
    case False
    with r obtain a kvs xs where v: "v = MapRef (Some a)" "cell_at m a = Some (Table kvs)" "distinct (map fst kvs)"
      "map (reads t m \<circ> snd) kvs = map Some xs" "x = MapT (zip (map fst kvs) xs)"
      by (auto simp: all_some_eq split: val.splits option.splits cell.splits if_splits)
    define ts where "ts k = the (reads t m (the (map_of kvs k)))" for k
    have e: "reads t m w = Some (ts k)" if "(k, w) \<in> set kvs" for k w
    proof -
      have "all_some (map (reads t m \<circ> snd) kvs) \<noteq> None" by (simp only: v(4) all_some_map) simp
      from all_some_mem [OF this that] have "reads t m w \<noteq> None" by simp
      with that v(3) show ?thesis by (auto simp: ts_def)
    qed
    have "\<forall>(k, w) \<in> set kvs. reads t m w = Some (ts k)" using e by blast
    from fill_table_run [OF assms this, of "m @ [Table []]" "[]"] v(3) obtain m' all where
      m': "fill_table c (length m) kvs (m @ [Table []]) = Some m'" "extends m m'" "cell_at m' (length m) = Some (Table all)"
        "map fst all = map fst kvs"
      and all: "\<forall>(k, w) \<in> set all. reads t m' w = Some (ts k) \<and> reaches t m' w \<subseteq> {Suc (length m)..}" by auto
    have "map (reads t m' \<circ> snd) all = map (Some \<circ> ts) (map fst all)" using all by (auto simp: case_prod_beta)
    also have "\<dots> = map (reads t m \<circ> snd) kvs" unfolding m'(4) using e by auto
    also have "\<dots> = map Some xs" by (rule v(4))
    finally have same: "map (reads t m' \<circ> snd) all = map Some xs" .
    have "copy_map c m v = Some (MapRef (Some (length m)), m')"
      using cell_at_snoc [OF v(2)] m'(1) by (simp add: copy_map_def v(1) alloc_def)
    moreover have "reads (TMap t) m' (MapRef (Some (length m))) = Some x"
      unfolding reads.simps using m'(3,4) v(3,5) by (simp only: val.case option.case cell.case same all_some_map if_True option.map)
    moreover have "reaches (TMap t) m' (MapRef (Some (length m))) \<subseteq> {length m..}"
      using all m'(3) by (fastforce simp: case_prod_beta)
    ultimately show ?thesis using m'(2) by blast
  qed
qed

text \<open>A struct, field by field.\<close>

lemma reads_fields_iff:
  "distinct (map fst fs) \<Longrightarrow> reads_fields fs m vs = Some xs \<longleftrightarrow>
     map fst vs = map fst fs \<and> map fst xs = map fst fs \<and>
     (\<forall>(f, t) \<in> set fs. \<exists>v x. map_of vs f = Some v \<and> map_of xs f = Some x \<and> reads t m v = Some x)"
proof (induction fs m vs arbitrary: xs rule: reads_reads_fields.induct(2) [where P = "\<lambda>_ _ _. True"])
  case (7 f t fs m vs)
  show ?case
  proof (cases "\<exists>v ws x ys. vs = (f, v) # ws \<and> xs = (f, x) # ys")
    case True
    then obtain v ws x ys where e: "vs = (f, v) # ws" "xs = (f, x) # ys" by blast
    let ?Q = "\<lambda>vs xs g s. \<exists>u z. map_of vs g = Some u \<and> map_of xs g = Some z \<and> reads s m u = Some z"
    have l: "reads_fields ((f, t) # fs) m vs = Some xs \<longleftrightarrow> reads t m v = Some x \<and> reads_fields fs m ws = Some ys"
      by (auto simp: e split: option.splits)
    have h: "?Q vs xs f t \<longleftrightarrow> reads t m v = Some x" by (simp add: e)
    have tail: "?Q vs xs g s = ?Q ws ys g s" if "(g, s) \<in> set fs" for g s
    proof -
      from that "7.prems" have "g \<noteq> f" by (auto intro: rev_image_eqI)
      then show ?thesis by (simp add: e)
    qed
    have "(\<forall>p \<in> set fs. ?Q vs xs (fst p) (snd p)) \<longleftrightarrow> (\<forall>p \<in> set fs. ?Q ws ys (fst p) (snd p))"
      by (intro ball_cong refl tail) simp
    with "7.IH" [OF e(1) refl refl, of ys] "7.prems" show ?thesis
      unfolding l case_prod_beta list.set ball_simps fst_conv snd_conv h by (simp add: e) blast
  next
    case False
    then show ?thesis by (auto split: list.splits option.splits if_splits)
  qed
qed auto

lemma reaches_fields_subset:
  "distinct (map fst fs) \<Longrightarrow> map fst vs = map fst fs \<Longrightarrow>
     (\<forall>(f, t) \<in> set fs. \<forall>v. map_of vs f = Some v \<longrightarrow> reaches t m v \<subseteq> S) \<Longrightarrow> reaches_fields fs m vs \<subseteq> S"
proof (induction fs arbitrary: vs)
  case (Cons ft fs)
  obtain f t where ft: "ft = (f, t)" by fastforce
  with Cons.prems(2) obtain v ws where vs: "vs = (f, v) # ws" "map fst ws = map fst fs" by (cases vs) auto
  have "\<forall>(g, s) \<in> set fs. \<forall>u. map_of ws g = Some u \<longrightarrow> reaches s m u \<subseteq> S"
  proof (intro ballI, clarify)
    fix g s u z assume g: "(g, s) \<in> set fs" "map_of ws g = Some u" "z \<in> reaches s m u"
    then have "g \<noteq> f" using Cons.prems(1) by (auto simp: ft intro: rev_image_eqI)
    with g Cons.prems(3) show "z \<in> S" by (fastforce simp: vs(1))
  qed
  with Cons.IH [of ws] Cons.prems(1,3) vs(2) show ?case by (auto simp: ft vs(1))
qed simp

lemma map_of_set: "map_of (map (\<lambda>(g, w). (g, if g = f then y else w)) vs) h =
    (if h = f then map_option (\<lambda>_. y) (map_of vs h) else map_of vs h)"
  by (induction vs) auto

text \<open>Every field the copy does not replace has no references.\<close>

definition covers :: "(string \<times> ty) list \<Rightarrow> (string \<times> copier) list \<Rightarrow> bool" where
  "covers fs cs \<longleftrightarrow> distinct (map fst fs) \<and> (\<forall>(f, c) \<in> set cs. \<exists>t. map_of fs f = Some t \<and> deep_copies t c) \<and>
     (\<forall>(f, t) \<in> set fs. f \<in> fst ` set cs \<or> ref_free t)"

lemma copy_fields_run:
  assumes fs: "distinct (map fst fs)" and vs: "reads_fields fs m0 vs = Some xs"
  shows "\<forall>(f, c) \<in> set cs. \<exists>t. map_of fs f = Some t \<and> deep_copies t c \<Longrightarrow> extends m0 m \<Longrightarrow> reads_fields fs m ws = Some xs \<Longrightarrow>
    \<forall>(f, t) \<in> set fs. f \<in> fst ` set cs \<or> (\<forall>v. map_of ws f = Some v \<longrightarrow> reaches t m v \<subseteq> {length m0..}) \<Longrightarrow>
    \<exists>ys m'. copy_fields cs (Struct vs) (Struct ws) m = Some (Struct ys, m') \<and> extends m0 m' \<and>
      reads_fields fs m' ys = Some xs \<and> (\<forall>(f, t) \<in> set fs. \<forall>v. map_of ys f = Some v \<longrightarrow> reaches t m' v \<subseteq> {length m0..})"
proof (induction cs arbitrary: m ws)
  case Nil
  then show ?case by auto
next
  case (Cons fc cs)
  obtain f c where fc: "fc = (f, c)" by fastforce
  with Cons.prems(1) obtain t where t: "map_of fs f = Some t" "deep_copies t c" by auto
  then have ft: "(f, t) \<in> set fs" by (simp add: map_of_SomeD)
  with vs fs obtain v x where v: "map_of vs f = Some v" "map_of xs f = Some x" "reads t m0 v = Some x"
    by (fastforce simp: reads_fields_iff)
  then have "reads t m v = Some x" using extends_reads [OF Cons.prems(2)] by blast
  from deep_copiesD [OF t(2) this] obtain y m1 where
    1: "c m v = Some (y, m1)" "extends m m1" "reads t m1 y = Some x" "reaches t m1 y \<subseteq> {length m..}" by blast
  let ?ws = "map (\<lambda>(g, w). (g, if g = f then y else w)) ws"
  have keep: "reads s m1 u = Some z \<and> reaches s m1 u = reaches s m u" if "reads s m u = Some z" for s u z
    using extends_reads [OF 1(2) that] .
  have w: "map fst ws = map fst fs" "map fst xs = map fst fs"
    "\<forall>(g, s) \<in> set fs. \<exists>u z. map_of ws g = Some u \<and> map_of xs g = Some z \<and> reads s m u = Some z"
    using Cons.prems(3) fs by (auto simp: reads_fields_iff)
  have only: "s = t" if "(f, s) \<in> set fs" for s using that ft fs by (metis eq_key_imp_eq_value)
  have "map fst ?ws = map fst fs" using w(1) by (auto simp: case_prod_beta comp_def)
  moreover have "\<exists>u z. map_of ?ws g = Some u \<and> map_of xs g = Some z \<and> reads s m1 u = Some z" if g: "(g, s) \<in> set fs" for g s
  proof -
    from w(3) g obtain u z where "map_of ws g = Some u" "map_of xs g = Some z" "reads s m u = Some z" by blast
    then show ?thesis using keep 1(3) v(2) only g by (cases "g = f") (auto simp: map_of_set)
  qed
  ultimately have r: "reads_fields fs m1 ?ws = Some xs" using w(2) fs by (auto simp: reads_fields_iff)
  have reach: "\<forall>(g, s) \<in> set fs. g \<in> fst ` set cs \<or> (\<forall>u. map_of ?ws g = Some u \<longrightarrow> reaches s m1 u \<subseteq> {length m0..})"
  proof -
    have "reaches s m1 u \<subseteq> {length m0..}" if g: "(g, s) \<in> set fs" "g \<notin> fst ` set cs" "map_of ?ws g = Some u" for g s u
    proof (cases "g = f")
      case True
      with g only have "s = t" "u = y" by (auto simp: map_of_set)
      with 1(4) extends_le [OF Cons.prems(2)] show ?thesis by auto
    next
      case False
      with g have u: "map_of ws g = Some u" by (simp add: map_of_set)
      with Cons.prems(4) g False have "reaches s m u \<subseteq> {length m0..}" by (fastforce simp: fc)
      moreover have "reaches s m1 u = reaches s m u" using w(3) g(1) u keep by fastforce
      ultimately show ?thesis by simp
    qed
    then show ?thesis by blast
  qed
  have "copy_fields (fc # cs) (Struct vs) (Struct ws) m = copy_fields cs (Struct vs) (Struct ?ws) m1"
    using v(1) 1(1) by (simp add: fc get_field_def set_field_def)
  with Cons.IH [OF _ extends_trans [OF Cons.prems(2) 1(2)] r reach] Cons.prems(1) show ?case by simp
qed

lemma deep_copy_struct [deep_intros]:
  assumes "covers fs cs"
  shows "deep_copies (TStruct fs) (copy_struct cs)"
  unfolding deep_copies_def
proof (intro allI impI)
  fix m v x
  assume "reads (TStruct fs) m v = Some x"
  then obtain vs xs where v: "v = Struct vs" "reads_fields fs m vs = Some xs" "x = StructT xs" by (auto split: val.splits)
  have fs: "distinct (map fst fs)" using assms by (simp add: covers_def)
  have "\<forall>(f, t) \<in> set fs. f \<in> fst ` set cs \<or> (\<forall>u. map_of vs f = Some u \<longrightarrow> reaches t m u \<subseteq> {length m..})"
    using assms ref_free_reads(1) by (fastforce simp: covers_def)
  with copy_fields_run [OF fs v(2), of cs m vs] assms v(2) obtain ys m' where
    m': "copy_fields cs (Struct vs) (Struct vs) m = Some (Struct ys, m')" "extends m m'" "reads_fields fs m' ys = Some xs"
      "\<forall>(f, t) \<in> set fs. \<forall>v. map_of ys f = Some v \<longrightarrow> reaches t m' v \<subseteq> {length m..}" by (auto simp: covers_def)
  have "reaches_fields fs m' ys \<subseteq> {length m..}"
    by (rule reaches_fields_subset) (use fs m' in \<open>auto simp: reads_fields_iff\<close>)
  with m' v show "\<exists>y m'. copy_struct cs m v = Some (y, m') \<and> extends m m' \<and> reads (TStruct fs) m' y = Some x \<and>
      reaches (TStruct fs) m' y \<subseteq> {length m..}"
    by (intro exI [of _ "Struct ys"] exI [of _ m']) (simp add: copy_struct_def)
qed

end
