(* ===== verification/DeepCopy.thy ===== *)
theory DeepCopy
  imports GoMemory
begin

text \<open>
  The deep copy functions of the custom resources (\<open>api/v1/zz_generated.deepcopy.go\<close>, as checked in)
  over the memory of \<open>GoMemory\<close>, beside the types they are for (\<open>api/v1/*_types.go\<close>), and what they
  guarantee: a copy shares nothing with its original.

  Types and copies of the Kubernetes libraries are parameters: \<open>lt\<close> gives a type by its name, \<open>lc\<close> its
  \<open>DeepCopyInto\<close> (of \<open>Quantity\<close>, its \<open>DeepCopy\<close>).
\<close>

section \<open>Agents\<close>

definition AgentIdentitySpec_type :: ty where
  "AgentIdentitySpec_type = TStruct
    [(''Soul'', TPrim), (''User'', TPrim), (''AgentIdentity'', TPrim)]"

definition AgentIdentitySpec_DeepCopyInto :: copier where
  "AgentIdentitySpec_DeepCopyInto = copy_struct []"

definition AgentIdentitySpec_DeepCopy :: copier where
  "AgentIdentitySpec_DeepCopy = new_copy AgentIdentitySpec_DeepCopyInto"

definition TelemetryCaptureSpec_type :: ty where
  "TelemetryCaptureSpec_type = TStruct
    [(''InputMessages'', TPrim), (''OutputMessages'', TPrim), (''SystemInstructions'', TPrim),
     (''ToolDefinitions'', TPrim), (''ToolContent'', TPrim), (''SampleRate'', TPrim)]"

definition TelemetryCaptureSpec_DeepCopyInto :: copier where
  "TelemetryCaptureSpec_DeepCopyInto = copy_struct []"

definition TelemetryCaptureSpec_DeepCopy :: copier where
  "TelemetryCaptureSpec_DeepCopy = new_copy TelemetryCaptureSpec_DeepCopyInto"

definition ModelFallbackSpec_type :: ty where
  "ModelFallbackSpec_type = TStruct
    [(''Provider'', TPrim), (''Name'', TPrim)]"

definition ModelFallbackSpec_DeepCopyInto :: copier where
  "ModelFallbackSpec_DeepCopyInto = copy_struct []"

definition ModelFallbackSpec_DeepCopy :: copier where
  "ModelFallbackSpec_DeepCopy = new_copy ModelFallbackSpec_DeepCopyInto"

definition AgentModelSpec_type :: ty where
  "AgentModelSpec_type = TStruct
    [(''Provider'', TPrim), (''Name'', TPrim), (''Fallback'', TPointer ModelFallbackSpec_type)]"

definition AgentModelSpec_DeepCopyInto :: copier where
  "AgentModelSpec_DeepCopyInto = copy_struct
    [(''Fallback'', copy_pointer)]"

definition AgentModelSpec_DeepCopy :: copier where
  "AgentModelSpec_DeepCopy = new_copy AgentModelSpec_DeepCopyInto"

definition AgentResourceRequirements_type :: "(string \<Rightarrow> ty) \<Rightarrow> ty" where
  "AgentResourceRequirements_type lt = TStruct
    [(''Requests'', TMap (lt ''Quantity'')), (''Limits'', TMap (lt ''Quantity''))]"

definition AgentResourceRequirements_DeepCopyInto :: "(string \<Rightarrow> copier) \<Rightarrow> copier" where
  "AgentResourceRequirements_DeepCopyInto lc = copy_struct
    [(''Requests'', copy_map (lc ''Quantity'')), (''Limits'', copy_map (lc ''Quantity''))]"

definition AgentResourceRequirements_DeepCopy :: "(string \<Rightarrow> copier) \<Rightarrow> copier" where
  "AgentResourceRequirements_DeepCopy lc = new_copy (AgentResourceRequirements_DeepCopyInto lc)"

definition AgentLifecycleSpec_type :: ty where
  "AgentLifecycleSpec_type = TStruct
    [(''RestartPolicy'', TPrim), (''HibernateAfterIdleMinutes'', TPointer TPrim), (''MaxRuntime'', TPrim)]"

definition AgentLifecycleSpec_DeepCopyInto :: copier where
  "AgentLifecycleSpec_DeepCopyInto = copy_struct
    [(''HibernateAfterIdleMinutes'', copy_pointer)]"

definition AgentLifecycleSpec_DeepCopy :: copier where
  "AgentLifecycleSpec_DeepCopy = new_copy AgentLifecycleSpec_DeepCopyInto"

definition WorkspaceSpec_type :: ty where
  "WorkspaceSpec_type = TStruct
    [(''Mode'', TPrim), (''StorageSize'', TPrim), (''StorageClassName'', TPointer TPrim),
     (''ReclaimPolicy'', TPrim)]"

definition WorkspaceSpec_DeepCopyInto :: copier where
  "WorkspaceSpec_DeepCopyInto = copy_struct
    [(''StorageClassName'', copy_pointer)]"

definition WorkspaceSpec_DeepCopy :: copier where
  "WorkspaceSpec_DeepCopy = new_copy WorkspaceSpec_DeepCopyInto"

definition HarnessSpec_type :: ty where
  "HarnessSpec_type = TStruct
    [(''Type'', TPrim), (''Image'', TPrim)]"

definition HarnessSpec_DeepCopyInto :: copier where
  "HarnessSpec_DeepCopyInto = copy_struct []"

definition HarnessSpec_DeepCopy :: copier where
  "HarnessSpec_DeepCopy = new_copy HarnessSpec_DeepCopyInto"

definition A2APeer_type :: ty where
  "A2APeer_type = TStruct
    [(''Name'', TPrim), (''AgentCardURL'', TPrim), (''CredentialsSecret'', TPrim)]"

definition A2APeer_DeepCopyInto :: copier where
  "A2APeer_DeepCopyInto = copy_struct []"

definition A2APeer_DeepCopy :: copier where
  "A2APeer_DeepCopy = new_copy A2APeer_DeepCopyInto"

definition A2ASpec_type :: ty where
  "A2ASpec_type = TStruct
    [(''Enabled'', TPrim), (''AgentCardName'', TPrim), (''AgentCardDescription'', TPrim),
     (''Skills'', TSlice TPrim), (''Port'', TPrim), (''Peers'', TSlice A2APeer_type),
     (''SecurityTokenSecret'', TPrim)]"

definition A2ASpec_DeepCopyInto :: copier where
  "A2ASpec_DeepCopyInto = copy_struct
    [(''Skills'', copy_elems), (''Peers'', copy_elems)]"

definition A2ASpec_DeepCopy :: copier where
  "A2ASpec_DeepCopy = new_copy A2ASpec_DeepCopyInto"

definition ClawAgentSpec_type :: "(string \<Rightarrow> ty) \<Rightarrow> ty" where
  "ClawAgentSpec_type lt = TStruct
    [(''Harness'', HarnessSpec_type), (''Identity'', AgentIdentitySpec_type), (''SkillSet'', TPrim),
     (''Policy'', TPrim), (''Channels'', TSlice TPrim), (''Gateway'', TPrim), (''Observability'', TPrim),
     (''TelemetryCapture'', TelemetryCaptureSpec_type), (''Model'', AgentModelSpec_type),
     (''Resources'', AgentResourceRequirements_type lt), (''Lifecycle'', AgentLifecycleSpec_type),
     (''Workspace'', WorkspaceSpec_type), (''CredentialsSecret'', TPrim), (''A2A'', A2ASpec_type)]"

definition ClawAgentSpec_DeepCopyInto :: "(string \<Rightarrow> copier) \<Rightarrow> copier" where
  "ClawAgentSpec_DeepCopyInto lc = copy_struct
    [(''Harness'', assign), (''Identity'', assign), (''Channels'', copy_elems),
     (''TelemetryCapture'', assign), (''Model'', AgentModelSpec_DeepCopyInto),
     (''Resources'', AgentResourceRequirements_DeepCopyInto lc),
     (''Lifecycle'', AgentLifecycleSpec_DeepCopyInto), (''Workspace'', WorkspaceSpec_DeepCopyInto),
     (''A2A'', A2ASpec_DeepCopyInto)]"

definition ClawAgentSpec_DeepCopy :: "(string \<Rightarrow> copier) \<Rightarrow> copier" where
  "ClawAgentSpec_DeepCopy lc = new_copy (ClawAgentSpec_DeepCopyInto lc)"

definition ClawAgentStatus_type :: "(string \<Rightarrow> ty) \<Rightarrow> ty" where
  "ClawAgentStatus_type lt = TStruct
    [(''Conditions'', TSlice (lt ''Condition'')), (''Phase'', TPrim), (''PodName'', TPrim),
     (''WorkspacePVC'', TPrim)]"

definition ClawAgentStatus_DeepCopyInto :: "(string \<Rightarrow> copier) \<Rightarrow> copier" where
  "ClawAgentStatus_DeepCopyInto lc = copy_struct
    [(''Conditions'', copy_each (lc ''Condition''))]"

definition ClawAgentStatus_DeepCopy :: "(string \<Rightarrow> copier) \<Rightarrow> copier" where
  "ClawAgentStatus_DeepCopy lc = new_copy (ClawAgentStatus_DeepCopyInto lc)"

definition ClawAgent_type :: "(string \<Rightarrow> ty) \<Rightarrow> ty" where
  "ClawAgent_type lt = TStruct
    [(''TypeMeta'', lt ''TypeMeta''), (''ObjectMeta'', lt ''ObjectMeta''),
     (''Spec'', ClawAgentSpec_type lt), (''Status'', ClawAgentStatus_type lt)]"

definition ClawAgent_DeepCopyInto :: "(string \<Rightarrow> copier) \<Rightarrow> copier" where
  "ClawAgent_DeepCopyInto lc = copy_struct
    [(''TypeMeta'', assign), (''ObjectMeta'', lc ''ObjectMeta''), (''Spec'', ClawAgentSpec_DeepCopyInto lc),
     (''Status'', ClawAgentStatus_DeepCopyInto lc)]"

definition ClawAgent_DeepCopy :: "(string \<Rightarrow> copier) \<Rightarrow> copier" where
  "ClawAgent_DeepCopy lc = new_copy (ClawAgent_DeepCopyInto lc)"

definition ClawAgent_DeepCopyObject :: "(string \<Rightarrow> copier) \<Rightarrow> copier" where
  "ClawAgent_DeepCopyObject lc = object_copy (ClawAgent_DeepCopy lc)"

definition ClawAgentList_type :: "(string \<Rightarrow> ty) \<Rightarrow> ty" where
  "ClawAgentList_type lt = TStruct
    [(''TypeMeta'', lt ''TypeMeta''), (''ListMeta'', lt ''ListMeta''),
     (''Items'', TSlice (ClawAgent_type lt))]"

definition ClawAgentList_DeepCopyInto :: "(string \<Rightarrow> copier) \<Rightarrow> copier" where
  "ClawAgentList_DeepCopyInto lc = copy_struct
    [(''TypeMeta'', assign), (''ListMeta'', lc ''ListMeta''),
     (''Items'', copy_each (ClawAgent_DeepCopyInto lc))]"

definition ClawAgentList_DeepCopy :: "(string \<Rightarrow> copier) \<Rightarrow> copier" where
  "ClawAgentList_DeepCopy lc = new_copy (ClawAgentList_DeepCopyInto lc)"

definition ClawAgentList_DeepCopyObject :: "(string \<Rightarrow> copier) \<Rightarrow> copier" where
  "ClawAgentList_DeepCopyObject lc = object_copy (ClawAgentList_DeepCopy lc)"

lemmas agent_copy_defs =
  AgentIdentitySpec_type_def TelemetryCaptureSpec_type_def ModelFallbackSpec_type_def
  AgentModelSpec_type_def AgentResourceRequirements_type_def AgentLifecycleSpec_type_def
  WorkspaceSpec_type_def HarnessSpec_type_def A2APeer_type_def A2ASpec_type_def
  ClawAgentSpec_type_def ClawAgentStatus_type_def ClawAgent_type_def ClawAgentList_type_def
  AgentIdentitySpec_DeepCopyInto_def TelemetryCaptureSpec_DeepCopyInto_def
  ModelFallbackSpec_DeepCopyInto_def AgentModelSpec_DeepCopyInto_def
  AgentResourceRequirements_DeepCopyInto_def AgentLifecycleSpec_DeepCopyInto_def
  WorkspaceSpec_DeepCopyInto_def HarnessSpec_DeepCopyInto_def A2APeer_DeepCopyInto_def
  A2ASpec_DeepCopyInto_def ClawAgentSpec_DeepCopyInto_def ClawAgentStatus_DeepCopyInto_def
  ClawAgent_DeepCopyInto_def ClawAgentList_DeepCopyInto_def

section \<open>Channels\<close>

definition ClawChannelSpec_type :: ty where
  "ClawChannelSpec_type = TStruct
    [(''Type'', TPrim), (''Enabled'', TPointer TPrim), (''CredentialsSecret'', TPrim),
     (''Config'', TMap TPrim)]"

definition ClawChannelSpec_DeepCopyInto :: copier where
  "ClawChannelSpec_DeepCopyInto = copy_struct
    [(''Enabled'', copy_pointer), (''Config'', copy_map assign)]"

definition ClawChannelSpec_DeepCopy :: copier where
  "ClawChannelSpec_DeepCopy = new_copy ClawChannelSpec_DeepCopyInto"

definition ClawChannelStatus_type :: "(string \<Rightarrow> ty) \<Rightarrow> ty" where
  "ClawChannelStatus_type lt = TStruct
    [(''Conditions'', TSlice (lt ''Condition''))]"

definition ClawChannelStatus_DeepCopyInto :: "(string \<Rightarrow> copier) \<Rightarrow> copier" where
  "ClawChannelStatus_DeepCopyInto lc = copy_struct
    [(''Conditions'', copy_each (lc ''Condition''))]"

definition ClawChannelStatus_DeepCopy :: "(string \<Rightarrow> copier) \<Rightarrow> copier" where
  "ClawChannelStatus_DeepCopy lc = new_copy (ClawChannelStatus_DeepCopyInto lc)"

definition ClawChannel_type :: "(string \<Rightarrow> ty) \<Rightarrow> ty" where
  "ClawChannel_type lt = TStruct
    [(''TypeMeta'', lt ''TypeMeta''), (''ObjectMeta'', lt ''ObjectMeta''), (''Spec'', ClawChannelSpec_type),
     (''Status'', ClawChannelStatus_type lt)]"

definition ClawChannel_DeepCopyInto :: "(string \<Rightarrow> copier) \<Rightarrow> copier" where
  "ClawChannel_DeepCopyInto lc = copy_struct
    [(''TypeMeta'', assign), (''ObjectMeta'', lc ''ObjectMeta''), (''Spec'', ClawChannelSpec_DeepCopyInto),
     (''Status'', ClawChannelStatus_DeepCopyInto lc)]"

definition ClawChannel_DeepCopy :: "(string \<Rightarrow> copier) \<Rightarrow> copier" where
  "ClawChannel_DeepCopy lc = new_copy (ClawChannel_DeepCopyInto lc)"

definition ClawChannel_DeepCopyObject :: "(string \<Rightarrow> copier) \<Rightarrow> copier" where
  "ClawChannel_DeepCopyObject lc = object_copy (ClawChannel_DeepCopy lc)"

definition ClawChannelList_type :: "(string \<Rightarrow> ty) \<Rightarrow> ty" where
  "ClawChannelList_type lt = TStruct
    [(''TypeMeta'', lt ''TypeMeta''), (''ListMeta'', lt ''ListMeta''),
     (''Items'', TSlice (ClawChannel_type lt))]"

definition ClawChannelList_DeepCopyInto :: "(string \<Rightarrow> copier) \<Rightarrow> copier" where
  "ClawChannelList_DeepCopyInto lc = copy_struct
    [(''TypeMeta'', assign), (''ListMeta'', lc ''ListMeta''),
     (''Items'', copy_each (ClawChannel_DeepCopyInto lc))]"

definition ClawChannelList_DeepCopy :: "(string \<Rightarrow> copier) \<Rightarrow> copier" where
  "ClawChannelList_DeepCopy lc = new_copy (ClawChannelList_DeepCopyInto lc)"

definition ClawChannelList_DeepCopyObject :: "(string \<Rightarrow> copier) \<Rightarrow> copier" where
  "ClawChannelList_DeepCopyObject lc = object_copy (ClawChannelList_DeepCopy lc)"

lemmas channel_copy_defs =
  ClawChannelSpec_type_def ClawChannelStatus_type_def ClawChannel_type_def
  ClawChannelList_type_def ClawChannelSpec_DeepCopyInto_def ClawChannelStatus_DeepCopyInto_def
  ClawChannel_DeepCopyInto_def ClawChannelList_DeepCopyInto_def

section \<open>Policies\<close>

definition ToolPolicySpec_type :: ty where
  "ToolPolicySpec_type = TStruct
    [(''Allow'', TSlice TPrim), (''Deny'', TSlice TPrim)]"

definition ToolPolicySpec_DeepCopyInto :: copier where
  "ToolPolicySpec_DeepCopyInto = copy_struct
    [(''Allow'', copy_elems), (''Deny'', copy_elems)]"

definition ToolPolicySpec_DeepCopy :: copier where
  "ToolPolicySpec_DeepCopy = new_copy ToolPolicySpec_DeepCopyInto"

definition BudgetSpec_type :: ty where
  "BudgetSpec_type = TStruct
    [(''Daily'', TPrim), (''Monthly'', TPrim), (''WarnAt'', TPrim), (''DowngradeModel'', TPrim),
     (''DowngradeProvider'', TPrim)]"

definition BudgetSpec_DeepCopyInto :: copier where
  "BudgetSpec_DeepCopyInto = copy_struct []"

definition BudgetSpec_DeepCopy :: copier where
  "BudgetSpec_DeepCopy = new_copy BudgetSpec_DeepCopyInto"

definition ClawPolicySpec_type :: ty where
  "ClawPolicySpec_type = TStruct
    [(''ToolPolicy'', ToolPolicySpec_type), (''Budget'', BudgetSpec_type)]"

definition ClawPolicySpec_DeepCopyInto :: copier where
  "ClawPolicySpec_DeepCopyInto = copy_struct
    [(''ToolPolicy'', ToolPolicySpec_DeepCopyInto), (''Budget'', assign)]"

definition ClawPolicySpec_DeepCopy :: copier where
  "ClawPolicySpec_DeepCopy = new_copy ClawPolicySpec_DeepCopyInto"

definition ClawPolicyStatus_type :: "(string \<Rightarrow> ty) \<Rightarrow> ty" where
  "ClawPolicyStatus_type lt = TStruct
    [(''Conditions'', TSlice (lt ''Condition''))]"

definition ClawPolicyStatus_DeepCopyInto :: "(string \<Rightarrow> copier) \<Rightarrow> copier" where
  "ClawPolicyStatus_DeepCopyInto lc = copy_struct
    [(''Conditions'', copy_each (lc ''Condition''))]"

definition ClawPolicyStatus_DeepCopy :: "(string \<Rightarrow> copier) \<Rightarrow> copier" where
  "ClawPolicyStatus_DeepCopy lc = new_copy (ClawPolicyStatus_DeepCopyInto lc)"

definition ClawPolicy_type :: "(string \<Rightarrow> ty) \<Rightarrow> ty" where
  "ClawPolicy_type lt = TStruct
    [(''TypeMeta'', lt ''TypeMeta''), (''ObjectMeta'', lt ''ObjectMeta''), (''Spec'', ClawPolicySpec_type),
     (''Status'', ClawPolicyStatus_type lt)]"

definition ClawPolicy_DeepCopyInto :: "(string \<Rightarrow> copier) \<Rightarrow> copier" where
  "ClawPolicy_DeepCopyInto lc = copy_struct
    [(''TypeMeta'', assign), (''ObjectMeta'', lc ''ObjectMeta''), (''Spec'', ClawPolicySpec_DeepCopyInto),
     (''Status'', ClawPolicyStatus_DeepCopyInto lc)]"

definition ClawPolicy_DeepCopy :: "(string \<Rightarrow> copier) \<Rightarrow> copier" where
  "ClawPolicy_DeepCopy lc = new_copy (ClawPolicy_DeepCopyInto lc)"

definition ClawPolicy_DeepCopyObject :: "(string \<Rightarrow> copier) \<Rightarrow> copier" where
  "ClawPolicy_DeepCopyObject lc = object_copy (ClawPolicy_DeepCopy lc)"

definition ClawPolicyList_type :: "(string \<Rightarrow> ty) \<Rightarrow> ty" where
  "ClawPolicyList_type lt = TStruct
    [(''TypeMeta'', lt ''TypeMeta''), (''ListMeta'', lt ''ListMeta''),
     (''Items'', TSlice (ClawPolicy_type lt))]"

definition ClawPolicyList_DeepCopyInto :: "(string \<Rightarrow> copier) \<Rightarrow> copier" where
  "ClawPolicyList_DeepCopyInto lc = copy_struct
    [(''TypeMeta'', assign), (''ListMeta'', lc ''ListMeta''),
     (''Items'', copy_each (ClawPolicy_DeepCopyInto lc))]"

definition ClawPolicyList_DeepCopy :: "(string \<Rightarrow> copier) \<Rightarrow> copier" where
  "ClawPolicyList_DeepCopy lc = new_copy (ClawPolicyList_DeepCopyInto lc)"

definition ClawPolicyList_DeepCopyObject :: "(string \<Rightarrow> copier) \<Rightarrow> copier" where
  "ClawPolicyList_DeepCopyObject lc = object_copy (ClawPolicyList_DeepCopy lc)"

lemmas policy_copy_defs =
  ToolPolicySpec_type_def BudgetSpec_type_def ClawPolicySpec_type_def ClawPolicyStatus_type_def
  ClawPolicy_type_def ClawPolicyList_type_def ToolPolicySpec_DeepCopyInto_def
  BudgetSpec_DeepCopyInto_def ClawPolicySpec_DeepCopyInto_def ClawPolicyStatus_DeepCopyInto_def
  ClawPolicy_DeepCopyInto_def ClawPolicyList_DeepCopyInto_def

section \<open>Skill sets\<close>

definition SkillEntry_type :: ty where
  "SkillEntry_type = TStruct
    [(''Name'', TPrim), (''Content'', TPrim)]"

definition SkillEntry_DeepCopyInto :: copier where
  "SkillEntry_DeepCopyInto = copy_struct []"

definition SkillEntry_DeepCopy :: copier where
  "SkillEntry_DeepCopy = new_copy SkillEntry_DeepCopyInto"

definition ClawSkillSetSpec_type :: ty where
  "ClawSkillSetSpec_type = TStruct
    [(''Skills'', TSlice SkillEntry_type)]"

definition ClawSkillSetSpec_DeepCopyInto :: copier where
  "ClawSkillSetSpec_DeepCopyInto = copy_struct
    [(''Skills'', copy_elems)]"

definition ClawSkillSetSpec_DeepCopy :: copier where
  "ClawSkillSetSpec_DeepCopy = new_copy ClawSkillSetSpec_DeepCopyInto"

definition ClawSkillSetStatus_type :: "(string \<Rightarrow> ty) \<Rightarrow> ty" where
  "ClawSkillSetStatus_type lt = TStruct
    [(''Conditions'', TSlice (lt ''Condition''))]"

definition ClawSkillSetStatus_DeepCopyInto :: "(string \<Rightarrow> copier) \<Rightarrow> copier" where
  "ClawSkillSetStatus_DeepCopyInto lc = copy_struct
    [(''Conditions'', copy_each (lc ''Condition''))]"

definition ClawSkillSetStatus_DeepCopy :: "(string \<Rightarrow> copier) \<Rightarrow> copier" where
  "ClawSkillSetStatus_DeepCopy lc = new_copy (ClawSkillSetStatus_DeepCopyInto lc)"

definition ClawSkillSet_type :: "(string \<Rightarrow> ty) \<Rightarrow> ty" where
  "ClawSkillSet_type lt = TStruct
    [(''TypeMeta'', lt ''TypeMeta''), (''ObjectMeta'', lt ''ObjectMeta''),
     (''Spec'', ClawSkillSetSpec_type), (''Status'', ClawSkillSetStatus_type lt)]"

definition ClawSkillSet_DeepCopyInto :: "(string \<Rightarrow> copier) \<Rightarrow> copier" where
  "ClawSkillSet_DeepCopyInto lc = copy_struct
    [(''TypeMeta'', assign), (''ObjectMeta'', lc ''ObjectMeta''), (''Spec'', ClawSkillSetSpec_DeepCopyInto),
     (''Status'', ClawSkillSetStatus_DeepCopyInto lc)]"

definition ClawSkillSet_DeepCopy :: "(string \<Rightarrow> copier) \<Rightarrow> copier" where
  "ClawSkillSet_DeepCopy lc = new_copy (ClawSkillSet_DeepCopyInto lc)"

definition ClawSkillSet_DeepCopyObject :: "(string \<Rightarrow> copier) \<Rightarrow> copier" where
  "ClawSkillSet_DeepCopyObject lc = object_copy (ClawSkillSet_DeepCopy lc)"

definition ClawSkillSetList_type :: "(string \<Rightarrow> ty) \<Rightarrow> ty" where
  "ClawSkillSetList_type lt = TStruct
    [(''TypeMeta'', lt ''TypeMeta''), (''ListMeta'', lt ''ListMeta''),
     (''Items'', TSlice (ClawSkillSet_type lt))]"

definition ClawSkillSetList_DeepCopyInto :: "(string \<Rightarrow> copier) \<Rightarrow> copier" where
  "ClawSkillSetList_DeepCopyInto lc = copy_struct
    [(''TypeMeta'', assign), (''ListMeta'', lc ''ListMeta''),
     (''Items'', copy_each (ClawSkillSet_DeepCopyInto lc))]"

definition ClawSkillSetList_DeepCopy :: "(string \<Rightarrow> copier) \<Rightarrow> copier" where
  "ClawSkillSetList_DeepCopy lc = new_copy (ClawSkillSetList_DeepCopyInto lc)"

definition ClawSkillSetList_DeepCopyObject :: "(string \<Rightarrow> copier) \<Rightarrow> copier" where
  "ClawSkillSetList_DeepCopyObject lc = object_copy (ClawSkillSetList_DeepCopy lc)"

lemmas skillset_copy_defs =
  SkillEntry_type_def ClawSkillSetSpec_type_def ClawSkillSetStatus_type_def ClawSkillSet_type_def
  ClawSkillSetList_type_def SkillEntry_DeepCopyInto_def ClawSkillSetSpec_DeepCopyInto_def
  ClawSkillSetStatus_DeepCopyInto_def ClawSkillSet_DeepCopyInto_def ClawSkillSetList_DeepCopyInto_def

section \<open>Gateways\<close>

definition GatewayWebhookSpec_type :: ty where
  "GatewayWebhookSpec_type = TStruct
    [(''URL'', TPrim), (''MinSeverity'', TPrim), (''Headers'', TMap TPrim)]"

definition GatewayWebhookSpec_DeepCopyInto :: copier where
  "GatewayWebhookSpec_DeepCopyInto = copy_struct
    [(''Headers'', copy_map assign)]"

definition GatewayWebhookSpec_DeepCopy :: copier where
  "GatewayWebhookSpec_DeepCopy = new_copy GatewayWebhookSpec_DeepCopyInto"

definition EvaluatorRouteSpec_type :: ty where
  "EvaluatorRouteSpec_type = TStruct
    [(''Provider'', TPrim), (''Model'', TPrim)]"

definition EvaluatorRouteSpec_DeepCopyInto :: copier where
  "EvaluatorRouteSpec_DeepCopyInto = copy_struct []"

definition EvaluatorRouteSpec_DeepCopy :: copier where
  "EvaluatorRouteSpec_DeepCopy = new_copy EvaluatorRouteSpec_DeepCopyInto"

definition GatewayEvaluatorSpec_type :: ty where
  "GatewayEvaluatorSpec_type = TStruct
    [(''Name'', TPrim), (''Type'', TPrim), (''Priority'', TPrim), (''Patterns'', TSlice TPrim),
     (''Action'', TPrim), (''BlockReply'', TPrim), (''EmitEvent'', TPrim), (''ClassifierModel'', TPrim),
     (''OllamaEndpoint'', TPrim), (''TimeoutMs'', TPrim), (''ProxyURL'', TPrim),
     (''RedactReplacement'', TPrim), (''Webhooks'', TSlice GatewayWebhookSpec_type),
     (''ClassifierEndpoint'', TPrim), (''Routes'', TMap EvaluatorRouteSpec_type)]"

definition GatewayEvaluatorSpec_DeepCopyInto :: copier where
  "GatewayEvaluatorSpec_DeepCopyInto = copy_struct
    [(''Patterns'', copy_elems), (''Webhooks'', copy_each GatewayWebhookSpec_DeepCopyInto),
     (''Routes'', copy_map assign)]"

definition GatewayEvaluatorSpec_DeepCopy :: copier where
  "GatewayEvaluatorSpec_DeepCopy = new_copy GatewayEvaluatorSpec_DeepCopyInto"

definition GatewayRoutingSpec_type :: ty where
  "GatewayRoutingSpec_type = TStruct
    [(''Enabled'', TPrim), (''LogEveryDecision'', TPrim), (''Evaluators'', TSlice GatewayEvaluatorSpec_type)]"

definition GatewayRoutingSpec_DeepCopyInto :: copier where
  "GatewayRoutingSpec_DeepCopyInto = copy_struct
    [(''Evaluators'', copy_each GatewayEvaluatorSpec_DeepCopyInto)]"

definition GatewayRoutingSpec_DeepCopy :: copier where
  "GatewayRoutingSpec_DeepCopy = new_copy GatewayRoutingSpec_DeepCopyInto"

definition GatewayAnomalySpec_type :: ty where
  "GatewayAnomalySpec_type = TStruct
    [(''SpendSpikeMultiplier'', TPrim), (''IdleBurnMinutes'', TPrim), (''ErrorLoopThreshold'', TPrim),
     (''TokenInflationMultiplier'', TPrim), (''CheckIntervalSeconds'', TPrim)]"

definition GatewayAnomalySpec_DeepCopyInto :: copier where
  "GatewayAnomalySpec_DeepCopyInto = copy_struct []"

definition GatewayAnomalySpec_DeepCopy :: copier where
  "GatewayAnomalySpec_DeepCopy = new_copy GatewayAnomalySpec_DeepCopyInto"

definition ClawGatewaySpec_type :: ty where
  "ClawGatewaySpec_type = TStruct
    [(''Topology'', TPrim), (''Port'', TPrim), (''Routing'', GatewayRoutingSpec_type),
     (''Anomaly'', GatewayAnomalySpec_type), (''Webhooks'', TSlice GatewayWebhookSpec_type)]"

definition ClawGatewaySpec_DeepCopyInto :: copier where
  "ClawGatewaySpec_DeepCopyInto = copy_struct
    [(''Routing'', GatewayRoutingSpec_DeepCopyInto), (''Anomaly'', assign),
     (''Webhooks'', copy_each GatewayWebhookSpec_DeepCopyInto)]"

definition ClawGatewaySpec_DeepCopy :: copier where
  "ClawGatewaySpec_DeepCopy = new_copy ClawGatewaySpec_DeepCopyInto"

definition ClawGatewayStatus_type :: "(string \<Rightarrow> ty) \<Rightarrow> ty" where
  "ClawGatewayStatus_type lt = TStruct
    [(''Conditions'', TSlice (lt ''Condition''))]"

definition ClawGatewayStatus_DeepCopyInto :: "(string \<Rightarrow> copier) \<Rightarrow> copier" where
  "ClawGatewayStatus_DeepCopyInto lc = copy_struct
    [(''Conditions'', copy_each (lc ''Condition''))]"

definition ClawGatewayStatus_DeepCopy :: "(string \<Rightarrow> copier) \<Rightarrow> copier" where
  "ClawGatewayStatus_DeepCopy lc = new_copy (ClawGatewayStatus_DeepCopyInto lc)"

definition ClawGateway_type :: "(string \<Rightarrow> ty) \<Rightarrow> ty" where
  "ClawGateway_type lt = TStruct
    [(''TypeMeta'', lt ''TypeMeta''), (''ObjectMeta'', lt ''ObjectMeta''), (''Spec'', ClawGatewaySpec_type),
     (''Status'', ClawGatewayStatus_type lt)]"

definition ClawGateway_DeepCopyInto :: "(string \<Rightarrow> copier) \<Rightarrow> copier" where
  "ClawGateway_DeepCopyInto lc = copy_struct
    [(''TypeMeta'', assign), (''ObjectMeta'', lc ''ObjectMeta''), (''Spec'', ClawGatewaySpec_DeepCopyInto),
     (''Status'', ClawGatewayStatus_DeepCopyInto lc)]"

definition ClawGateway_DeepCopy :: "(string \<Rightarrow> copier) \<Rightarrow> copier" where
  "ClawGateway_DeepCopy lc = new_copy (ClawGateway_DeepCopyInto lc)"

definition ClawGateway_DeepCopyObject :: "(string \<Rightarrow> copier) \<Rightarrow> copier" where
  "ClawGateway_DeepCopyObject lc = object_copy (ClawGateway_DeepCopy lc)"

definition ClawGatewayList_type :: "(string \<Rightarrow> ty) \<Rightarrow> ty" where
  "ClawGatewayList_type lt = TStruct
    [(''TypeMeta'', lt ''TypeMeta''), (''ListMeta'', lt ''ListMeta''),
     (''Items'', TSlice (ClawGateway_type lt))]"

definition ClawGatewayList_DeepCopyInto :: "(string \<Rightarrow> copier) \<Rightarrow> copier" where
  "ClawGatewayList_DeepCopyInto lc = copy_struct
    [(''TypeMeta'', assign), (''ListMeta'', lc ''ListMeta''),
     (''Items'', copy_each (ClawGateway_DeepCopyInto lc))]"

definition ClawGatewayList_DeepCopy :: "(string \<Rightarrow> copier) \<Rightarrow> copier" where
  "ClawGatewayList_DeepCopy lc = new_copy (ClawGatewayList_DeepCopyInto lc)"

definition ClawGatewayList_DeepCopyObject :: "(string \<Rightarrow> copier) \<Rightarrow> copier" where
  "ClawGatewayList_DeepCopyObject lc = object_copy (ClawGatewayList_DeepCopy lc)"

lemmas gateway_copy_defs =
  GatewayWebhookSpec_type_def EvaluatorRouteSpec_type_def GatewayEvaluatorSpec_type_def
  GatewayRoutingSpec_type_def GatewayAnomalySpec_type_def ClawGatewaySpec_type_def
  ClawGatewayStatus_type_def ClawGateway_type_def ClawGatewayList_type_def
  GatewayWebhookSpec_DeepCopyInto_def EvaluatorRouteSpec_DeepCopyInto_def
  GatewayEvaluatorSpec_DeepCopyInto_def GatewayRoutingSpec_DeepCopyInto_def
  GatewayAnomalySpec_DeepCopyInto_def ClawGatewaySpec_DeepCopyInto_def
  ClawGatewayStatus_DeepCopyInto_def ClawGateway_DeepCopyInto_def ClawGatewayList_DeepCopyInto_def

section \<open>Observability\<close>

definition TempoStorageSpec_type :: ty where
  "TempoStorageSpec_type = TStruct
    [(''Size'', TPrim), (''StorageClass'', TPrim)]"

definition TempoStorageSpec_DeepCopyInto :: copier where
  "TempoStorageSpec_DeepCopyInto = copy_struct []"

definition TempoStorageSpec_DeepCopy :: copier where
  "TempoStorageSpec_DeepCopy = new_copy TempoStorageSpec_DeepCopyInto"

definition TempoSpec_type :: ty where
  "TempoSpec_type = TStruct
    [(''Enabled'', TPrim), (''RetentionDays'', TPrim), (''Storage'', TempoStorageSpec_type)]"

definition TempoSpec_DeepCopyInto :: copier where
  "TempoSpec_DeepCopyInto = copy_struct
    [(''Storage'', assign)]"

definition TempoSpec_DeepCopy :: copier where
  "TempoSpec_DeepCopy = new_copy TempoSpec_DeepCopyInto"

definition GrafanaSpec_type :: ty where
  "GrafanaSpec_type = TStruct
    [(''Enabled'', TPrim), (''Dashboards'', TSlice TPrim), (''AdminCredentialsSecret'', TPrim),
     (''Expose'', TPrim)]"

definition GrafanaSpec_DeepCopyInto :: copier where
  "GrafanaSpec_DeepCopyInto = copy_struct
    [(''Dashboards'', copy_elems)]"

definition GrafanaSpec_DeepCopy :: copier where
  "GrafanaSpec_DeepCopy = new_copy GrafanaSpec_DeepCopyInto"

definition ClawObservabilitySpec_type :: ty where
  "ClawObservabilitySpec_type = TStruct
    [(''Tempo'', TempoSpec_type), (''Grafana'', GrafanaSpec_type), (''OTLPEndpoint'', TPrim),
     (''OTLPProtocol'', TPrim)]"

definition ClawObservabilitySpec_DeepCopyInto :: copier where
  "ClawObservabilitySpec_DeepCopyInto = copy_struct
    [(''Tempo'', assign), (''Grafana'', GrafanaSpec_DeepCopyInto)]"

definition ClawObservabilitySpec_DeepCopy :: copier where
  "ClawObservabilitySpec_DeepCopy = new_copy ClawObservabilitySpec_DeepCopyInto"

definition ClawObservabilityStatus_type :: "(string \<Rightarrow> ty) \<Rightarrow> ty" where
  "ClawObservabilityStatus_type lt = TStruct
    [(''Conditions'', TSlice (lt ''Condition'')), (''TempoReady'', TPrim), (''GrafanaReady'', TPrim)]"

definition ClawObservabilityStatus_DeepCopyInto :: "(string \<Rightarrow> copier) \<Rightarrow> copier" where
  "ClawObservabilityStatus_DeepCopyInto lc = copy_struct
    [(''Conditions'', copy_each (lc ''Condition''))]"

definition ClawObservabilityStatus_DeepCopy :: "(string \<Rightarrow> copier) \<Rightarrow> copier" where
  "ClawObservabilityStatus_DeepCopy lc = new_copy (ClawObservabilityStatus_DeepCopyInto lc)"

definition ClawObservability_type :: "(string \<Rightarrow> ty) \<Rightarrow> ty" where
  "ClawObservability_type lt = TStruct
    [(''TypeMeta'', lt ''TypeMeta''), (''ObjectMeta'', lt ''ObjectMeta''),
     (''Spec'', ClawObservabilitySpec_type), (''Status'', ClawObservabilityStatus_type lt)]"

definition ClawObservability_DeepCopyInto :: "(string \<Rightarrow> copier) \<Rightarrow> copier" where
  "ClawObservability_DeepCopyInto lc = copy_struct
    [(''TypeMeta'', assign), (''ObjectMeta'', lc ''ObjectMeta''),
     (''Spec'', ClawObservabilitySpec_DeepCopyInto), (''Status'', ClawObservabilityStatus_DeepCopyInto lc)]"

definition ClawObservability_DeepCopy :: "(string \<Rightarrow> copier) \<Rightarrow> copier" where
  "ClawObservability_DeepCopy lc = new_copy (ClawObservability_DeepCopyInto lc)"

definition ClawObservability_DeepCopyObject :: "(string \<Rightarrow> copier) \<Rightarrow> copier" where
  "ClawObservability_DeepCopyObject lc = object_copy (ClawObservability_DeepCopy lc)"

definition ClawObservabilityList_type :: "(string \<Rightarrow> ty) \<Rightarrow> ty" where
  "ClawObservabilityList_type lt = TStruct
    [(''TypeMeta'', lt ''TypeMeta''), (''ListMeta'', lt ''ListMeta''),
     (''Items'', TSlice (ClawObservability_type lt))]"

definition ClawObservabilityList_DeepCopyInto :: "(string \<Rightarrow> copier) \<Rightarrow> copier" where
  "ClawObservabilityList_DeepCopyInto lc = copy_struct
    [(''TypeMeta'', assign), (''ListMeta'', lc ''ListMeta''),
     (''Items'', copy_each (ClawObservability_DeepCopyInto lc))]"

definition ClawObservabilityList_DeepCopy :: "(string \<Rightarrow> copier) \<Rightarrow> copier" where
  "ClawObservabilityList_DeepCopy lc = new_copy (ClawObservabilityList_DeepCopyInto lc)"

definition ClawObservabilityList_DeepCopyObject :: "(string \<Rightarrow> copier) \<Rightarrow> copier" where
  "ClawObservabilityList_DeepCopyObject lc = object_copy (ClawObservabilityList_DeepCopy lc)"

lemmas observability_copy_defs =
  TempoStorageSpec_type_def TempoSpec_type_def GrafanaSpec_type_def
  ClawObservabilitySpec_type_def ClawObservabilityStatus_type_def ClawObservability_type_def
  ClawObservabilityList_type_def TempoStorageSpec_DeepCopyInto_def TempoSpec_DeepCopyInto_def
  GrafanaSpec_DeepCopyInto_def ClawObservabilitySpec_DeepCopyInto_def
  ClawObservabilityStatus_DeepCopyInto_def ClawObservability_DeepCopyInto_def
  ClawObservabilityList_DeepCopyInto_def

section \<open>All of them\<close>

definition deep_copy_functions :: "(string \<Rightarrow> ty) \<Rightarrow> (string \<Rightarrow> copier) \<Rightarrow> (ty \<times> copier) list" where
  "deep_copy_functions lt lc =
    [(AgentIdentitySpec_type, AgentIdentitySpec_DeepCopy),
     (TelemetryCaptureSpec_type, TelemetryCaptureSpec_DeepCopy),
     (ModelFallbackSpec_type, ModelFallbackSpec_DeepCopy), (AgentModelSpec_type, AgentModelSpec_DeepCopy),
     (AgentResourceRequirements_type lt, AgentResourceRequirements_DeepCopy lc),
     (AgentLifecycleSpec_type, AgentLifecycleSpec_DeepCopy), (WorkspaceSpec_type, WorkspaceSpec_DeepCopy),
     (HarnessSpec_type, HarnessSpec_DeepCopy), (A2APeer_type, A2APeer_DeepCopy),
     (A2ASpec_type, A2ASpec_DeepCopy), (ClawAgentSpec_type lt, ClawAgentSpec_DeepCopy lc),
     (ClawAgentStatus_type lt, ClawAgentStatus_DeepCopy lc), (ClawAgent_type lt, ClawAgent_DeepCopy lc),
     (ClawAgent_type lt, ClawAgent_DeepCopyObject lc), (ClawAgentList_type lt, ClawAgentList_DeepCopy lc),
     (ClawAgentList_type lt, ClawAgentList_DeepCopyObject lc),
     (ClawChannelSpec_type, ClawChannelSpec_DeepCopy),
     (ClawChannelStatus_type lt, ClawChannelStatus_DeepCopy lc),
     (ClawChannel_type lt, ClawChannel_DeepCopy lc), (ClawChannel_type lt, ClawChannel_DeepCopyObject lc),
     (ClawChannelList_type lt, ClawChannelList_DeepCopy lc),
     (ClawChannelList_type lt, ClawChannelList_DeepCopyObject lc),
     (ToolPolicySpec_type, ToolPolicySpec_DeepCopy), (BudgetSpec_type, BudgetSpec_DeepCopy),
     (ClawPolicySpec_type, ClawPolicySpec_DeepCopy),
     (ClawPolicyStatus_type lt, ClawPolicyStatus_DeepCopy lc), (ClawPolicy_type lt, ClawPolicy_DeepCopy lc),
     (ClawPolicy_type lt, ClawPolicy_DeepCopyObject lc),
     (ClawPolicyList_type lt, ClawPolicyList_DeepCopy lc),
     (ClawPolicyList_type lt, ClawPolicyList_DeepCopyObject lc), (SkillEntry_type, SkillEntry_DeepCopy),
     (ClawSkillSetSpec_type, ClawSkillSetSpec_DeepCopy),
     (ClawSkillSetStatus_type lt, ClawSkillSetStatus_DeepCopy lc),
     (ClawSkillSet_type lt, ClawSkillSet_DeepCopy lc),
     (ClawSkillSet_type lt, ClawSkillSet_DeepCopyObject lc),
     (ClawSkillSetList_type lt, ClawSkillSetList_DeepCopy lc),
     (ClawSkillSetList_type lt, ClawSkillSetList_DeepCopyObject lc),
     (GatewayWebhookSpec_type, GatewayWebhookSpec_DeepCopy),
     (EvaluatorRouteSpec_type, EvaluatorRouteSpec_DeepCopy),
     (GatewayEvaluatorSpec_type, GatewayEvaluatorSpec_DeepCopy),
     (GatewayRoutingSpec_type, GatewayRoutingSpec_DeepCopy),
     (GatewayAnomalySpec_type, GatewayAnomalySpec_DeepCopy),
     (ClawGatewaySpec_type, ClawGatewaySpec_DeepCopy),
     (ClawGatewayStatus_type lt, ClawGatewayStatus_DeepCopy lc),
     (ClawGateway_type lt, ClawGateway_DeepCopy lc), (ClawGateway_type lt, ClawGateway_DeepCopyObject lc),
     (ClawGatewayList_type lt, ClawGatewayList_DeepCopy lc),
     (ClawGatewayList_type lt, ClawGatewayList_DeepCopyObject lc),
     (TempoStorageSpec_type, TempoStorageSpec_DeepCopy), (TempoSpec_type, TempoSpec_DeepCopy),
     (GrafanaSpec_type, GrafanaSpec_DeepCopy), (ClawObservabilitySpec_type, ClawObservabilitySpec_DeepCopy),
     (ClawObservabilityStatus_type lt, ClawObservabilityStatus_DeepCopy lc),
     (ClawObservability_type lt, ClawObservability_DeepCopy lc),
     (ClawObservability_type lt, ClawObservability_DeepCopyObject lc),
     (ClawObservabilityList_type lt, ClawObservabilityList_DeepCopy lc),
     (ClawObservabilityList_type lt, ClawObservabilityList_DeepCopyObject lc)]"

lemmas deep_copy_defs =
  AgentIdentitySpec_DeepCopy_def TelemetryCaptureSpec_DeepCopy_def ModelFallbackSpec_DeepCopy_def
  AgentModelSpec_DeepCopy_def AgentResourceRequirements_DeepCopy_def
  AgentLifecycleSpec_DeepCopy_def WorkspaceSpec_DeepCopy_def HarnessSpec_DeepCopy_def
  A2APeer_DeepCopy_def A2ASpec_DeepCopy_def ClawAgentSpec_DeepCopy_def
  ClawAgentStatus_DeepCopy_def ClawAgent_DeepCopy_def ClawAgentList_DeepCopy_def
  ClawChannelSpec_DeepCopy_def ClawChannelStatus_DeepCopy_def ClawChannel_DeepCopy_def
  ClawChannelList_DeepCopy_def ToolPolicySpec_DeepCopy_def BudgetSpec_DeepCopy_def
  ClawPolicySpec_DeepCopy_def ClawPolicyStatus_DeepCopy_def ClawPolicy_DeepCopy_def
  ClawPolicyList_DeepCopy_def SkillEntry_DeepCopy_def ClawSkillSetSpec_DeepCopy_def
  ClawSkillSetStatus_DeepCopy_def ClawSkillSet_DeepCopy_def ClawSkillSetList_DeepCopy_def
  GatewayWebhookSpec_DeepCopy_def EvaluatorRouteSpec_DeepCopy_def GatewayEvaluatorSpec_DeepCopy_def
  GatewayRoutingSpec_DeepCopy_def GatewayAnomalySpec_DeepCopy_def ClawGatewaySpec_DeepCopy_def
  ClawGatewayStatus_DeepCopy_def ClawGateway_DeepCopy_def ClawGatewayList_DeepCopy_def
  TempoStorageSpec_DeepCopy_def TempoSpec_DeepCopy_def GrafanaSpec_DeepCopy_def
  ClawObservabilitySpec_DeepCopy_def ClawObservabilityStatus_DeepCopy_def
  ClawObservability_DeepCopy_def ClawObservabilityList_DeepCopy_def ClawAgent_DeepCopyObject_def
  ClawAgentList_DeepCopyObject_def ClawChannel_DeepCopyObject_def
  ClawChannelList_DeepCopyObject_def ClawPolicy_DeepCopyObject_def
  ClawPolicyList_DeepCopyObject_def ClawSkillSet_DeepCopyObject_def
  ClawSkillSetList_DeepCopyObject_def ClawGateway_DeepCopyObject_def
  ClawGatewayList_DeepCopyObject_def ClawObservability_DeepCopyObject_def
  ClawObservabilityList_DeepCopyObject_def

section \<open>What they rely on and what they guarantee\<close>

text \<open>The types of the library are copied deeply by their own functions; \<open>TypeMeta\<close> is two strings.\<close>

locale library_types =
  fixes lt :: "string \<Rightarrow> ty" and lc :: "string \<Rightarrow> copier"
  assumes TypeMeta: "ref_free (lt ''TypeMeta'')"
    and ObjectMeta: "deep_copies (lt ''ObjectMeta'') (lc ''ObjectMeta'')"
    and ListMeta: "deep_copies (lt ''ListMeta'') (lc ''ListMeta'')"
    and Condition: "deep_copies (lt ''Condition'') (lc ''Condition'')"
    and Quantity: "deep_copies (lt ''Quantity'') (lc ''Quantity'')"
begin

lemmas library = TypeMeta ObjectMeta ListMeta Condition Quantity

lemma agent_copies:
  "deep_copies AgentIdentitySpec_type AgentIdentitySpec_DeepCopyInto"
  "deep_copies TelemetryCaptureSpec_type TelemetryCaptureSpec_DeepCopyInto"
  "deep_copies ModelFallbackSpec_type ModelFallbackSpec_DeepCopyInto"
  "deep_copies AgentModelSpec_type AgentModelSpec_DeepCopyInto"
  "deep_copies (AgentResourceRequirements_type lt) (AgentResourceRequirements_DeepCopyInto lc)"
  "deep_copies AgentLifecycleSpec_type AgentLifecycleSpec_DeepCopyInto"
  "deep_copies WorkspaceSpec_type WorkspaceSpec_DeepCopyInto"
  "deep_copies HarnessSpec_type HarnessSpec_DeepCopyInto"
  "deep_copies A2APeer_type A2APeer_DeepCopyInto"
  "deep_copies A2ASpec_type A2ASpec_DeepCopyInto"
  "deep_copies (ClawAgentSpec_type lt) (ClawAgentSpec_DeepCopyInto lc)"
  "deep_copies (ClawAgentStatus_type lt) (ClawAgentStatus_DeepCopyInto lc)"
  "deep_copies (ClawAgent_type lt) (ClawAgent_DeepCopyInto lc)"
  "deep_copies (ClawAgentList_type lt) (ClawAgentList_DeepCopyInto lc)"
  by (simp_all add: agent_copy_defs covers_def deep_intros library)

lemma channel_copies:
  "deep_copies ClawChannelSpec_type ClawChannelSpec_DeepCopyInto"
  "deep_copies (ClawChannelStatus_type lt) (ClawChannelStatus_DeepCopyInto lc)"
  "deep_copies (ClawChannel_type lt) (ClawChannel_DeepCopyInto lc)"
  "deep_copies (ClawChannelList_type lt) (ClawChannelList_DeepCopyInto lc)"
  by (simp_all add: channel_copy_defs covers_def deep_intros library)

lemma policy_copies:
  "deep_copies ToolPolicySpec_type ToolPolicySpec_DeepCopyInto"
  "deep_copies BudgetSpec_type BudgetSpec_DeepCopyInto"
  "deep_copies ClawPolicySpec_type ClawPolicySpec_DeepCopyInto"
  "deep_copies (ClawPolicyStatus_type lt) (ClawPolicyStatus_DeepCopyInto lc)"
  "deep_copies (ClawPolicy_type lt) (ClawPolicy_DeepCopyInto lc)"
  "deep_copies (ClawPolicyList_type lt) (ClawPolicyList_DeepCopyInto lc)"
  by (simp_all add: policy_copy_defs covers_def deep_intros library)

lemma skillset_copies:
  "deep_copies SkillEntry_type SkillEntry_DeepCopyInto"
  "deep_copies ClawSkillSetSpec_type ClawSkillSetSpec_DeepCopyInto"
  "deep_copies (ClawSkillSetStatus_type lt) (ClawSkillSetStatus_DeepCopyInto lc)"
  "deep_copies (ClawSkillSet_type lt) (ClawSkillSet_DeepCopyInto lc)"
  "deep_copies (ClawSkillSetList_type lt) (ClawSkillSetList_DeepCopyInto lc)"
  by (simp_all add: skillset_copy_defs covers_def deep_intros library)

lemma gateway_copies:
  "deep_copies GatewayWebhookSpec_type GatewayWebhookSpec_DeepCopyInto"
  "deep_copies EvaluatorRouteSpec_type EvaluatorRouteSpec_DeepCopyInto"
  "deep_copies GatewayEvaluatorSpec_type GatewayEvaluatorSpec_DeepCopyInto"
  "deep_copies GatewayRoutingSpec_type GatewayRoutingSpec_DeepCopyInto"
  "deep_copies GatewayAnomalySpec_type GatewayAnomalySpec_DeepCopyInto"
  "deep_copies ClawGatewaySpec_type ClawGatewaySpec_DeepCopyInto"
  "deep_copies (ClawGatewayStatus_type lt) (ClawGatewayStatus_DeepCopyInto lc)"
  "deep_copies (ClawGateway_type lt) (ClawGateway_DeepCopyInto lc)"
  "deep_copies (ClawGatewayList_type lt) (ClawGatewayList_DeepCopyInto lc)"
  by (simp_all add: gateway_copy_defs covers_def deep_intros library)

lemma observability_copies:
  "deep_copies TempoStorageSpec_type TempoStorageSpec_DeepCopyInto"
  "deep_copies TempoSpec_type TempoSpec_DeepCopyInto"
  "deep_copies GrafanaSpec_type GrafanaSpec_DeepCopyInto"
  "deep_copies ClawObservabilitySpec_type ClawObservabilitySpec_DeepCopyInto"
  "deep_copies (ClawObservabilityStatus_type lt) (ClawObservabilityStatus_DeepCopyInto lc)"
  "deep_copies (ClawObservability_type lt) (ClawObservability_DeepCopyInto lc)"
  "deep_copies (ClawObservabilityList_type lt) (ClawObservabilityList_DeepCopyInto lc)"
  by (simp_all add: observability_copy_defs covers_def deep_intros library)

lemma all_copies: "\<forall>(t, dc) \<in> set (deep_copy_functions lt lc). deep_copies (TPointer t) dc"
  using agent_copies channel_copies policy_copies skillset_copies gateway_copies observability_copies
  by (simp add: deep_copy_functions_def deep_copy_defs deep_new_copy deep_object_copy)

end

text \<open>A stand-in for the library with a map, a pointer and plain structs, for examples.\<close>

definition example_lt :: "string \<Rightarrow> ty" where
  "example_lt n =
     (if n = ''ObjectMeta'' then TStruct [(''Name'', TPrim), (''Labels'', TMap TPrim)]
      else if n = ''Quantity'' then TStruct [(''i'', TPrim), (''d'', TPointer TPrim), (''s'', TPrim), (''Format'', TPrim)]
      else if n = ''Condition'' then TStruct [(''Type'', TPrim), (''Status'', TPrim)]
      else TStruct [(''Kind'', TPrim), (''APIVersion'', TPrim)])"

definition example_lc :: "string \<Rightarrow> copier" where
  "example_lc n =
     (if n = ''ObjectMeta'' then copy_struct [(''Labels'', copy_map assign)]
      else if n = ''Quantity'' then copy_struct [(''d'', copy_pointer)]
      else assign)"

interpretation example_library: library_types example_lt example_lc
  by unfold_locales (simp_all add: example_lt_def example_lc_def covers_def deep_intros)

lemma agree_reads:
  assumes "reads t m v = Some x" "\<forall>a. a \<notin> S \<longrightarrow> cell_at m' a = cell_at m a" "reaches t m v \<inter> S = {}"
  shows "reads t m' v = Some x"
  using reads_frame(1) [of t m v m'] assms by auto

text \<open>C34: Every deep copy function of the API package gives an independent copy. If a pointer to a value
  of its type can be followed to the end, the copy can too and reads the same; the original still
  reads the same; and the two share no cell, so whatever is then written to the cells of the one,
  the other reads as before. Nil gives nil. No cell that existed before is written: the memory
  after the call is the memory before it with the cells of the copy appended.\<close>

theorem deep_copy_independent:
  assumes "library_types lt lc" "(t, dc) \<in> set (deep_copy_functions lt lc)" "reads (TPointer t) m p = Some x"
  shows "\<exists>q m'. dc m p = Some (q, m') \<and> take (length m) m' = m \<and> reaches (TPointer t) m' q \<subseteq> {length m..} \<and>
    reads (TPointer t) m' q = Some x \<and> reads (TPointer t) m' p = Some x \<and>
    reaches (TPointer t) m' q \<inter> reaches (TPointer t) m' p = {} \<and> (p = Pointer None \<longrightarrow> q = Pointer None) \<and>
    (\<forall>m''. (\<forall>a. a \<notin> reaches (TPointer t) m' q \<longrightarrow> cell_at m'' a = cell_at m' a) \<longrightarrow> reads (TPointer t) m'' p = Some x) \<and>
    (\<forall>m''. (\<forall>a. a \<notin> reaches (TPointer t) m' p \<longrightarrow> cell_at m'' a = cell_at m' a) \<longrightarrow> reads (TPointer t) m'' q = Some x)"
proof -
  let ?t = "TPointer t"
  have "deep_copies ?t dc" using library_types.all_copies [OF assms(1)] assms(2) by blast
  from deep_copiesD [OF this assms(3)] obtain q m' where
    q: "dc m p = Some (q, m')" "extends m m'" "reads ?t m' q = Some x" "reaches ?t m' q \<subseteq> {length m..}" by blast
  have p: "reads ?t m' p = Some x" "reaches ?t m' p = reaches ?t m p" using extends_reads [OF q(2) assms(3)] by auto
  have "reaches ?t m p \<subseteq> {..<length m}" using reads_reaches(1) [of ?t m p] assms(3) by simp
  with p(2) q(4) have disj: "reaches ?t m' q \<inter> reaches ?t m' p = {}" by fastforce
  have "q = Pointer None" if "p = Pointer None"
    using assms(3) q(3) that by (auto split: val.splits option.splits cell.splits)
  moreover have "reaches ?t m' p \<inter> reaches ?t m' q = {}" using disj by blast
  moreover have "take (length m) m' = m" using q(2) by (auto simp: extends_def)
  ultimately show ?thesis
    using q(1,3,4) p(1) disj agree_reads [OF q(3)] agree_reads [OF p(1)]
    by (intro exI [of _ q] exI [of _ m'] conjI allI impI) blast+
qed

text \<open>A channel with its flag and its settings in cells of their own, for the example.\<close>

definition channel_memory :: memory where
  "channel_memory =
     [Var (Prim (GBool True)), Table [(''room'', Prim (GString ''ops''))],
      Var (Struct [(''Type'', Prim (GString ''slack'')), (''Enabled'', Pointer (Some 0)),
        (''CredentialsSecret'', Prim (GString '''')), (''Config'', MapRef (Some 1))])]"

theorem deep_copy_independent_witness:
  "\<exists>q m' x. ClawChannelSpec_DeepCopy channel_memory (Pointer (Some 2)) = Some (q, m') \<and>
     reads (TPointer ClawChannelSpec_type) (m'[1 := Table []]) q = Some x \<and>
     reads (TPointer ClawChannelSpec_type) (m'[1 := Table []]) (Pointer (Some 2)) \<noteq> Some x"
proof -
  let ?t = "TPointer ClawChannelSpec_type" and ?p = "Pointer (Some 2)"
  define x where "x = PointerT (StructT [(''Type'', PrimT (GString ''slack'')), (''Enabled'', PointerT (PrimT (GBool True))),
    (''CredentialsSecret'', PrimT (GString '''')), (''Config'', MapT [(''room'', PrimT (GString ''ops''))])])"
  have r: "reads ?t channel_memory ?p = Some x"
    by (simp add: ClawChannelSpec_type_def channel_memory_def cell_at_def x_def)
  have mem: "(ClawChannelSpec_type, ClawChannelSpec_DeepCopy) \<in> set (deep_copy_functions example_lt example_lc)"
    by (simp add: deep_copy_functions_def)
  let ?m = "channel_memory @ [Var (Struct [(''Type'', Prim (GString ''slack'')), (''Enabled'', Pointer (Some 4)),
      (''CredentialsSecret'', Prim (GString '''')), (''Config'', MapRef (Some 5))]),
    Var (Prim (GBool True)), Table [(''room'', Prim (GString ''ops''))]]"
  have run: "ClawChannelSpec_DeepCopy channel_memory ?p = Some (Pointer (Some 3), ?m)"
    unfolding channel_memory_def by code_simp
  from deep_copy_independent [OF example_library.library_types_axioms mem r] run
  have keep: "(\<forall>a. a \<notin> reaches ?t ?m ?p \<longrightarrow> cell_at m'' a = cell_at ?m a) \<Longrightarrow> reads ?t m'' (Pointer (Some 3)) = Some x" for m''
    by (simp only: option.inject prod.inject) blast
  have "1 \<in> reaches ?t ?m ?p" by (simp add: ClawChannelSpec_type_def channel_memory_def cell_at_def)
  then have "reads ?t (?m[1 := Table []]) (Pointer (Some 3)) = Some x"
    by (intro keep) (auto simp: cell_at_def nth_list_update)
  moreover have "reads ?t (?m[1 := Table []]) ?p \<noteq> Some x"
    by (simp add: ClawChannelSpec_type_def channel_memory_def cell_at_def x_def)
  ultimately show ?thesis using run by blast
qed

end
