(* ===== verification/Scheme.thy ===== *)
theory Scheme
  imports DeepCopy ApiRoutes
begin

text \<open>
  The scheme of the API group (\<open>src/api/v1/groupversion_info.go\<close> and the \<open>init\<close> functions of the types):
  which Go type stands for which kind. The client finds the kind of an object, and a cache copies the
  objects it hands out, through what is registered here.
\<close>

record GroupVersion =
  gv_Group :: string
  gv_Version :: string

definition SchemeGroupVersion :: GroupVersion where
  "SchemeGroupVersion = \<lparr>gv_Group = ''claw.clawbernetes.io'', gv_Version = ''v1''\<rparr>"

text \<open>A registration: the name of the Go type, its structure and its \<open>DeepCopyObject\<close>.\<close>

type_synonym registration = "string \<times> ty \<times> copier"

definition clawagent_init :: "(string \<Rightarrow> ty) \<Rightarrow> (string \<Rightarrow> copier) \<Rightarrow> registration list" where
  "clawagent_init lt lc = [(''ClawAgent'', ClawAgent_type lt, ClawAgent_DeepCopyObject lc),
     (''ClawAgentList'', ClawAgentList_type lt, ClawAgentList_DeepCopyObject lc)]"

definition clawchannel_init :: "(string \<Rightarrow> ty) \<Rightarrow> (string \<Rightarrow> copier) \<Rightarrow> registration list" where
  "clawchannel_init lt lc = [(''ClawChannel'', ClawChannel_type lt, ClawChannel_DeepCopyObject lc),
     (''ClawChannelList'', ClawChannelList_type lt, ClawChannelList_DeepCopyObject lc)]"

definition clawgateway_init :: "(string \<Rightarrow> ty) \<Rightarrow> (string \<Rightarrow> copier) \<Rightarrow> registration list" where
  "clawgateway_init lt lc = [(''ClawGateway'', ClawGateway_type lt, ClawGateway_DeepCopyObject lc),
     (''ClawGatewayList'', ClawGatewayList_type lt, ClawGatewayList_DeepCopyObject lc)]"

definition clawobservability_init :: "(string \<Rightarrow> ty) \<Rightarrow> (string \<Rightarrow> copier) \<Rightarrow> registration list" where
  "clawobservability_init lt lc = [(''ClawObservability'', ClawObservability_type lt, ClawObservability_DeepCopyObject lc),
     (''ClawObservabilityList'', ClawObservabilityList_type lt, ClawObservabilityList_DeepCopyObject lc)]"

definition clawpolicy_init :: "(string \<Rightarrow> ty) \<Rightarrow> (string \<Rightarrow> copier) \<Rightarrow> registration list" where
  "clawpolicy_init lt lc = [(''ClawPolicy'', ClawPolicy_type lt, ClawPolicy_DeepCopyObject lc),
     (''ClawPolicyList'', ClawPolicyList_type lt, ClawPolicyList_DeepCopyObject lc)]"

definition clawskillset_init :: "(string \<Rightarrow> ty) \<Rightarrow> (string \<Rightarrow> copier) \<Rightarrow> registration list" where
  "clawskillset_init lt lc = [(''ClawSkillSet'', ClawSkillSet_type lt, ClawSkillSet_DeepCopyObject lc),
     (''ClawSkillSetList'', ClawSkillSetList_type lt, ClawSkillSetList_DeepCopyObject lc)]"

text \<open>What \<open>SchemeBuilder\<close> has collected when the package is initialised, and \<open>AddToScheme\<close> adds.\<close>

definition SchemeBuilder :: "(string \<Rightarrow> ty) \<Rightarrow> (string \<Rightarrow> copier) \<Rightarrow> registration list" where
  "SchemeBuilder lt lc = clawagent_init lt lc @ clawchannel_init lt lc @ clawgateway_init lt lc @
     clawobservability_init lt lc @ clawpolicy_init lt lc @ clawskillset_init lt lc"

definition AddToScheme :: "(string \<Rightarrow> ty) \<Rightarrow> (string \<Rightarrow> copier) \<Rightarrow> ((GroupVersion \<times> string) \<times> ty \<times> copier) list" where
  "AddToScheme lt lc = map (\<lambda>(kind, t). ((SchemeGroupVersion, kind), t)) (SchemeBuilder lt lc)"

lemmas scheme_defs = AddToScheme_def SchemeBuilder_def clawagent_init_def clawchannel_init_def clawgateway_init_def
  clawobservability_init_def clawpolicy_init_def clawskillset_init_def

text \<open>No kind is registered twice, so each is one type.\<close>

lemma scheme_one_type: "distinct (map fst (AddToScheme lt lc))"
  by (simp add: scheme_defs)

text \<open>Every kind the API serves is registered with its list.\<close>

fun kind_name :: "Kind \<Rightarrow> string" where
  "kind_name KClawAgent = ''ClawAgent''"
| "kind_name KClawChannel = ''ClawChannel''"
| "kind_name KClawPolicy = ''ClawPolicy''"
| "kind_name KClawSkillSet = ''ClawSkillSet''"
| "kind_name KClawGateway = ''ClawGateway''"
| "kind_name KClawObservability = ''ClawObservability''"
| "kind_name KConfigMap = ''ConfigMap''"
| "kind_name KDeployment = ''Deployment''"
| "kind_name KService = ''Service''"
| "kind_name KPVC = ''PersistentVolumeClaim''"
| "kind_name KPod = ''Pod''"

lemma served_kinds_registered:
  "(path, k) \<in> set resources \<Longrightarrow>
   {(SchemeGroupVersion, kind_name k), (SchemeGroupVersion, kind_name k @ ''List'')} \<subseteq> fst ` set (AddToScheme lt lc)"
  by (auto simp: resources_def scheme_defs)

text \<open>What is registered copies deeply.\<close>

context library_types
begin

lemma registered_copies: "(gvk, t, c) \<in> set (AddToScheme lt lc) \<Longrightarrow> deep_copies (TPointer t) c"
  using all_copies by (auto simp: scheme_defs deep_copy_functions_def)

end

end
