(* ===== verification/Manager.thy ===== *)
theory Manager
  imports ApiServer
begin

text \<open>
  The entry point (\<open>cmd/main.go\<close>): the command line, the options of the manager, and the order in which
  the controllers, the checks and the API server are set up, with every way the program ends.
\<close>

section \<open>The command line\<close>

text \<open>\<open>strconv.ParseBool\<close>\<close>

definition ParseBool :: "string \<Rightarrow> bool option" where
  "ParseBool s =
     (if s \<in> {''1'', ''t'', ''T'', ''TRUE'', ''true'', ''True''} then Some True
      else if s \<in> {''0'', ''f'', ''F'', ''FALSE'', ''false'', ''False''} then Some False
      else None)"

text \<open>
  A flag of package \<open>flag\<close>: what it does to the variables. The libraries define flags of their own on
  the same command line (\<open>kubeconfig\<close>, those of the logger): whether such a flag is boolean, and
  which values it takes.
\<close>

datatype 'o flag = StringVar "string \<Rightarrow> 'o \<Rightarrow> 'o" | BoolVar "bool \<Rightarrow> 'o \<Rightarrow> 'o" | LibraryFlag bool "string \<Rightarrow> bool"

fun set_flag :: "'o flag \<Rightarrow> string \<Rightarrow> 'o \<Rightarrow> 'o option" where
  "set_flag (StringVar f) s opts = Some (f s opts)"
| "set_flag (BoolVar f) s opts = map_option (\<lambda>b. f b opts) (ParseBool s)"
| "set_flag (LibraryFlag _ accepts) s opts = (if accepts s then Some opts else None)"

fun is_bool :: "'o flag \<Rightarrow> bool" where
  "is_bool (StringVar _) = False"
| "is_bool (BoolVar _) = True"
| "is_bool (LibraryFlag b _) = b"

datatype 'o parsed = Parsed 'o "string list" | HelpAsked | BadFlag string

text \<open>The name and the value of an argument without its dashes; the first character is of the name.\<close>

definition name_value :: "string \<Rightarrow> string \<times> string option" where
  "name_value s = (case cut_at CHR ''='' (tl s) of (n, v) \<Rightarrow> (hd s # n, v))"

fun parse_flags :: "(string \<times> 'o flag) list \<Rightarrow> 'o \<Rightarrow> string list \<Rightarrow> 'o parsed" where
  "parse_flags flags opts [] = Parsed opts []"
| "parse_flags flags opts (s # args) =
     (if length s < 2 \<or> hd s \<noteq> CHR ''-'' then Parsed opts (s # args)
      else if s = ''--'' then Parsed opts args
      else (let body = (if s ! 1 = CHR ''-'' then drop 2 s else drop 1 s) in
        if body = '''' \<or> hd body = CHR ''-'' \<or> hd body = CHR ''='' then BadFlag ''bad flag syntax''
        else (let (name, value) = name_value body in
          case map_of flags name of
            None \<Rightarrow> if name = ''help'' \<or> name = ''h'' then HelpAsked else BadFlag ''flag provided but not defined''
          | Some flag \<Rightarrow>
              if is_bool flag then
                (case set_flag flag (case value of Some v \<Rightarrow> v | None \<Rightarrow> ''true'') opts of
                   None \<Rightarrow> BadFlag ''invalid boolean value''
                 | Some opts' \<Rightarrow> parse_flags flags opts' args)
              else
                (case value of
                   Some v \<Rightarrow>
                     (case set_flag flag v opts of
                        None \<Rightarrow> BadFlag ''invalid value'' | Some opts' \<Rightarrow> parse_flags flags opts' args)
                 | None \<Rightarrow>
                     (case args of
                        [] \<Rightarrow> BadFlag ''flag needs an argument''
                      | v # rest \<Rightarrow>
                          (case set_flag flag v opts of
                             None \<Rightarrow> BadFlag ''invalid value'' | Some opts' \<Rightarrow> parse_flags flags opts' rest))))))"

text \<open>The variables of \<open>main\<close>, their defaults, and the flags that set them.\<close>

record Options =
  metricsAddr :: string
  probeAddr :: string
  enableLeaderElection :: bool
  secureMetrics :: bool
  webhookCertPath :: string
  webhookCertName :: string
  webhookCertKey :: string
  metricsCertPath :: string
  metricsCertName :: string
  metricsCertKey :: string
  enableHTTP2 :: bool

definition default_options :: Options where
  "default_options = \<lparr>metricsAddr = ''0'', probeAddr = '':8081'', enableLeaderElection = False, secureMetrics = True,
     webhookCertPath = '''', webhookCertName = ''tls.crt'', webhookCertKey = ''tls.key'',
     metricsCertPath = '''', metricsCertName = ''tls.crt'', metricsCertKey = ''tls.key'', enableHTTP2 = False\<rparr>"

definition main_flags :: "(string \<times> Options flag) list" where
  "main_flags =
     [(''metrics-bind-address'', StringVar (\<lambda>s opts. opts\<lparr>metricsAddr := s\<rparr>)),
      (''health-probe-bind-address'', StringVar (\<lambda>s opts. opts\<lparr>probeAddr := s\<rparr>)),
      (''leader-elect'', BoolVar (\<lambda>b opts. opts\<lparr>enableLeaderElection := b\<rparr>)),
      (''metrics-secure'', BoolVar (\<lambda>b opts. opts\<lparr>secureMetrics := b\<rparr>)),
      (''webhook-cert-path'', StringVar (\<lambda>s opts. opts\<lparr>webhookCertPath := s\<rparr>)),
      (''webhook-cert-name'', StringVar (\<lambda>s opts. opts\<lparr>webhookCertName := s\<rparr>)),
      (''webhook-cert-key'', StringVar (\<lambda>s opts. opts\<lparr>webhookCertKey := s\<rparr>)),
      (''metrics-cert-path'', StringVar (\<lambda>s opts. opts\<lparr>metricsCertPath := s\<rparr>)),
      (''metrics-cert-name'', StringVar (\<lambda>s opts. opts\<lparr>metricsCertName := s\<rparr>)),
      (''metrics-cert-key'', StringVar (\<lambda>s opts. opts\<lparr>metricsCertKey := s\<rparr>)),
      (''enable-http2'', BoolVar (\<lambda>b opts. opts\<lparr>enableHTTP2 := b\<rparr>))]"

section \<open>The options of the manager\<close>

record TLSConfig =
  NextProtos :: "string list"

definition disableHTTP2 :: "TLSConfig \<Rightarrow> TLSConfig" where
  "disableHTTP2 c = c\<lparr>NextProtos := [''http/1.1'']\<rparr>"

definition main_tlsOpts :: "Options \<Rightarrow> (TLSConfig \<Rightarrow> TLSConfig) list" where
  "main_tlsOpts opts = (if \<not> enableHTTP2 opts then [disableHTTP2] else [])"

record ServerOptions =
  SO_BindAddress :: string
  SO_SecureServing :: bool
  SO_TLSOpts :: "(TLSConfig \<Rightarrow> TLSConfig) list"
  SO_FilterProvider :: bool  \<comment> \<open>whether \<open>WithAuthenticationAndAuthorization\<close> is set\<close>
  SO_CertDir :: string
  SO_CertName :: string
  SO_KeyName :: string

text \<open>The options of the webhook server leave the other fields at their zero values.\<close>

definition webhookServerOptions :: "Options \<Rightarrow> ServerOptions" where
  "webhookServerOptions opts =
     (let so = \<lparr>SO_BindAddress = '''', SO_SecureServing = False, SO_TLSOpts = main_tlsOpts opts, SO_FilterProvider = False,
            SO_CertDir = '''', SO_CertName = '''', SO_KeyName = ''''\<rparr> in
      if 0 < length (webhookCertPath opts)
      then so\<lparr>SO_CertDir := webhookCertPath opts, SO_CertName := webhookCertName opts, SO_KeyName := webhookCertKey opts\<rparr>
      else so)"

definition metricsServerOptions :: "Options \<Rightarrow> ServerOptions" where
  "metricsServerOptions opts =
     (let so = \<lparr>SO_BindAddress = metricsAddr opts, SO_SecureServing = secureMetrics opts, SO_TLSOpts = main_tlsOpts opts,
            SO_FilterProvider = False, SO_CertDir = '''', SO_CertName = '''', SO_KeyName = ''''\<rparr>;
          so1 = (if secureMetrics opts then so\<lparr>SO_FilterProvider := True\<rparr> else so) in
      if 0 < length (metricsCertPath opts)
      then so1\<lparr>SO_CertDir := metricsCertPath opts, SO_CertName := metricsCertName opts, SO_KeyName := metricsCertKey opts\<rparr>
      else so1)"

record ManagerOptions =
  MO_Scheme :: "string list"
  MO_Metrics :: ServerOptions
  MO_WebhookServer :: ServerOptions
  MO_HealthProbeBindAddress :: string
  MO_LeaderElection :: bool
  MO_LeaderElectionID :: string

text \<open>The scheme is told by the packages whose types it has been given.\<close>

definition managerOptions :: "Options \<Rightarrow> ManagerOptions" where
  "managerOptions opts = \<lparr>MO_Scheme = [''client-go'', ''claw.clawbernetes.io/v1''], MO_Metrics = metricsServerOptions opts,
     MO_WebhookServer = webhookServerOptions opts, MO_HealthProbeBindAddress = probeAddr opts,
     MO_LeaderElection = enableLeaderElection opts, MO_LeaderElectionID = ''e744964a.clawbernetes.io''\<rparr>"

section \<open>The run\<close>

text \<open>
  The environment answers the calls of \<open>main\<close> into the libraries, with an error or without; \<open>Start\<close>
  returns when the manager has stopped. The events of a run are these calls, and its end.
\<close>

record 'w environment =
  env_Args :: "string list"
  env_LibraryFlags :: "(string \<times> Options flag) list"
  env_AddToScheme :: "string \<Rightarrow> err option"
  env_GetConfig :: "err option"
  env_NewManager :: "ManagerOptions \<Rightarrow> err option"
  env_Setup :: "string \<Rightarrow> err option"
  env_AddHealthzCheck :: "string \<Rightarrow> err option"
  env_AddReadyzCheck :: "string \<Rightarrow> err option"
  env_Client :: "'w kube"
  env_NewForConfig :: "err + 'w clientset"
  env_Start :: "err option"

datatype 'w event =
    NewManager ManagerOptions | SetupController string | AddHealthzCheck string | AddReadyzCheck string
  | ServeAPI "'w Server" | StartManager | Exit int

text \<open>\<open>if err := call; err != nil { os.Exit(1) }\<close>\<close>

definition or_exit :: "'w event \<Rightarrow> err option \<Rightarrow> 'w event list \<Rightarrow> 'w event list" where
  "or_exit e answer rest = e # (if answer \<noteq> None then [Exit 1] else rest)"

definition apiServer :: "'w environment \<Rightarrow> 'w Server" where
  "apiServer env =
     (let srv = \<lparr>srv_Client = env_Client env, srv_Clientset = None, srv_Namespace = ''clawbernetes'', srv_Port = 9090,
            srv_UIAssets = None\<rparr> in
      case env_NewForConfig env of Inr cs \<Rightarrow> srv\<lparr>srv_Clientset := Some cs\<rparr> | Inl _ \<Rightarrow> srv)"

definition run_manager :: "'w environment \<Rightarrow> Options \<Rightarrow> 'w event list" where
  "run_manager env opts =
     (if env_GetConfig env \<noteq> None then [Exit 1]
      else or_exit (NewManager (managerOptions opts)) (env_NewManager env (managerOptions opts))
        (or_exit (SetupController ''ClawObservability'') (env_Setup env ''ClawObservability'')
        (or_exit (SetupController ''ClawAgent'') (env_Setup env ''ClawAgent'')
        (or_exit (SetupController ''ClawGateway'') (env_Setup env ''ClawGateway'')
        (or_exit (AddHealthzCheck ''healthz'') (env_AddHealthzCheck env ''healthz'')
        (or_exit (AddReadyzCheck ''readyz'') (env_AddReadyzCheck env ''readyz'')
        (ServeAPI (apiServer env) #
         or_exit StartManager (env_Start env) [Exit 0])))))))"

text \<open>\<open>flag.Parse\<close> exits with 0 when help is asked for, and with 2 on a bad command line.\<close>

definition run_main :: "'w environment \<Rightarrow> 'w event list" where
  "run_main env =
     (case parse_flags (main_flags @ env_LibraryFlags env) default_options (env_Args env) of
        HelpAsked \<Rightarrow> [Exit 0]
      | BadFlag _ \<Rightarrow> [Exit 2]
      | Parsed opts _ \<Rightarrow> run_manager env opts)"

text \<open>\<open>init\<close> panics when a scheme is refused.\<close>

definition program :: "'w environment \<Rightarrow> 'w event list" where
  "program env =
     (if env_AddToScheme env ''client-go'' \<noteq> None \<or> env_AddToScheme env ''claw.clawbernetes.io/v1'' \<noteq> None then [Exit 2]
      else run_main env)"

end
