(* ===== verification/ManagerProperties.thy ===== *)
theory ManagerProperties
  imports Manager "HOL-Library.Sublist"
begin

text \<open>
  What the entry point guarantees: any setting can be given on the command line and is understood as
  it was meant, the program does its steps in order up to the first that fails, and its exit status
  tells how it went.
\<close>

section \<open>The command line\<close>

definition show_bool :: "bool \<Rightarrow> string" where
  "show_bool b = (if b then ''true'' else ''false'')"

lemma ParseBool_show [simp]: "ParseBool (show_bool b) = Some b"
  by (simp add: ParseBool_def show_bool_def)

text \<open>A setting of every flag, values joined with an equals sign or as arguments of their own.\<close>

definition string_arg :: "bool \<Rightarrow> string \<Rightarrow> string \<Rightarrow> string list" where
  "string_arg joined n v = (if joined then [''--'' @ n @ ''='' @ v] else [''-'' @ n, v])"

definition bool_arg :: "string \<Rightarrow> bool \<Rightarrow> string list" where
  "bool_arg n b = [''--'' @ n @ ''='' @ show_bool b]"

definition flag_args :: "bool \<Rightarrow> Options \<Rightarrow> string list" where
  "flag_args j opts =
     string_arg j ''metrics-bind-address'' (metricsAddr opts) @ string_arg j ''health-probe-bind-address'' (probeAddr opts) @
     bool_arg ''leader-elect'' (enableLeaderElection opts) @ bool_arg ''metrics-secure'' (secureMetrics opts) @
     string_arg j ''webhook-cert-path'' (webhookCertPath opts) @ string_arg j ''webhook-cert-name'' (webhookCertName opts) @
     string_arg j ''webhook-cert-key'' (webhookCertKey opts) @ string_arg j ''metrics-cert-path'' (metricsCertPath opts) @
     string_arg j ''metrics-cert-name'' (metricsCertName opts) @ string_arg j ''metrics-cert-key'' (metricsCertKey opts) @
     bool_arg ''enable-http2'' (enableHTTP2 opts)"

text \<open>A flag's name, with the dashes before it.\<close>

definition flag_name :: "string \<Rightarrow> bool" where
  "flag_name n \<longleftrightarrow> 2 \<le> length n \<and> hd n \<noteq> CHR ''-'' \<and> CHR ''='' \<notin> set n"

lemma flag_nameD:
  assumes "flag_name n"
  shows "n \<noteq> ''''" "hd n \<noteq> CHR ''-''" "hd n \<noteq> CHR ''=''" "2 \<le> length n"
  using assms by (cases n; auto simp: flag_name_def)+

lemma name_value_joined: "flag_name n \<Longrightarrow> name_value (n @ CHR ''='' # v) = (n, Some v)"
proof -
  assume n: "flag_name n"
  then obtain c cs where cs: "n = c # cs" "CHR ''='' \<notin> set cs" by (cases n) (auto simp: flag_name_def)
  then have "takeWhile (\<lambda>x. x \<noteq> CHR ''='') (cs @ CHR ''='' # v) = cs"
    "dropWhile (\<lambda>x. x \<noteq> CHR ''='') (cs @ CHR ''='' # v) = CHR ''='' # v"
    by (subst takeWhile_append2 dropWhile_append2; auto)+
  then have "cut_at CHR ''='' (cs @ CHR ''='' # v) = (cs, Some v)" by (simp only: cut_at_def list.case)
  then show ?thesis by (simp add: name_value_def cs(1))
qed

lemma name_value_alone: "flag_name n \<Longrightarrow> name_value n = (n, None)"
proof -
  assume n: "flag_name n"
  then obtain c cs where cs: "n = c # cs" "CHR ''='' \<notin> set cs" by (cases n) (auto simp: flag_name_def)
  then have "dropWhile (\<lambda>x. x \<noteq> CHR ''='') cs = []" "takeWhile (\<lambda>x. x \<noteq> CHR ''='') cs = cs" by auto
  then have "cut_at CHR ''='' cs = (cs, None)" by (simp only: cut_at_def list.case)
  then show ?thesis by (simp add: name_value_def cs(1))
qed

lemma parse_string_arg:
  assumes "flag_name n" "map_of flags n = Some (StringVar f)"
  shows "parse_flags flags opts (string_arg j n v @ args) = parse_flags flags (f v opts) args"
proof -
  note n = flag_nameD [OF assms(1)]
  have "n ! 0 = hd n" using n(1) by (simp add: hd_conv_nth)
  then show ?thesis
    using n assms(2) name_value_joined [OF assms(1)] name_value_alone [OF assms(1)]
    by (auto simp: string_arg_def Let_def)
qed

lemma parse_bool_arg:
  assumes "flag_name n" "map_of flags n = Some (BoolVar f)"
  shows "parse_flags flags opts (bool_arg n b @ args) = parse_flags flags (f b opts) args"
  using flag_nameD [OF assms(1)] assms(2) name_value_joined [OF assms(1)] by (auto simp: bool_arg_def Let_def)

lemma flag_names: "\<forall>n \<in> set (List.map fst main_flags). flag_name n"
  by (simp add: main_flags_def flag_name_def)

lemma parse_main_string:
  assumes "map_of main_flags n = Some (StringVar f)"
  shows "parse_flags (main_flags @ library) opts (string_arg j n v @ args) = parse_flags (main_flags @ library) (f v opts) args"
proof (rule parse_string_arg)
  show "flag_name n" using assms flag_names by (force dest: map_of_SomeD)
  show "map_of (main_flags @ library) n = Some (StringVar f)" using assms by (simp add: map_add_def)
qed

lemma parse_main_bool:
  assumes "map_of main_flags n = Some (BoolVar f)"
  shows "parse_flags (main_flags @ library) opts (bool_arg n b @ args) = parse_flags (main_flags @ library) (f b opts) args"
proof (rule parse_bool_arg)
  show "flag_name n" using assms flag_names by (force dest: map_of_SomeD)
  show "map_of (main_flags @ library) n = Some (BoolVar f)" using assms by (simp add: map_add_def)
qed

text \<open>What each flag of the program sets.\<close>

lemma main_flag [simp]:
  "map_of main_flags ''metrics-bind-address'' = Some (StringVar (\<lambda>s opts. opts\<lparr>metricsAddr := s\<rparr>))"
  "map_of main_flags ''health-probe-bind-address'' = Some (StringVar (\<lambda>s opts. opts\<lparr>probeAddr := s\<rparr>))"
  "map_of main_flags ''leader-elect'' = Some (BoolVar (\<lambda>b opts. opts\<lparr>enableLeaderElection := b\<rparr>))"
  "map_of main_flags ''metrics-secure'' = Some (BoolVar (\<lambda>b opts. opts\<lparr>secureMetrics := b\<rparr>))"
  "map_of main_flags ''webhook-cert-path'' = Some (StringVar (\<lambda>s opts. opts\<lparr>webhookCertPath := s\<rparr>))"
  "map_of main_flags ''webhook-cert-name'' = Some (StringVar (\<lambda>s opts. opts\<lparr>webhookCertName := s\<rparr>))"
  "map_of main_flags ''webhook-cert-key'' = Some (StringVar (\<lambda>s opts. opts\<lparr>webhookCertKey := s\<rparr>))"
  "map_of main_flags ''metrics-cert-path'' = Some (StringVar (\<lambda>s opts. opts\<lparr>metricsCertPath := s\<rparr>))"
  "map_of main_flags ''metrics-cert-name'' = Some (StringVar (\<lambda>s opts. opts\<lparr>metricsCertName := s\<rparr>))"
  "map_of main_flags ''metrics-cert-key'' = Some (StringVar (\<lambda>s opts. opts\<lparr>metricsCertKey := s\<rparr>))"
  "map_of main_flags ''enable-http2'' = Some (BoolVar (\<lambda>b opts. opts\<lparr>enableHTTP2 := b\<rparr>))"
  by (simp_all add: main_flags_def)

lemma double_dash [simp]: "parse_flags flags opts (''--'' # args) = Parsed opts args"
  by simp

declare parse_flags.simps [simp del]

text \<open>C35: Every setting of the program can be given on its command line. The arguments that set every flag,
  with values joined to their names by an equals sign or following them, are understood as exactly
  those settings, whatever characters the values have and whatever flags the libraries add; what
  follows a double dash is left alone.\<close>

theorem flags_read_back:
  "parse_flags (main_flags @ library) default_options (flag_args joined opts @ ''--'' # args) = Parsed opts args"
  by (simp add: flag_args_def parse_main_string parse_main_bool default_options_def)

section \<open>The options of the servers\<close>

text \<open>Unless HTTP/2 is asked for, both servers offer HTTP/1.1 only.\<close>

lemma http1_unless_enabled:
  "so \<in> {webhookServerOptions opts, metricsServerOptions opts} \<Longrightarrow>
   NextProtos (foldl (\<lambda>c f. f c) c (SO_TLSOpts so)) = (if enableHTTP2 opts then NextProtos c else [''http/1.1''])"
  by (auto simp: webhookServerOptions_def metricsServerOptions_def main_tlsOpts_def disableHTTP2_def Let_def)

text \<open>The metrics are served securely exactly with authentication and authorization.\<close>

lemma secure_metrics_protected:
  "SO_SecureServing (metricsServerOptions opts) = secureMetrics opts"
  "SO_FilterProvider (metricsServerOptions opts) = secureMetrics opts"
  by (simp_all add: metricsServerOptions_def Let_def)

section \<open>The run\<close>

definition setup_sequence :: "'w environment \<Rightarrow> Options \<Rightarrow> 'w event list" where
  "setup_sequence env opts =
     [NewManager (managerOptions opts), SetupController ''ClawObservability'', SetupController ''ClawAgent'',
      SetupController ''ClawGateway'', AddHealthzCheck ''healthz'', AddReadyzCheck ''readyz'', ServeAPI (apiServer env),
      StartManager]"

text \<open>What the environment answers to a step; starting the API server is not waited for.\<close>

fun answer :: "'w environment \<Rightarrow> 'w event \<Rightarrow> err option" where
  "answer env (NewManager mo) = env_NewManager env mo"
| "answer env (SetupController c) = env_Setup env c"
| "answer env (AddHealthzCheck n) = env_AddHealthzCheck env n"
| "answer env (AddReadyzCheck n) = env_AddReadyzCheck env n"
| "answer env (ServeAPI srv) = None"
| "answer env StartManager = env_Start env"
| "answer env (Exit c) = None"

fun run_steps :: "'w environment \<Rightarrow> 'w event list \<Rightarrow> 'w event list" where
  "run_steps env [] = [Exit 0]"
| "run_steps env (e # es) = e # (if answer env e \<noteq> None then [Exit 1] else run_steps env es)"

lemma run_manager_steps:
  "run_manager env opts = (if env_GetConfig env \<noteq> None then [Exit 1] else run_steps env (setup_sequence env opts))"
  by (simp add: run_manager_def setup_sequence_def or_exit_def)

lemma run_steps_until:
  "\<exists>before c. run_steps env es = before @ [Exit c] \<and> prefix before es \<and>
     (\<forall>e \<in> set (butlast before). answer env e = None) \<and>
     (if \<forall>e \<in> set before. answer env e = None then c = 0 \<and> before = es else c = 1)"
proof (induction es)
  case (Cons e es)
  show ?case
  proof (cases "answer env e")
    case None
    from Cons obtain before c where b: "run_steps env es = before @ [Exit c]" "prefix before es"
      "\<forall>e \<in> set (butlast before). answer env e = None"
      "if \<forall>e \<in> set before. answer env e = None then c = 0 \<and> before = es else c = 1" by blast
    with None show ?thesis by (intro exI [of _ "e # before"] exI [of _ c]) (auto split: if_splits)
  next
    case (Some x)
    then show ?thesis by (intro exI [of _ "[e]"] exI [of _ 1]) simp
  qed
qed simp

lemma run_steps_end:
  "\<exists>before c. run_steps env es = before @ [Exit c] \<and> prefix before es \<and>
     (\<forall>e \<in> set (butlast before). answer env e = None) \<and>
     (c = 0 \<longleftrightarrow> before = es \<and> (\<forall>e \<in> set before. answer env e = None)) \<and>
     (c \<noteq> 0 \<longrightarrow> c = 1 \<and> (\<exists>e \<in> set before. answer env e \<noteq> None))"
proof -
  from run_steps_until [of env es] obtain before c where b: "run_steps env es = before @ [Exit c]" "prefix before es"
    "\<forall>e \<in> set (butlast before). answer env e = None"
    "if \<forall>e \<in> set before. answer env e = None then c = 0 \<and> before = es else c = 1" by blast
  show ?thesis
  proof (cases "\<forall>e \<in> set before. answer env e = None")
    case True
    with b show ?thesis by (intro exI [of _ before] exI [of _ c]) (simp only: if_True simp_thms)
  next
    case False
    with b(4) have "c = 1" "\<exists>e \<in> set before. answer env e \<noteq> None" by (simp_all only: if_False ball_simps simp_thms)
    with b(1-3) False show ?thesis by (intro exI [of _ before] exI [of _ c]) simp
  qed
qed

text \<open>C36: The program does what its command line asks for in one order and stops at the first failure: a
  manager with the options of the command line, the three controllers, the two checks, the API
  server, and only then the manager's start. Its exit status is 0 exactly when all of this
  succeeded, and 1 otherwise; so the manager never starts without a controller or a check, and the
  API server is put to work before the manager and its cache are started.\<close>

theorem program_order:
  assumes "env_AddToScheme env ''client-go'' = None" "env_AddToScheme env ''claw.clawbernetes.io/v1'' = None"
    and "parse_flags (main_flags @ env_LibraryFlags env) default_options (env_Args env) = Parsed opts rest"
  shows "\<exists>before c. program env = before @ [Exit c] \<and> prefix before (setup_sequence env opts) \<and>
    (\<forall>e \<in> set (butlast before). answer env e = None) \<and>
    (c = 0 \<longleftrightarrow> env_GetConfig env = None \<and> before = setup_sequence env opts \<and> (\<forall>e \<in> set before. answer env e = None)) \<and>
    (c \<noteq> 0 \<longrightarrow> c = 1 \<and> (env_GetConfig env \<noteq> None \<or> (\<exists>e \<in> set before. answer env e \<noteq> None)))"
proof (cases "env_GetConfig env")
  case None
  with assms have p: "program env = run_steps env (setup_sequence env opts)"
    by (simp add: program_def run_main_def run_manager_steps)
  from run_steps_end [of env "setup_sequence env opts"] obtain before c
    where b: "run_steps env (setup_sequence env opts) = before @ [Exit c]" and rest: "prefix before (setup_sequence env opts)"
      "\<forall>e \<in> set (butlast before). answer env e = None"
      "c = 0 \<longleftrightarrow> before = setup_sequence env opts \<and> (\<forall>e \<in> set before. answer env e = None)"
      "c \<noteq> 0 \<longrightarrow> c = 1 \<and> (\<exists>e \<in> set before. answer env e \<noteq> None)" by blast
  then show ?thesis by (intro exI [of _ before] exI [of _ c]) (simp only: p b None simp_thms rest)
next
  case (Some e)
  with assms have "program env = [] @ [Exit 1]" by (simp add: program_def run_main_def run_manager_steps)
  with Some show ?thesis by (intro exI [of _ "[]"] exI [of _ 1]) simp
qed

definition example_environment :: "'w kube \<Rightarrow> 'w environment" where
  "example_environment cl = \<lparr>env_Args = [''--leader-elect''], env_LibraryFlags = [], env_AddToScheme = \<lambda>_. None,
     env_GetConfig = None, env_NewManager = \<lambda>_. None, env_Setup = \<lambda>_. None, env_AddHealthzCheck = \<lambda>_. None,
     env_AddReadyzCheck = \<lambda>_. None, env_Client = cl, env_NewForConfig = Inl (Errorf ''no cluster''), env_Start = None\<rparr>"

lemma program_order_witness:
  "\<exists>before c. program (example_environment mem_client) = before @ [Exit c] \<and>
    prefix before (setup_sequence (example_environment mem_client) (default_options\<lparr>enableLeaderElection := True\<rparr>)) \<and> c = 0"
proof -
  have "parse_flags (main_flags @ env_LibraryFlags (example_environment mem_client)) default_options
      (env_Args (example_environment mem_client)) = Parsed (default_options\<lparr>enableLeaderElection := True\<rparr>) []"
    by (simp add: example_environment_def parse_flags.simps name_value_def cut_at_def ParseBool_def)
  from program_order [OF _ _ this]
  have "\<exists>before c. program (example_environment mem_client) = before @ [Exit c] \<and>
    prefix before (setup_sequence (example_environment mem_client) (default_options\<lparr>enableLeaderElection := True\<rparr>)) \<and>
    (c \<noteq> 0 \<longrightarrow> c = 1 \<and> (env_GetConfig (example_environment mem_client) \<noteq> None \<or>
       (\<exists>e \<in> set before. answer (example_environment mem_client) e \<noteq> None)))"
    by (simp add: example_environment_def) blast
  moreover have "answer (example_environment mem_client) e = None" for e
    by (cases e) (simp_all add: example_environment_def)
  moreover have "env_GetConfig (example_environment mem_client) = None" by (simp add: example_environment_def)
  ultimately show ?thesis by auto
qed

end
