(* ===== verification/AgentWorkspace.thy ===== *)
theory AgentWorkspace
  imports AgentProperties
begin

text \<open>
  The life of a workspace claim: when a reconcile deletes one, what an ephemeral agent leaves,
  how a resize ends, and two behaviours of the resize that its comments rule out: the agent runs
  again while its data is copied, and a second resize deletes the only claim.
\<close>

section \<open>Deleted claims\<close>

text \<open>No claim outside \<open>K\<close> disappears.\<close>

definition claims_stay :: "('w \<Rightarrow> store) \<Rightarrow> NamespacedName set \<Rightarrow> 'w \<Rightarrow> 'w \<Rightarrow> bool" where
  "claims_stay st K w w' \<longleftrightarrow> (\<forall>key. key \<notin> K \<longrightarrow> st w KPVC key \<noteq> None \<longrightarrow> st w' KPVC key \<noteq> None)"

interpretation cs: guarantee "claims_stay st K" for st :: "'w \<Rightarrow> store" and K
  by unfold_locales (auto simp: claims_stay_def)

definition not_claims :: "(Kind \<times> NamespacedName) set" where
  "not_claims = {p. fst p \<noteq> KPVC}"

lemma in_not_claims [simp]: "(k, key) \<in> not_claims \<longleftrightarrow> k \<noteq> KPVC"
  by (simp add: not_claims_def)

lemma touches_not_claims: "touches st not_claims w w' \<Longrightarrow> claims_stay st K w w'"
  by (simp add: touches_def claims_stay_def)

text \<open>The migration is over: its pod has succeeded and the new claim is there.\<close>

definition migrated :: "ClawAgent \<Rightarrow> store \<Rightarrow> bool" where
  "migrated a s \<longleftrightarrow>
     (let name = Meta_Name (Agent_Meta a); ns = Meta_Namespace (Agent_Meta a) in
      (\<exists>pod. s KPod (nn (name @ ''-pvc-migrate'') ns) = Some (OPod pod) \<and> Pod_Phase pod = ''Succeeded'') \<and>
      s KPVC (nn (name @ ''-home-v2'') ns) \<noteq> None)"

text \<open>No claim disappears unless \<open>C\<close> held at the start.\<close>

definition stay_unless :: "('w \<Rightarrow> store) \<Rightarrow> (store \<Rightarrow> bool) \<Rightarrow> ('w, 'a) state \<Rightarrow> bool" where
  "stay_unless st C m \<longleftrightarrow> (\<forall>w r w'. run_state m w = (r, w') \<longrightarrow> claims_stay st {} w w' \<or> C (st w))"

lemma stay_unless_guar: "guar (claims_stay st {}) m \<Longrightarrow> stay_unless st C m"
  by (auto simp: stay_unless_def dest: guarD)

lemma stay_unless_bind:
  assumes "guar (claims_stay st {}) m" "guar (keeps (\<lambda>w. \<not> C (st w))) m"
    and "\<And>w r w'. run_state m w = (r, w') \<Longrightarrow> stay_unless st C (f r)"
  shows "stay_unless st C (State_Monad.bind m f)"
  unfolding stay_unless_def
proof (intro allI impI)
  fix w r w' assume "run_state (State_Monad.bind m f) w = (r, w')"
  then obtain y w1 where "run_state m w = (y, w1)" "run_state (f y) w1 = (r, w')" by (rule bindSE)
  with assms show "claims_stay st {} w w' \<or> C (st w)"
    unfolding stay_unless_def by (metis cs.trans guarD keeps_def)
qed

lemma stay_unless_bind_last:
  assumes "stay_unless st C m" "\<And>y. guar (claims_stay st {}) (f y)"
  shows "stay_unless st C (State_Monad.bind m f)"
  unfolding stay_unless_def
proof (intro allI impI)
  fix w r w' assume "run_state (State_Monad.bind m f) w = (r, w')"
  then obtain y w1 where "run_state m w = (y, w1)" "run_state (f y) w1 = (r, w')" by (rule bindSE)
  with assms show "claims_stay st {} w w' \<or> C (st w)"
    unfolding stay_unless_def by (metis cs.trans guarD)
qed

lemma bindE_as_bind: "bindE m f = State_Monad.bind m (\<lambda>r. case r of Inl e \<Rightarrow> throwE e | Inr y \<Rightarrow> f y)"
  by (simp add: bindE_def)

context controller_api
begin

lemmas stay_quiet = guar_mono [OF _ touches_not_claims]

text \<open>Creating or updating a claim removes none.\<close>

lemma update_stays: "guar (claims_stay store K) (kube_Update kc ob)"
proof (rule guarI)
  fix w r w' assume "run_state (kube_Update kc ob) w = (r, w')"
  then have "store w' = store w \<or> updated ob (store w) (store w')"
    by (cases r) (auto dest: update_Inl update_Inr)
  then show "claims_stay store K w w'"
    by (auto simp: claims_stay_def updated_def)
qed

lemma create_stays: "guar (claims_stay store K) (kube_Create kc ob)"
proof (rule guarI)
  fix w r w' assume "run_state (kube_Create kc ob) w = (r, w')"
  then have "store w' = store w \<or> created ob (store w) (store w')"
    by (cases r) (auto dest: create_Inl create_Inr)
  then show "claims_stay store K w w'"
    by (auto simp: claims_stay_def created_def)
qed

lemma delete_stays: "kind_of ob \<noteq> KPVC \<or> key_of ob \<in> K \<Longrightarrow> guar (claims_stay store K) (kube_Delete kc ob)"
proof (rule guarI)
  fix w r w' assume "kind_of ob \<noteq> KPVC \<or> key_of ob \<in> K" "run_state (kube_Delete kc ob) w = (r, w')"
  moreover from this have "store w' = store w \<or> deleted ob (store w) (store w')"
    by (cases r) (auto dest: delete_Inl delete_Inr)
  ultimately show "claims_stay store K w w'"
    by (auto simp: claims_stay_def deleted_def)
qed

lemma sync_stays: "guar (claims_stay store K) (syncPVCOwnerRefs x kc a pvc rp)"
  by (auto simp: syncPVCOwnerRefs_def intro!: update_stays cs.guar_throwE cs.guar_retE split: sum.split)

lemma sync_not_migrated: "guar (keeps (\<lambda>w. \<not> migrated b (store w))) (syncPVCOwnerRefs x kc a pvc rp)"
proof (rule guarI)
  fix w r w' assume run: "run_state (syncPVCOwnerRefs x kc a pvc rp) w = (r, w')"
  have only: "guar (touches store {(KPVC, key_of (OPVC pvc))}) (syncPVCOwnerRefs x kc a pvc rp)"
    by (rule guar_syncPVCOwnerRefs) simp
  have "guar (\<lambda>w w'. \<forall>key. store w KPVC key = None \<longrightarrow> store w' KPVC key = None) (kube_Update kc ob)" for ob
  proof (rule guarI)
    fix v q v' assume "run_state (kube_Update kc ob) v = (q, v')"
    then have "store v' = store v \<or> updated ob (store v) (store v')"
      by (cases q) (auto dest: update_Inl update_Inr)
    then show "\<forall>key. store v KPVC key = None \<longrightarrow> store v' KPVC key = None"
    proof
      assume "updated ob (store v) (store v')"
      then obtain old ob' where o: "store v (kind_of ob) (key_of ob) = Some old" "kept (keep_status ob old) ob'"
        "store v' = store_put ob' (store v)" by (auto simp: updated_def)
      moreover from this have "kind_of ob' = kind_of ob" "key_of ob' = key_of ob"
        using kept_kind kept_key by fastforce+
      ultimately show ?thesis by auto
    qed simp
  qed
  then have "guar (\<lambda>w w'. \<forall>key. store w KPVC key = None \<longrightarrow> store w' KPVC key = None)
      (syncPVCOwnerRefs x kc a pvc rp)"
    by (auto simp: syncPVCOwnerRefs_def guar_def split: sum.split)
  from guarD [OF this run] guarD [OF only run] show "keeps (\<lambda>w. \<not> migrated b (store w)) w w'"
    by (auto simp: keeps_def migrated_def Let_def touches_def)
qed

lemma stay_unless_resizeMigrate:
  assumes a: "name = Meta_Name (Agent_Meta a)" "ns = Meta_Namespace (Agent_Meta a)"
  shows "stay_unless store (migrated a) (resizeMigrate x kc a oldPVC ns name pvcName q rp)"
  unfolding stay_unless_def
proof (intro allI impI)
  fix w r w'
  assume run: "run_state (resizeMigrate x kc a oldPVC ns name pvcName q rp) w = (r, w')"
  show "claims_stay store {} w w' \<or> migrated a (store w)"
  proof (cases "migrated a (store w)")
    case False
    let ?new = "nn (name @ PVCResizeSuffix) ns" and ?pod = "nn (name @ ''-pvc-migrate'') ns"
    obtain r1 w1 where r1: "run_state (getAs asPVC kc KPVC ?new) w = (r1, w1)" by fastforce
    have w1: "store w1 = store w" using r1 by (rule getAs_same)
    have own: "guar (claims_stay store {}) (bindE (ownClaim x a rp msg pvc) (\<lambda>new. bindE (kube_Create kc new) (\<lambda>_. retE a)))" for msg pvc
      by (auto simp: ownClaim_def intro!: cs.guar_bindE create_stays cs.guar_retE cs.guar_throwE split: sum.split)
    have "claims_stay store {} w1 w'"
    proof (cases r1)
      case (Inl e)
      with run r1 have "run_state (if \<not> is_not_found e then throwE e
          else bindE (ownClaim x a rp ''setting owner reference on new PVC: ''
            (buildPVC (name @ PVCResizeSuffix) ns name q (AS_Workspace (Agent_Spec a))))
              (\<lambda>new. bindE (kube_Create kc new) (\<lambda>_. retE a))) w1 = (r, w')"
        by (simp add: resizeMigrate_def Let_def)
      then show ?thesis
        using guarD [OF own] by (auto simp: cs.refl split: if_splits)
    next
      case (Inr v2)
      with r1 have v2: "store w KPVC ?new \<noteq> None" by (auto dest!: getAs_Inr)
      obtain r2 w2 where r2: "run_state (getAs asPod kc KPod ?pod) w1 = (r2, w2)" by fastforce
      then have w2: "store w2 = store w1" by (rule getAs_same)
      have "claims_stay store {} w2 w'"
      proof (cases r2)
        case (Inl e)
        have "guar (claims_stay store {}) (bindE (kube_Create kc (OPod p)) (\<lambda>_. retE a))" for p
          by (intro cs.guar_bindE create_stays cs.guar_retE)
        with run r1 r2 Inl \<open>r1 = Inr v2\<close> show ?thesis
          by (auto simp: resizeMigrate_def Let_def cs.refl split: if_splits dest: guarD)
      next
        case (Inr pod)
        with r2 w1 have "store w KPod ?pod = Some (OPod pod)" by (auto dest!: getAs_Inr as_SomeD)
        with v2 False a have phase: "Pod_Phase pod \<noteq> ''Succeeded''"
          by (auto simp: migrated_def Let_def PVCResizeSuffix_def)
        have "guar (claims_stay store {}) (kube_Delete kc (OPod pod))"
          by (rule delete_stays) simp
        with run r1 r2 Inr \<open>r1 = Inr v2\<close> phase show ?thesis
          by (auto simp: resizeMigrate_def Let_def cs.refl split: if_splits prod.splits dest: guarD)
      qed
      then show ?thesis by (simp add: claims_stay_def w2)
    qed
    then show ?thesis by (simp add: claims_stay_def w1)
  qed simp
qed

lemma stay_unless_resizePVC:
  assumes a: "name = Meta_Name (Agent_Meta a)" "ns = Meta_Namespace (Agent_Meta a)"
  shows "stay_unless store (migrated a) (resizePVC x kc a oldPVC ns name pvcName q rp)"
  unfolding resizePVC_def
proof (rule stay_unless_bind)
  show "guar (claims_stay store {}) (getAs asDeployment kc KDeployment (nn name ns))"
    by (rule stay_quiet [OF guar_getAs])
  show "guar (keeps (\<lambda>w. \<not> migrated a (store w))) (getAs asDeployment kc KDeployment (nn name ns))"
    by (rule guarI) (auto simp: keeps_def dest: getAs_same)
  have "guar (claims_stay store {}) (State_Monad.bind (kube_Update kc ob) (\<lambda>u. case u of
      Inl e \<Rightarrow> throwE (Wrap s e) | Inr _ \<Rightarrow> throwE RequeueNeeded))" for ob s
    by (intro cs.guar_bind update_stays cs.guar_sum cs.guar_throwE)
  then show "stay_unless store (migrated a) (case r of
      Inr dep \<Rightarrow> if DS_Replicas (Dep_Spec dep) \<noteq> Some 0 then
          State_Monad.bind (kube_Update kc (ODeployment (dep\<lparr>Dep_Spec := (Dep_Spec dep)\<lparr>DS_Replicas := Some 0\<rparr>\<rparr>))) (\<lambda>u. case u of
            Inl e \<Rightarrow> throwE (Wrap ''scaling deployment to 0 for PVC resize: '' e)
          | Inr _ \<Rightarrow> throwE RequeueNeeded)
        else resizeMigrate x kc a oldPVC ns name pvcName q rp
    | Inl _ \<Rightarrow> resizeMigrate x kc a oldPVC ns name pvcName q rp)" for r :: "err + Deployment"
    using stay_unless_resizeMigrate [OF a] by (auto intro: stay_unless_guar split: sum.split)
qed

lemma stay_unless_ensurePVC:
  assumes a: "name = Meta_Name (Agent_Meta a)" "ns = Meta_Namespace (Agent_Meta a)"
  shows "stay_unless store (migrated a) (ensurePVC x kc a ns name)"
proof -
  have quiet: "guar (claims_stay store {}) m \<and> guar (keeps (\<lambda>w. \<not> migrated a (store w))) m"
    if "\<And>w r w'. run_state m w = (r, w') \<Longrightarrow> store w' = store w" for m :: "('w, 'z) state"
    using that by (auto intro!: guarI simp: claims_stay_def keeps_def)
  have rest: "stay_unless store (migrated a) (State_Monad.bind (getAs asPVC kc KPVC key) (\<lambda>r. case r of
      Inl e \<Rightarrow> if is_not_found e then bindE (kube_Create kc pvc) (\<lambda>_. retE a) else throwE e
    | Inr existing \<Rightarrow> bindE (syncPVCOwnerRefs x kc a existing rp) (\<lambda>_.
        if q > storage_of existing then resizePVC x kc a existing ns name pn q rp else retE a)))" for key pvc rp q pn
  proof (rule stay_unless_bind)
    have create: "guar (claims_stay store {}) (bindE (kube_Create kc pvc) (\<lambda>_. retE a))"
      by (intro cs.guar_bindE create_stays cs.guar_retE)
    have sync: "stay_unless store (migrated a) (bindE (syncPVCOwnerRefs x kc a existing rp) (\<lambda>_.
        if q > storage_of existing then resizePVC x kc a existing ns name pn q rp else retE a))" for existing
      unfolding bindE_as_bind
      by (rule stay_unless_bind [OF sync_stays sync_not_migrated])
        (auto intro: stay_unless_resizePVC [OF a] stay_unless_guar cs.guar_retE cs.guar_throwE split: sum.split)
    show "stay_unless store (migrated a) (case r of
        Inl e \<Rightarrow> if is_not_found e then bindE (kube_Create kc pvc) (\<lambda>_. retE a) else throwE e
      | Inr existing \<Rightarrow> bindE (syncPVCOwnerRefs x kc a existing rp) (\<lambda>_.
          if q > storage_of existing then resizePVC x kc a existing ns name pn q rp else retE a))" for r
      using create sync by (auto intro: stay_unless_guar cs.guar_throwE split: sum.split)
  qed (use quiet [of "getAs asPVC kc KPVC key"] getAs_same in blast)+
  have own: "guar (claims_stay store {}) (ownClaim x a rp msg pvc) \<and>
      guar (keeps (\<lambda>w. \<not> migrated a (store w))) (ownClaim x a rp msg pvc)" for rp msg pvc
    by (rule quiet) (auto simp: ownClaim_def split: if_splits sum.splits)
  have "stay_unless store (migrated a) (bindE (ownClaim x a rp msg pvc) (\<lambda>p. State_Monad.bind (getAs asPVC kc KPVC key) (\<lambda>r. case r of
      Inl e \<Rightarrow> if is_not_found e then bindE (kube_Create kc p) (\<lambda>_. retE a) else throwE e
    | Inr existing \<Rightarrow> bindE (syncPVCOwnerRefs x kc a existing rp') (\<lambda>_.
        if q > storage_of existing then resizePVC x kc a existing ns name pn q rp' else retE a))))" for rp msg pvc key rp' q pn
    unfolding bindE_as_bind [of "ownClaim x a rp msg pvc"]
    by (rule stay_unless_bind) (use own rest in \<open>auto intro: stay_unless_guar cs.guar_throwE split: sum.split\<close>)
  then show ?thesis
    by (auto simp: ensurePVC_def Let_def mustParse_def intro: stay_unless_guar cs.guar_throwE split: option.split)
qed

lemma stay_unless_reconcileAgent:
  assumes "IsPersistent (AS_Workspace (Agent_Spec a))"
  shows "stay_unless store (migrated a) (reconcileAgent x kc a)"
proof -
  let ?ns = "Meta_Namespace (Agent_Meta a)" and ?name = "Meta_Name (Agent_Meta a)"
  let ?F = "{p. fst p = KConfigMap}"
  have cms: "touches store ?F w w' \<Longrightarrow> claims_stay store {} w w'"
    "touches store ?F w w' \<Longrightarrow> keeps (\<lambda>w. \<not> migrated a (store w)) w w'" for w w'
    by (auto simp: touches_def claims_stay_def keeps_def migrated_def Let_def)
  have refs: "guar (touches store ?F) (resolveRefs kc (Agent_Spec a) ?ns)" by (rule guar_resolveRefs)
  have maps: "guar (touches store ?F) (ensureConfigMaps x kc a h rs ?ns ?name)" for h rs
    by (rule guar_ensureConfigMaps) simp_all
  have ws: "stay_unless store (migrated a) (ensureWorkspace x kc a ?ns ?name)"
    unfolding ensureWorkspace_def if_P [OF assms] bindE_as_bind
    by (rule stay_unless_bind_last [OF stay_unless_ensurePVC])
      (auto intro: cs.guar_throwE cs.guar_retE split: sum.split)
  have wl: "guar (claims_stay store {}) (ensureWorkload x kc b h rs ?ns ?name pvc)" for b h rs pvc
    by (rule stay_quiet [OF guar_ensureWorkload]) simp_all
  have st: "guar (claims_stay store {}) (ensureStatus kc b old ?ns ?name pvc)" for b old pvc
    by (rule stay_quiet [OF guar_ensureStatus [where F = not_claims]]) simp_all
  have cont: "stay_unless store (migrated a) (State_Monad.bind (ensureWorkspace x kc a ?ns ?name) (\<lambda>ws. case ws of
      Inl e \<Rightarrow> if IsPersistent (AS_Workspace (Agent_Spec a)) \<and> is_requeue e then retE (Requeue 5) else throwE e
    | Inr (agent', activePVC) \<Rightarrow>
        bindE (ensureWorkload x kc agent' h rs ?ns ?name activePVC) (\<lambda>_.
        bindE (ensureStatus kc agent' (Agent_Status a) ?ns ?name activePVC) (\<lambda>_. retE Reconciled))))" for h rs
    by (rule stay_unless_bind_last [OF ws])
      (auto intro!: cs.guar_bindE wl st cs.guar_retE cs.guar_throwE split: sum.split)
  have "stay_unless store (migrated a) (bindE (ensureConfigMaps x kc a h rs ?ns ?name) (\<lambda>_. State_Monad.bind (ensureWorkspace x kc a ?ns ?name) (\<lambda>ws. case ws of
      Inl e \<Rightarrow> if IsPersistent (AS_Workspace (Agent_Spec a)) \<and> is_requeue e then retE (Requeue 5) else throwE e
    | Inr (agent', activePVC) \<Rightarrow>
        bindE (ensureWorkload x kc agent' h rs ?ns ?name activePVC) (\<lambda>_.
        bindE (ensureStatus kc agent' (Agent_Status a) ?ns ?name activePVC) (\<lambda>_. retE Reconciled)))))" for h rs
    unfolding bindE_as_bind [of "ensureConfigMaps x kc a h rs ?ns ?name"]
    by (rule stay_unless_bind [OF guar_mono [OF maps cms(1)] guar_mono [OF maps cms(2)]])
      (auto intro: cont stay_unless_guar cs.guar_throwE split: sum.split)
  then show ?thesis
    unfolding reconcileAgent_def Let_def bindE_as_bind [of "resolveRefs kc (Agent_Spec a) ?ns"]
    by (intro stay_unless_bind [OF guar_mono [OF refs cms(1)] guar_mono [OF refs cms(2)]])
      (auto intro: stay_unless_guar cs.guar_throwE split: sum.split)
qed

lemma getAs_stays: "guar (claims_stay store K) (getAs sel kc k key)"
  by (rule stay_quiet [OF guar_getAs])

lemmas stays = cs.guar_bind cs.guar_bindE getAs_stays create_stays update_stays delete_stays cs.guar_throwE cs.guar_retE

lemma resize_stays:
  assumes "key_of (OPVC oldPVC) \<in> K"
  shows "guar (claims_stay store K) (resizePVC x kc a oldPVC ns name pvcName q rp)"
proof -
  have own: "guar (claims_stay store K) (ownClaim x a rp msg pvc)" for rp msg pvc
    by (auto simp: ownClaim_def intro: cs.guar_throwE cs.guar_retE split: sum.split)
  have "guar (claims_stay store K) (resizeMigrate x kc a oldPVC ns name pvcName q rp)"
    unfolding resizeMigrate_def Let_def
    using assms by (auto intro!: stays own split: sum.split)
  then show ?thesis
    unfolding resizePVC_def by (auto intro!: stays split: sum.split)
qed

lemma ensurePVC_stays: "guar (claims_stay store {nn (activePVCName a name) ns}) (ensurePVC x kc a ns name)"
proof -
  let ?key = "nn (activePVCName a name) ns"
  have own: "guar (claims_stay store {?key}) (ownClaim x a rp msg pvc)" for rp msg pvc
    by (auto simp: ownClaim_def intro: cs.guar_throwE cs.guar_retE split: sum.split)
  have rest: "guar (claims_stay store {?key}) (State_Monad.bind (getAs asPVC kc KPVC ?key) (\<lambda>r. case r of
      Inl e \<Rightarrow> if is_not_found e then bindE (kube_Create kc pvc) (\<lambda>_. retE a) else throwE e
    | Inr existing \<Rightarrow> bindE (syncPVCOwnerRefs x kc a existing rp) (\<lambda>_.
        if q > storage_of existing then resizePVC x kc a existing ns name pn q rp else retE a)))" for pvc rp q pn
  proof (rule cs.guar_bind_run [OF getAs_stays])
    fix w r w' assume "run_state (getAs asPVC kc KPVC ?key) w = (r, w')"
    then have "key_of (OPVC ex) = ?key" if "r = Inr ex" for ex
      using that by (auto dest!: getAs_Inr as_SomeD)
    then show "guar (claims_stay store {?key}) (case r of
      Inl e \<Rightarrow> if is_not_found e then bindE (kube_Create kc pvc) (\<lambda>_. retE a) else throwE e
    | Inr existing \<Rightarrow> bindE (syncPVCOwnerRefs x kc a existing rp) (\<lambda>_.
        if q > storage_of existing then resizePVC x kc a existing ns name pn q rp else retE a))"
      by (cases r) (auto simp del: key_of_simps intro!: cs.guar_bindE create_stays cs.guar_retE cs.guar_throwE
          sync_stays resize_stays)
  qed
  show ?thesis
    unfolding ensurePVC_def Let_def mustParse_def
    by (auto intro!: cs.guar_bindE own rest cs.guar_throwE split: option.split)
qed

lemma reconcileAgent_stays:
  assumes "IsPersistent (AS_Workspace (Agent_Spec a))"
  shows "guar (claims_stay store {nn (activePVCName a (Meta_Name (Agent_Meta a))) (Meta_Namespace (Agent_Meta a))})
    (reconcileAgent x kc a)"
proof -
  let ?ns = "Meta_Namespace (Agent_Meta a)" and ?name = "Meta_Name (Agent_Meta a)"
  let ?R = "claims_stay store {nn (activePVCName a ?name) ?ns}"
  have 1: "guar ?R (resolveRefs kc (Agent_Spec a) ?ns)" by (rule stay_quiet [OF guar_resolveRefs])
  have 2: "guar ?R (ensureConfigMaps x kc a h rs ?ns ?name)" for h rs
    by (rule stay_quiet [OF guar_ensureConfigMaps]) simp_all
  have 3: "guar ?R (ensureWorkspace x kc a ?ns ?name)"
    unfolding ensureWorkspace_def using assms by (auto intro!: cs.guar_bindE ensurePVC_stays cs.guar_retE)
  have 4: "guar ?R (ensureWorkload x kc b h rs ?ns ?name pvc)" for b h rs pvc
    by (rule stay_quiet [OF guar_ensureWorkload]) simp_all
  have 5: "guar ?R (ensureStatus kc b old ?ns ?name pvc)" for b old pvc
    by (rule stay_quiet [OF guar_ensureStatus [where F = not_claims]]) simp_all
  show ?thesis
    unfolding reconcileAgent_def Let_def
    by (intro cs.guar_bindE cs.guar_bind 1 2 3)
      (auto intro!: cs.guar_bindE 4 5 cs.guar_retE cs.guar_throwE split: sum.split)
qed

lemma Reconcile_deletes_claim:
  assumes a: "store w KClawAgent req = Some (OClawAgent a)" and p: "IsPersistent (AS_Workspace (Agent_Spec a))"
    and run: "run_state (Reconcile x kc req lastHash) w = (r, w')"
    and gone: "store w KPVC key \<noteq> None" "store w' KPVC key = None"
  shows "key = nn (activePVCName a (Meta_Name (Agent_Meta a))) (Meta_Namespace (Agent_Meta a)) \<and> migrated a (store w)"
proof -
  have dash: "guar (claims_stay store K) (updateFleetDashboard x kc (Meta_Namespace (Agent_Meta a)) lastHash)" for K
    by (rule stay_quiet [OF guar_updateFleetDashboard]) simp_all
  let ?K = "{nn (activePVCName a (Meta_Name (Agent_Meta a))) (Meta_Namespace (Agent_Meta a))}"
  have 1: "guar (claims_stay store ?K) (reconcileFound x kc lastHash a)"
    unfolding reconcileFound_def
    by (auto intro!: cs.guar_bind [OF reconcileAgent_stays [OF p]] cs.guar_bind [OF dash] cs.guar_return
        split: sum.split Outcome.split)
  have 2: "stay_unless store (migrated a) (reconcileFound x kc lastHash a)"
    unfolding reconcileFound_def
    by (rule stay_unless_bind_last [OF stay_unless_reconcileAgent [OF p]])
      (auto intro!: cs.guar_bind [OF dash] cs.guar_return split: sum.split Outcome.split)
  show ?thesis
  proof (rule Reconcile_cases [OF a run])
    fix w1 assume w1: "store w1 = store w" and f: "run_state (reconcileFound x kc lastHash a) w1 = (r, w')"
    from guarD [OF 1 f] gone w1 have "key \<in> ?K" by (auto simp: claims_stay_def)
    moreover from 2 f gone w1 have "migrated a (store w)"
      unfolding stay_unless_def claims_stay_def by (metis empty_iff)
    ultimately show ?thesis by simp
  qed (use gone in simp)
qed

end

text \<open>C2: No reconcile of a persistent agent loses data it has not copied. If a workspace claim that
  existed is gone afterwards, then it was the claim the agent had in use, the migration pod had
  succeeded and the new claim existed when the reconcile started; this holds with any server
  failures, on every path through the resize.\<close>

theorem claim_deleted_after_migration:
  assumes "controller_api kc store x" "store w KClawAgent req = Some (OClawAgent a)"
    and "IsPersistent (AS_Workspace (Agent_Spec a))"
    and "run_state (Reconcile x kc req lastHash) w = (r, w')"
    and "store w KPVC key \<noteq> None" "store w' KPVC key = None"
  shows "key = nn (activePVCName a (Meta_Name (Agent_Meta a))) (Meta_Namespace (Agent_Meta a)) \<and>
    (\<exists>pod. store w KPod (nn (Meta_Name (Agent_Meta a) @ ''-pvc-migrate'') (Meta_Namespace (Agent_Meta a))) = Some (OPod pod) \<and>
       Pod_Phase pod = ''Succeeded'') \<and>
    store w KPVC (nn (Meta_Name (Agent_Meta a) @ ''-home-v2'') (Meta_Namespace (Agent_Meta a))) \<noteq> None"
  using controller_api.Reconcile_deletes_claim [OF assms] by (auto simp: migrated_def Let_def)

section \<open>How a resize goes on\<close>

text \<open>The claim in use is smaller than asked for, and the deployment, if any, is scaled down.\<close>

definition resize_due :: "ext \<Rightarrow> ClawAgent \<Rightarrow> store \<Rightarrow> bool" where
  "resize_due x a s \<longleftrightarrow>
     (let name = Meta_Name (Agent_Meta a); ns = Meta_Namespace (Agent_Meta a) in
      (\<exists>q old. ext_ParseQuantity x (ResolvedStorageSize (AS_Workspace (Agent_Spec a))) = Some q \<and>
         s KPVC (nn (activePVCName a name) ns) = Some (OPVC old) \<and> q > storage_of old) \<and>
      (s KDeployment (nn name ns) = None \<or>
       (\<exists>dep. s KDeployment (nn name ns) = Some (ODeployment dep) \<and> DS_Replicas (Dep_Spec dep) = Some 0)))"

text \<open>The harness config of the agent can be written.\<close>

definition configurable :: "ext \<Rightarrow> ClawAgent \<Rightarrow> store \<Rightarrow> bool" where
  "configurable x a s \<longleftrightarrow>
     (let ns = Meta_Namespace (Agent_Meta a); rs = resolve_in s (Agent_Spec a) ns in
      \<exists>cm. harnessConfigMap (ForType x (HS_Type (AS_Harness (Agent_Spec a)))) a ns (Meta_Name (Agent_Meta a))
        (R_GatewayURL rs) (R_OTLPEndpoint rs) (R_Policy rs) (R_Gateway rs) (R_Channels rs) = Inr cm)"

definition switched :: "ClawAgent \<Rightarrow> ClawAgent" where
  "switched a = a\<lparr>Agent_Status := (Agent_Status a)\<lparr>ASt_WorkspacePVC := Meta_Name (Agent_Meta a) @ ''-home-v2''\<rparr>\<rparr>"

context reliable_api
begin

text \<open>With a resize due, \<open>ensurePVC\<close> comes to step 2 with the same claims, pods and deployment.\<close>

lemma ensurePVC_resizes:
  assumes due: "resize_due x a (store w)"
  defines "name \<equiv> Meta_Name (Agent_Meta a)" and "ns \<equiv> Meta_Namespace (Agent_Meta a)"
  obtains w1 old q where "key_of (OPVC old) = nn (activePVCName a name) ns"
    "run_state (ensurePVC x kc a ns name) w =
       run_state (resizeMigrate x kc a old ns name (activePVCName a name) q
         (ResolvedReclaimPolicy (AS_Workspace (Agent_Spec a)))) w1"
    "\<And>k key. (k, key) \<noteq> (KPVC, nn (activePVCName a name) ns) \<Longrightarrow> store w1 k key = store w k key"
    "store w1 KPVC (nn (activePVCName a name) ns) \<noteq> None"
proof -
  let ?key = "nn (activePVCName a name) ns" and ?ws = "AS_Workspace (Agent_Spec a)"
  let ?rp = "ResolvedReclaimPolicy ?ws"
  from due obtain q old where q: "ext_ParseQuantity x (ResolvedStorageSize ?ws) = Some q"
    and old: "store w KPVC ?key = Some (OPVC old)" "q > storage_of old"
    and dep: "store w KDeployment (nn name ns) = None \<or>
      (\<exists>dep. store w KDeployment (nn name ns) = Some (ODeployment dep) \<and> DS_Replicas (Dep_Spec dep) = Some 0)"
    by (auto simp: resize_due_def Let_def name_def ns_def)
  have key: "key_of (OPVC old) = ?key" using old(1) store_wf [of w] by (auto simp: store_ok_def simp del: key_of_simps)
  have "succeeds (ownClaim x a ?rp ''setting owner reference on PVC: '' (buildPVC (activePVCName a name) ns name q ?ws)) w"
    by (rule ownClaim_succeeds) (simp_all add: buildPVC_def ns_def)
  then obtain pvc v where oc: "run_state (ownClaim x a ?rp ''setting owner reference on PVC: ''
      (buildPVC (activePVCName a name) ns name q ?ws)) w = (Inr pvc, v)" by (auto simp: succeeds_def)
  then have v: "v = w" by (auto simp: ownClaim_def split: if_splits sum.splits)
  have "asPVC (OPVC old) = Some old" by simp
  with old(1) obtain v1 where g: "run_state (getAs asPVC kc KPVC ?key) w = (Inr old, v1)" "store v1 = store w"
    by (rule getAs_Some)
  have "succeeds (syncPVCOwnerRefs x kc a old ?rp) v1"
    by (rule syncPVCOwnerRefs_succeeds) (use old(1) g(2) key in \<open>auto simp: ns_def\<close>)
  then obtain u v2 where s: "run_state (syncPVCOwnerRefs x kc a old ?rp) v1 = (Inr u, v2)"
    by (auto simp: succeeds_def)
  have t: "touches store {(KPVC, ?key)} v1 v2"
    by (rule guarD [OF guar_syncPVCOwnerRefs s]) (use key in simp)
  have stay: "store v2 KPVC ?key \<noteq> None"
    using guarD [OF sync_stays [of "{}"] s] old(1) g(2) by (auto simp: claims_stay_def)
  obtain w1 where w1: "store w1 = store v2"
    "run_state (resizePVC x kc a old ns name (activePVCName a name) q ?rp) v2 =
       run_state (resizeMigrate x kc a old ns name (activePVCName a name) q ?rp) w1"
  proof (cases "store v2 KDeployment (nn name ns)")
    case None
    then obtain e v3 where "run_state (getAs asDeployment kc KDeployment (nn name ns)) v2 = (Inl e, v3)" "store v3 = store v2"
      by (rule getAs_None)
    with that [of v3] show thesis by (simp add: resizePVC_def)
  next
    case (Some ob)
    with t g(2) dep obtain d where d: "ob = ODeployment d" "DS_Replicas (Dep_Spec d) = Some 0"
      by (auto simp: touches_def)
    then have "asDeployment ob = Some d" by simp
    with Some obtain v3 where "run_state (getAs asDeployment kc KDeployment (nn name ns)) v2 = (Inr d, v3)" "store v3 = store v2"
      by (rule getAs_Some)
    with that [of v3] d(2) show thesis by (simp add: resizePVC_def)
  qed
  have "run_state (ensurePVC x kc a ns name) w =
      run_state (resizeMigrate x kc a old ns name (activePVCName a name) q ?rp) w1"
    using oc g(1) s old(2) w1(2) by (simp add: ensurePVC_def Let_def mustParse_def q run_bindE v)
  then show thesis
    by (rule that [OF key]) (use t g(2) w1(1) stay in \<open>auto simp: touches_def\<close>)
qed

text \<open>Step 4: the migration has succeeded.\<close>

lemma ensureWorkspace_switches:
  assumes due: "resize_due x a (store w)" and mig: "migrated a (store w)"
    and p: "IsPersistent (AS_Workspace (Agent_Spec a))"
  defines "name \<equiv> Meta_Name (Agent_Meta a)" and "ns \<equiv> Meta_Namespace (Agent_Meta a)"
  obtains w' where "run_state (ensureWorkspace x kc a ns name) w = (Inr (switched a, name @ ''-home-v2''), w')"
    "store w' KPVC (nn (activePVCName a name) ns) = None"
    "\<And>key. key \<noteq> nn (activePVCName a name) ns \<Longrightarrow> store w' KPVC key = store w KPVC key"
proof -
  let ?key = "nn (activePVCName a name) ns" and ?new = "nn (name @ ''-home-v2'') ns"
  obtain w1 old q where key: "key_of (OPVC old) = ?key"
    and run: "run_state (ensurePVC x kc a ns name) w =
       run_state (resizeMigrate x kc a old ns name (activePVCName a name) q
         (ResolvedReclaimPolicy (AS_Workspace (Agent_Spec a)))) w1"
    and w1: "\<And>k key. (k, key) \<noteq> (KPVC, ?key) \<Longrightarrow> store w1 k key = store w k key" "store w1 KPVC ?key \<noteq> None"
    by (rule ensurePVC_resizes [OF due, folded name_def ns_def]) (rule that; assumption)
  from mig obtain pod where pod: "store w1 KPod (nn (name @ ''-pvc-migrate'') ns) = Some (OPod pod)" "Pod_Phase pod = ''Succeeded''"
    and "store w KPVC ?new \<noteq> None"
    using w1(1) by (auto simp: migrated_def Let_def name_def ns_def)
  then have "store w1 KPVC ?new \<noteq> None" using w1 by (cases "?new = ?key") auto
  then obtain ob where ob: "store w1 KPVC ?new = Some ob" by blast
  then have "kind_of ob = KPVC" using store_wf [of w1] by (auto simp: store_ok_def)
  then obtain v2 where "asPVC ob = Some v2" by (cases ob) auto
  with ob obtain v1 where g: "run_state (getAs asPVC kc KPVC ?new) w1 = (Inr v2, v1)" "store v1 = store w1"
    by (rule getAs_Some)
  have "asPod (OPod pod) = Some pod" by simp
  with pod(1) [folded g(2)] obtain v3 where gp: "run_state (getAs asPod kc KPod (nn (name @ ''-pvc-migrate'') ns)) v1 = (Inr pod, v3)"
    "store v3 = store v1" by (rule getAs_Some)
  obtain r4 v4 where d: "run_state (kube_Delete kc (OPod pod)) v3 = (r4, v4)" by fastforce
  have "touches store {(KPod, key_of (OPod pod))} v3 v4"
    by (rule guarD [OF guar_delete d]) simp
  then have v4: "store v4 KPVC = store w1 KPVC" by (auto simp: touches_def gp(2) g(2))
  then have "store v4 (kind_of (OPVC old)) (key_of (OPVC old)) \<noteq> None" using w1(2) key by simp
  from delete_ok [OF this] obtain v5 where d2: "run_state (kube_Delete kc (OPVC old)) v4 = (Inr (), v5)" by blast
  then have del: "store v5 KPVC = (store w1 KPVC)(?key := None)"
    using delete_Inr [OF d2] key v4 by (simp add: deleted_def store_del_def del: key_of_simps)
  have "run_state (ensurePVC x kc a ns name) w = (Inr (switched a), v5)"
    unfolding run using g(1) gp(1) d d2 pod(2)
    by (simp add: resizeMigrate_def Let_def PVCResizeSuffix_def switched_def name_def)
  moreover have "activePVCName (switched a) name = name @ ''-home-v2''"
    by (simp add: switched_def activePVCName_def name_def)
  ultimately have "run_state (ensureWorkspace x kc a ns name) w = (Inr (switched a, name @ ''-home-v2''), v5)"
    using p by (simp add: ensureWorkspace_def run_bindE)
  then show thesis
    by (rule that) (use del w1(1) in auto)
qed

lemma Reconcile_switches:
  assumes a: "store w KClawAgent req = Some (OClawAgent a)" and p: "IsPersistent (AS_Workspace (Agent_Spec a))"
    and due: "resize_due x a (store w)" and mig: "migrated a (store w)"
    and rs: "rs = resolve_in (store w) (Agent_Spec a) (Meta_Namespace (Agent_Meta a))"
    and cm: "harnessConfigMap (ForType x (HS_Type (AS_Harness (Agent_Spec a)))) a (Meta_Namespace (Agent_Meta a))
        (Meta_Name (Agent_Meta a)) (R_GatewayURL rs) (R_OTLPEndpoint rs) (R_Policy rs) (R_Gateway rs) (R_Channels rs) = Inr cm"
  obtains newHash w' where "run_state (Reconcile x kc req lastHash) w = ((Inr 0, newHash), w')"
    "agent_in_place x a rs (Meta_Name (Agent_Meta a) @ ''-home-v2'') (store w')"
    "status_in_place a (Meta_Name (Agent_Meta a) @ ''-home-v2'') (store w')"
    "store w' KPVC (nn (activePVCName a (Meta_Name (Agent_Meta a))) (Meta_Namespace (Agent_Meta a))) = None"
    "\<And>key. key \<noteq> nn (activePVCName a (Meta_Name (Agent_Meta a))) (Meta_Namespace (Agent_Meta a)) \<Longrightarrow>
       store w' KPVC key = store w KPVC key"
proof -
  let ?name = "Meta_Name (Agent_Meta a)" and ?ns = "Meta_Namespace (Agent_Meta a)"
  have same: "resize_due x a (store v) \<and> migrated a (store v)"
    if "\<And>k. k \<noteq> KConfigMap \<Longrightarrow> store v k = store w k" for v
    using due mig that by (simp add: resize_due_def migrated_def)
  have "\<exists>newHash w'. run_state (Reconcile x kc req lastHash) w = ((Inr 0, newHash), w')"
  proof (rule Reconcile_succeeds_if [OF a cm rs])
    fix v assume "\<And>k. k \<noteq> KConfigMap \<Longrightarrow> store v k = store w k"
    then have "resize_due x a (store v)" "migrated a (store v)" using same by blast+
    then show "succeeds (ensureWorkspace x kc a ?ns ?name) v"
      by (rule ensureWorkspace_switches [OF _ _ p]) (simp add: succeeds_def)
  qed
  then obtain h w' where run: "run_state (Reconcile x kc req lastHash) w = ((Inr 0, h), w')" by blast
  obtain pvc a' w2 w3 where ip: "agent_in_place x a rs pvc (store w')" "status_in_place a pvc (store w')"
    and w2: "\<forall>k. k \<noteq> KConfigMap \<longrightarrow> store w2 k = store w k"
    and ws: "run_state (ensureWorkspace x kc a ?ns ?name) w2 = (Inr (a', pvc), w3)"
    and w': "store w' KPVC = store w3 KPVC" "store w' KPod = store w3 KPod"
    by (rule Reconcile_in_place [OF a run, folded rs]) (rule that; assumption)
  have "resize_due x a (store w2)" "migrated a (store w2)" using same w2 by blast+
  then obtain w4 where sw: "run_state (ensureWorkspace x kc a ?ns ?name) w2 = (Inr (switched a, ?name @ ''-home-v2''), w4)"
    "store w4 KPVC (nn (activePVCName a ?name) ?ns) = None"
    "\<And>key. key \<noteq> nn (activePVCName a ?name) ?ns \<Longrightarrow> store w4 KPVC key = store w2 KPVC key"
    by (rule ensureWorkspace_switches [OF _ _ p]) (rule that; assumption)
  with ws have "pvc = ?name @ ''-home-v2''" "w4 = w3" by simp_all
  then show thesis
    using that [OF run] ip sw(2,3) w' w2 by simp
qed

text \<open>Step 3: the new claim is there, the pod is not.\<close>

lemma ensureWorkspace_starts_copy:
  assumes due: "resize_due x a (store w)" and p: "IsPersistent (AS_Workspace (Agent_Spec a))"
  defines "name \<equiv> Meta_Name (Agent_Meta a)" and "ns \<equiv> Meta_Namespace (Agent_Meta a)"
  assumes new: "store w KPVC (nn (name @ ''-home-v2'') ns) \<noteq> None" and nopod: "store w KPod (nn (name @ ''-pvc-migrate'') ns) = None"
  obtains w' pod where "run_state (ensureWorkspace x kc a ns name) w = (Inr (a, activePVCName a name), w')"
    "store w' KPod (nn (name @ ''-pvc-migrate'') ns) = Some (OPod pod)"
    "Pod_Volumes (Pod_Spec pod) = [vol ''src'' (PVCSource (activePVCName a name) True), vol ''dst'' (PVCSource (name @ ''-home-v2'') False)]"
proof -
  let ?key = "nn (activePVCName a name) ns" and ?new = "nn (name @ ''-home-v2'') ns" and ?pod = "nn (name @ ''-pvc-migrate'') ns"
  let ?mp = "OPod (buildMigrationPod (name @ ''-pvc-migrate'') ns name (activePVCName a name) (name @ ''-home-v2''))"
  obtain w1 old q where run: "run_state (ensurePVC x kc a ns name) w =
       run_state (resizeMigrate x kc a old ns name (activePVCName a name) q
         (ResolvedReclaimPolicy (AS_Workspace (Agent_Spec a)))) w1"
    and w1: "\<And>k key. (k, key) \<noteq> (KPVC, ?key) \<Longrightarrow> store w1 k key = store w k key" "store w1 KPVC ?key \<noteq> None"
    by (rule ensurePVC_resizes [OF due, folded name_def ns_def]) (rule that; assumption)
  have "store w1 KPVC ?new \<noteq> None" using w1 new by (cases "?new = ?key") auto
  then obtain ob where ob: "store w1 KPVC ?new = Some ob" by blast
  then have "kind_of ob = KPVC" using store_wf [of w1] by (auto simp: store_ok_def)
  then obtain v2 where "asPVC ob = Some v2" by (cases ob) auto
  with ob obtain v1 where g: "run_state (getAs asPVC kc KPVC ?new) w1 = (Inr v2, v1)" "store v1 = store w1"
    by (rule getAs_Some)
  have "store v1 KPod ?pod = None" using nopod w1(1) g(2) by simp
  then obtain e v3 where gp: "run_state (getAs asPod kc KPod ?pod) v1 = (Inl e, v3)" "is_not_found e" "store v3 = store v1"
    by (rule getAs_None)
  have key: "kind_of ?mp = KPod" "key_of ?mp = ?pod" by (simp_all add: buildMigrationPod_def)
  with \<open>store v1 KPod ?pod = None\<close> gp(3) have "store v3 (kind_of ?mp) (key_of ?mp) = None" by simp
  from create_ok [OF this] obtain v4 where c: "run_state (kube_Create kc ?mp) v3 = (Inr (), v4)" by blast
  then obtain ob' where ob': "kept ?mp ob'" "store v4 = store_put ob' (store v3)"
    by (auto simp: created_def dest!: create_Inr)
  from kept_kind [OF ob'(1)] obtain pod where pod: "ob' = OPod pod" by (cases ob') auto
  have vols: "Pod_Volumes (Pod_Spec pod) = [vol ''src'' (PVCSource (activePVCName a name) True), vol ''dst'' (PVCSource (name @ ''-home-v2'') False)]"
    using ob'(1) by (simp add: pod kept_def buildMigrationPod_def)
  have "store v4 KPod ?pod = Some (OPod pod)"
    using ob' kept_key [OF ob'(1)] key by (simp add: pod del: key_of_simps)
  moreover have "run_state (ensurePVC x kc a ns name) w = (Inr a, v4)"
    unfolding run using g(1) gp(1,2) c by (simp add: resizeMigrate_def Let_def PVCResizeSuffix_def run_bindE)
  then have "run_state (ensureWorkspace x kc a ns name) w = (Inr (a, activePVCName a name), v4)"
    using p by (simp add: ensureWorkspace_def run_bindE)
  ultimately show thesis using that vols by blast
qed

lemma Reconcile_starts_copy:
  assumes a: "store w KClawAgent req = Some (OClawAgent a)" and p: "IsPersistent (AS_Workspace (Agent_Spec a))"
    and due: "resize_due x a (store w)"
  defines "name \<equiv> Meta_Name (Agent_Meta a)" and "ns \<equiv> Meta_Namespace (Agent_Meta a)"
  assumes new: "store w KPVC (nn (name @ ''-home-v2'') ns) \<noteq> None" and nopod: "store w KPod (nn (name @ ''-pvc-migrate'') ns) = None"
    and rs: "rs = resolve_in (store w) (Agent_Spec a) ns"
    and cm: "harnessConfigMap (ForType x (HS_Type (AS_Harness (Agent_Spec a)))) a ns name
        (R_GatewayURL rs) (R_OTLPEndpoint rs) (R_Policy rs) (R_Gateway rs) (R_Channels rs) = Inr cm"
  obtains newHash w' pod where "run_state (Reconcile x kc req lastHash) w = ((Inr 0, newHash), w')"
    "agent_in_place x a rs (activePVCName a name) (store w')" "status_in_place a (activePVCName a name) (store w')"
    "store w' KPod (nn (name @ ''-pvc-migrate'') ns) = Some (OPod pod)"
    "Pod_Volumes (Pod_Spec pod) = [vol ''src'' (PVCSource (activePVCName a name) True), vol ''dst'' (PVCSource (name @ ''-home-v2'') False)]"
proof -
  have same: "resize_due x a (store v) \<and> store v KPVC = store w KPVC \<and> store v KPod = store w KPod"
    if "\<And>k. k \<noteq> KConfigMap \<Longrightarrow> store v k = store w k" for v
    using due that by (simp add: resize_due_def)
  note starts = ensureWorkspace_starts_copy [OF _ p, folded name_def ns_def]
  have "\<exists>newHash w'. run_state (Reconcile x kc req lastHash) w = ((Inr 0, newHash), w')"
  proof (rule Reconcile_succeeds_if [OF a cm [unfolded name_def ns_def] rs [unfolded ns_def], folded name_def ns_def])
    fix v assume "\<And>k. k \<noteq> KConfigMap \<Longrightarrow> store v k = store w k"
    then have "resize_due x a (store v)" "store v KPVC = store w KPVC" "store v KPod = store w KPod"
      using same by blast+
    with new nopod obtain v' where "run_state (ensureWorkspace x kc a ns name) v = (Inr (a, activePVCName a name), v')"
      using starts [of v] by metis
    then show "succeeds (ensureWorkspace x kc a ns name) v" by (simp add: succeeds_def)
  qed
  then obtain h w' where run: "run_state (Reconcile x kc req lastHash) w = ((Inr 0, h), w')" by blast
  obtain pvc a' w2 w3 where ip: "agent_in_place x a rs pvc (store w')" "status_in_place a pvc (store w')"
    and w2: "\<forall>k. k \<noteq> KConfigMap \<longrightarrow> store w2 k = store w k"
    and ws: "run_state (ensureWorkspace x kc a ns name) w2 = (Inr (a', pvc), w3)"
    and w': "store w' KPVC = store w3 KPVC" "store w' KPod = store w3 KPod"
    by (rule Reconcile_in_place [OF a run, folded name_def ns_def, folded rs]) (rule that; assumption)
  have v: "resize_due x a (store w2)" "store w2 KPVC (nn (name @ ''-home-v2'') ns) \<noteq> None"
    "store w2 KPod (nn (name @ ''-pvc-migrate'') ns) = None"
    using same [of w2] w2 new nopod by auto
  obtain w4 pod where sw: "run_state (ensureWorkspace x kc a ns name) w2 = (Inr (a, activePVCName a name), w4)"
    "store w4 KPod (nn (name @ ''-pvc-migrate'') ns) = Some (OPod pod)"
    "Pod_Volumes (Pod_Spec pod) = [vol ''src'' (PVCSource (activePVCName a name) True), vol ''dst'' (PVCSource (name @ ''-home-v2'') False)]"
    by (rule starts [OF v]) (rule that; assumption)
  from sw(1) ws have "pvc = activePVCName a name" "w4 = w3" by auto
  then show thesis
    using that [OF run] ip sw(2,3) w' by simp
qed

end

text \<open>The deployment of an agent in place: one replica, on the claim.\<close>

lemma deployment_in_place:
  assumes "agent_in_place x a rs pvc s" "IsPersistent (AS_Workspace (Agent_Spec a))" "pvc \<noteq> ''''"
  obtains dep where "s KDeployment (key_of (OClawAgent a)) = Some (ODeployment dep)"
    "DS_Replicas (Dep_Spec dep) = Some 1"
    "vol ''harness-home'' (PVCSource pvc False) \<in> set (Pod_Volumes (DS_PodSpec (Dep_Spec dep)))"
proof -
  let ?d = "agentDeployment \<lparr>DP_Agent = a, DP_Namespace = Meta_Namespace (Agent_Meta a), DP_Name = Meta_Name (Agent_Meta a),
      DP_OTLPEndpoint = R_OTLPEndpoint rs, DP_GatewayURL = R_GatewayURL rs, DP_ActivePVC = pvc,
      DP_Channels = R_Channels rs, DP_Harness = ForType x (HS_Type (AS_Harness (Agent_Spec a)))\<rparr>"
  have "in_place s (ODeployment ?d)"
    using assms(1) by (auto simp: agent_in_place_def agent_objects_def Let_def)
  then obtain ob where ob: "s KDeployment (key_of (OClawAgent a)) = Some ob" "as_desired (ODeployment ?d) ob"
    by (auto simp: in_place_def agentDeployment_def Let_def)
  then obtain dep where dep: "ob = ODeployment dep" by (cases ob) auto
  with ob assms(2,3) show thesis
    by (intro that) (auto simp: pod_core_def agentDeployment_def agentVolumes_def harnessHomeVolume_def Let_def IsPersistent_def)
qed

text \<open>Worlds of the examples: the agent's claim is too small; a migration may be over.\<close>

definition resize_agent :: "string \<Rightarrow> ClawAgent" where
  "resize_agent pvc = (example_agent ''eng'')\<lparr>Agent_Status := \<lparr>ASt_Phase = '''', ASt_PodName = '''', ASt_WorkspacePVC = pvc\<rparr>\<rparr>"

definition resize_world :: "string \<Rightarrow> mem" where
  "resize_world pvc =
     mem_put (OPVC (buildPVC pvc ''prod'' ''eng'' 1 zero_WorkspaceSpec))
      (mem_put (OPVC (buildPVC ''eng-home-v2'' ''prod'' ''eng'' 5368709120000 zero_WorkspaceSpec))
        (mem_put (OClawAgent (resize_agent pvc)) []))"

definition migrated_world :: "string \<Rightarrow> mem" where
  "migrated_world pvc =
     mem_put (OPod ((buildMigrationPod ''eng-pvc-migrate'' ''prod'' ''eng'' pvc ''eng-home-v2'')\<lparr>Pod_Phase := ''Succeeded''\<rparr>))
       (resize_world pvc)"

lemma resize_agent_simps [simp]:
  "Agent_Meta (resize_agent pvc) = new_meta ''eng'' ''prod'' []"
  "Agent_Spec (resize_agent pvc) = Agent_Spec (example_agent ''eng'')"
  "IsPersistent (AS_Workspace (Agent_Spec (example_agent ''eng'')))"
  by (simp_all add: resize_agent_def example_agent_def IsPersistent_def)

lemma resize_worlds:
  assumes "pvc \<in> {''eng-home'', ''eng-home-v2''}"
  shows "mem_store (resize_world pvc) KClawAgent (nn ''eng'' ''prod'') = Some (OClawAgent (resize_agent pvc))"
    "mem_store (migrated_world pvc) KClawAgent (nn ''eng'' ''prod'') = Some (OClawAgent (resize_agent pvc))"
    "activePVCName (resize_agent pvc) ''eng'' = pvc"
    "mem_store (resize_world pvc) KPVC (nn ''eng-home-v2'' ''prod'') \<noteq> None"
    "mem_store (resize_world pvc) KPod (nn ''eng-pvc-migrate'' ''prod'') = None"
    "mem_store (migrated_world pvc) KPVC (nn ''eng-home-v2'' ''prod'') \<noteq> None"
    "resize_due example_ext (resize_agent pvc) (mem_store (resize_world pvc))"
    "resize_due example_ext (resize_agent pvc) (mem_store (migrated_world pvc))"
    "migrated (resize_agent pvc) (mem_store (migrated_world pvc))"
proof -
  have empty: "mem_store [] k key = None" for k key by (simp add: mem_store_def)
  have keys: "key_of (OClawAgent (resize_agent pvc)) = nn ''eng'' ''prod''" by simp
  show active: "activePVCName (resize_agent pvc) ''eng'' = pvc"
    using assms by (auto simp: activePVCName_def resize_agent_def)
  have q: "parse_digits 0 ''5Gi'' = Some 5368709120000"
    by (simp add: is_digit_def less_eq_char_def)
  have size: "storage_of (buildPVC n ns m 1 ws) = 1" for n ns m ws by (simp add: storage_of_def buildPVC_def mget_def)
  show "mem_store (resize_world pvc) KClawAgent (nn ''eng'' ''prod'') = Some (OClawAgent (resize_agent pvc))"
    "mem_store (migrated_world pvc) KClawAgent (nn ''eng'' ''prod'') = Some (OClawAgent (resize_agent pvc))"
    "mem_store (resize_world pvc) KPVC (nn ''eng-home-v2'' ''prod'') \<noteq> None"
    "mem_store (resize_world pvc) KPod (nn ''eng-pvc-migrate'' ''prod'') = None"
    "mem_store (migrated_world pvc) KPVC (nn ''eng-home-v2'' ''prod'') \<noteq> None"
    "migrated (resize_agent pvc) (mem_store (migrated_world pvc))"
    by (simp_all add: resize_world_def migrated_world_def migrated_def buildPVC_def buildMigrationPod_def empty)
  show "resize_due example_ext (resize_agent pvc) (mem_store (resize_world pvc))"
    "resize_due example_ext (resize_agent pvc) (mem_store (migrated_world pvc))"
    using size [of pvc "''prod''" "''eng''" zero_WorkspaceSpec] q active
    by (simp_all add: resize_due_def resize_world_def migrated_world_def example_ext_def ResolvedStorageSize_def
        example_agent_def zero_WorkspaceSpec_def DefaultWorkspaceStorageSize_def buildPVC_def buildMigrationPod_def empty)
qed

text \<open>An agent runs on a claim: its status names it, its one-replica deployment mounts it.\<close>

definition runs_on :: "ClawAgent \<Rightarrow> string \<Rightarrow> store \<Rightarrow> bool" where
  "runs_on a pvc s \<longleftrightarrow>
     (\<exists>b. s KClawAgent (key_of (OClawAgent a)) = Some (OClawAgent b) \<and> ASt_WorkspacePVC (Agent_Status b) = pvc) \<and>
     (\<exists>dep. s KDeployment (key_of (OClawAgent a)) = Some (ODeployment dep) \<and> DS_Replicas (Dep_Spec dep) = Some 1 \<and>
        vol ''harness-home'' (PVCSource pvc False) \<in> set (Pod_Volumes (DS_PodSpec (Dep_Spec dep))))"

lemma runs_on_if_in_place:
  assumes "agent_in_place x a rs pvc s" "status_in_place a pvc s" "IsPersistent (AS_Workspace (Agent_Spec a))" "pvc \<noteq> ''''"
  shows "runs_on a pvc s"
proof -
  obtain dep where "s KDeployment (key_of (OClawAgent a)) = Some (ODeployment dep)" "DS_Replicas (Dep_Spec dep) = Some 1"
    "vol ''harness-home'' (PVCSource pvc False) \<in> set (Pod_Volumes (DS_PodSpec (Dep_Spec dep)))"
    by (rule deployment_in_place [OF assms(1,3,4)])
  moreover obtain b where "s KClawAgent (key_of (OClawAgent a)) = Some (OClawAgent b)" "ASt_WorkspacePVC (Agent_Status b) = pvc"
    using assms(2) unfolding status_in_place_def by blast
  ultimately show ?thesis unfolding runs_on_def by blast
qed

context reliable_api
begin

lemma Reconcile_switch_runs:
  assumes a: "store w KClawAgent req = Some (OClawAgent a)" and p: "IsPersistent (AS_Workspace (Agent_Spec a))"
    and c: "configurable x a (store w)" and due: "resize_due x a (store w)" and mig: "migrated a (store w)"
  defines "name \<equiv> Meta_Name (Agent_Meta a)" and "ns \<equiv> Meta_Namespace (Agent_Meta a)"
  obtains newHash w' where "run_state (Reconcile x kc req lastHash) w = ((Inr 0, newHash), w')"
    "runs_on a (name @ ''-home-v2'') (store w')"
    "store w' KPVC = (store w KPVC)(nn (activePVCName a name) ns := None)"
proof -
  from c obtain cm where cm: "harnessConfigMap (ForType x (HS_Type (AS_Harness (Agent_Spec a)))) a (Meta_Namespace (Agent_Meta a))
      (Meta_Name (Agent_Meta a)) (R_GatewayURL (resolve_in (store w) (Agent_Spec a) (Meta_Namespace (Agent_Meta a))))
      (R_OTLPEndpoint (resolve_in (store w) (Agent_Spec a) (Meta_Namespace (Agent_Meta a))))
      (R_Policy (resolve_in (store w) (Agent_Spec a) (Meta_Namespace (Agent_Meta a))))
      (R_Gateway (resolve_in (store w) (Agent_Spec a) (Meta_Namespace (Agent_Meta a))))
      (R_Channels (resolve_in (store w) (Agent_Spec a) (Meta_Namespace (Agent_Meta a)))) = Inr cm"
    by (auto simp: configurable_def Let_def)
  show thesis
  proof (rule Reconcile_switches [OF a p due mig refl cm, where lastHash = lastHash, folded name_def ns_def])
    fix h w' assume run: "run_state (Reconcile x kc req lastHash) w = ((Inr 0, h), w')"
      and ip: "agent_in_place x a (resolve_in (store w) (Agent_Spec a) ns) (name @ ''-home-v2'') (store w')"
        "status_in_place a (name @ ''-home-v2'') (store w')"
      and gone: "store w' KPVC (nn (activePVCName a name) ns) = None"
      and rest: "\<And>key. key \<noteq> nn (activePVCName a name) ns \<Longrightarrow> store w' KPVC key = store w KPVC key"
    have "store w' KPVC = (store w KPVC)(nn (activePVCName a name) ns := None)" using gone rest by (intro ext) simp
    with run runs_on_if_in_place [OF ip p] show thesis by (intro that) simp_all
  qed
qed

lemma Reconcile_copy_runs:
  assumes a: "store w KClawAgent req = Some (OClawAgent a)" and p: "IsPersistent (AS_Workspace (Agent_Spec a))"
    and c: "configurable x a (store w)" and due: "resize_due x a (store w)"
  defines "name \<equiv> Meta_Name (Agent_Meta a)" and "ns \<equiv> Meta_Namespace (Agent_Meta a)"
  assumes new: "store w KPVC (nn (name @ ''-home-v2'') ns) \<noteq> None" and nopod: "store w KPod (nn (name @ ''-pvc-migrate'') ns) = None"
  obtains newHash w' pod where "run_state (Reconcile x kc req lastHash) w = ((Inr 0, newHash), w')"
    "runs_on a (activePVCName a name) (store w')"
    "store w' KPod (nn (name @ ''-pvc-migrate'') ns) = Some (OPod pod)"
    "Pod_Volumes (Pod_Spec pod) = [vol ''src'' (PVCSource (activePVCName a name) True), vol ''dst'' (PVCSource (name @ ''-home-v2'') False)]"
proof -
  from c obtain cm where cm: "harnessConfigMap (ForType x (HS_Type (AS_Harness (Agent_Spec a)))) a (Meta_Namespace (Agent_Meta a))
      (Meta_Name (Agent_Meta a)) (R_GatewayURL (resolve_in (store w) (Agent_Spec a) (Meta_Namespace (Agent_Meta a))))
      (R_OTLPEndpoint (resolve_in (store w) (Agent_Spec a) (Meta_Namespace (Agent_Meta a))))
      (R_Policy (resolve_in (store w) (Agent_Spec a) (Meta_Namespace (Agent_Meta a))))
      (R_Gateway (resolve_in (store w) (Agent_Spec a) (Meta_Namespace (Agent_Meta a))))
      (R_Channels (resolve_in (store w) (Agent_Spec a) (Meta_Namespace (Agent_Meta a)))) = Inr cm"
    by (auto simp: configurable_def Let_def)
  show thesis
  proof (rule Reconcile_starts_copy [OF a p due new [unfolded name_def ns_def] nopod [unfolded name_def ns_def] refl cm,
        where lastHash = lastHash, folded name_def ns_def])
    fix h w' pod assume run: "run_state (Reconcile x kc req lastHash) w = ((Inr 0, h), w')"
      and ip: "agent_in_place x a (resolve_in (store w) (Agent_Spec a) ns) (activePVCName a name) (store w')"
        "status_in_place a (activePVCName a name) (store w')"
      and pod: "store w' KPod (nn (name @ ''-pvc-migrate'') ns) = Some (OPod pod)"
        "Pod_Volumes (Pod_Spec pod) = [vol ''src'' (PVCSource (activePVCName a name) True), vol ''dst'' (PVCSource (name @ ''-home-v2'') False)]"
    have "activePVCName a name \<noteq> ''''" by (simp add: activePVCName_def PVCSuffix_def)
    from that [OF run runs_on_if_in_place [OF ip p this] pod] show thesis .
  qed
qed

end

lemma resize_example_config: "configurable x (resize_agent pvc) s"
  using example_agent_config by (simp add: configurable_def Let_def example_agent_resolved harnessConfigMap_def)

theorem claim_deleted_after_migration_witness:
  "\<exists>r w'. run_state (Reconcile example_ext mem_client (nn ''eng'' ''prod'') '''') (migrated_world ''eng-home'') = (r, w') \<and>
    mem_store w' KPVC (nn ''eng-home'' ''prod'') = None \<and>
    (\<exists>pod. mem_store (migrated_world ''eng-home'') KPod (nn ''eng-pvc-migrate'' ''prod'') = Some (OPod pod) \<and>
       Pod_Phase pod = ''Succeeded'')"
proof -
  let ?a = "resize_agent ''eng-home''"
  have home: "mem_store (migrated_world ''eng-home'') KPVC (nn ''eng-home'' ''prod'') \<noteq> None"
    using resize_worlds(3,8) [of "''eng-home''"] by (auto simp: resize_due_def Let_def)
  obtain h w' where run: "run_state (Reconcile example_ext mem_client (nn ''eng'' ''prod'') '''') (migrated_world ''eng-home'') = ((Inr 0, h), w')"
    and gone: "mem_store w' KPVC = (mem_store (migrated_world ''eng-home'') KPVC)(nn ''eng-home'' ''prod'' := None)"
  proof (rule mem_controller.Reconcile_switch_runs [OF resize_worlds(2) [of "''eng-home''"] _ resize_example_config, where lastHash = "''''"])
    fix h w'
    assume "run_state (Reconcile example_ext mem_client (nn ''eng'' ''prod'') '''') (migrated_world ''eng-home'') = ((Inr 0, h), w')"
      "mem_store w' KPVC = (mem_store (migrated_world ''eng-home'') KPVC)
         (nn (activePVCName ?a (Meta_Name (Agent_Meta ?a))) (Meta_Namespace (Agent_Meta ?a)) := None)"
    then show thesis using that resize_worlds(3) [of "''eng-home''"] by simp
  qed (use resize_worlds [of "''eng-home''"] in simp_all)
  then have "mem_store w' KPVC (nn ''eng-home'' ''prod'') = None" by simp
  from claim_deleted_after_migration [OF mem_controller.controller_api_axioms, OF resize_worlds(2) [of "''eng-home''"], OF _ _ run home this]
    run this show ?thesis by auto
qed

text \<open>C9: A finished resize moves the agent. When the agent's claim is too small, its deployment is scaled
  down, the migration pod has succeeded and the agent is not on the second claim yet, the next
  reconcile succeeds: the agent runs on NAME-home-v2, which is there as before, and only the old
  claim is gone.\<close>

theorem resize_completes:
  assumes "reliable_api kc store x" "store w KClawAgent req = Some (OClawAgent a)"
    and "IsPersistent (AS_Workspace (Agent_Spec a))" "configurable x a (store w)"
    and "resize_due x a (store w)" "migrated a (store w)"
    and "activePVCName a (Meta_Name (Agent_Meta a)) \<noteq> Meta_Name (Agent_Meta a) @ ''-home-v2''"
  shows "\<exists>newHash w'. run_state (Reconcile x kc req lastHash) w = ((Inr 0, newHash), w') \<and>
    runs_on a (Meta_Name (Agent_Meta a) @ ''-home-v2'') (store w') \<and>
    store w' KPVC (nn (Meta_Name (Agent_Meta a) @ ''-home-v2'') (Meta_Namespace (Agent_Meta a))) \<noteq> None \<and>
    store w' KPVC = (store w KPVC)(nn (activePVCName a (Meta_Name (Agent_Meta a))) (Meta_Namespace (Agent_Meta a)) := None)"
proof (rule reliable_api.Reconcile_switch_runs [OF assms(1-6), where lastHash = lastHash])
  fix h w'
  assume "run_state (Reconcile x kc req lastHash) w = ((Inr 0, h), w')"
    "runs_on a (Meta_Name (Agent_Meta a) @ ''-home-v2'') (store w')"
    "store w' KPVC = (store w KPVC)(nn (activePVCName a (Meta_Name (Agent_Meta a))) (Meta_Namespace (Agent_Meta a)) := None)"
  with assms(6,7) show ?thesis by (simp add: migrated_def Let_def)
qed

theorem resize_completes_witness:
  "\<exists>h w'. run_state (Reconcile example_ext mem_client (nn ''eng'' ''prod'') '''') (migrated_world ''eng-home'') = ((Inr 0, h), w') \<and>
    runs_on (resize_agent ''eng-home'') ''eng-home-v2'' (mem_store w') \<and>
    mem_store w' KPVC (nn ''eng-home'' ''prod'') = None"
  using resize_completes [OF mem_controller.reliable_api_axioms, OF resize_worlds(2) [of "''eng-home''"] _
      resize_example_config, where lastHash = "''''"] resize_worlds [of "''eng-home''"]
  by auto

text \<open>C10: A second resize loses the claim. The new claim is named NAME-home-v2 on every resize; when the
  agent already runs on that claim, a migration that has succeeded was a copy of the claim onto
  itself, and the reconcile that ends it deletes the only claim, reports success, and leaves the
  agent's status and its one-replica deployment on the claim that is gone.\<close>

theorem second_resize_loses_claim:
  assumes "reliable_api kc store x" "store w KClawAgent req = Some (OClawAgent a)"
    and "IsPersistent (AS_Workspace (Agent_Spec a))" "configurable x a (store w)"
    and "resize_due x a (store w)" "migrated a (store w)"
    and "activePVCName a (Meta_Name (Agent_Meta a)) = Meta_Name (Agent_Meta a) @ ''-home-v2''"
  shows "\<exists>newHash w'. run_state (Reconcile x kc req lastHash) w = ((Inr 0, newHash), w') \<and>
    runs_on a (Meta_Name (Agent_Meta a) @ ''-home-v2'') (store w') \<and>
    store w' KPVC (nn (Meta_Name (Agent_Meta a) @ ''-home-v2'') (Meta_Namespace (Agent_Meta a))) = None"
proof (rule reliable_api.Reconcile_switch_runs [OF assms(1-6), where lastHash = lastHash])
  fix h w'
  assume "run_state (Reconcile x kc req lastHash) w = ((Inr 0, h), w')"
    "runs_on a (Meta_Name (Agent_Meta a) @ ''-home-v2'') (store w')"
    "store w' KPVC = (store w KPVC)(nn (activePVCName a (Meta_Name (Agent_Meta a))) (Meta_Namespace (Agent_Meta a)) := None)"
  with assms(7) show ?thesis by simp
qed

theorem second_resize_loses_claim_witness:
  "\<exists>h w'. run_state (Reconcile example_ext mem_client (nn ''eng'' ''prod'') '''') (migrated_world ''eng-home-v2'') = ((Inr 0, h), w') \<and>
    runs_on (resize_agent ''eng-home-v2'') ''eng-home-v2'' (mem_store w') \<and>
    mem_store w' KPVC (nn ''eng-home-v2'' ''prod'') = None"
  using second_resize_loses_claim [OF mem_controller.reliable_api_axioms, OF resize_worlds(2) [of "''eng-home-v2''"] _
      resize_example_config, where lastHash = "''''"] resize_worlds [of "''eng-home-v2''"]
  by auto

text \<open>C11: The agent runs while its claim is copied. With the deployment scaled down and the new claim
  created, the reconcile that starts the migration pod goes on past the resize: it succeeds,
  scales the deployment up again on the claim the pod is reading, and asks for no requeue. (The
  comments of the resize say the deployment stays at zero until the copy is done.)\<close>

theorem resize_copies_while_running:
  assumes "reliable_api kc store x" "store w KClawAgent req = Some (OClawAgent a)"
    and "IsPersistent (AS_Workspace (Agent_Spec a))" "configurable x a (store w)" "resize_due x a (store w)"
    and "store w KPVC (nn (Meta_Name (Agent_Meta a) @ ''-home-v2'') (Meta_Namespace (Agent_Meta a))) \<noteq> None"
    and "store w KPod (nn (Meta_Name (Agent_Meta a) @ ''-pvc-migrate'') (Meta_Namespace (Agent_Meta a))) = None"
  shows "\<exists>newHash w' pod. run_state (Reconcile x kc req lastHash) w = ((Inr 0, newHash), w') \<and>
    runs_on a (activePVCName a (Meta_Name (Agent_Meta a))) (store w') \<and>
    store w' KPod (nn (Meta_Name (Agent_Meta a) @ ''-pvc-migrate'') (Meta_Namespace (Agent_Meta a))) = Some (OPod pod) \<and>
    vol ''src'' (PVCSource (activePVCName a (Meta_Name (Agent_Meta a))) True) \<in> set (Pod_Volumes (Pod_Spec pod))"
proof (rule reliable_api.Reconcile_copy_runs [OF assms(1), OF assms(2-7), where lastHash = lastHash])
  fix h w' pod
  assume "run_state (Reconcile x kc req lastHash) w = ((Inr 0, h), w')"
    "runs_on a (activePVCName a (Meta_Name (Agent_Meta a))) (store w')"
    "store w' KPod (nn (Meta_Name (Agent_Meta a) @ ''-pvc-migrate'') (Meta_Namespace (Agent_Meta a))) = Some (OPod pod)"
    "Pod_Volumes (Pod_Spec pod) = [vol ''src'' (PVCSource (activePVCName a (Meta_Name (Agent_Meta a))) True),
       vol ''dst'' (PVCSource (Meta_Name (Agent_Meta a) @ ''-home-v2'') False)]"
  then show ?thesis by auto
qed

theorem resize_copies_while_running_witness:
  "\<exists>h w' pod. run_state (Reconcile example_ext mem_client (nn ''eng'' ''prod'') '''') (resize_world ''eng-home'') = ((Inr 0, h), w') \<and>
    runs_on (resize_agent ''eng-home'') ''eng-home'' (mem_store w') \<and>
    mem_store w' KPod (nn ''eng-pvc-migrate'' ''prod'') = Some (OPod pod) \<and>
    vol ''src'' (PVCSource ''eng-home'' True) \<in> set (Pod_Volumes (Pod_Spec pod))"
  using resize_copies_while_running [OF mem_controller.reliable_api_axioms, OF resize_worlds(1) [of "''eng-home''"] _
      resize_example_config, where lastHash = "''''"] resize_worlds [of "''eng-home''"]
  by auto

end
