(* ===== verification/Cluster.thy ===== *)
theory Cluster
  imports AgentWorkspace StackProperties ApiProperties
begin

text \<open>
  The operator in its cluster, as one state machine: the three controllers and the control plane API
  take turns with the cluster's own changes, with users, and with restarts of the operator. One
  handler runs at a time. Safety properties of single handlers become invariants of every run.
\<close>

section \<open>The machine\<close>

datatype action =
    ReconcileAgent NamespacedName | ReconcileGateway NamespacedName | ReconcileObservability NamespacedName
  | Serve Request | Restart | Kubelet | UserCreate Obj | UserUpdate Obj | UserDelete Obj

text \<open>The cluster runs pods and reports on deployments; the rest is not its own.\<close>

definition kubelet :: "store \<Rightarrow> store \<Rightarrow> bool" where
  "kubelet s s' \<longleftrightarrow> (\<forall>k key. k \<notin> {KPod, KDeployment} \<longrightarrow> s' k key = s k key)"

text \<open>
  A state is the world and \<open>lastDashboardHash\<close>, which a restart forgets. Any reconcile may come at any
  time, so that the work queue and its order play no role.
\<close>

inductive cluster_step :: "ext \<Rightarrow> 'w Server \<Rightarrow> 'w apilib \<Rightarrow> ('w \<Rightarrow> store) \<Rightarrow> action \<Rightarrow> 'w \<times> string \<Rightarrow> 'w \<times> string \<Rightarrow> bool"
  for x srv lib st where
  agent: "run_state (Reconcile x (srv_Client srv) req h) w = ((r, h'), w') \<Longrightarrow>
    cluster_step x srv lib st (ReconcileAgent req) (w, h) (w', h')"
| gateway: "run_state (gateway_Reconcile x (srv_Client srv) req) w = (r, w') \<Longrightarrow>
    cluster_step x srv lib st (ReconcileGateway req) (w, h) (w', h)"
| observability: "run_state (observability_Reconcile x (srv_Client srv) req) w = (r, w') \<Longrightarrow>
    cluster_step x srv lib st (ReconcileObservability req) (w, h) (w', h)"
| serve: "run_state (serve srv lib rq) w = (acts, w') \<Longrightarrow> cluster_step x srv lib st (Serve rq) (w, h) (w', h)"
| restart: "cluster_step x srv lib st Restart (w, h) (w, '''')"
| kubelet: "kubelet (st w) (st w') \<Longrightarrow> cluster_step x srv lib st Kubelet (w, h) (w', h)"
| user_create: "created ob (st w) (st w') \<Longrightarrow> cluster_step x srv lib st (UserCreate ob) (w, h) (w', h)"
| user_update: "updated ob (st w) (st w') \<Longrightarrow> cluster_step x srv lib st (UserUpdate ob) (w, h) (w', h)"
| user_delete: "deleted ob (st w) (st w') \<Longrightarrow> cluster_step x srv lib st (UserDelete ob) (w, h) (w', h)"

text \<open>A run, with the actions taken and the states passed, the first state first.\<close>

inductive cluster_run :: "ext \<Rightarrow> 'w Server \<Rightarrow> 'w apilib \<Rightarrow> ('w \<Rightarrow> store) \<Rightarrow> 'w \<times> string \<Rightarrow> action list \<Rightarrow> ('w \<times> string) list \<Rightarrow> bool"
  for x srv lib st s where
  start: "cluster_run x srv lib st s [] [s]"
| step: "cluster_run x srv lib st s acts ss \<Longrightarrow> cluster_step x srv lib st act (last ss) s' \<Longrightarrow> cluster_run x srv lib st s (acts @ [act]) (ss @ [s'])"

inductive_cases restartE: "cluster_step x srv lib st Restart s s'"

lemma cluster_run_states: "cluster_run x srv lib st s acts ss \<Longrightarrow> ss \<noteq> [] \<and> hd ss = s \<and> length ss = Suc (length acts)"
  by (induction rule: cluster_run.induct) auto

lemma restart_forgets: "cluster_step x srv lib st Restart s s' \<Longrightarrow> fst s' = fst s \<and> snd s' = ''''"
  by (elim restartE) simp

text \<open>What every step keeps, every run keeps.\<close>

lemma cluster_run_invariant:
  assumes "cluster_run x srv lib st s acts ss" "P s"
    and keep: "\<And>act s s'. cluster_step x srv lib st act s s' \<Longrightarrow> P s \<Longrightarrow> P s'"
  shows "\<forall>v \<in> set ss. P v"
  using assms(1)
proof (induction rule: cluster_run.induct)
  case (step acts ss act s')
  with cluster_run_states [OF step.hyps(1)] have "P (last ss)" by simp
  with step.hyps(2) have "P s'" by (rule keep)
  with step.IH show ?case by simp
qed (simp add: assms(2))

section \<open>The writes of the API\<close>

context control_plane
begin

text \<open>Reading handlers leave the store as it is, so they keep any relation that holds of equal stores.\<close>

lemma same_store:
  assumes "guar (touches store {}) m" "\<And>w w'. store w' = store w \<Longrightarrow> R w w'"
  shows "guar R m"
  using assms(1) by (rule guar_mono) (auto simp: touches_empty intro: assms(2))

lemmas reads_same = guar_readers [THEN same_store] guar_state_get [THEN same_store]

lemma guar_serve_writes:
  assumes R: "guarantee R" and same: "\<And>w w'. store w' = store w \<Longrightarrow> R w w'"
    and writes: "\<And>ob. guar R (kube_Create (srv_Client srv) ob)" "\<And>ob. guar R (kube_Update (srv_Client srv) ob)"
      "\<And>ob. guar R (kube_Delete (srv_Client srv) ob)"
  shows "guar R (serve srv lib rq)"
proof -
  note compose = guarantee.guar_return [OF R] guarantee.guar_bind [OF R]
  have get: "guar R (kube_Get (srv_Client srv) k key)" for k key
    by (rule guarI) (blast intro: same get_same)
  have create: "guar R (handleCreate srv lib rq k)" for k
    unfolding handleCreate_def storeCreated_def
    by (auto intro!: compose writes reads_same same split: option.split sum.split)
  have update: "guar R (handleUpdate srv lib rq name k)" for name k
    unfolding handleUpdate_def storeUpdated_def
    by (auto intro!: compose writes get reads_same same split: option.split sum.split)
  have delete: "guar R (handleDelete srv name k)" for name k
    unfolding handleDelete_def by (intro compose writes)
  have item: "guar R (handleItem srv lib rq k path)" for k path
    unfolding handleItem_def Let_def
    by (auto intro!: compose reads_same same update delete split: prod.split option.split)
  have dispatch: "guar R (dispatch srv lib rq h)" for h
  proof (induction h)
    case (HCollection k g)
    then show ?case by (cases g) (auto intro!: compose reads_same same create)
  qed (auto intro!: compose reads_same same item)
  show ?thesis
    unfolding serve_def withCORS_def serveMux_def
    by (intro compose guarantee.guar_if [OF R]) (auto intro!: compose dispatch split: routed.split)
qed

end

section \<open>The status of an agent names a claim of its own\<close>

lemma workspaces_ok_stored:
  assumes "workspaces_ok s" "\<And>a. ob = OClawAgent a \<Longrightarrow> workspace_ok a"
  shows "workspaces_ok (store_put ob s)"
  using assms by (auto simp: workspaces_ok_def)

lemma created_workspaces_ok: "created ob s s' \<Longrightarrow> workspaces_ok s \<Longrightarrow> workspaces_ok s'"
proof -
  assume "created ob s s'" and ok: "workspaces_ok s"
  then obtain ob' where ob': "kept (fresh ob) ob'" "s' = store_put ob' s" by (auto simp: created_def)
  have "workspace_ok a" if "ob' = OClawAgent a" for a
  proof -
    from ob'(1) that obtain b where "ob = OClawAgent b" by (cases ob) (auto simp: kept_def)
    with ob'(1) that have "kept (OClawAgent (b\<lparr>Agent_Status := Agent_Status zero_ClawAgent\<rparr>)) (OClawAgent a)" by simp
    from kept_agent [OF this] show ?thesis by (auto simp: workspace_ok_def zero_ClawAgent_def)
  qed
  with ob'(2) ok show ?thesis by (simp add: workspaces_ok_stored)
qed

lemma updated_workspaces_ok: "store_ok s \<Longrightarrow> updated ob s s' \<Longrightarrow> workspaces_ok s \<Longrightarrow> workspaces_ok s'"
proof -
  assume s: "store_ok s" and "updated ob s s'" and ok: "workspaces_ok s"
  then obtain old ob' where o: "s (kind_of ob) (key_of ob) = Some old" and ob': "kept (keep_status ob old) ob'" "s' = store_put ob' s"
    by (auto simp: updated_def)
  have "workspace_ok a" if a: "ob' = OClawAgent a" for a
  proof -
    from ob'(1) a have "kind_of ob = KClawAgent" using kept_kind by fastforce
    then obtain b where b: "ob = OClawAgent b" by (cases ob) auto
    from o s b have "kind_of old = KClawAgent" "key_of old = key_of ob" by (auto simp: store_ok_def)
    then obtain c where c: "old = OClawAgent c" "key_of (OClawAgent c) = key_of (OClawAgent b)" using b by (cases old) auto
    from o ok b c have "workspace_ok c" by (auto simp: workspaces_ok_def)
    moreover from ob'(1) a b c have "kept (OClawAgent (b\<lparr>Agent_Status := Agent_Status c\<rparr>)) (OClawAgent a)" by simp
    from kept_agent [OF this] have "Agent_Status a = Agent_Status c" "Meta_Name (Agent_Meta a) = Meta_Name (Agent_Meta b)" by auto
    ultimately show ?thesis using c(2) by (simp add: workspace_ok_def)
  qed
  with ob'(2) ok show ?thesis by (simp add: workspaces_ok_stored)
qed

lemma deleted_workspaces_ok: "deleted ob s s' \<Longrightarrow> workspaces_ok s \<Longrightarrow> workspaces_ok s'"
  by (auto simp: deleted_def workspaces_ok_def split: if_splits)

context kube_api
begin

lemma writes_workspaces_ok:
  "guar (keeps (\<lambda>w. workspaces_ok (store w))) (kube_Create kc ob)"
  "guar (keeps (\<lambda>w. workspaces_ok (store w))) (kube_Update kc ob)"
  "guar (keeps (\<lambda>w. workspaces_ok (store w))) (kube_Delete kc ob)"
proof -
  have "store w' = store w \<or> created ob (store w) (store w')" if "run_state (kube_Create kc ob) w = (r, w')" for r w w'
    using that by (cases r) (auto dest: create_Inl create_Inr)
  then show "guar (keeps (\<lambda>w. workspaces_ok (store w))) (kube_Create kc ob)"
    by (fastforce intro!: guarI simp: keeps_def dest: created_workspaces_ok)
  have "store w' = store w \<or> updated ob (store w) (store w')" if "run_state (kube_Update kc ob) w = (r, w')" for r w w'
    using that by (cases r) (auto dest: update_Inl update_Inr)
  then show "guar (keeps (\<lambda>w. workspaces_ok (store w))) (kube_Update kc ob)"
    using store_wf by (fastforce intro!: guarI simp: keeps_def dest: updated_workspaces_ok)
  have "store w' = store w \<or> deleted ob (store w) (store w')" if "run_state (kube_Delete kc ob) w = (r, w')" for r w w'
    using that by (cases r) (auto dest: delete_Inl delete_Inr)
  then show "guar (keeps (\<lambda>w. workspaces_ok (store w))) (kube_Delete kc ob)"
    by (fastforce intro!: guarI simp: keeps_def dest: deleted_workspaces_ok)
qed

end

lemma partly_filled_kinds:
  "partly_filled P obs s s' \<Longrightarrow> (\<And>ob. ob \<in> set obs \<Longrightarrow> kind_of ob \<noteq> k) \<Longrightarrow> s' k = s k"
  unfolding partly_filled_def id_of_def by (intro ext) (metis prod.inject)

context controller_api
begin

text \<open>The other two controllers touch neither agents nor claims.\<close>

lemma with_object_missing:
  assumes "store w k req = None" "run_state (with_object sel kc k req f) w = (r, w')"
  shows "store w' = store w"
  using assms by (auto simp: with_object_def split: prod.splits sum.splits if_splits dest: getAs_same getAs_Inr)

lemma gateway_quiet:
  assumes "run_state (gateway_Reconcile x kc req) w = (r, w')" "k \<in> {KClawAgent, KPVC}"
  shows "store w' k = store w k"
proof (cases "store w KClawGateway req")
  case None
  with assms(1) show ?thesis unfolding gateway_Reconcile_def by (metis with_object_missing)
next
  case (Some ob)
  with store_wf [of w] have "kind_of ob = KClawGateway" by (simp add: store_ok_def)
  then obtain gw where gw: "ob = OClawGateway gw" by (cases ob) auto
  from gateway_run [OF Some [unfolded gw] assms(1)]
  have "partly_filled (made x KClawGateway (Gateway_Meta gw)) (map snd (gatewayObjs x gw)) (store w) (store w')" by blast
  moreover have "kind_of ob \<noteq> k" if "ob \<in> set (map snd (gatewayObjs x gw))" for ob
    using gateway_kinds [OF that] assms(2) by auto
  ultimately show ?thesis by (rule partly_filled_kinds)
qed

lemma observability_kinds: "ob \<in> set (map snd (observabilityObjects obs)) \<Longrightarrow> kind_of ob \<in> {KConfigMap, KDeployment, KService}"
  by (auto simp: observabilityObjects_def Let_def split: if_splits)

lemma observability_quiet:
  assumes "run_state (observability_Reconcile x kc req) w = (r, w')" "k \<in> {KClawAgent, KPVC}"
  shows "store w' k = store w k"
proof (cases "store w KClawObservability req")
  case None
  with assms(1) show ?thesis unfolding observability_Reconcile_def by (metis with_object_missing)
next
  case (Some ob)
  with store_wf [of w] have "kind_of ob = KClawObservability" by (simp add: store_ok_def)
  then obtain obs where obs: "ob = OClawObservability obs" by (cases ob) auto
  from Some [unfolded obs] assms(1) show ?thesis
  proof (rule observability_run)
    fix s1 assume p: "partly_filled (made x KClawObservability (Observability_Meta obs)) (map snd (observabilityObjects obs)) (store w) s1"
      and rest: "\<forall>k key. (k, key) \<noteq> (KClawObservability, req) \<longrightarrow> store w' k key = s1 k key"
    from p have "s1 k = store w k"
      by (rule partly_filled_kinds) (use observability_kinds assms(2) in fastforce)
    moreover have "store w' k = s1 k" using rest assms(2) by (intro ext) auto
    ultimately show ?thesis by simp
  qed
qed

end

section \<open>Invariants of every run\<close>

text \<open>The operator: the API and the controllers use one client.\<close>

locale operator = control_plane srv store lib + controller_api "srv_Client srv" store x
  for srv :: "'w Server" and store :: "'w \<Rightarrow> store" and lib :: "'w apilib" and x :: ext
begin

lemma step_workspaces_ok:
  assumes "cluster_step x srv lib store act (w, h) (w', h')" "workspaces_ok (store w)"
  shows "workspaces_ok (store w')"
  using assms
proof cases
  case (agent req r)
  with assms(2) Reconcile_workspaces_ok show ?thesis by blast
next
  case (gateway req r)
  with gateway_quiet [of req w r w' KClawAgent] assms(2) show ?thesis by (simp add: workspaces_ok_def)
next
  case (observability req r)
  with observability_quiet [of req w r w' KClawAgent] assms(2) show ?thesis by (simp add: workspaces_ok_def)
next
  case (serve rq acts)
  have "guar (keeps (\<lambda>w. workspaces_ok (store w))) (serve srv lib rq)"
    by (rule guar_serve_writes [OF kp.guarantee_axioms]) (simp_all add: keeps_def writes_workspaces_ok)
  from guarD [OF this serve(3)] assms(2) show ?thesis by (simp add: keeps_def)
next
  case kubelet
  with assms(2) show ?thesis by (auto simp: kubelet_def workspaces_ok_def)
qed (use assms(2) store_wf in \<open>auto dest: created_workspaces_ok updated_workspaces_ok deleted_workspaces_ok\<close>)

lemma run_workspaces_ok:
  assumes "cluster_run x srv lib store s acts ss" "workspaces_ok (store (fst s))"
  shows "\<forall>v \<in> set ss. workspaces_ok (store (fst v))"
  using assms by (rule cluster_run_invariant) (auto dest: step_workspaces_ok)

text \<open>A step in which a persistent agent loses its first claim.\<close>

lemma step_claim:
  assumes step: "cluster_step x srv lib store act (w, h) (w', h')" and ok: "workspaces_ok (store w)"
    and stored: "store w KClawAgent (nn name ns) = Some (OClawAgent a)" "IsPersistent (AS_Workspace (Agent_Spec a))"
    and user: "\<And>ob. id_of ob = (KPVC, nn (name @ ''-home'') ns) \<Longrightarrow> act \<noteq> UserDelete ob"
    and claim: "store w KPVC (nn (name @ ''-home'') ns) \<noteq> None"
  shows "store w' KPVC (nn (name @ ''-home'') ns) \<noteq> None \<or>
    act = ReconcileAgent (nn name ns) \<and> activePVCName a name = name @ ''-home'' \<and> migrated a (store w)"
proof -
  let ?key = "nn (name @ ''-home'') ns"
  have named: "Meta_Name (Agent_Meta a) = name" "Meta_Namespace (Agent_Meta a) = ns"
    using stored(1) store_wf [of w] by (fastforce simp: store_ok_def)+
  from step show ?thesis
  proof cases
    case (agent req r)
    consider "store w KClawAgent req = None" | b where "store w KClawAgent req = Some (OClawAgent b)" "req \<noteq> nn name ns" | "req = nn name ns"
      by (metis stored_agent)
    then show ?thesis
    proof cases
      case 1
      with Reconcile_missing [OF 1] agent(2) claim show ?thesis by fastforce
    next
      case 2
      from 2(1) ok have "workspace_ok b" by (auto simp: workspaces_ok_def)
      moreover have "key_of (OClawAgent b) = req" using 2(1) store_wf [of w] unfolding store_ok_def by metis
      ultimately have "(KPVC, ?key) \<notin> agent_footprint x b"
        using 2(2) workspace_ok_active [of b] by (auto simp: agent_footprint_def Let_def)
      with Reconcile_touches [OF 2(1)] agent(2) claim show ?thesis by (auto simp: touches_def)
    next
      case 3
      show ?thesis
      proof (cases "store w' KPVC ?key = None")
        case True
        from Reconcile_deletes_claim [OF stored(1)[folded 3] stored(2) agent(2) claim True]
        have "?key = nn (activePVCName a name) ns" "migrated a (store w)" unfolding named by blast+
        with agent(1) 3 show ?thesis by simp
      qed simp
    qed
  next
    case (gateway req r)
    with gateway_quiet [of req w r w' KPVC] claim show ?thesis by simp
  next
    case (observability req r)
    with observability_quiet [of req w r w' KPVC] claim show ?thesis by simp
  next
    case (serve rq acts)
    have "guar (touches store {p. fst p \<noteq> KPVC}) (serve srv lib rq)"
      by (rule guar_serve) (auto simp: resources_def)
    from guarD [OF this serve(3)] claim show ?thesis by (simp add: touches_def)
  next
    case kubelet
    with claim show ?thesis by (simp add: kubelet_def)
  next
    case (user_delete ob)
    with user [of ob] claim show ?thesis by (auto simp: deleted_def id_of_def)
  qed (use claim in \<open>auto simp: created_def updated_def dest: kept_kind kept_key\<close>)
qed

lemma run_claim:
  assumes "cluster_run x srv lib store s acts ss"
    and "\<forall>v \<in> set ss. \<exists>a. store (fst v) KClawAgent (nn name ns) = Some (OClawAgent a) \<and> IsPersistent (AS_Workspace (Agent_Spec a))"
    and "\<forall>ob. UserDelete ob \<in> set acts \<longrightarrow> id_of ob \<noteq> (KPVC, nn (name @ ''-home'') ns)"
    and start: "workspaces_ok (store (fst s))" "store (fst s) KPVC (nn (name @ ''-home'') ns) \<noteq> None"
  shows "store (fst (last ss)) KPVC (nn (name @ ''-home'') ns) \<noteq> None \<or>
    (\<exists>v \<in> set (butlast ss). \<exists>a. store (fst v) KClawAgent (nn name ns) = Some (OClawAgent a) \<and> migrated a (store (fst v)))"
  using assms(1-3)
proof (induction rule: cluster_run.induct)
  case start
  with assms(5) show ?case by simp
next
  case (step acts ss act s')
  let ?gone = "\<lambda>v. \<exists>a. store (fst v) KClawAgent (nn name ns) = Some (OClawAgent a) \<and> migrated a (store (fst v))"
  from cluster_run_states [OF step.hyps(1)] have ss: "ss \<noteq> []" by simp
  then have last: "last ss \<in> set ss" by simp
  have earlier: "set (butlast (ss @ [s'])) = set ss" by simp
  show ?case
  proof (cases "\<exists>v \<in> set ss. ?gone v")
    case False
    with step.IH step.prems have claim: "store (fst (last ss)) KPVC (nn (name @ ''-home'') ns) \<noteq> None"
      by (auto dest: in_set_butlastD)
    have ok: "workspaces_ok (store (fst (last ss)))"
      using run_workspaces_ok [OF step.hyps(1) start(1)] last by blast
    from step.prems(1) last obtain a where a: "store (fst (last ss)) KClawAgent (nn name ns) = Some (OClawAgent a)"
      "IsPersistent (AS_Workspace (Agent_Spec a))" by force
    have "cluster_step x srv lib store act (fst (last ss), snd (last ss)) (fst s', snd s')" using step.hyps(2) by simp
    from step_claim [OF this ok a _ claim] step.prems(2) a last False show ?thesis by auto
  qed (simp only: earlier simp_thms)
qed

end

interpretation example_operator: operator example_server mem_store example_lib example_ext
  by (intro operator.intro example_api.control_plane_axioms) (simp add: mem_controller.controller_api_axioms)

text \<open>Two agents with the claim of the first, for examples.\<close>

definition cluster_world :: mem where
  "cluster_world = mem_put (OPVC (buildPVC ''eng-home'' ''prod'' ''eng'' 1 zero_WorkspaceSpec)) (example_world [''eng'', ''ops''])"

lemma cluster_world_simps:
  "mem_store cluster_world KPVC (nn ''eng-home'' ''prod'') \<noteq> None"
  "mem_store cluster_world KClawAgent (nn ''eng'' ''prod'') = Some (OClawAgent (example_agent ''eng''))"
  "mem_store cluster_world KClawAgent (nn ''ops'' ''prod'') = Some (OClawAgent (example_agent ''ops''))"
  "workspaces_ok (mem_store cluster_world)"
  "mem_store cluster_world KPod key = None"
proof -
  show "workspaces_ok (mem_store cluster_world)"
    unfolding cluster_world_def mem_store_put by (rule workspaces_ok_stored [OF example_workspaces_ok]) simp
qed (simp_all add: cluster_world_def example_world_def buildPVC_def del: key_of_simps, simp_all)

text \<open>The second agent is deleted, the operator sees that, and is restarted.\<close>

lemma cluster_example_run:
  obtains w1 w2 where
    "cluster_run example_ext example_server example_lib mem_store (cluster_world, '''')
       [UserDelete (OClawAgent (example_agent ''ops'')), ReconcileAgent (nn ''ops'' ''prod''), Restart]
       [(cluster_world, ''''), (w1, ''''), (w2, ''''), (w2, '''')]"
    "mem_store w1 = store_del KClawAgent (nn ''ops'' ''prod'') (mem_store cluster_world)" "mem_store w2 = mem_store w1"
proof -
  let ?w1 = "mdel (mem_key KClawAgent (nn ''ops'' ''prod'')) cluster_world"
  have gone: "mem_store ?w1 KClawAgent (nn ''ops'' ''prod'') = None" by simp
  obtain r h w2 where run: "run_state (Reconcile example_ext mem_client (nn ''ops'' ''prod'') '''') ?w1 = ((r, h), w2)"
    by (metis prod.exhaust)
  with mem_controller.Reconcile_missing [OF gone run] have w2: "mem_store w2 = mem_store ?w1" "h = ''''" by simp_all
  let ?run = "cluster_run example_ext example_server example_lib mem_store (cluster_world, '''')"
  have "?run [UserDelete (OClawAgent (example_agent ''ops''))] [(cluster_world, ''''), (?w1, '''')]"
    by (rule cluster_run.step [OF cluster_run.start, where act = "UserDelete (OClawAgent (example_agent ''ops''))", simplified])
      (auto intro!: cluster_step.user_delete simp: deleted_def cluster_world_simps(3) simp del: key_of_simps)
  from cluster_run.step [OF this, of "ReconcileAgent (nn ''ops'' ''prod'')" "(w2, '''')"] cluster_step.agent [of example_ext example_server] run
  have "?run [UserDelete (OClawAgent (example_agent ''ops'')), ReconcileAgent (nn ''ops'' ''prod'')] [(cluster_world, ''''), (?w1, ''''), (w2, '''')]"
    by (simp add: w2(2))
  from cluster_run.step [OF this, of Restart "(w2, '''')"] cluster_step.restart [of example_ext example_server example_lib mem_store w2 "''''"]
  have "?run [UserDelete (OClawAgent (example_agent ''ops'')), ReconcileAgent (nn ''ops'' ''prod''), Restart]
    [(cluster_world, ''''), (?w1, ''''), (w2, ''''), (w2, '''')]" by simp
  with w2(1) show thesis by (intro that [of ?w1 w2]) simp_all
qed

text \<open>C17: The claim in an agent's status is always one of its own: empty, \<open>name-home\<close> or
  \<open>name-home-v2\<close>. If this holds of all agents at the start, it holds in every state of every run of
  the cluster: whatever reconciles, requests to the API, restarts, changes of pods and deployments
  and changes by users come in what order, and whichever calls of the API server fail.\<close>

theorem cluster_keeps_workspaces_ok:
  assumes "operator srv store lib x" "cluster_run x srv lib store (w, h) acts ss" "workspaces_ok (store w)" "v \<in> set ss"
  shows "workspaces_ok (store (fst v))"
  using operator.run_workspaces_ok [OF assms(1,2)] assms(3,4) by simp

theorem cluster_keeps_workspaces_ok_witness:
  "\<exists>ss. cluster_run example_ext example_server example_lib mem_store (cluster_world, '''')
      [UserDelete (OClawAgent (example_agent ''ops'')), ReconcileAgent (nn ''ops'' ''prod''), Restart] ss \<and>
    workspaces_ok (mem_store (fst (last ss)))"
proof (rule cluster_example_run)
  fix w1 w2 assume run: "cluster_run example_ext example_server example_lib mem_store (cluster_world, '''')
       [UserDelete (OClawAgent (example_agent ''ops'')), ReconcileAgent (nn ''ops'' ''prod''), Restart]
       [(cluster_world, ''''), (w1, ''''), (w2, ''''), (w2, '''')]"
  from cluster_keeps_workspaces_ok [OF example_operator.operator_axioms run cluster_world_simps(4), of "(w2, '''')"] run
  show ?thesis by (intro exI [of _ "[(cluster_world, ''''), (w1, ''''), (w2, ''''), (w2, '''')]"]) simp
qed

text \<open>C3: A persistent workspace outlives everything but its own migration. As long as an agent stays
  and stays persistent, and nobody deletes its claim by hand, the claim \<open>name-home\<close> is there in every
  state of every run of the cluster, unless in an earlier state the migration pod of the agent had
  succeeded and the claim \<open>name-home-v2\<close> it had copied to was there. Other agents, gateways, stacks,
  the API and restarts cannot remove it.\<close>

theorem workspace_survives:
  assumes "operator srv store lib x" "cluster_run x srv lib store (w, h) acts ss" "workspaces_ok (store w)"
    and "\<forall>v \<in> set ss. \<exists>a. store (fst v) KClawAgent (nn name ns) = Some (OClawAgent a) \<and> IsPersistent (AS_Workspace (Agent_Spec a))"
    and "\<forall>ob. UserDelete ob \<in> set acts \<longrightarrow> id_of ob \<noteq> (KPVC, nn (name @ ''-home'') ns)"
    and "store w KPVC (nn (name @ ''-home'') ns) \<noteq> None"
  shows "store (fst (last ss)) KPVC (nn (name @ ''-home'') ns) \<noteq> None \<or>
    (\<exists>v \<in> set (butlast ss). \<exists>a. store (fst v) KClawAgent (nn name ns) = Some (OClawAgent a) \<and> migrated a (store (fst v)))"
  by (rule operator.run_claim [OF assms(1,2,4,5)]) (use assms(3,6) in simp_all)

theorem workspace_survives_witness:
  "\<exists>ss. cluster_run example_ext example_server example_lib mem_store (cluster_world, '''')
      [UserDelete (OClawAgent (example_agent ''ops'')), ReconcileAgent (nn ''ops'' ''prod''), Restart] ss \<and>
    mem_store (fst (last ss)) KPVC (nn ''eng-home'' ''prod'') \<noteq> None"
proof (rule cluster_example_run)
  fix w1 w2
  let ?ss = "[(cluster_world, ''''), (w1, ''''), (w2, ''''), (w2, '''')]"
  assume run: "cluster_run example_ext example_server example_lib mem_store (cluster_world, '''')
       [UserDelete (OClawAgent (example_agent ''ops'')), ReconcileAgent (nn ''ops'' ''prod''), Restart] ?ss"
    and w: "mem_store w1 = store_del KClawAgent (nn ''ops'' ''prod'') (mem_store cluster_world)" "mem_store w2 = mem_store w1"
  have agent: "mem_store (fst v) KClawAgent (nn ''eng'' ''prod'') = Some (OClawAgent (example_agent ''eng''))" if "v \<in> set ?ss" for v
    using that cluster_world_simps(2) by (auto simp: w)
  have pod: "mem_store (fst v) KPod (nn ''eng-pvc-migrate'' ''prod'') = None" if "v \<in> set ?ss" for v
    using that by (auto simp: w cluster_world_simps(5))
  have "IsPersistent (AS_Workspace (Agent_Spec (example_agent ''eng'')))" by (simp add: example_agent_def IsPersistent_def)
  with agent have "\<forall>v \<in> set ?ss. \<exists>a. mem_store (fst v) KClawAgent (nn ''eng'' ''prod'') = Some (OClawAgent a) \<and>
      IsPersistent (AS_Workspace (Agent_Spec a))" by blast
  from workspace_survives [OF example_operator.operator_axioms run cluster_world_simps(4) this] cluster_world_simps(1)
  have "mem_store (fst (last ?ss)) KPVC (nn ''eng-home'' ''prod'') \<noteq> None \<or>
    (\<exists>v \<in> set (butlast ?ss). \<exists>a. mem_store (fst v) KClawAgent (nn ''eng'' ''prod'') = Some (OClawAgent a) \<and> migrated a (mem_store (fst v)))"
    by (simp add: id_of_def)
  moreover have "\<not> migrated a (mem_store (fst v))"
    if "v \<in> set ?ss" "mem_store (fst v) KClawAgent (nn ''eng'' ''prod'') = Some (OClawAgent a)" for v a
  proof -
    from that agent [OF that(1)] have "a = example_agent ''eng''" by simp
    with pod [OF that(1)] show ?thesis by (simp add: migrated_def example_agent_def Let_def)
  qed
  ultimately have "mem_store (fst (last ?ss)) KPVC (nn ''eng-home'' ''prod'') \<noteq> None" by (meson in_set_butlastD)
  with run show ?thesis by blast
qed

end
