(* ===== verification/GatewayServer.thy ===== *)
theory GatewayServer
  imports GatewayController ApiHttp "HOL-Library.Sublist"
begin

text \<open>
  The server the gateway's pod runs: the Python script \<open>gatewayServerScript\<close> of
  \<open>controller/clawgateway_controller.go\<close>, as functions over its state. Parameters: compiled regular
  expressions, the upstream model API, the classifier's model and which modules can be imported. FastAPI calls a handler with the
  validated request and answers 500 when it raises.
\<close>

section \<open>State\<close>

text \<open>
  Dictionaries are maps, so the order of their keys is not kept. A compiled pattern: its text, the spans of its matches in a string (\<open>finditer\<close>), and what a
  replacement template expands to at a match (\<open>None\<close> when the template is malformed).
\<close>

record regex =
  re_pattern :: string
  re_spans :: "string \<Rightarrow> (nat \<times> nat) list"
  re_template :: "string \<Rightarrow> (string \<Rightarrow> nat \<times> nat \<Rightarrow> string) option"

datatype exn = AttributeError | TypeError | ReError | ValueError | ModuleNotFoundError string | OtherExn string

text \<open>A loaded classifier: the index of the greatest logit and the number of tokens of a text.\<close>

record classifier =
  cl_model_id :: string
  cl_labels :: "string list"
  cl_run :: "string \<Rightarrow> exn + nat \<times> nat"

record server_state =
  gs_patterns :: "(regex \<times> string) list"
  gs_classifier :: "classifier option"
  gs_upstream :: string
  gs_api_key :: string

datatype content = Json json | Raw string

record py_response =
  py_status :: int
  py_headers :: "(string, string) gomap"
  py_content :: content

definition JSONResponse :: "int \<Rightarrow> json \<Rightarrow> py_response" where
  "JSONResponse code j = \<lparr>py_status = code, py_headers = [(''content-type'', ''application/json'')], py_content = Json j\<rparr>"

text \<open>An \<open>import\<close> raises when the module is not there. The script's own imports, at its top, and those of
  the functions that use the classifier.\<close>

definition py_import :: "(string \<Rightarrow> bool) \<Rightarrow> string \<Rightarrow> exn + unit" where
  "py_import importable m = (if importable m then Inr () else Inl (ModuleNotFoundError m))"

definition server_imports :: "string list" where
  "server_imports = [''argparse'', ''os'', ''re'', ''time'', ''threading'', ''httpx'', ''uvicorn'', ''fastapi'', ''pydantic'']"

section \<open>Patterns\<close>

record PatternEntry =
  pe_pattern :: string
  pe_replacement :: string

text \<open>A pattern that does not compile is reported and left out.\<close>

definition compile_patterns :: "(string \<Rightarrow> regex option) \<Rightarrow> PatternEntry list \<Rightarrow> (regex \<times> string) list" where
  "compile_patterns re_compile raw =
     List.map_filter (\<lambda>e. map_option (\<lambda>p. (p, pe_replacement e)) (re_compile (pe_pattern e))) raw"

definition update_patterns ::
    "(string \<Rightarrow> regex option) \<Rightarrow> PatternEntry list \<Rightarrow> server_state \<Rightarrow> py_response \<times> server_state" where
  "update_patterns re_compile config gs =
     (let compiled = compile_patterns re_compile config in
      (JSONResponse 200 (jobj [(''status'', JStr ''ok''), (''patterns'', JInt (int (length compiled)))]),
       gs\<lparr>gs_patterns := compiled\<rparr>))"

section \<open>Redaction\<close>

record redaction =
  rd_original :: string
  rd_replacement :: string
  rd_pattern :: string

text \<open>\<open>pattern.sub\<close>: what is between the matches stays.\<close>

fun sub_spans :: "(nat \<times> nat \<Rightarrow> string) \<Rightarrow> nat \<Rightarrow> (nat \<times> nat) list \<Rightarrow> string \<Rightarrow> string" where
  "sub_spans f pos [] t = drop pos t"
| "sub_spans f pos ((a, b) # ms) t = take (a - pos) (drop pos t) @ f (a, b) @ sub_spans f b ms t"

definition span_text :: "string \<Rightarrow> nat \<times> nat \<Rightarrow> string" where
  "span_text t m = take (snd m - fst m) (drop (fst m) t)"

fun redact :: "(regex \<times> string) list \<Rightarrow> string \<Rightarrow> exn + string \<times> redaction list" where
  "redact [] text = Inr (text, [])"
| "redact ((p, repl) # ps) text =
     (let found = map (\<lambda>m. \<lparr>rd_original = span_text text m, rd_replacement = repl, rd_pattern = re_pattern p\<rparr>)
            (re_spans p text) in
      case re_template p repl of
        None \<Rightarrow> Inl ReError
      | Some expand \<Rightarrow>
          (case redact ps (sub_spans (expand text) 0 (re_spans p text) text) of
             Inl e \<Rightarrow> Inl e
           | Inr (t, rs) \<Rightarrow> Inr (t, found @ rs)))"

text \<open>A value that is not a string only passes while there is no pattern to search it with.\<close>

definition redact_value :: "(regex \<times> string) list \<Rightarrow> json \<Rightarrow> exn + json \<times> redaction list" where
  "redact_value ps v =
     (case v of
        JStr s \<Rightarrow> (case redact ps s of Inl e \<Rightarrow> Inl e | Inr (t, rs) \<Rightarrow> Inr (JStr t, rs))
      | _ \<Rightarrow> if ps = [] then Inr (v, []) else Inl TypeError)"

text \<open>\<open>{**d, k: f(d.get(k, ""))}\<close>\<close>

definition redact_field ::
    "(regex \<times> string) list \<Rightarrow> string \<Rightarrow> (string, json) gomap \<Rightarrow> exn + json \<times> redaction list" where
  "redact_field ps k d =
     (case redact_value ps (case mget d k of None \<Rightarrow> JStr '''' | Some v \<Rightarrow> v) of
        Inl e \<Rightarrow> Inl e
      | Inr (v, rs) \<Rightarrow> Inr (JObj (mput k v d), rs))"

fun redact_each :: "(json \<Rightarrow> exn + json \<times> redaction list) \<Rightarrow> json list \<Rightarrow> exn + json list \<times> redaction list" where
  "redact_each f [] = Inr ([], [])"
| "redact_each f (v # vs) =
     (case f v of
        Inl e \<Rightarrow> Inl e
      | Inr (v', rs) \<Rightarrow>
          (case redact_each f vs of Inl e \<Rightarrow> Inl e | Inr (vs', rs') \<Rightarrow> Inr (v' # vs', rs @ rs')))"

definition redact_block :: "(regex \<times> string) list \<Rightarrow> json \<Rightarrow> exn + json \<times> redaction list" where
  "redact_block ps block =
     (case block of
        JObj d \<Rightarrow> if mget d ''type'' = Some (JStr ''text'') then redact_field ps ''text'' d else Inr (block, [])
      | _ \<Rightarrow> Inr (block, []))"

definition redact_message :: "(regex \<times> string) list \<Rightarrow> json \<Rightarrow> exn + json \<times> redaction list" where
  "redact_message ps msg =
     (case msg of
        JObj d \<Rightarrow>
          if mget d ''role'' = Some (JStr ''user'') then
            (case (case mget d ''content'' of None \<Rightarrow> JStr '''' | Some v \<Rightarrow> v) of
               JStr s \<Rightarrow> redact_field ps ''content'' d
             | JArr blocks \<Rightarrow>
                 (case redact_each (redact_block ps) blocks of
                    Inl e \<Rightarrow> Inl e
                  | Inr (bs, rs) \<Rightarrow> Inr (JObj (mput ''content'' (JArr bs) d), rs))
             | _ \<Rightarrow> Inr (msg, []))
          else Inr (msg, [])
      | _ \<Rightarrow> Inl AttributeError)"

definition redact_messages :: "(regex \<times> string) list \<Rightarrow> json list \<Rightarrow> exn + json list \<times> redaction list" where
  "redact_messages ps messages = redact_each (redact_message ps) messages"

section \<open>The proxy\<close>

text \<open>\<open>for msg in v\<close>\<close>

definition iterate :: "json \<Rightarrow> exn + json list" where
  "iterate v =
     (case v of
        JArr vs \<Rightarrow> Inr vs
      | JStr s \<Rightarrow> Inr (map (\<lambda>c. JStr [c]) s)
      | JObj d \<Rightarrow> Inr (map (JStr \<circ> fst) d)
      | _ \<Rightarrow> Inl TypeError)"

fun truthy :: "json \<Rightarrow> bool" where
  "truthy JNull = False"
| "truthy (JBool b) = b"
| "truthy (JInt i) = (i \<noteq> 0)"
| "truthy (JFloat (Finite s)) = (s \<notin> {''0'', ''-0''})"
| "truthy (JFloat (NonFinite s)) = True"
| "truthy (JStr s) = (s \<noteq> '''')"
| "truthy (JArr vs) = (vs \<noteq> [])"
| "truthy (JObj d) = (d \<noteq> [])"

text \<open>The headers copied over when the request, or the answer, has them.\<close>

definition copy_headers :: "string list \<Rightarrow> (string \<Rightarrow> string option) \<Rightarrow> (string, string) gomap \<Rightarrow> (string, string) gomap" where
  "copy_headers keys header hs =
     foldl (\<lambda>hs k. case header k of Some v \<Rightarrow> if v \<noteq> '''' then mput k v hs else hs | None \<Rightarrow> hs) hs keys"

definition FORWARD_HEADERS :: "string list" where
  "FORWARD_HEADERS = [''anthropic-version'', ''authorization'', ''anthropic-beta'']"

definition proxy_headers :: "server_state \<Rightarrow> (string \<Rightarrow> string option) \<Rightarrow> (string, string) gomap" where
  "proxy_headers gs header =
     copy_headers FORWARD_HEADERS header
       (let hs = mput ''Content-Type'' ''application/json'' [] in
        if gs_api_key gs \<noteq> '''' then mput ''x-api-key'' (gs_api_key gs) hs else hs)"

record upstream_request =
  ur_url :: string
  ur_headers :: "(string, string) gomap"
  ur_body :: json
  ur_stream :: bool

text \<open>The answer of the model API: the bytes of its body, and their JSON value if they have one.\<close>

record upstream_answer =
  ua_status :: int
  ua_header :: "string \<Rightarrow> string option"
  ua_raw :: string
  ua_json :: "json option"

definition redaction_log :: "redaction list \<Rightarrow> string list" where
  "redaction_log rs =
     (if rs = [] then []
      else (''[redact] '' @ show_int (int (length rs)) @ '' PII match(es):'') #
        map (\<lambda>r. ''  '' @ rd_original r @ '' -> '' @ rd_replacement r) rs)"

definition prepare :: "server_state \<Rightarrow> (string \<Rightarrow> string option) \<Rightarrow> json \<Rightarrow> exn + upstream_request \<times> redaction list" where
  "prepare gs header body =
     (case body of
        JObj d \<Rightarrow>
          (case (case mget d ''messages'' of None \<Rightarrow> Inr [] | Some v \<Rightarrow> iterate v) of
             Inl e \<Rightarrow> Inl e
           | Inr messages \<Rightarrow>
               (case redact_messages (gs_patterns gs) messages of
                  Inl e \<Rightarrow> Inl e
                | Inr (cleaned, rs) \<Rightarrow>
                    (let stream = (case mget d ''stream'' of None \<Rightarrow> False | Some v \<Rightarrow> truthy v);
                         hs = proxy_headers gs header in
                     Inr (\<lparr>ur_url = gs_upstream gs @ ''/v1/messages'',
                           ur_headers = (if stream then mput ''Accept-Encoding'' ''identity'' hs else hs),
                           ur_body = JObj (mput ''messages'' (JArr cleaned) d), ur_stream = stream\<rparr>, rs))))
      | _ \<Rightarrow> Inl AttributeError)"

definition relay :: "bool \<Rightarrow> upstream_answer \<Rightarrow> exn + py_response" where
  "relay stream ans =
     (if stream
      then Inr \<lparr>py_status = ua_status ans,
        py_headers = copy_headers [''content-type'', ''x-request-id'', ''content-encoding''] (ua_header ans) [],
        py_content = Raw (ua_raw ans)\<rparr>
      else (case ua_json ans of None \<Rightarrow> Inl ValueError | Some j \<Rightarrow> Inr (JSONResponse 200 j)))"

text \<open>The handler: the lines it prints, and its answer. The body is \<open>None\<close> when it is not JSON.\<close>

definition proxy_messages ::
    "(upstream_request \<Rightarrow> ('w, exn + upstream_answer) state) \<Rightarrow> server_state \<Rightarrow> (string \<Rightarrow> string option) \<Rightarrow> json option \<Rightarrow>
     ('w, string list \<times> (exn + py_response)) state" where
  "proxy_messages send gs header body =
     (case body of
        None \<Rightarrow> State_Monad.return ([], Inl ValueError)
      | Some b \<Rightarrow>
          (case prepare gs header b of
             Inl e \<Rightarrow> State_Monad.return ([], Inl e)
           | Inr (req, rs) \<Rightarrow> do {
               ans \<leftarrow> send req;
               State_Monad.return (redaction_log rs, case ans of Inl e \<Rightarrow> Inl e | Inr a \<Rightarrow> relay (ur_stream req) a)
             }))"

text \<open>What the caller gets: 500 when a handler raises.\<close>

definition answered :: "exn + py_response \<Rightarrow> py_response" where
  "answered r =
     (case r of
        Inr resp \<Rightarrow> resp
      | Inl _ \<Rightarrow> \<lparr>py_status = 500, py_headers = [(''content-type'', ''text/plain; charset=utf-8'')],
          py_content = Raw ''Internal Server Error''\<rparr>)"

section \<open>The classifier\<close>

record ClassifierRequest =
  cr_model :: string
  cr_messages :: "(string \<times> string) list"  \<comment> \<open>role and content\<close>

text \<open>The handler imports \<open>torch\<close> before it looks whether a classifier is loaded.\<close>

definition chat_completions :: "(string \<Rightarrow> bool) \<Rightarrow> server_state \<Rightarrow> ClassifierRequest \<Rightarrow> exn + py_response" where
  "chat_completions importable gs req =
     (case py_import importable ''torch'' of Inl e \<Rightarrow> Inl e | Inr _ \<Rightarrow>
     (case gs_classifier gs of
        None \<Rightarrow> Inr (JSONResponse 503 (jobj [(''error'', JStr ''Classifier not loaded. Start server without --no-classifier.'')]))
      | Some cl \<Rightarrow>
          (let text = (if cr_messages req \<noteq> [] then snd (last (cr_messages req)) else '''') in
           case cl_run cl text of
             Inl e \<Rightarrow> Inl e
           | Inr (prediction, tokens) \<Rightarrow>
               (let label = (if prediction < length (cl_labels cl) then cl_labels cl ! prediction
                    else ''class_'' @ show_int (int prediction)) in
                Inr (JSONResponse 200 (jobj
                  [(''id'', JStr ''cmpl-classifier''),
                   (''object'', JStr ''chat.completion''),
                   (''model'', JStr (if cr_model req \<noteq> '''' then cr_model req else cl_model_id cl)),
                   (''choices'', JArr [jobj
                     [(''index'', JInt 0),
                      (''message'', jobj [(''role'', JStr ''assistant''), (''content'', JStr label)]),
                      (''finish_reason'', JStr ''stop'')]]),
                   (''usage'', jobj
                     [(''prompt_tokens'', JInt (int tokens)),
                      (''completion_tokens'', JInt 1),
                      (''total_tokens'', JInt (int tokens + 1))])]))))))"

definition health :: "server_state \<Rightarrow> py_response" where
  "health gs = JSONResponse 200 (jobj
     [(''status'', JStr ''ok''),
      (''services'', jobj
        [(''redaction_proxy'', jobj
           [(''pii_patterns'', JInt (int (length (gs_patterns gs)))), (''upstream'', JStr (gs_upstream gs))]),
         (''classifier'', case gs_classifier gs of
            Some cl \<Rightarrow> jobj [(''model'', JStr (cl_model_id cl)), (''labels'', jstrs (cl_labels cl))]
          | None \<Rightarrow> jobj [(''status'', JStr ''disabled'')])])])"

section \<open>The start\<close>

text \<open>\<open>int(s)\<close>\<close>

definition py_int :: "string \<Rightarrow> int option" where
  "py_int s =
     (let t = TrimSpace s;
          (neg, ds) = (case t of [] \<Rightarrow> (False, [])
            | c # r \<Rightarrow> if c = CHR ''-'' then (True, r) else if c = CHR ''+'' then (False, r) else (False, t));
          parts = split_at CHR ''_'' ds in
      if list_all (\<lambda>p. p \<noteq> [] \<and> list_all is_digit p) parts
      then Some (let n = int (read_digits 0 (concat parts)) in if neg then - n else n) else None)"

record server_args =
  sa_port :: int
  sa_host :: string
  sa_upstream :: string
  sa_classifier_model :: string
  sa_classifier_labels :: string
  sa_no_classifier :: bool

definition server_options :: "string list" where
  "server_options = [''--help'', ''--port'', ''--host'', ''--upstream'', ''--classifier-model'', ''--classifier-labels'', ''--no-classifier'']"

text \<open>\<open>argparse\<close> takes an option by its name or by a prefix no other option has.\<close>

definition named_option :: "string \<Rightarrow> string option" where
  "named_option s =
     (let name = fst (cut_at CHR ''='' s) in
      if s = ''-h'' then Some ''--help''
      else if take 2 name \<noteq> ''--'' \<or> name = ''--'' then None
      else if name \<in> set server_options then Some name
      else (case filter (prefix name) server_options of [opt] \<Rightarrow> Some opt | _ \<Rightarrow> None))"

text \<open>The expression \<open>^-\d+$|^-\d*\.\d+$\<close>.\<close>

definition negative_number :: "string \<Rightarrow> bool" where
  "negative_number s \<longleftrightarrow>
     (case cut_at CHR ''.'' (tl s) of
        (whole, None) \<Rightarrow> whole \<noteq> '''' \<and> list_all is_digit whole
      | (whole, Some frac) \<Rightarrow> list_all is_digit whole \<and> frac \<noteq> '''' \<and> list_all is_digit frac)"

text \<open>An argument that can be the value of the option before it.\<close>

definition is_value :: "string \<Rightarrow> bool" where
  "is_value s \<longleftrightarrow> s = '''' \<or> hd s \<noteq> CHR ''-'' \<or> s = ''-'' \<or>
     named_option s = None \<and> (negative_number s \<or> CHR '' '' \<in> set s)"

definition apply_option :: "string \<Rightarrow> string \<Rightarrow> server_args \<Rightarrow> server_args option" where
  "apply_option opt v args =
     (if opt = ''--port'' then map_option (\<lambda>p. args\<lparr>sa_port := p\<rparr>) (py_int v)
      else if opt = ''--host'' then Some (args\<lparr>sa_host := v\<rparr>)
      else if opt = ''--upstream'' then Some (args\<lparr>sa_upstream := v\<rparr>)
      else if opt = ''--classifier-model'' then Some (args\<lparr>sa_classifier_model := v\<rparr>)
      else if opt = ''--classifier-labels'' then Some (args\<lparr>sa_classifier_labels := v\<rparr>)
      else None)"

text \<open>The program ends (\<open>None\<close>) on a bad command line and when help is asked for.\<close>

fun parse_args :: "server_args \<Rightarrow> string list \<Rightarrow> server_args option" where
  "parse_args args [] = Some args"
| "parse_args args (s # rest) =
     (if s = ''--'' then if rest = [] then Some args else None
      else case named_option s of
        None \<Rightarrow> None
      | Some opt \<Rightarrow>
          (case snd (cut_at CHR ''='' s) of
             Some v \<Rightarrow> (case apply_option opt v args of None \<Rightarrow> None | Some args' \<Rightarrow> parse_args args' rest)
           | None \<Rightarrow>
               if opt = ''--no-classifier'' then parse_args (args\<lparr>sa_no_classifier := True\<rparr>) rest
               else (case rest of
                   [] \<Rightarrow> None
                 | v # rest' \<Rightarrow>
                     if \<not> is_value v then None
                     else (case apply_option opt v args of None \<Rightarrow> None | Some args' \<Rightarrow> parse_args args' rest'))))"

definition DEFAULT_CLASSIFIER_MODEL :: string where
  "DEFAULT_CLASSIFIER_MODEL = ''Shaheer001/Query-Complexity-Classifier''"

definition DEFAULT_CLASSIFIER_LABELS :: string where
  "DEFAULT_CLASSIFIER_LABELS = ''simple,medium,complex''"

text \<open>\<open>os.environ.get(k, d)\<close>\<close>

definition environ :: "(string \<Rightarrow> string option) \<Rightarrow> string \<Rightarrow> string \<Rightarrow> string" where
  "environ env k d = (case env k of Some v \<Rightarrow> v | None \<Rightarrow> d)"

definition load_classifier ::
    "(string \<Rightarrow> bool) \<Rightarrow> (string \<Rightarrow> exn + (string \<Rightarrow> exn + nat \<times> nat)) \<Rightarrow> string \<Rightarrow> string list \<Rightarrow> exn + classifier" where
  "load_classifier importable from_pretrained model_id labels =
     (case py_import importable ''torch'' of Inl e \<Rightarrow> Inl e | Inr _ \<Rightarrow>
     (case py_import importable ''transformers'' of Inl e \<Rightarrow> Inl e | Inr _ \<Rightarrow>
     (case from_pretrained model_id of
        Inl e \<Rightarrow> Inl e
      | Inr f \<Rightarrow> Inr \<lparr>cl_model_id = model_id, cl_labels = labels, cl_run = f\<rparr>)))"

text \<open>The port, the host and the first state of the server; \<open>None\<close> when it does not come up.\<close>

definition server_main ::
    "(string \<Rightarrow> bool) \<Rightarrow> (string \<Rightarrow> exn + (string \<Rightarrow> exn + nat \<times> nat)) \<Rightarrow> (string \<Rightarrow> string option) \<Rightarrow> string list \<Rightarrow>
     (int \<times> string \<times> server_state) option" where
  "server_main importable from_pretrained env argv =
     (if \<not> list_all importable server_imports then None else
     (case py_int (environ env ''GATEWAY_PORT'' ''8443'') of
        None \<Rightarrow> None
      | Some port \<Rightarrow>
          (case parse_args \<lparr>sa_port = port, sa_host = ''0.0.0.0'',
               sa_upstream = environ env ''UPSTREAM_BASE_URL'' ''https://api.anthropic.com'',
               sa_classifier_model = environ env ''CLASSIFIER_MODEL'' DEFAULT_CLASSIFIER_MODEL,
               sa_classifier_labels = environ env ''CLASSIFIER_LABELS'' DEFAULT_CLASSIFIER_LABELS,
               sa_no_classifier = False\<rparr> argv of
             None \<Rightarrow> None
           | Some args \<Rightarrow>
               (let gs = \<lparr>gs_patterns = [], gs_classifier = None, gs_upstream = sa_upstream args,
                      gs_api_key = environ env ''ANTHROPIC_API_KEY'' ''''\<rparr> in
                if sa_no_classifier args then Some (sa_port args, sa_host args, gs)
                else (case load_classifier importable from_pretrained (sa_classifier_model args)
                        (map TrimSpace (split_at CHR '','' (sa_classifier_labels args))) of
                    Inl _ \<Rightarrow> None
                  | Inr cl \<Rightarrow> Some (sa_port args, sa_host args, gs\<lparr>gs_classifier := Some cl\<rparr>))))))"

end
