(* ===== verification/GatewayServerProperties.thy ===== *)
theory GatewayServerProperties
  imports GatewayServer
begin

text \<open>
  What the gateway's server does with a request: which text it redacts and what it leaves, where the
  redacted text goes, what is sent upstream and what comes back; and that the container the gateway
  controller makes starts it on the port its service reaches.
\<close>

section \<open>The text of the user\<close>

fun block_text :: "json \<Rightarrow> string list" where
  "block_text (JObj d) =
     (if mget d ''type'' = Some (JStr ''text'')
      then (case mget d ''text'' of None \<Rightarrow> [''''] | Some (JStr s) \<Rightarrow> [s] | _ \<Rightarrow> []) else [])"
| "block_text _ = []"

fun message_text :: "json \<Rightarrow> string list" where
  "message_text (JObj d) =
     (if mget d ''role'' = Some (JStr ''user'')
      then (case mget d ''content'' of
          None \<Rightarrow> ['''']
        | Some (JStr s) \<Rightarrow> [s]
        | Some (JArr bs) \<Rightarrow> concat (map block_text bs)
        | _ \<Rightarrow> [])
      else [])"
| "message_text _ = []"

text \<open>A message without its user text.\<close>

definition blank :: "string \<Rightarrow> (string, json) gomap \<Rightarrow> json" where
  "blank k d = JObj (mput k (case mget d k of None \<Rightarrow> JStr '''' | Some (JStr s) \<Rightarrow> JStr '''' | Some v \<Rightarrow> v) d)"

fun blank_block :: "json \<Rightarrow> json" where
  "blank_block (JObj d) = (if mget d ''type'' = Some (JStr ''text'') then blank ''text'' d else JObj d)"
| "blank_block j = j"

fun blank_message :: "json \<Rightarrow> json" where
  "blank_message (JObj d) =
     (if mget d ''role'' = Some (JStr ''user'')
      then (case mget d ''content'' of
          Some (JArr bs) \<Rightarrow> JObj (mput ''content'' (JArr (map blank_block bs)) d)
        | _ \<Rightarrow> blank ''content'' d)
      else JObj d)"
| "blank_message j = j"

text \<open>Texts redacted one after the other, with all that was found.\<close>

fun redact_texts :: "(regex \<times> string) list \<Rightarrow> string list \<Rightarrow> exn + string list \<times> redaction list" where
  "redact_texts ps [] = Inr ([], [])"
| "redact_texts ps (s # ss) =
     (case redact ps s of
        Inl e \<Rightarrow> Inl e
      | Inr (t, rs) \<Rightarrow> (case redact_texts ps ss of Inl e \<Rightarrow> Inl e | Inr (ts, rs') \<Rightarrow> Inr (t # ts, rs @ rs')))"

lemma redact_texts_append:
  "redact_texts ps ss = Inr (ts, rs) \<Longrightarrow> redact_texts ps ss' = Inr (ts', rs') \<Longrightarrow>
   redact_texts ps (ss @ ss') = Inr (ts @ ts', rs @ rs')"
  by (induction ss arbitrary: ts rs) (auto split: sum.splits prod.splits)

lemma mput_same_key: "mput k v (mput k v' d) = mput k v d"
  by (induction k v' d rule: mput.induct) auto

text \<open>What redaction of one value has to do.\<close>

definition redacts :: "(regex \<times> string) list \<Rightarrow> (json \<Rightarrow> string list) \<Rightarrow> (json \<Rightarrow> json) \<Rightarrow> (json \<Rightarrow> exn + json \<times> redaction list) \<Rightarrow> bool" where
  "redacts ps text_of blanked f \<longleftrightarrow>
     (\<forall>v v' rs. f v = Inr (v', rs) \<longrightarrow> blanked v' = blanked v \<and> redact_texts ps (text_of v) = Inr (text_of v', rs))"

lemma redacts_each:
  assumes "redacts ps text_of blanked f" "redact_each f vs = Inr (vs', rs)"
  shows "map blanked vs' = map blanked vs \<and> redact_texts ps (concat (map text_of vs)) = Inr (concat (map text_of vs'), rs)"
  using assms(2)
proof (induction vs arbitrary: vs' rs)
  case (Cons v vs)
  from Cons.prems obtain v' rs1 ws rs2 where v: "f v = Inr (v', rs1)" "redact_each f vs = Inr (ws, rs2)"
    "vs' = v' # ws" "rs = rs1 @ rs2" by (auto split: sum.splits prod.splits)
  with assms(1) have "blanked v' = blanked v" "redact_texts ps (text_of v) = Inr (text_of v', rs1)"
    unfolding redacts_def by blast+
  with Cons.IH [OF v(2)] v(3,4) show ?case by (simp add: redact_texts_append)
qed simp

fun is_string :: "json \<Rightarrow> bool" where
  "is_string (JStr s) = True"
| "is_string _ = False"

fun is_array :: "json \<Rightarrow> bool" where
  "is_array (JArr vs) = True"
| "is_array _ = False"

lemma redact_value_cases:
  assumes "redact_value ps v = Inr (v', rs)"
  obtains s t where "v = JStr s" "v' = JStr t" "redact ps s = Inr (t, rs)"
  | "v' = v" "rs = []" "\<not> is_string v"
  using assms by (cases v) (auto simp: redact_value_def split: sum.splits if_splits)

text \<open>One field of a dictionary.\<close>

lemma redact_field_cases:
  assumes "redact_field ps k d = Inr (v', rs)"
  obtains s t where "mget d k = Some (JStr s) \<or> mget d k = None \<and> s = ''''" "redact ps s = Inr (t, rs)"
    "v' = JObj (mput k (JStr t) d)"
  | v where "mget d k = Some v" "\<not> is_string v" "v' = JObj (mput k v d)" "rs = []"
proof -
  let ?v = "case mget d k of None \<Rightarrow> JStr '''' | Some v \<Rightarrow> v"
  from assms obtain u where u: "redact_value ps ?v = Inr (u, rs)" "v' = JObj (mput k u d)"
    by (auto simp: redact_field_def split: sum.splits)
  from u(1) show thesis
  proof (cases rule: redact_value_cases)
    case (1 s t)
    then have "mget d k = Some (JStr s) \<or> mget d k = None \<and> s = ''''" by (cases "mget d k") simp_all
    with 1 u(2) show thesis by (intro that(1) [of s t]) simp_all
  next
    case 2
    then obtain v where "mget d k = Some v" "u = v" "\<not> is_string v" by (cases "mget d k") simp_all
    with 2 u(2) show thesis by (intro that(2) [of v]) simp_all
  qed
qed

lemma blank_mput: "\<not> is_string v \<Longrightarrow> blank k (mput k v d) = JObj (mput k v d)"
  "blank k (mput k (JStr t) d) = JObj (mput k (JStr '''') d)"
  by (cases v; simp add: blank_def gomap_simps mput_same_key)+

lemma blank_other: "mget d k = Some v \<Longrightarrow> \<not> is_string v \<Longrightarrow> blank k d = JObj (mput k v d)"
  by (cases v) (auto simp: blank_def)

lemma blank_string: "mget d k = Some (JStr s) \<or> mget d k = None \<Longrightarrow> blank k d = JObj (mput k (JStr '''') d)"
  by (auto simp: blank_def)

lemma redacts_block: "redacts ps block_text blank_block (redact_block ps)"
  unfolding redacts_def
proof (intro allI impI)
  fix v v' rs assume run: "redact_block ps v = Inr (v', rs)"
  show "blank_block v' = blank_block v \<and> redact_texts ps (block_text v) = Inr (block_text v', rs)"
  proof (cases "\<exists>d. v = JObj d \<and> mget d ''type'' = Some (JStr ''text'')")
    case True
    then obtain d where d: "v = JObj d" "mget d ''type'' = Some (JStr ''text'')" by blast
    with run have "redact_field ps ''text'' d = Inr (v', rs)" by (simp add: redact_block_def)
    then show ?thesis
    proof (cases rule: redact_field_cases)
      case (1 s t)
      with d have "block_text v = [s]" "block_text v' = [t]" "blank_block v' = JObj (mput ''text'' (JStr '''') d)"
        "blank_block v = JObj (mput ''text'' (JStr '''') d)"
        by (auto simp: gomap_simps blank_mput blank_string)
      with 1(2) show ?thesis by simp
    next
      case (2 u)
      with d have "block_text v = []" "block_text v' = []" by (cases u; simp add: gomap_simps)+
      with 2 d show ?thesis by (simp add: gomap_simps blank_mput blank_other mput_same_key)
    qed
  next
    case False
    with run have "v' = v" "rs = []" "block_text v = []" by (cases v; auto simp: redact_block_def)+
    then show ?thesis by simp
  qed
qed

lemma redacts_message: "redacts ps message_text blank_message (redact_message ps)"
  unfolding redacts_def
proof (intro allI impI)
  fix v v' rs assume run: "redact_message ps v = Inr (v', rs)"
  then obtain d where d: "v = JObj d" by (cases v) (auto simp: redact_message_def)
  let ?c = "mget d ''content''"
  have kinds: "?c = None \<or> (\<exists>s. ?c = Some (JStr s)) \<or> (\<exists>bs. ?c = Some (JArr bs)) \<or> (\<exists>c. ?c = Some c \<and> \<not> is_string c \<and> \<not> is_array c)"
    by (cases ?c; cases "the ?c") auto
  consider (other) "mget d ''role'' \<noteq> Some (JStr ''user'')"
    | (blocks) bs where "mget d ''role'' = Some (JStr ''user'')" "?c = Some (JArr bs)"
    | (string) "mget d ''role'' = Some (JStr ''user'')" "?c = None \<or> (\<exists>s. ?c = Some (JStr s))"
    | (different) c where "mget d ''role'' = Some (JStr ''user'')" "?c = Some c" "\<not> is_string c" "\<not> is_array c"
    using kinds by blast
  then show "blank_message v' = blank_message v \<and> redact_texts ps (message_text v) = Inr (message_text v', rs)"
  proof cases
    case other
    with run d show ?thesis by (auto simp: redact_message_def)
  next
    case (blocks bs)
    with run d obtain bs' where bs': "redact_each (redact_block ps) bs = Inr (bs', rs)"
      "v' = JObj (mput ''content'' (JArr bs') d)"
      by (auto simp: redact_message_def split: sum.splits)
    with redacts_each [OF redacts_block bs'(1)] blocks d show ?thesis
      by (simp add: gomap_simps mput_same_key)
  next
    case string
    with run d have "redact_field ps ''content'' d = Inr (v', rs)" by (auto simp: redact_message_def)
    then show ?thesis
    proof (cases rule: redact_field_cases)
      case (1 s t)
      with string d have "message_text v = [s]" "message_text v' = [t]" "blank_message v' = JObj (mput ''content'' (JStr '''') d)"
        "blank_message v = JObj (mput ''content'' (JStr '''') d)"
        by (auto simp: gomap_simps blank_mput blank_string)
      with 1(2) show ?thesis by simp
    next
      case (2 u)
      with string show ?thesis by auto
    qed
  next
    case (different c)
    with run d have "v' = v" "rs = []" by (cases c; auto simp: redact_message_def)+
    moreover have "message_text v = []" using different d by (cases c) auto
    ultimately show ?thesis by simp
  qed
qed

text \<open>C37: The proxy redacts the text of users and nothing else. The body it sends upstream is the one it
  got with its messages replaced; a message or a block keeps all but its user text (strings of user
  messages, and of their text blocks); and each such text is redacted by the patterns in force,
  which between them report every match. So what assistants, tools and the system prompt say is
  sent on as it is.\<close>

theorem proxy_redacts_user_text:
  assumes "prepare gs header (JObj d) = Inr (req, rs)" "mget d ''messages'' = Some (JArr msgs)"
  shows "\<exists>msgs'. ur_body req = JObj (mput ''messages'' (JArr msgs') d) \<and>
    map blank_message msgs' = map blank_message msgs \<and>
    redact_texts (gs_patterns gs) (concat (map message_text msgs)) = Inr (concat (map message_text msgs'), rs)"
proof -
  from assms obtain msgs' where "redact_messages (gs_patterns gs) msgs = Inr (msgs', rs)"
    "ur_body req = JObj (mput ''messages'' (JArr msgs') d)"
    by (auto simp: prepare_def iterate_def Let_def split: sum.splits)
  with redacts_each [OF redacts_message] show ?thesis unfolding redact_messages_def by blast
qed

section \<open>The text that was redacted\<close>

text \<open>The pieces of a text around what is replaced in it.\<close>

fun weave :: "string list \<Rightarrow> string list \<Rightarrow> string" where
  "weave [g] xs = g"
| "weave (g # gs) (x # xs) = g @ x @ weave gs xs"
| "weave gs xs = ''''"

text \<open>The reported matches lead from a text to its redaction, pattern by pattern.\<close>

inductive rewritten :: "redaction list \<Rightarrow> string \<Rightarrow> string \<Rightarrow> bool" where
  nothing: "rewritten [] t t"
| pattern: "length gs = Suc (length rs) \<Longrightarrow> rewritten rs' (weave gs (map rd_replacement rs)) t \<Longrightarrow>
    rewritten (rs @ rs') (weave gs (map rd_original rs)) t"

text \<open>Matches do not overlap and come in order; a template without escapes stands for itself.\<close>

fun in_order :: "nat \<Rightarrow> (nat \<times> nat) list \<Rightarrow> nat \<Rightarrow> bool" where
  "in_order pos [] n \<longleftrightarrow> pos \<le> n"
| "in_order pos ((a, b) # ms) n \<longleftrightarrow> pos \<le> a \<and> a \<le> b \<and> in_order b ms n"

definition literal_regex :: "regex \<times> string \<Rightarrow> bool" where
  "literal_regex pr \<longleftrightarrow> (\<forall>t. in_order 0 (re_spans (fst pr) t) (length t)) \<and>
     re_template (fst pr) (snd pr) = Some (\<lambda>t m. snd pr)"

lemma in_order_le: "in_order pos ms n \<Longrightarrow> pos \<le> n"
  by (induction pos ms n rule: in_order.induct) auto

lemma sub_spans_weave:
  "in_order pos ms (length t) \<Longrightarrow> \<exists>gs. length gs = Suc (length ms) \<and>
     sub_spans (\<lambda>_. r) pos ms t = weave gs (map (\<lambda>_. r) ms) \<and> drop pos t = weave gs (map (span_text t) ms)"
proof (induction "\<lambda>_ :: nat \<times> nat. r" pos ms t rule: sub_spans.induct)
  case (1 pos t)
  then show ?case by (intro exI [of _ "[drop pos t]"]) simp
next
  case (2 pos a b ms t)
  then obtain gs where gs: "length gs = Suc (length ms)" "sub_spans (\<lambda>_. r) b ms t = weave gs (map (\<lambda>_. r) ms)"
    "drop b t = weave gs (map (span_text t) ms)" by auto
  from "2.prems" have le: "pos \<le> a" "a \<le> b" by simp_all
  have "drop pos t = take (a - pos) (drop pos t) @ drop a t"
    using le append_take_drop_id [of "a - pos" "drop pos t"] by simp
  also have "drop a t = span_text t (a, b) @ drop b t"
    using le append_take_drop_id [of "b - a" "drop a t"] by (simp add: span_text_def)
  finally have "drop pos t = take (a - pos) (drop pos t) @ span_text t (a, b) @ drop b t" .
  moreover obtain g gs' where "gs = g # gs'" using gs(1) by (cases gs) auto
  ultimately show ?case
    using gs by (intro exI [of _ "take (a - pos) (drop pos t) # gs"]) simp
qed

lemma redact_rewritten:
  "redact ps s = Inr (t, rs) \<Longrightarrow> list_all literal_regex ps \<Longrightarrow> rewritten rs s t"
proof (induction ps s arbitrary: t rs rule: redact.induct)
  case (1 s)
  then show ?case by (simp add: rewritten.nothing)
next
  case (2 p r ps s)
  let ?ms = "re_spans p s"
  let ?found = "map (\<lambda>m. \<lparr>rd_original = span_text s m, rd_replacement = r, rd_pattern = re_pattern p\<rparr>) ?ms"
  from "2.prems"(2) have p: "in_order 0 ?ms (length s)" "re_template p r = Some (\<lambda>t m. r)"
    by (simp_all add: literal_regex_def)
  with "2.prems"(1) obtain rs' where rs': "redact ps (sub_spans (\<lambda>_. r) 0 ?ms s) = Inr (t, rs')" "rs = ?found @ rs'"
    by (auto simp: Let_def split: sum.splits)
  from sub_spans_weave [OF p(1)] obtain gs where gs: "length gs = Suc (length ?ms)"
    "sub_spans (\<lambda>_. r) 0 ?ms s = weave gs (map (\<lambda>_. r) ?ms)" "s = weave gs (map (span_text s) ?ms)" by auto
  have "rewritten rs' (sub_spans (\<lambda>_. r) 0 ?ms s) t"
    using "2.IH" [OF refl p(2) rs'(1)] "2.prems"(2) by simp
  with gs have "rewritten rs' (weave gs (map rd_replacement ?found)) t" by (simp add: comp_def)
  then have "rewritten (?found @ rs') (weave gs (map rd_original ?found)) t"
    by (rule rewritten.pattern [rotated]) (simp add: gs(1))
  with gs(3) rs'(2) show ?case by (simp add: comp_def)
qed

lemma redact_texts_rewritten:
  "redact_texts ps ss = Inr (ts, rs) \<Longrightarrow> list_all literal_regex ps \<Longrightarrow>
   list_all2 (\<lambda>s t. \<exists>found. rewritten found s t \<and> set found \<subseteq> set rs) ss ts"
proof (induction ss arbitrary: ts rs)
  case (Cons s ss)
  from Cons.prems(1) obtain t r1 ts' r2 where s: "redact ps s = Inr (t, r1)" "redact_texts ps ss = Inr (ts', r2)"
    "ts = t # ts'" "rs = r1 @ r2" by (auto split: sum.splits prod.splits)
  from Cons.IH [OF s(2) Cons.prems(2)] have "list_all2 (\<lambda>s t. \<exists>found. rewritten found s t \<and> set found \<subseteq> set rs) ss ts'"
    by (rule list_all2_mono) (auto simp: s(4))
  with redact_rewritten [OF s(1) Cons.prems(2)] show ?case by (auto simp: s(3,4))
qed simp

text \<open>The line the proxy prints for a match.\<close>

definition redaction_line :: "redaction \<Rightarrow> string" where
  "redaction_line r = ''  '' @ rd_original r @ '' -> '' @ rd_replacement r"

lemma redaction_logged: "r \<in> set rs \<Longrightarrow> redaction_line r \<in> set (redaction_log rs)"
  by (auto simp: redaction_log_def redaction_line_def)

text \<open>C38: What redaction takes out of a message is printed. With patterns whose replacement is plain text,
  every user text sent upstream comes from the text received by replacing matches, and each of
  these matches is printed with its original on the server's output, where whoever reads the pod's
  log has the text again.\<close>

theorem redacted_text_is_logged:
  assumes "prepare gs header (JObj d) = Inr (req, rs)" "mget d ''messages'' = Some (JArr msgs)"
    and "list_all literal_regex (gs_patterns gs)"
    and "run_state (proxy_messages send gs header (Some (JObj d))) w = ((log, r), w')"
  shows "\<exists>msgs'. jfield (ur_body req) ''messages'' = Some (JArr msgs') \<and>
    list_all2 (\<lambda>s t. \<exists>found. rewritten found s t \<and> (\<forall>m \<in> set found. redaction_line m \<in> set log))
      (concat (map message_text msgs)) (concat (map message_text msgs'))"
proof -
  from assms(1,2) obtain msgs' where m: "redact_messages (gs_patterns gs) msgs = Inr (msgs', rs)"
    "ur_body req = JObj (mput ''messages'' (JArr msgs') d)"
    by (auto simp: prepare_def iterate_def Let_def split: sum.splits)
  with redacts_each [OF redacts_message] have t: "redact_texts (gs_patterns gs) (concat (map message_text msgs)) = Inr (concat (map message_text msgs'), rs)"
    unfolding redact_messages_def by blast
  have "log = redaction_log rs" using assms(1,4) by (auto simp: proxy_messages_def split: prod.splits)
  with redact_texts_rewritten [OF t assms(3)]
  have "list_all2 (\<lambda>s t. \<exists>found. rewritten found s t \<and> (\<forall>m \<in> set found. redaction_line m \<in> set log))
      (concat (map message_text msgs)) (concat (map message_text msgs'))"
    by (auto intro: redaction_logged elim!: list_all2_mono)
  with m(2) show ?thesis by (auto simp: gomap_simps)
qed

section \<open>The call upstream\<close>

lemma mget_copy_headers:
  "mget (copy_headers keys header hs) k =
     (if k \<in> set keys \<and> header k \<noteq> None \<and> header k \<noteq> Some '''' then header k else mget hs k)"
  by (induction keys arbitrary: hs) (auto simp: copy_headers_def gomap_simps split: option.splits)

lemma mget_proxy_headers:
  "mget (proxy_headers gs header) k =
     (if k \<in> set FORWARD_HEADERS \<and> header k \<noteq> None \<and> header k \<noteq> Some '''' then header k
      else if k = ''x-api-key'' \<and> gs_api_key gs \<noteq> '''' then Some (gs_api_key gs)
      else if k = ''Content-Type'' then Some ''application/json'' else None)"
  by (simp add: proxy_headers_def mget_copy_headers Let_def gomap_simps FORWARD_HEADERS_def del: mput.simps)

text \<open>C39: The proxy calls the model API once, at its own upstream and with its own key: the key header the
  agent sent is never passed on, and neither is any header but the version, the beta list and the
  authorization. A streamed answer comes back with the status it had; one that is not streamed comes
  back with status 200 whatever its status was, or 500 when it is not JSON.\<close>

theorem proxy_key_and_status:
  assumes "prepare gs header body = Inr (req, rs)" "run_state (send req) w = (Inr ans, w1)"
    and "run_state (proxy_messages send gs header (Some body)) w = ((log, r), w')"
  shows "w' = w1 \<and> ur_url req = gs_upstream gs @ ''/v1/messages'' \<and>
    mget (ur_headers req) ''x-api-key'' = (if gs_api_key gs \<noteq> '''' then Some (gs_api_key gs) else None) \<and>
    (\<forall>k v. mget (ur_headers req) k = Some v \<longrightarrow>
       k \<in> {''Content-Type'', ''Accept-Encoding'', ''x-api-key''} \<or> k \<in> set FORWARD_HEADERS \<and> header k = Some v) \<and>
    py_status (answered r) = (if ur_stream req then ua_status ans else if ua_json ans = None then 500 else 200)"
proof -
  from assms(1) obtain hs where req: "ur_url req = gs_upstream gs @ ''/v1/messages''" "hs = proxy_headers gs header"
    "ur_headers req = (if ur_stream req then mput ''Accept-Encoding'' ''identity'' hs else hs)"
    by (auto simp: prepare_def Let_def split: json.splits sum.splits)
  have "mget (ur_headers req) ''x-api-key'' = (if gs_api_key gs \<noteq> '''' then Some (gs_api_key gs) else None)"
    by (simp add: req(2,3) gomap_simps mget_proxy_headers FORWARD_HEADERS_def)
  moreover have "k \<in> {''Content-Type'', ''Accept-Encoding'', ''x-api-key''} \<or> k \<in> set FORWARD_HEADERS \<and> header k = Some v"
    if "mget (ur_headers req) k = Some v" for k v
    using that by (auto simp: req(2,3) gomap_simps mget_proxy_headers split: if_splits)
  moreover have "w' = w1" "r = relay (ur_stream req) ans"
    using assms by (simp_all add: proxy_messages_def)
  moreover have "py_status (answered (relay (ur_stream req) ans)) =
      (if ur_stream req then ua_status ans else if ua_json ans = None then 500 else 200)"
    by (auto simp: relay_def answered_def JSONResponse_def split: option.split)
  ultimately show ?thesis using req(1) by blast
qed

section \<open>The container of the gateway\<close>

text \<open>The environment of a container's process, with \<open>secret\<close> what its secret provides. (A later variable
  wins, and variables win over the secret.)\<close>

definition container_env :: "(string \<Rightarrow> string option) \<Rightarrow> Container \<Rightarrow> string \<Rightarrow> string option" where
  "container_env secret c k =
     (case map_of (rev (map (\<lambda>e. (Env_Name e, Env_Value e)) (C_Env c))) k of Some v \<Rightarrow> Some v | None \<Rightarrow> secret k)"

text \<open>
  What a container's process can import: the modules of its Python, and of the packages an init
  container has installed into a directory, with \<open>pip install --target\<close>, that is on a volume both
  mount there and on the module path. What a package brings, its dependencies' modules included, is
  a parameter.
\<close>

definition pip_install :: "string list \<Rightarrow> (string \<times> string list) option" where
  "pip_install cmd =
     (case cmd of
        pip # install # target # packages \<Rightarrow>
          if pip = ''pip'' \<and> install = ''install'' \<and> take 9 target = ''--target=''
          then Some (drop 9 target, packages) else None
      | _ \<Rightarrow> None)"

definition share_volume :: "string \<Rightarrow> Container \<Rightarrow> Container \<Rightarrow> bool" where
  "share_volume dir i c =
     list_ex (\<lambda>v. VM_MountPath v = dir \<and> list_ex (\<lambda>u. VM_MountPath u = dir \<and> VM_Name u = VM_Name v) (C_VolumeMounts c))
       (C_VolumeMounts i)"

definition container_imports ::
    "(string \<Rightarrow> bool) \<Rightarrow> (string \<Rightarrow> string \<Rightarrow> bool) \<Rightarrow> Container list \<Rightarrow> Container \<Rightarrow> (string \<Rightarrow> string option) \<Rightarrow> string \<Rightarrow> bool" where
  "container_imports stdlib provides inits c env m =
     (stdlib m \<or> list_ex (\<lambda>i. case pip_install (C_Command i) of
        None \<Rightarrow> False
      | Some (dir, packages) \<Rightarrow> env ''PYTHONPATH'' = Some dir \<and> share_volume dir i c \<and> list_ex (\<lambda>p. provides p m) packages) inits)"

text \<open>Python's own modules that the script uses; a package brings the module of its name, the extras in
  brackets aside; and none of these brings PyTorch.\<close>

definition python_packages :: "(string \<Rightarrow> bool) \<Rightarrow> (string \<Rightarrow> string \<Rightarrow> bool) \<Rightarrow> bool" where
  "python_packages stdlib provides \<longleftrightarrow>
     list_all stdlib [''argparse'', ''os'', ''re'', ''time'', ''threading''] \<and> \<not> stdlib ''torch'' \<and>
     (\<forall>p. provides p (takeWhile (\<lambda>c. c \<noteq> CHR ''['') p)) \<and>
     (\<forall>p \<in> {''fastapi'', ''uvicorn[standard]'', ''httpx'', ''pydantic''}. \<not> provides p ''torch'')"

lemma trim_front_none:
  assumes "\<And>p. p \<in> set ps \<Longrightarrow> p = [] \<or> take (length p) s \<noteq> p"
  shows "trim_front ps s = s"
proof -
  have "List.find (\<lambda>p. p \<noteq> [] \<and> take (length p) s = p) ps = None" using assms by (auto simp: find_None_iff)
  then show ?thesis by (subst trim_front.simps) simp
qed

definition number_char :: "char \<Rightarrow> bool" where
  "number_char c \<longleftrightarrow> is_digit c \<or> c = CHR ''-''"

lemma TrimSpace_number:
  assumes "list_all number_char s"
  shows "TrimSpace s = s"
proof -
  have hd: "\<forall>p \<in> set unicode_spaces. p \<noteq> [] \<and> \<not> number_char (hd p)" "\<forall>p \<in> set unicode_spaces. \<not> number_char (last p)"
    by code_simp+
  have front: "trim_front ps t = t" if "list_all number_char t" "\<And>p. p \<in> set ps \<Longrightarrow> p \<noteq> [] \<and> \<not> number_char (hd p)" for ps t
  proof (rule trim_front_none)
    fix p assume "p \<in> set ps"
    with that(2) obtain c q where p: "p = c # q" "\<not> number_char c" by (cases p) fastforce+
    with that(1) show "p = [] \<or> take (length p) t \<noteq> p" by (cases t) auto
  qed
  have "trim_front unicode_spaces s = s" using assms hd by (intro front) auto
  moreover have "trim_front (map rev unicode_spaces) (rev s) = rev s"
    using assms hd by (intro front) (auto simp: hd_rev list_all_iff)
  ultimately show ?thesis by (simp add: TrimSpace_def)
qed

lemma split_at_none: "c \<notin> set s \<Longrightarrow> split_at c s = [s]"
  by (induction s) auto

text \<open>A decimal does not look like an option.\<close>

lemma show_nat_Cons:
  obtains c cs where "show_nat n = c # cs" "is_digit c" "c \<notin> {CHR ''-'', CHR ''+'', CHR ''h'', CHR ''=''}"
proof -
  obtain c cs where c: "show_nat n = c # cs" using show_nat_nonempty by (cases "show_nat n") auto
  moreover have "is_digit c" using show_nat_digits [of n] c by simp
  ultimately show thesis by (intro that) (auto simp: is_digit_def less_eq_char_def)
qed

lemma show_nat_not_in: "\<not> is_digit c \<Longrightarrow> c \<notin> set (show_nat n)"
  using show_nat_digits [of n] by (auto simp: list_all_iff)

lemma py_int_show [simp]: "py_int (show_int i) = Some i"
proof -
  have chars: "list_all number_char (show_int i)"
    using show_int_chars [of i] by (simp add: number_char_def list_all_iff)
  have digits: "split_at CHR ''_'' (show_nat n) = [show_nat n]" for n
    by (rule split_at_none [OF show_nat_not_in]) (simp add: is_digit_def less_eq_char_def)
  show ?thesis
  proof (cases "i < 0")
    case True
    then have "show_int i = CHR ''-'' # show_nat (nat (- i))" by (simp add: show_int_def)
    with True show ?thesis
      unfolding py_int_def TrimSpace_number [OF chars]
      by (simp add: Let_def digits show_nat_digits show_nat_nonempty read_show_nat)
  next
    case False
    then have s: "show_int i = show_nat (nat i)" by (simp add: show_int_def)
    obtain c cs where c: "show_nat (nat i) = c # cs" "c \<notin> {CHR ''-'', CHR ''+'', CHR ''h'', CHR ''=''}"
      by (rule show_nat_Cons)
    with False s show ?thesis
      unfolding py_int_def TrimSpace_number [OF chars]
      using digits [of "nat i"] show_nat_digits [of "nat i"] read_show_nat [of "nat i"] by (simp add: Let_def)
  qed
qed

lemma cut_at_absent: "c \<notin> set s \<Longrightarrow> cut_at c s = (s, None)"
proof -
  assume "c \<notin> set s"
  then have "dropWhile (\<lambda>x. x \<noteq> c) s = []" "takeWhile (\<lambda>x. x \<noteq> c) s = s" by auto
  then show ?thesis by (simp only: cut_at_def list.case)
qed

lemma is_value_number: "is_value (show_int i)"
proof (cases "i < 0")
  case True
  let ?n = "show_nat (nat (- i))"
  have s: "show_int i = CHR ''-'' # ?n" using True by (simp add: show_int_def)
  have "cut_at CHR ''.'' ?n = (?n, None)"
    by (rule cut_at_absent [OF show_nat_not_in]) (simp add: is_digit_def less_eq_char_def)
  then have "negative_number (show_int i)"
    by (simp add: negative_number_def s show_nat_digits show_nat_nonempty)
  moreover have "named_option (show_int i) = None"
  proof -
    obtain c cs where c: "?n = c # cs" "c \<notin> {CHR ''-'', CHR ''+'', CHR ''h'', CHR ''=''}" by (rule show_nat_Cons)
    then show ?thesis by (simp add: named_option_def s cut_at_def Let_def numeral_2_eq_2)
  qed
  ultimately show ?thesis by (simp add: is_value_def)
next
  case False
  then have s: "show_int i = show_nat (nat i)" by (simp add: show_int_def)
  obtain c cs where "show_nat (nat i) = c # cs" "c \<notin> {CHR ''-'', CHR ''+'', CHR ''h'', CHR ''=''}" by (rule show_nat_Cons)
  with s show ?thesis by (simp add: is_value_def)
qed

lemma named_port: "named_option ''--port'' = Some ''--port''" "snd (cut_at CHR ''='' ''--port'') = None"
  "named_option ''--no-classifier'' = Some ''--no-classifier''" "snd (cut_at CHR ''='' ''--no-classifier'') = None"
  by code_simp+

lemma gateway_args: "parse_args args [''--port'', show_int port, ''--no-classifier''] = Some (args\<lparr>sa_port := port, sa_no_classifier := True\<rparr>)"
  by (simp add: named_port is_value_number apply_option_def)

declare parse_args.simps [simp del]

lemma routeEnv_names: "e \<in> set (routeEnv ev) \<Longrightarrow> Env_Name e \<in> {''ROUTE_SIMPLE_MODEL'', ''ROUTE_COMPLEX_MODEL''}"
  by (auto simp: routeEnv_def env_var_def split: option.splits if_splits)

lemma gateway_env:
  "k \<notin> {''OLLAMA_ENDPOINT'', ''ROUTE_SIMPLE_MODEL'', ''ROUTE_COMPLEX_MODEL''} \<Longrightarrow>
   container_env secret (gatewayContainer gw port oll) k =
     (if k = ''PYTHONPATH'' then Some ''/deps'' else if k = ''UPSTREAM_BASE_URL'' then Some ''https://api.anthropic.com''
      else if k = ''GATEWAY_PORT'' then Some (show_int port) else secret k)"
proof -
  assume k: "k \<notin> {''OLLAMA_ENDPOINT'', ''ROUTE_SIMPLE_MODEL'', ''ROUTE_COMPLEX_MODEL''}"
  let ?routes = "concat (map routeEnv (Routing_Evaluators (GW_Routing (Gateway_Spec gw))))"
  have "k \<notin> fst ` set (map (\<lambda>e. (Env_Name e, Env_Value e)) ?routes)"
    using k by (auto dest!: routeEnv_names)
  then have "map_of (rev (map (\<lambda>e. (Env_Name e, Env_Value e)) ?routes)) k = None"
    by (simp add: map_of_eq_None_iff)
  with k show ?thesis
    by (simp add: container_env_def gatewayContainer_def gatewayEnv_def env_var_def map_add_def container0_def)
qed

text \<open>What the gateway's container can import.\<close>

lemma gateway_imports:
  fixes gw port oll secret
  assumes "python_packages stdlib provides"
  defines "importable \<equiv> container_imports stdlib provides [gatewayInstallDeps] (gatewayContainer gw port oll)
    (container_env secret (gatewayContainer gw port oll))"
  shows "list_all importable server_imports" "\<not> importable ''torch''"
proof -
  have path: "container_env secret (gatewayContainer gw port oll) ''PYTHONPATH'' = Some ''/deps''" by (simp add: gateway_env)
  have pip: "pip_install (C_Command gatewayInstallDeps) = Some (''/deps'', [''fastapi'', ''uvicorn[standard]'', ''httpx'', ''pydantic''])"
    by (simp add: gatewayInstallDeps_def pip_install_def)
  have share: "share_volume ''/deps'' gatewayInstallDeps (gatewayContainer gw port oll)"
    by (simp add: share_volume_def gatewayInstallDeps_def gatewayContainer_def container0_def vmount_def)
  have m: "importable m \<longleftrightarrow> stdlib m \<or> provides ''fastapi'' m \<or> provides ''uvicorn[standard]'' m \<or> provides ''httpx'' m \<or>
      provides ''pydantic'' m" for m
    by (simp add: importable_def container_imports_def path pip share)
  have own: "provides p (takeWhile (\<lambda>c. c \<noteq> CHR ''['') p)" for p
    using assms(1) by (simp add: python_packages_def)
  have "provides ''fastapi'' ''fastapi''" "provides ''uvicorn[standard]'' ''uvicorn''" "provides ''httpx'' ''httpx''"
    "provides ''pydantic'' ''pydantic''"
    using own [of "''fastapi''"] own [of "''uvicorn[standard]''"] own [of "''httpx''"] own [of "''pydantic''"] by simp_all
  with assms(1) show "list_all importable server_imports" "\<not> importable ''torch''"
    by (simp_all add: m server_imports_def python_packages_def)
qed

text \<open>C40: The gateway's pod serves what its service promises, but for the classifier. Whatever the secret
  holds, the packages its init container installs are enough for the script to start, and the
  command and the environment that the gateway controller gives the container start it on the port
  the container declares, on every interface and with the model API as its upstream. It starts with
  no patterns, so until some are pushed it redacts nothing. A request for a completion is always
  answered 500: the handler imports PyTorch, which is not installed, before it would answer 503
  because no classifier is loaded. (The packages bring the modules of their names, and PyTorch is
  none of their dependencies.)\<close>

theorem gateway_container_serves:
  fixes gw ns name port oll secret stdlib provides
  defines "pod \<equiv> DS_PodSpec (Dep_Spec (gatewayDeployment gw ns name port oll))"
  defines "c \<equiv> hd (Pod_Containers pod)"
  defines "env \<equiv> container_env secret c"
  defines "importable \<equiv> container_imports stdlib provides (Pod_InitContainers pod) c env"
  assumes "python_packages stdlib provides"
  shows "\<exists>gs. Pod_Containers pod = [c] \<and> take 2 (C_Command c) = [''python'', ''/app/server.py''] \<and>
    server_main importable from_pretrained env (drop 2 (C_Command c)) = Some (port, ''0.0.0.0'', gs) \<and>
    C_Ports c = [cport ''http'' (to_int32 port)] \<and>
    gs_upstream gs = ''https://api.anthropic.com'' \<and> gs_api_key gs = environ secret ''ANTHROPIC_API_KEY'' '''' \<and>
    (\<forall>text. redact (gs_patterns gs) text = Inr (text, [])) \<and>
    (\<forall>req. py_status (answered (chat_completions importable gs req)) = 500)"
proof -
  have pod: "Pod_Containers pod = [gatewayContainer gw port oll]" "Pod_InitContainers pod = [gatewayInstallDeps]"
    by (simp_all add: pod_def gatewayDeployment_def Let_def)
  then have c: "c = gatewayContainer gw port oll" by (simp add: c_def)
  have i: "list_all importable server_imports" "\<not> importable ''torch''"
    using gateway_imports [OF assms(5)] by (simp_all add: importable_def env_def pod c)
  have "drop 2 (C_Command c) = [''--port'', show_int port, ''--no-classifier'']" "take 2 (C_Command c) = [''python'', ''/app/server.py'']"
    "C_Ports c = [cport ''http'' (to_int32 port)]"
    by (simp_all add: c gatewayContainer_def)
  then show ?thesis
    using i by (simp add: pod(1) c env_def server_main_def environ_def gateway_env gateway_args chat_completions_def
        py_import_def answered_def)
qed

text \<open>Packages that bring the module of their name only.\<close>

definition example_stdlib :: "string \<Rightarrow> bool" where
  "example_stdlib m = (m \<in> set [''argparse'', ''os'', ''re'', ''time'', ''threading''])"

definition example_provides :: "string \<Rightarrow> string \<Rightarrow> bool" where
  "example_provides p m = (m = takeWhile (\<lambda>c. c \<noteq> CHR ''['') p)"

theorem gateway_container_serves_witness:
  "\<forall>gw. \<exists>c gs. Pod_Containers (DS_PodSpec (Dep_Spec (gatewayDeployment gw ''prod'' ''gw'' 8443 ''''))) = [c] \<and>
     (let importable = container_imports example_stdlib example_provides [gatewayInstallDeps] c (container_env (\<lambda>_. None) c) in
      server_main importable (\<lambda>_. Inl ValueError) (container_env (\<lambda>_. None) c) (drop 2 (C_Command c)) = Some (8443, ''0.0.0.0'', gs) \<and>
      py_status (answered (chat_completions importable gs \<lparr>cr_model = '''', cr_messages = [(''user'', ''hi'')]\<rparr>)) = 500)"
proof
  fix gw
  let ?pod = "DS_PodSpec (Dep_Spec (gatewayDeployment gw ''prod'' ''gw'' 8443 ''''))"
  have pod: "Pod_InitContainers ?pod = [gatewayInstallDeps]" by (simp add: gatewayDeployment_def Let_def)
  have "python_packages example_stdlib example_provides"
    by (simp add: python_packages_def example_stdlib_def example_provides_def)
  from gateway_container_serves [OF this, where gw = gw and ns = "''prod''" and name = "''gw''" and port = 8443 and oll = "''''"
      and secret = "\<lambda>_. None" and from_pretrained = "\<lambda>_. Inl ValueError", unfolded pod]
  show "\<exists>c gs. Pod_Containers ?pod = [c] \<and>
     (let importable = container_imports example_stdlib example_provides [gatewayInstallDeps] c (container_env (\<lambda>_. None) c) in
      server_main importable (\<lambda>_. Inl ValueError) (container_env (\<lambda>_. None) c) (drop 2 (C_Command c)) = Some (8443, ''0.0.0.0'', gs) \<and>
      py_status (answered (chat_completions importable gs \<lparr>cr_model = '''', cr_messages = [(''user'', ''hi'')]\<rparr>)) = 500)"
    unfolding Let_def by blast
qed

section \<open>Examples\<close>

text \<open>A pattern for a fixed text.\<close>

fun find_all :: "string \<Rightarrow> nat \<Rightarrow> string \<Rightarrow> (nat \<times> nat) list" where
  "find_all p pos [] = []"
| "find_all p pos (c # cs) =
     (if p \<noteq> [] \<and> prefix p (c # cs) then (pos, pos + length p) # find_all p (pos + length p) (drop (length p - 1) cs)
      else find_all p (Suc pos) cs)"

definition fixed_regex :: "string \<Rightarrow> regex" where
  "fixed_regex p = \<lparr>re_pattern = p, re_spans = find_all p 0, re_template = (\<lambda>r. Some (\<lambda>t m. r))\<rparr>"

lemma in_order_later: "in_order (Suc pos) ms n \<Longrightarrow> in_order pos ms n"
  by (cases ms) auto

lemma find_all_in_order: "in_order pos (find_all p pos t) (pos + length t)"
proof (induction p pos t rule: find_all.induct)
  case (2 p pos c cs)
  show ?case
  proof (cases "p \<noteq> [] \<and> prefix p (c # cs)")
    case True
    then have "length p \<le> Suc (length cs)" "p \<noteq> []" using prefix_length_le [of p "c # cs"] by auto
    then have "pos + length p + length (drop (length p - 1) cs) = pos + length (c # cs)" by (cases p) auto
    with "2.IH"(1) [OF True] have "in_order (pos + length p) (find_all p (pos + length p) (drop (length p - 1) cs)) (pos + length (c # cs))"
      by (simp only:)
    with True show ?thesis by simp
  next
    case False
    with in_order_later [of pos "find_all p (Suc pos) cs"] "2.IH"(2) show ?thesis by auto
  qed
qed simp

lemma literal_fixed: "literal_regex (fixed_regex p, r)"
  using find_all_in_order [of 0 p] by (simp add: literal_regex_def fixed_regex_def)

definition example_gs :: server_state where
  "example_gs = \<lparr>gs_patterns = [(fixed_regex ''555-0100'', ''[PHONE]'')], gs_classifier = None,
     gs_upstream = ''https://api.anthropic.com'', gs_api_key = ''sk''\<rparr>"

definition example_body :: "(string, json) gomap" where
  "example_body = mputs [(''model'', JStr ''m''), (''messages'', JArr
     [jobj [(''role'', JStr ''assistant''), (''content'', JStr ''555-0100?'')],
      jobj [(''role'', JStr ''user''), (''content'', JStr ''call 555-0100 now'')]])] []"

definition example_request :: upstream_request where
  "example_request = \<lparr>ur_url = ''https://api.anthropic.com/v1/messages'',
     ur_headers = mputs [(''Content-Type'', ''application/json''), (''x-api-key'', ''sk'')] [],
     ur_body = JObj (mput ''messages'' (JArr
       [jobj [(''role'', JStr ''assistant''), (''content'', JStr ''555-0100?'')],
        jobj [(''role'', JStr ''user''), (''content'', JStr ''call [PHONE] now'')]]) example_body),
     ur_stream = False\<rparr>"

lemma example_stream: "\<not> ur_stream example_request"
  by (simp add: example_request_def)

definition example_found :: "redaction list" where
  "example_found = [\<lparr>rd_original = ''555-0100'', rd_replacement = ''[PHONE]'', rd_pattern = ''555-0100''\<rparr>]"

definition example_messages :: "json list" where
  "example_messages =
     [jobj [(''role'', JStr ''assistant''), (''content'', JStr ''555-0100?'')],
      jobj [(''role'', JStr ''user''), (''content'', JStr ''call 555-0100 now'')]]"

lemma example_prepare: "prepare example_gs (\<lambda>_. None) (JObj example_body) = Inr (example_request, example_found)"
  by code_simp

lemma example_body_messages: "mget example_body ''messages'' = Some (JArr example_messages)"
  by code_simp

lemma example_text: "concat (map message_text example_messages) = [''call 555-0100 now'']"
  "redact_texts (gs_patterns example_gs) [''call 555-0100 now''] = Inr ([''call [PHONE] now''], example_found)"
  by code_simp+

lemma example_literal: "list_all literal_regex (gs_patterns example_gs)"
  by (simp add: example_gs_def literal_fixed)

theorem proxy_redacts_user_text_witness:
  "\<exists>msgs'. ur_body example_request = JObj (mput ''messages'' (JArr msgs') example_body) \<and>
    map blank_message msgs' = map blank_message example_messages \<and> concat (map message_text msgs') = [''call [PHONE] now'']"
proof -
  from proxy_redacts_user_text [OF example_prepare example_body_messages] obtain msgs' where
    "ur_body example_request = JObj (mput ''messages'' (JArr msgs') example_body)"
    "map blank_message msgs' = map blank_message example_messages"
    "redact_texts (gs_patterns example_gs) [''call 555-0100 now''] = Inr (concat (map message_text msgs'), example_found)"
    unfolding example_text(1) by blast
  moreover from this(3) have "concat (map message_text msgs') = [''call [PHONE] now'']"
    unfolding example_text(2) by (simp only: sum.inject prod.inject)
  ultimately show ?thesis by blast
qed

definition busy :: upstream_answer where
  "busy = \<lparr>ua_status = 429, ua_header = (\<lambda>_. None), ua_raw = ''{}'', ua_json = Some (JObj [])\<rparr>"

definition example_send :: "upstream_request \<Rightarrow> (unit, exn + upstream_answer) state" where
  "example_send req = State_Monad.return (Inr busy)"

lemma example_proxy:
  "run_state (proxy_messages example_send example_gs (\<lambda>_. None) (Some (JObj example_body))) () =
     ((redaction_log example_found, Inr (JSONResponse 200 (JObj []))), ())"
  by (simp add: proxy_messages_def example_prepare example_send_def relay_def busy_def) (simp add: example_request_def)

theorem redacted_text_is_logged_witness:
  "\<exists>msgs' found. jfield (ur_body example_request) ''messages'' = Some (JArr msgs') \<and>
    rewritten found ''call 555-0100 now'' (concat (concat (map message_text msgs'))) \<and>
    (\<forall>m \<in> set found. redaction_line m \<in> set (redaction_log example_found))"
  using redacted_text_is_logged [OF example_prepare example_body_messages example_literal example_proxy]
  by (auto simp: example_text list_all2_Cons1)

theorem proxy_key_and_status_witness:
  "py_status (answered (Inr (JSONResponse 200 (JObj [])))) = 200 \<and> ua_status busy = 429 \<and>
   mget (ur_headers example_request) ''x-api-key'' = Some ''sk''"
  using proxy_key_and_status [OF example_prepare _ example_proxy, of busy "()"]
  by (auto simp: example_send_def example_gs_def busy_def example_stream)

end
