(* ===== verification/Spec2Isabelle.thy ===== *)
theory Spec2Isabelle
  imports AgentWatches ConfigText ApiChat Scheme ManagerProperties Cluster GatewayServerProperties
begin

text \<open>
  Clawbernetes: a Kubernetes operator that runs AI agents. The program is a set of controllers over
  six custom resources: agents, channels, policies, skill sets, gateways and observabilities. Each
  controller's \<open>Reconcile\<close> reads its resource, makes the objects it wants (config maps, deployments,
  services, volume claims) through the API server and reports a status; watches enqueue resources
  when an object they depend on changes. A runtime behind the \<open>Harness\<close> interface turns an agent into
  the config file its container reads.

  \<^bold>\<open>Theories and sources\<close>, from the bottom up (paths under \<open>src/internal\<close> unless stated).

  \<^item> \<open>Prelude\<close>: association maps (Go maps), the state monad with errors, the two collections of
    hints, the locales \<open>finite_map\<close> and \<open>guarantee\<close> (a relation every call of a handler satisfies).
  \<^item> \<open>GoStd\<close>: byte strings, \<open>fmt\<close>, \<open>html.EscapeString\<close>, \<open>int32\<close>, JSON values and their output.
  \<^item> \<open>KubeTypes\<close>, \<open>ApiTypes\<close>: the API server's objects and the custom resources of \<open>src/api/v1\<close>.
  \<^item> \<open>KubeClient\<close>: the client as a parameter, the object store behind it and the interfaces
    \<open>kube_api\<close>, \<open>kube_reliable\<close>, \<open>owner_api\<close> and their combinations \<open>controller_api\<close>, \<open>reliable_api\<close>.
  \<^item> \<open>Harness\<close>, \<open>OpenClaw\<close>, \<open>Hermes\<close>, \<open>Registry\<close>: package \<open>harness\<close>. The interface is a record of
    functions with the contract \<open>harness_contract\<close>, interpreted on each runtime.
  \<^item> \<open>AgentBuilders\<close>, \<open>FleetDashboard\<close>, \<open>AgentReconcile\<close>: \<open>controller/clawagent_controller.go\<close> and
    \<open>controller/fleet_dashboard.go\<close>. The builders are pure functions, the handler a state transformer;
    \<open>lastDashboardHash\<close> is passed in and out.
  \<^item> \<open>AgentProperties\<close>, \<open>AgentWorkspace\<close>, \<open>AgentWatches\<close>: what a reconcile of an agent touches and
    leaves, the life of its workspace claim, and which changes wake it up.
  \<^item> \<open>CreateOnly\<close>: the \<open>ensureResource\<close> of the other two controllers and the abstract specification
    \<open>filled\<close> of a list of objects that are made when missing; locale \<open>owned_objects\<close>.
  \<^item> \<open>GatewayScript\<close>, \<open>GatewayController\<close>: \<open>controller/clawgateway_controller.go\<close>, with the server
    script it embeds as a constant.
  \<^item> \<open>FleetOverview\<close>, \<open>ObservabilityController\<close>: \<open>controller/clawobservability_controller.go\<close> and the
    dashboard file it embeds.
  \<^item> \<open>StackProperties\<close>: refinement, convergence and repair of these two controllers, and how agents,
    gateways and stacks fit together.
  \<^item> \<open>JsonText\<close>, \<open>ConfigText\<close>: the decoder of the JSON output, its inverse, and the file \<open>openclaw.json\<close>.
  \<^item> \<open>ContentSniff\<close>: the content type \<open>net/http\<close> finds in a body for which none was set.
  \<^item> \<open>ApiHttp\<close>, \<open>ApiServer\<close>, \<open>ApiRoutes\<close>: the control plane API (\<open>api/server.go\<close>, \<open>crud.go\<close>, \<open>chat.go\<close>,
    \<open>logs.go\<close>). A handler is a transformer of the world that returns what it does to the response.
  \<^item> \<open>ApiProperties\<close>, \<open>ApiFeeds\<close>, \<open>ApiChat\<close>: the footprint of a request and read after create, the log
    stream and the activity list, and the way of a chat message to the agent's service.
  \<^item> \<open>GoMemory\<close>, \<open>DeepCopy\<close>: Go values in a memory of cells, and \<open>src/api/v1/zz_generated.deepcopy.go\<close>. The
    contract \<open>deep_copies\<close> relates a copy function to a type; locale \<open>library_types\<close> states it of the
    client library's types. \<open>Scheme\<close>: the types the API group registers (\<open>src/api/v1/groupversion_info.go\<close>).
  \<^item> \<open>Manager\<close>, \<open>ManagerProperties\<close>: the entry point \<open>src/cmd/main.go\<close>, from the command line to the exit
    status, as the sequence of its calls into the libraries.
  \<^item> \<open>GatewayServer\<close>, \<open>GatewayServerProperties\<close>: what the server script of the gateway does (the Python text
    in \<open>controller/clawgateway_controller.go\<close>): patterns, redaction, the proxy, the classifier and the
    start, and that the container the controller makes starts it as its service expects.
  \<^item> \<open>Cluster\<close>: all handlers together as a state machine \<open>cluster_step\<close>, with restarts, the cluster's own
    changes and users; \<open>cluster_run\<close> is a run, and invariants hold in each of its states.

  \<^bold>\<open>State and errors.\<close> The world is a type variable: a client (record \<open>kube\<close>) is a family of calls
  that read and change it, and a function from the world to a \<open>store\<close> of objects says what it holds.
  A Go error is the left of a sum, a panic is one too (\<open>PanicErr\<close>), and every early return is a branch.
  Properties that hold against any server assume \<open>kube_api\<close> or \<open>controller_api\<close> only, so a call may
  fail at any point and may or may not have had its effect; properties that promise success assume
  \<open>kube_reliable\<close> or \<open>reliable_api\<close>. The in-memory client instantiates all of them for the witnesses.
  Elsewhere the values of the model are immutable; sharing matters in the deep copies only, and there
  pointers, slices and maps are addresses of cells.

  \<^bold>\<open>Parameters.\<close> The record \<open>ext\<close> collects what the controllers call outside the repository: owner
  references, quantity and float parsing, SHA-256 and the order in which a map is visited. The API has
  \<open>apilib\<close> (the JSON form of objects, what the client leaves in an object it has sent, \<open>sort.Slice\<close> as a
  function of the comparator, the HTTP client) and \<open>clientset\<close> (pods and logs), the deep copies
  the types and copy functions of the client library, the entry point an \<open>environment\<close> that answers
  its calls, the gateway's server compiled regular expressions (\<open>regex\<close>), the model API, the
  classifier's model and the modules that Python and its packages bring.

  \<^bold>\<open>Bounds.\<close> Go's \<open>int\<close> is \<open>int\<close>, conversions to \<open>int32\<close> are words of 32 bits. No loop needs fuel: each
  runs over a list. A deep copy follows the finite type it was generated for, and is undefined
  (\<open>None\<close>) only on a memory that does not have that type.

  \<^bold>\<open>Not modelled.\<close> Logging; the listener, deadlines and closing of bodies in the API, the date and the
  length in its headers, and requests whose path escapes a slash or a dot; request validation
  and routing of the Python server, which are FastAPI's; the work queue (any reconcile may come at any
  time) and the concurrency of handlers (one runs at a time); the web interface, which is TypeScript
  over the API.
\<close>

end
